(* ===== verification/Prelude.thy ===== *)
theory Prelude
  imports Main "HOL-Library.Word" "HOL-Library.Monad_Syntax"
begin

unbundle bit_operations_syntax

section \<open>Shared vocabulary of the development\<close>

text \<open>
  What every component uses: the C integer types at their width, the size of a struct
  from its fields, the byte memory the event log is read from, the calls to Print and
  DumpHex as a trace, and a driver for loops whose end is a theorem and not a premise of
  the definition.

  Conventions. A C function that may dereference a pointer returns an \<open>option\<close>: None
  is undefined behaviour of C (a NULL or unmapped dereference, a write outside an
  object), and no branch of the source produces it deliberately. Out parameters are
  passed in with their old value and returned with their new one.
\<close>

named_theorems unfolds \<open>definitions that a component's proofs unfold\<close>
named_theorems mem_simps \<open>reading structured data from byte memory\<close>

subsection \<open>Integer types\<close>

type_synonym UINT8 = "8 word"
type_synonym UINT16 = "16 word"
type_synonym UINT32 = "32 word"
type_synonym UINT64 = "64 word"
type_synonym size_t = "64 word"
type_synonym EFI_STATUS = "64 word"
type_synonym TSS2_RC = "32 word"
type_synonym address = "64 word"

lemma unat_of_nat64: "n < 2 ^ 64 \<Longrightarrow> unat (of_nat n :: 64 word) = n"
  by (simp add: unat_of_nat take_bit_nat_eq_self)

lemma unat_of_nat32: "n < 2 ^ 32 \<Longrightarrow> unat (of_nat n :: 32 word) = n"
  by (simp add: unat_of_nat take_bit_nat_eq_self)

lemma unat_lt64: "unat (x :: 64 word) < 18446744073709551616"
  using unsigned_less [of x] by simp

lemma unat_lt32: "unat (x :: 32 word) < 4294967296"
  using unsigned_less [of x] by simp

lemma unat_add_nowrap:
  fixes a :: "64 word"
  assumes "unat a + n < 2 ^ 64"
  shows "unat (a + of_nat n) = unat a + n"
  using assms by (simp add: unat_word_ariths unat_of_nat take_bit_nat_eq_self)

lemma unat_ucast_16_64 [simp]: "unat (ucast (x :: 16 word) :: 64 word) = unat x"
  by (simp add: unsigned_ucast_eq take_bit_nat_eq_self unsigned_less
      order_less_trans [OF unsigned_less])

lemma unat_ucast_32_64 [simp]: "unat (ucast (x :: 32 word) :: 64 word) = unat x"
  by (simp add: unsigned_ucast_eq take_bit_nat_eq_self unsigned_less
      order_less_trans [OF unsigned_less])

lemma ucast_16_64_eq_0 [simp]: "(ucast (m :: 16 word) :: 64 word) = 0 \<longleftrightarrow> m = 0"
  by (metis unat_ucast_16_64 unat_eq_zero)

subsection \<open>Struct sizes\<close>

text \<open>
  A struct's size from the (size, alignment) pairs of its fields, by the rule of the
  platform ABIs: each field starts at the next multiple of its alignment, and the whole
  is padded to the largest alignment. A packed struct is the sum of its fields.
\<close>

definition align_up :: "nat \<Rightarrow> nat \<Rightarrow> nat" where
  "align_up n a = (if n mod a = 0 then n else n + (a - n mod a))"

definition struct_size :: "(nat \<times> nat) list \<Rightarrow> nat" where
  "struct_size fs =
     align_up (fold (\<lambda>(s, a) off. align_up off a + s) fs 0) (fold (\<lambda>(s, a) m. max a m) fs 1)"

definition packed_size :: "nat list \<Rightarrow> nat" where
  "packed_size fs = sum_list fs"

subsection \<open>Byte memory\<close>

text \<open>
  The event log lies in firmware memory, which the program only reads. An address that is
  not mapped has no byte; reading it is undefined behaviour. Both UEFI architectures the
  build supports with 64-bit addresses are little-endian.
\<close>

type_synonym memory = "address \<Rightarrow> UINT8 option"

definition le16 :: "UINT16 \<Rightarrow> UINT8 list" where
  "le16 w = [ucast w, ucast (drop_bit 8 w)]"

definition le32 :: "UINT32 \<Rightarrow> UINT8 list" where
  "le32 w = [ucast w, ucast (drop_bit 8 w), ucast (drop_bit 16 w), ucast (drop_bit 24 w)]"

definition rd16 :: "memory \<Rightarrow> address \<Rightarrow> UINT16 option" where
  "rd16 m a = do { b0 \<leftarrow> m a; b1 \<leftarrow> m (a + 1); Some (word_cat b1 b0) }"

definition rd32 :: "memory \<Rightarrow> address \<Rightarrow> UINT32 option" where
  "rd32 m a = do {
     b0 \<leftarrow> m a; b1 \<leftarrow> m (a + 1); b2 \<leftarrow> m (a + 2); b3 \<leftarrow> m (a + 3);
     Some (word_cat b3 (word_cat b2 (word_cat b1 b0 :: 16 word) :: 24 word)) }"

primrec rd_bytes :: "memory \<Rightarrow> address \<Rightarrow> nat \<Rightarrow> UINT8 list option" where
  "rd_bytes m a 0 = Some []"
| "rd_bytes m a (Suc n) = do { b \<leftarrow> m a; bs \<leftarrow> rd_bytes m (a + 1) n; Some (b # bs) }"

text \<open>\<open>holds m a bs\<close>: the bytes \<open>bs\<close> lie in memory from address \<open>a\<close> on.\<close>

primrec holds :: "memory \<Rightarrow> address \<Rightarrow> UINT8 list \<Rightarrow> bool" where
  "holds m a [] = True"
| "holds m a (b # bs) = (m a = Some b \<and> holds m (a + 1) bs)"

text \<open>A memory that holds one block of bytes and nothing else.\<close>

definition mem_of :: "address \<Rightarrow> UINT8 list \<Rightarrow> memory" where
  "mem_of base bs a =
     (if unat (a - base) < length bs then Some (bs ! unat (a - base)) else None)"

lemma holds_append [mem_simps]:
  "holds m a (xs @ ys) \<longleftrightarrow> holds m a xs \<and> holds m (a + of_nat (length xs)) ys"
  by (induction xs arbitrary: a) (auto simp: algebra_simps)

lemma holds_rd_bytes [mem_simps]: "holds m a bs \<Longrightarrow> rd_bytes m a (length bs) = Some bs"
  by (induction bs arbitrary: a) auto

lemma rd_bytes_length: "rd_bytes m a n = Some bs \<Longrightarrow> length bs = n"
  by (induction n arbitrary: a bs) (auto split: bind_splits)

lemma length_le16 [simp]: "length (le16 w) = 2"
  by (simp add: le16_def)

lemma length_le32 [simp]: "length (le32 w) = 4"
  by (simp add: le32_def)

lemma word_cat_le16: "word_cat (ucast (drop_bit 8 w) :: 8 word) (ucast w :: 8 word) = (w :: 16 word)"
  by (rule bit_eqI) (auto simp: bit_word_cat_iff bit_simps)

lemma word_cat_le32:
  "word_cat (ucast (drop_bit 24 w) :: 8 word)
     (word_cat (ucast (drop_bit 16 w) :: 8 word)
        (word_cat (ucast (drop_bit 8 w) :: 8 word) (ucast w :: 8 word) :: 16 word) :: 24 word)
   = (w :: 32 word)"
  by (rule bit_eqI) (auto simp: bit_word_cat_iff bit_simps)

lemma rd16_holds [mem_simps]: "holds m a (le16 w) \<Longrightarrow> rd16 m a = Some w"
  by (simp add: rd16_def le16_def word_cat_le16)

lemma rd32_holds [mem_simps]: "holds m a (le32 w) \<Longrightarrow> rd32 m a = Some w"
  by (simp add: rd32_def le32_def word_cat_le32 algebra_simps)

lemma holds_mem_of:
  assumes "length bs \<le> 2 ^ 64"
  shows "holds (mem_of base bs) base bs"
proof -
  have "holds (mem_of base bs) (base + of_nat i) (drop i bs)" if "i \<le> length bs" for i
    using that
  proof (induction "length bs - i" arbitrary: i)
    case 0
    then show ?case by simp
  next
    case (Suc n)
    then have i: "i < length bs" by simp
    with assms have u: "unat (of_nat i :: 64 word) = i"
      by (intro unat_of_nat64) simp
    from Suc i have "holds (mem_of base bs) (base + of_nat (Suc i)) (drop (Suc i) bs)"
      by (intro Suc.hyps) auto
    then have "holds (mem_of base bs) (base + of_nat i + 1) (drop (Suc i) bs)"
      by (simp add: algebra_simps)
    with i u show ?case
      by (simp add: Cons_nth_drop_Suc [symmetric] mem_of_def)
  qed
  from this [of 0] show ?thesis by simp
qed

subsection \<open>Loops that may not end\<close>

text \<open>
  A loop body maps a loop state to the next one (\<open>Inl\<close>), to the loop's result
  (\<open>Inr\<close>), or to None when the body's behaviour is undefined. \<open>run_loop\<close>
  runs it with fuel, and keeps the three ways a bounded run ends apart: \<open>Returned\<close>,
  \<open>Undefined\<close>, and \<open>Running\<close> when the fuel is used up.
\<close>

datatype ('s, 'r) run = Running 's | Returned 'r | Undefined

fun run_loop :: "nat \<Rightarrow> ('s \<Rightarrow> ('s + 'r) option) \<Rightarrow> 's \<Rightarrow> ('s, 'r) run" where
  "run_loop 0 body s = Running s"
| "run_loop (Suc n) body s =
     (case body s of
        None \<Rightarrow> Undefined
      | Some (Inl s') \<Rightarrow> run_loop n body s'
      | Some (Inr r) \<Rightarrow> Returned r)"

definition running :: "('s, 'r) run \<Rightarrow> bool" where
  "running r \<longleftrightarrow> (case r of Running _ \<Rightarrow> True | _ \<Rightarrow> False)"

lemma running_simps [simp]:
  "running (Running s)" "\<not> running (Returned r)" "\<not> running Undefined"
  by (simp_all add: running_def)

text \<open>More fuel does not change how a finished run ended.\<close>

lemma run_loop_mono:
  "\<not> running (run_loop n body s) \<Longrightarrow> n \<le> k \<Longrightarrow> run_loop k body s = run_loop n body s"
proof (induction n arbitrary: s k)
  case 0
  then show ?case by simp
next
  case (Suc n)
  then obtain k' where k: "k = Suc k'" "n \<le> k'"
    by (cases k) auto
  have "run_loop k' body s' = run_loop n body s'" if "body s = Some (Inl s')" for s'
    using Suc.prems(1) k(2) that by (intro Suc.IH) simp_all
  then show ?case
    unfolding k(1) by (simp split: option.split sum.split)
qed

text \<open>A measure that every iteration decreases bounds the fuel that is enough.\<close>

lemma run_loop_enough:
  assumes inv: "I s"
    and step: "\<And>s s'. I s \<Longrightarrow> body s = Some (Inl s') \<Longrightarrow> I s' \<and> \<mu> s' < (\<mu> s :: nat)"
    and fuel: "\<mu> s < n"
  shows "\<not> running (run_loop n body s)"
  using inv fuel
proof (induction n arbitrary: s)
  case 0
  then show ?case by simp
next
  case (Suc n)
  have "\<not> running (run_loop n body s')" if "body s = Some (Inl s')" for s'
  proof (rule Suc.IH)
    show "I s'" using step [OF Suc.prems(1) that] by simp
    show "\<mu> s' < n" using step [OF Suc.prems(1) that] Suc.prems(2) by simp
  qed
  then show ?case
    by (auto split: option.splits sum.splits)
qed

text \<open>A loop whose body always either finishes or gets closer to the end returns.\<close>

lemma run_loop_returns:
  assumes inv: "I s"
    and step: "\<And>s. I s \<Longrightarrow> (\<exists>r. body s = Some (Inr r) \<and> Q r) \<or>
      (\<exists>s'. body s = Some (Inl s') \<and> I s' \<and> \<mu> s' < (\<mu> s :: nat))"
    and fuel: "\<mu> s < n"
  shows "\<exists>r. run_loop n body s = Returned r \<and> Q r"
  using inv fuel
proof (induction n arbitrary: s)
  case 0
  then show ?case by simp
next
  case (Suc n)
  from step [OF Suc.prems(1)] show ?case
  proof (elim disjE exE conjE)
    fix s' assume "body s = Some (Inl s')" "I s'" "\<mu> s' < \<mu> s"
    with Suc show ?case by simp
  qed simp
qed

text \<open>An invariant of the body that implies the postcondition when the loop returns.\<close>

lemma run_loop_invariant:
  assumes inv: "I s"
    and step: "\<And>s s'. I s \<Longrightarrow> body s = Some (Inl s') \<Longrightarrow> I s'"
    and exit: "\<And>s r. I s \<Longrightarrow> body s = Some (Inr r) \<Longrightarrow> Q r"
    and ret: "run_loop n body s = Returned r"
  shows "Q r"
  using inv ret
proof (induction n arbitrary: s)
  case 0
  then show ?case by simp
next
  case (Suc n)
  then show ?case
    by (auto split: option.splits sum.splits dest: step exit)
qed

subsection \<open>Callbacks\<close>

text \<open>
  The walks of the program call back for one item after the other until the callback
  returns false. \<open>visit\<close> is that behaviour over a list of items: it returns whether the
  whole list was visited, and the data.
\<close>

primrec visit :: "('a \<Rightarrow> 'd \<Rightarrow> (bool \<times> 'd) option) \<Rightarrow> 'a list \<Rightarrow> 'd \<Rightarrow> (bool \<times> 'd) option" where
  "visit callback [] d = Some (True, d)"
| "visit callback (x # xs) d = do {
     (go, d) \<leftarrow> callback x d;
     if go then visit callback xs d else Some (False, d) }"

lemma visit_append:
  "visit callback (xs @ ys) d = do {
     (go, d) \<leftarrow> visit callback xs d;
     if go then visit callback ys d else Some (False, d) }"
  by (induction xs arbitrary: d) (auto split: bind_splits)

text \<open>A callback that always goes on is a fold.\<close>

lemma visit_fold:
  assumes "\<And>x d. x \<in> set xs \<Longrightarrow> callback x d = Some (True, f x d)"
  shows "visit callback xs d = Some (True, fold f xs d)"
  using assms by (induction xs arbitrary: d) auto

subsection \<open>The console\<close>

text \<open>
  Print and DumpHex belong to the UEFI library: a call is recorded with its format string
  and its arguments, and how the library renders it is not modelled. A format string is
  the source's text; a conversion macro of inttypes.h is written by its name.
\<close>

datatype print_arg =
    A_num nat          \<comment> \<open>an unsigned integer argument\<close>
  | A_int int          \<comment> \<open>a signed integer argument\<close>
  | A_str string       \<comment> \<open>a wide string argument, a literal of the source\<close>
  | A_wide "UINT16 list"  \<comment> \<open>a wide string argument computed by the program, up to its 0\<close>
  | A_quot nat nat     \<comment> \<open>a floating point quotient of two integers\<close>

datatype call =
    Printed string "print_arg list"
  | Dumped nat nat "UINT8 list"  \<comment> \<open>DumpHex: indent, offset, the bytes shown\<close>

text \<open>
  The world a UEFI program acts on: the firmware's own state, which the model leaves
  abstract, and the console.
\<close>

record 'fw world =
  firmware :: 'fw
  console :: "call list"

definition Print :: "string \<Rightarrow> print_arg list \<Rightarrow> 'fw world \<Rightarrow> 'fw world" where
  "Print fmt args w = w\<lparr>console := console w @ [Printed fmt args]\<rparr>"

definition DumpHex :: "nat \<Rightarrow> nat \<Rightarrow> UINT8 list \<Rightarrow> 'fw world \<Rightarrow> 'fw world" where
  "DumpHex indent offset bytes w = w\<lparr>console := console w @ [Dumped indent offset bytes]\<rparr>"

lemma Print_simps [simp]:
  "firmware (Print fmt args w) = firmware w"
  "console (Print fmt args w) = console w @ [Printed fmt args]"
  by (simp_all add: Print_def)

lemma DumpHex_simps [simp]:
  "firmware (DumpHex i off bs w) = firmware w"
  "console (DumpHex i off bs w) = console w @ [Dumped i off bs]"
  by (simp_all add: DumpHex_def)

lemma world_eqI: "firmware w = firmware w' \<Longrightarrow> console w = console w' \<Longrightarrow> w = (w' :: 'fw world)"
  by simp

end
