(* ===== verification/Uefi_Env.thy ===== *)
theory Uefi_Env
  imports Prelude
begin

section \<open>What the program takes from headers outside the repository\<close>

text \<open>
  The constants of gnu-efi / EDK2 and of tpm2-tss that the source names. They are not
  code of the repository, so they are a parameter \<open>H\<close> of every definition that uses
  one; what the program relies on is stated as predicates over \<open>H\<close>. The instance
  \<open>std_headers\<close> carries the values that the UEFI and TCG specifications publish and
  serves the concrete applications of the theorems.
\<close>

record headers =
  EFI_ERROR :: "EFI_STATUS \<Rightarrow> bool"
  EFI_SUCCESS :: EFI_STATUS
  EFI_INVALID_PARAMETER :: EFI_STATUS
  EFI_BUFFER_TOO_SMALL :: EFI_STATUS
  EFI_DEVICE_ERROR :: EFI_STATUS
  EFI_ACCESS_DENIED :: EFI_STATUS
  EFI_ABORTED :: EFI_STATUS
  TSS2_RC_SUCCESS :: TSS2_RC
  TSS2_TCTI_RC_GENERAL_FAILURE :: TSS2_RC
  TSS2_TCTI_RC_NOT_IMPLEMENTED :: TSS2_RC
  TSS2_TCTI_RC_BAD_CONTEXT :: TSS2_RC
  TSS2_TCTI_RC_BAD_REFERENCE :: TSS2_RC
  TSS2_TCTI_RC_INSUFFICIENT_BUFFER :: TSS2_RC
  TSS2_TCTI_RC_BAD_SEQUENCE :: TSS2_RC
  TSS2_TCTI_RC_IO_ERROR :: TSS2_RC
  TSS2_TCTI_RC_BAD_VALUE :: TSS2_RC
  TPM2_RC_RETRY :: TSS2_RC
  TSS2_TCTI_TIMEOUT_BLOCK :: "32 word"
  sizeof_TSS2_TCTI_CONTEXT_COMMON_V2 :: nat
  TPM2_ALG_SHA1 :: UINT16
  TPM2_ALG_SHA256 :: UINT16
  TPM2_ALG_SHA384 :: UINT16
  TPM2_ALG_SHA512 :: UINT16
  TPM2_ALG_SM3_256 :: UINT16
  TPM2_SHA1_DIGEST_SIZE :: size_t
  TPM2_SHA256_DIGEST_SIZE :: size_t
  TPM2_SHA384_DIGEST_SIZE :: size_t
  TPM2_SHA512_DIGEST_SIZE :: size_t
  TPM2_SM3_256_DIGEST_SIZE :: size_t
  TPM2_MAX_PCRS :: nat

text \<open>
  The documented facts. The error codes have the error bit that \<open>EFI_ERROR\<close> tests and
  EFI_SUCCESS has not; the case labels of one C \<open>switch\<close> are distinct, or the source
  would not compile.
\<close>

definition efi_codes_ok :: "headers \<Rightarrow> bool" where
  "efi_codes_ok H \<longleftrightarrow>
     \<not> EFI_ERROR H (EFI_SUCCESS H)
   \<and> EFI_ERROR H (EFI_INVALID_PARAMETER H) \<and> EFI_ERROR H (EFI_BUFFER_TOO_SMALL H)
   \<and> EFI_ERROR H (EFI_DEVICE_ERROR H) \<and> EFI_ERROR H (EFI_ACCESS_DENIED H)
   \<and> EFI_ERROR H (EFI_ABORTED H)
   \<and> distinct [EFI_INVALID_PARAMETER H, EFI_BUFFER_TOO_SMALL H, EFI_DEVICE_ERROR H,
       EFI_ACCESS_DENIED H]"

definition tcti_codes_ok :: "headers \<Rightarrow> bool" where
  "tcti_codes_ok H \<longleftrightarrow>
     distinct [TSS2_RC_SUCCESS H, TSS2_TCTI_RC_GENERAL_FAILURE H,
       TSS2_TCTI_RC_NOT_IMPLEMENTED H, TSS2_TCTI_RC_BAD_CONTEXT H,
       TSS2_TCTI_RC_BAD_REFERENCE H, TSS2_TCTI_RC_INSUFFICIENT_BUFFER H,
       TSS2_TCTI_RC_BAD_SEQUENCE H, TSS2_TCTI_RC_IO_ERROR H, TSS2_TCTI_RC_BAD_VALUE H]"

definition alg_ids_ok :: "headers \<Rightarrow> bool" where
  "alg_ids_ok H \<longleftrightarrow>
     distinct [TPM2_ALG_SHA1 H, TPM2_ALG_SHA256 H, TPM2_ALG_SHA384 H, TPM2_ALG_SHA512 H,
       TPM2_ALG_SM3_256 H]"

definition digest_sizes_ok :: "headers \<Rightarrow> bool" where
  "digest_sizes_ok H \<longleftrightarrow>
     TPM2_SHA1_DIGEST_SIZE H = 20 \<and> TPM2_SHA256_DIGEST_SIZE H = 32
   \<and> TPM2_SHA384_DIGEST_SIZE H = 48 \<and> TPM2_SHA512_DIGEST_SIZE H = 64
   \<and> TPM2_SM3_256_DIGEST_SIZE H = 32"

text \<open>The published values, on a 64-bit platform.\<close>

definition efi_err :: "EFI_STATUS \<Rightarrow> EFI_STATUS" where
  "efi_err n = 0x8000000000000000 + n"

definition std_headers :: headers where
  "std_headers = \<lparr>
     EFI_ERROR = (\<lambda>s. 0x8000000000000000 \<le> s),
     EFI_SUCCESS = 0,
     EFI_INVALID_PARAMETER = efi_err 2,
     EFI_BUFFER_TOO_SMALL = efi_err 5,
     EFI_DEVICE_ERROR = efi_err 7,
     EFI_ACCESS_DENIED = efi_err 15,
     EFI_ABORTED = efi_err 21,
     TSS2_RC_SUCCESS = 0,
     TSS2_TCTI_RC_GENERAL_FAILURE = 0xA0001,
     TSS2_TCTI_RC_NOT_IMPLEMENTED = 0xA0002,
     TSS2_TCTI_RC_BAD_CONTEXT = 0xA0003,
     TSS2_TCTI_RC_BAD_REFERENCE = 0xA0005,
     TSS2_TCTI_RC_INSUFFICIENT_BUFFER = 0xA0006,
     TSS2_TCTI_RC_BAD_SEQUENCE = 0xA0007,
     TSS2_TCTI_RC_IO_ERROR = 0xA000A,
     TSS2_TCTI_RC_BAD_VALUE = 0xA000B,
     TPM2_RC_RETRY = 0x922,
     TSS2_TCTI_TIMEOUT_BLOCK = - 1,
     sizeof_TSS2_TCTI_CONTEXT_COMMON_V2 = 72,
     TPM2_ALG_SHA1 = 0x4,
     TPM2_ALG_SHA256 = 0xB,
     TPM2_ALG_SHA384 = 0xC,
     TPM2_ALG_SHA512 = 0xD,
     TPM2_ALG_SM3_256 = 0x12,
     TPM2_SHA1_DIGEST_SIZE = 20,
     TPM2_SHA256_DIGEST_SIZE = 32,
     TPM2_SHA384_DIGEST_SIZE = 48,
     TPM2_SHA512_DIGEST_SIZE = 64,
     TPM2_SM3_256_DIGEST_SIZE = 32,
     TPM2_MAX_PCRS = 32 \<rparr>"

lemma std_headers_ok [simp]:
  "efi_codes_ok std_headers" "tcti_codes_ok std_headers" "alg_ids_ok std_headers"
  "digest_sizes_ok std_headers"
  by (simp_all add: efi_codes_ok_def tcti_codes_ok_def alg_ids_ok_def digest_sizes_ok_def
      std_headers_def efi_err_def)

text \<open>The values, for evaluating a model at \<open>std_headers\<close>.\<close>

lemma std_values [simp]:
  "EFI_ERROR std_headers s \<longleftrightarrow> 0x8000000000000000 \<le> s"
  "EFI_SUCCESS std_headers = 0"
  "EFI_INVALID_PARAMETER std_headers = 0x8000000000000002"
  "EFI_BUFFER_TOO_SMALL std_headers = 0x8000000000000005"
  "EFI_DEVICE_ERROR std_headers = 0x8000000000000007"
  "EFI_ACCESS_DENIED std_headers = 0x800000000000000f"
  "EFI_ABORTED std_headers = 0x8000000000000015"
  "TSS2_RC_SUCCESS std_headers = 0"
  "TSS2_TCTI_RC_GENERAL_FAILURE std_headers = 0xA0001"
  "TSS2_TCTI_RC_NOT_IMPLEMENTED std_headers = 0xA0002"
  "TSS2_TCTI_RC_BAD_CONTEXT std_headers = 0xA0003"
  "TSS2_TCTI_RC_BAD_REFERENCE std_headers = 0xA0005"
  "TSS2_TCTI_RC_INSUFFICIENT_BUFFER std_headers = 0xA0006"
  "TSS2_TCTI_RC_BAD_SEQUENCE std_headers = 0xA0007"
  "TSS2_TCTI_RC_IO_ERROR std_headers = 0xA000A"
  "TSS2_TCTI_RC_BAD_VALUE std_headers = 0xA000B"
  "TPM2_RC_RETRY std_headers = 0x922"
  "TSS2_TCTI_TIMEOUT_BLOCK std_headers = - 1"
  "sizeof_TSS2_TCTI_CONTEXT_COMMON_V2 std_headers = 72"
  "TPM2_ALG_SHA1 std_headers = 0x4"
  "TPM2_ALG_SHA256 std_headers = 0xB"
  "TPM2_ALG_SHA384 std_headers = 0xC"
  "TPM2_ALG_SHA512 std_headers = 0xD"
  "TPM2_ALG_SM3_256 std_headers = 0x12"
  "TPM2_SHA1_DIGEST_SIZE std_headers = 20"
  "TPM2_SHA256_DIGEST_SIZE std_headers = 32"
  "TPM2_SHA384_DIGEST_SIZE std_headers = 48"
  "TPM2_SHA512_DIGEST_SIZE std_headers = 64"
  "TPM2_SM3_256_DIGEST_SIZE std_headers = 32"
  "TPM2_MAX_PCRS std_headers = 32"
  by (simp_all add: std_headers_def efi_err_def)

end
