(* ===== verification/Tcg2_Protocol.thy ===== *)
theory Tcg2_Protocol
  imports Uefi_Env
begin

section \<open>The TCG2 UEFI protocol: src/tcg2-protocol.h\<close>

text \<open>
  The constants, structures and function types of the protocol header. The protocol's
  functions are firmware: EFI_TCG2_PROTOCOL is a record of functions over an abstract
  firmware state \<open>'fw\<close>, each without its \<open>This\<close> argument, which is the record
  itself. An out parameter comes in with its old value and goes out with its new one.
\<close>

subsection \<open>Constants\<close>

type_synonym TCG_PCRINDEX = UINT32
type_synonym TCG_EVENTTYPE = UINT32
type_synonym EFI_TCG2_EVENT_LOG_BITMAP = UINT32
type_synonym EFI_TCG2_EVENT_LOG_FORMAT = UINT32
type_synonym EFI_TCG2_EVENT_ALGORITHM_BITMAP = UINT32
type_synonym EFI_PHYSICAL_ADDRESS = address
type_synonym BOOLEAN = UINT8

text \<open>An EFI_GUID is its four fields: 32, 16 and 16 bits and eight bytes.\<close>

type_synonym EFI_GUID = "UINT32 \<times> UINT16 \<times> UINT16 \<times> UINT8 list"

definition EFI_TCG2_PROTOCOL_GUID :: EFI_GUID where
  "EFI_TCG2_PROTOCOL_GUID =
     (0x607f766c, 0x7455, 0x42be, [0x93, 0x0b, 0xe4, 0xd7, 0x6d, 0xb2, 0x72, 0x0f])"

definition EFI_TCG2_EVENT_LOG_FORMAT_TCG_1_2 :: UINT32 where
  [unfolds]: "EFI_TCG2_EVENT_LOG_FORMAT_TCG_1_2 = 0x00000001"

definition EFI_TCG2_EVENT_LOG_FORMAT_TCG_2 :: UINT32 where
  [unfolds]: "EFI_TCG2_EVENT_LOG_FORMAT_TCG_2 = 0x00000002"

definition EFI_TCG2_BOOT_HASH_ALG_SHA1 :: UINT32 where
  [unfolds]: "EFI_TCG2_BOOT_HASH_ALG_SHA1 = 0x00000001"

definition EFI_TCG2_BOOT_HASH_ALG_SHA256 :: UINT32 where
  [unfolds]: "EFI_TCG2_BOOT_HASH_ALG_SHA256 = 0x00000002"

definition EFI_TCG2_BOOT_HASH_ALG_SHA384 :: UINT32 where
  [unfolds]: "EFI_TCG2_BOOT_HASH_ALG_SHA384 = 0x00000004"

definition EFI_TCG2_BOOT_HASH_ALG_SHA512 :: UINT32 where
  [unfolds]: "EFI_TCG2_BOOT_HASH_ALG_SHA512 = 0x00000008"

definition EFI_TCG2_BOOT_HASH_ALG_SM3_256 :: UINT32 where
  [unfolds]: "EFI_TCG2_BOOT_HASH_ALG_SM3_256 = 0x00000010"

text \<open>Log event types.\<close>

named_theorems ev_defs \<open>the values of the event types\<close>

definition EV_PREBOOT_CERT :: TCG_EVENTTYPE where
  [ev_defs]: "EV_PREBOOT_CERT = 0x0"

definition EV_POST_CODE :: TCG_EVENTTYPE where
  [ev_defs]: "EV_POST_CODE = 0x1"

definition EV_UNUSED :: TCG_EVENTTYPE where
  [ev_defs]: "EV_UNUSED = 0x2"

definition EV_NO_ACTION :: TCG_EVENTTYPE where
  [ev_defs]: "EV_NO_ACTION = 0x3"

definition EV_SEPARATOR :: TCG_EVENTTYPE where
  [ev_defs]: "EV_SEPARATOR = 0x4"

definition EV_ACTION :: TCG_EVENTTYPE where
  [ev_defs]: "EV_ACTION = 0x5"

definition EV_EVENT_TAG :: TCG_EVENTTYPE where
  [ev_defs]: "EV_EVENT_TAG = 0x6"

definition EV_S_CRTM_CONTENTS :: TCG_EVENTTYPE where
  [ev_defs]: "EV_S_CRTM_CONTENTS = 0x7"

definition EV_S_CRTM_VERSION :: TCG_EVENTTYPE where
  [ev_defs]: "EV_S_CRTM_VERSION = 0x8"

definition EV_CPU_MICROCODE :: TCG_EVENTTYPE where
  [ev_defs]: "EV_CPU_MICROCODE = 0x9"

definition EV_PLATFORM_CONFIG_FLAGS :: TCG_EVENTTYPE where
  [ev_defs]: "EV_PLATFORM_CONFIG_FLAGS = 0xa"

definition EV_TABLE_OF_DEVICES :: TCG_EVENTTYPE where
  [ev_defs]: "EV_TABLE_OF_DEVICES = 0xb"

definition EV_COMPACT_HASH :: TCG_EVENTTYPE where
  [ev_defs]: "EV_COMPACT_HASH = 0xc"

definition EV_IPL :: TCG_EVENTTYPE where
  [ev_defs]: "EV_IPL = 0xd"

definition EV_IPL_PARTITION_DATA :: TCG_EVENTTYPE where
  [ev_defs]: "EV_IPL_PARTITION_DATA = 0xe"

definition EV_NONHOST_CODE :: TCG_EVENTTYPE where
  [ev_defs]: "EV_NONHOST_CODE = 0xf"

definition EV_NONHOST_CONFIG :: TCG_EVENTTYPE where
  [ev_defs]: "EV_NONHOST_CONFIG = 0x10"

definition EV_NONHOST_INFO :: TCG_EVENTTYPE where
  [ev_defs]: "EV_NONHOST_INFO = 0x11"

definition EV_OMIT_BOOT_DEVICE_EVENTS :: TCG_EVENTTYPE where
  [ev_defs]: "EV_OMIT_BOOT_DEVICE_EVENTS = 0x12"

definition EV_EFI_EVENT_BASE :: TCG_EVENTTYPE where
  [ev_defs]: "EV_EFI_EVENT_BASE = 0x80000000"

definition EV_EFI_VARIABLE_DRIVER_CONFIG :: TCG_EVENTTYPE where
  [ev_defs]: "EV_EFI_VARIABLE_DRIVER_CONFIG = EV_EFI_EVENT_BASE + 0x1"

definition EV_EFI_VARIABLE_BOOT :: TCG_EVENTTYPE where
  [ev_defs]: "EV_EFI_VARIABLE_BOOT = EV_EFI_EVENT_BASE + 0x2"

definition EV_EFI_BOOT_SERVICES_APPLICATION :: TCG_EVENTTYPE where
  [ev_defs]: "EV_EFI_BOOT_SERVICES_APPLICATION = EV_EFI_EVENT_BASE + 0x3"

definition EV_EFI_BOOT_SERVICES_DRIVER :: TCG_EVENTTYPE where
  [ev_defs]: "EV_EFI_BOOT_SERVICES_DRIVER = EV_EFI_EVENT_BASE + 0x4"

definition EV_EFI_RUNTIME_SERVICES_DRIVER :: TCG_EVENTTYPE where
  [ev_defs]: "EV_EFI_RUNTIME_SERVICES_DRIVER = EV_EFI_EVENT_BASE + 0x5"

definition EV_EFI_GPT_EVENT :: TCG_EVENTTYPE where
  [ev_defs]: "EV_EFI_GPT_EVENT = EV_EFI_EVENT_BASE + 0x6"

definition EV_EFI_ACTION :: TCG_EVENTTYPE where
  [ev_defs]: "EV_EFI_ACTION = EV_EFI_EVENT_BASE + 0x7"

definition EV_EFI_PLATFORM_FIRMWARE_BLOB :: TCG_EVENTTYPE where
  [ev_defs]: "EV_EFI_PLATFORM_FIRMWARE_BLOB = EV_EFI_EVENT_BASE + 0x8"

definition EV_EFI_HANDOFF_TABLES :: TCG_EVENTTYPE where
  [ev_defs]: "EV_EFI_HANDOFF_TABLES = EV_EFI_EVENT_BASE + 0x9"

definition EV_EFI_VARIABLE_AUTHORITY :: TCG_EVENTTYPE where
  [ev_defs]: "EV_EFI_VARIABLE_AUTHORITY = EV_EFI_EVENT_BASE + 0xe0"

subsection \<open>Structures\<close>

text \<open>
  The packed structures an event log is made of. A flexible array member, and the
  one-byte array \<open>Event[1]\<close> that stands for one, is a list of bytes.
\<close>

record TCG_PCR_EVENT =
  pe_PCRIndex :: TCG_PCRINDEX
  pe_EventType :: TCG_EVENTTYPE
  pe_Digest :: "UINT8 list"  \<comment> \<open>20 bytes\<close>
  pe_EventSize :: UINT32
  pe_Event :: "UINT8 list"

record TCG_DIGEST2 =
  AlgorithmId :: UINT16
  Digest :: "UINT8 list"

record TCG_EVENT2 =
  EventSize :: UINT32
  Event :: "UINT8 list"

record TCG_EVENT_HEADER2 =
  PCRIndex :: TCG_PCRINDEX
  EventType :: TCG_EVENTTYPE
  DigestCount :: UINT32

text \<open>The sizes of the fixed parts, and the offsets of the fields that follow others.\<close>

definition sizeof_TCG_DIGEST :: nat where
  [unfolds]: "sizeof_TCG_DIGEST = 20"

definition sizeof_TCG_PCR_EVENT :: nat where
  [unfolds]: "sizeof_TCG_PCR_EVENT = packed_size [4, 4, sizeof_TCG_DIGEST, 4, 1]"

definition sizeof_TCG_DIGEST2 :: nat where
  [unfolds]: "sizeof_TCG_DIGEST2 = packed_size [2]"

definition sizeof_TCG_EVENT2 :: nat where
  [unfolds]: "sizeof_TCG_EVENT2 = packed_size [4]"

definition sizeof_TCG_EVENT_HEADER2 :: nat where
  [unfolds]: "sizeof_TCG_EVENT_HEADER2 = packed_size [4, 4, 4]"

record EFI_TCG2_EVENT_HEADER =
  HeaderSize :: UINT32
  HeaderVersion :: UINT16
  eh_PCRIndex :: TCG_PCRINDEX
  eh_EventType :: TCG_EVENTTYPE

record EFI_TCG2_EVENT =
  ee_Size :: UINT32
  ee_Header :: EFI_TCG2_EVENT_HEADER
  ee_Event :: "UINT8 list"

record EFI_TCG2_VERSION =
  Major :: UINT8
  Minor :: UINT8

record EFI_TCG2_BOOT_SERVICE_CAPABILITY =
  Size :: UINT8
  StructureVersion :: EFI_TCG2_VERSION
  ProtocolVersion :: EFI_TCG2_VERSION
  HashAlgorithmBitmap :: EFI_TCG2_EVENT_ALGORITHM_BITMAP
  SupportedEventLogs :: EFI_TCG2_EVENT_LOG_BITMAP
  TPMPresentFlag :: BOOLEAN
  MaxCommandSize :: UINT16
  MaxResponseSize :: UINT16
  ManufacturerID :: UINT32
  NumberOfPcrBanks :: UINT32
  ActivePcrBanks :: EFI_TCG2_EVENT_ALGORITHM_BITMAP

text \<open>This structure is not packed: its size follows from the alignment of its fields.\<close>

definition sizeof_EFI_TCG2_BOOT_SERVICE_CAPABILITY :: nat where
  "sizeof_EFI_TCG2_BOOT_SERVICE_CAPABILITY =
     struct_size [(1, 1), (2, 1), (2, 1), (4, 4), (4, 4), (1, 1), (2, 2), (2, 2), (4, 4),
       (4, 4), (4, 4)]"

lemma sizeof_caps: "sizeof_EFI_TCG2_BOOT_SERVICE_CAPABILITY = 36"
  by (simp add: sizeof_EFI_TCG2_BOOT_SERVICE_CAPABILITY_def struct_size_def align_up_def)

text \<open>
  A designated initializer \<open>{ .Size = n, }\<close> zeroes every other field.
\<close>

definition caps_init :: "UINT8 \<Rightarrow> EFI_TCG2_BOOT_SERVICE_CAPABILITY" where
  "caps_init n = \<lparr>Size = n, StructureVersion = \<lparr>Major = 0, Minor = 0\<rparr>,
     ProtocolVersion = \<lparr>Major = 0, Minor = 0\<rparr>, HashAlgorithmBitmap = 0,
     SupportedEventLogs = 0, TPMPresentFlag = 0, MaxCommandSize = 0, MaxResponseSize = 0,
     ManufacturerID = 0, NumberOfPcrBanks = 0, ActivePcrBanks = 0\<rparr>"

subsection \<open>The protocol\<close>

text \<open>
  The out parameters of GetEventLog. A component is None until the firmware writes it:
  the caller's variables are not initialised.
\<close>

record eventlog_out =
  EventLogLocation :: "EFI_PHYSICAL_ADDRESS option"
  EventLogLastEntry :: "EFI_PHYSICAL_ADDRESS option"
  EventLogTruncated :: "BOOLEAN option"

record 'fw EFI_TCG2_PROTOCOL =
  GetCapability :: "EFI_TCG2_BOOT_SERVICE_CAPABILITY \<Rightarrow> 'fw \<Rightarrow>
    EFI_STATUS \<times> EFI_TCG2_BOOT_SERVICE_CAPABILITY \<times> 'fw"
  GetEventLog :: "EFI_TCG2_EVENT_LOG_FORMAT \<Rightarrow> eventlog_out \<Rightarrow> 'fw \<Rightarrow>
    EFI_STATUS \<times> eventlog_out \<times> 'fw"
  HashLogExtendEvent :: "UINT64 \<Rightarrow> EFI_PHYSICAL_ADDRESS \<Rightarrow> UINT64 \<Rightarrow> EFI_TCG2_EVENT \<Rightarrow>
    'fw \<Rightarrow> EFI_STATUS \<times> 'fw"
  SubmitCommand :: "UINT32 \<Rightarrow> UINT8 list \<Rightarrow> UINT32 \<Rightarrow> UINT8 list \<Rightarrow> 'fw \<Rightarrow>
    EFI_STATUS \<times> UINT8 list \<times> 'fw"
  GetActivePcrBanks :: "UINT32 \<Rightarrow> 'fw \<Rightarrow> EFI_STATUS \<times> UINT32 \<times> 'fw"
  SetActivePcrBanks :: "UINT32 \<Rightarrow> 'fw \<Rightarrow> EFI_STATUS \<times> 'fw"
  GetResultOfSetActivePcrBanks :: "UINT32 \<times> UINT32 \<Rightarrow> 'fw \<Rightarrow>
    EFI_STATUS \<times> (UINT32 \<times> UINT32) \<times> 'fw"

text \<open>
  The boot service that finds the protocol: it takes the GUID and gives a status and the
  interface pointer, None for NULL or not written.
\<close>

type_synonym 'fw locate = "EFI_GUID \<Rightarrow> 'fw \<Rightarrow> EFI_STATUS \<times> 'fw EFI_TCG2_PROTOCOL option \<times> 'fw"

end
