(* ===== verification/Tcg2_Util.thy ===== *)
theory Tcg2_Util
  imports Tcg2_Protocol
begin

section \<open>Wrappers of the TCG2 protocol: src/tcg2-util.c\<close>

text \<open>
  Each wrapper calls one protocol function through the interface pointer, prints a line
  when the status is an error and passes the status on. The pointer is an \<open>option\<close>: a
  NULL pointer is dereferenced without a check, which is undefined (None).
\<close>

subsection \<open>The operations\<close>

text \<open>\<open>if (EFI_ERROR (status)) Print (fmt, status);\<close>\<close>

definition report_status :: "headers \<Rightarrow> string \<Rightarrow> EFI_STATUS \<Rightarrow> 'fw world \<Rightarrow> 'fw world" where
  "report_status H fmt status w =
     (if EFI_ERROR H status then Print fmt [A_num (unat status)] w else w)"

definition tcg2_get_eventlog ::
  "headers \<Rightarrow> 'fw EFI_TCG2_PROTOCOL option \<Rightarrow> EFI_TCG2_EVENT_LOG_FORMAT \<Rightarrow> eventlog_out \<Rightarrow>
   'fw world \<Rightarrow> (EFI_STATUS \<times> eventlog_out \<times> 'fw world) option" where
  "tcg2_get_eventlog H tpm2_prot format out w = do {
     p \<leftarrow> tpm2_prot;
     let (status, out', f) = GetEventLog p format out (firmware w);
     let w' = report_status H ''Tcg2 SubmitCommand failed: 0x%x\<newline>'' status (w\<lparr>firmware := f\<rparr>);
     Some (status, out', w') }"

definition tcg2_get_active_pcr_banks ::
  "headers \<Rightarrow> 'fw EFI_TCG2_PROTOCOL option \<Rightarrow> UINT32 \<Rightarrow> 'fw world \<Rightarrow>
   (EFI_STATUS \<times> UINT32 \<times> 'fw world) option" where
  "tcg2_get_active_pcr_banks H tcg2_protocol pcr_banks w = do {
     p \<leftarrow> tcg2_protocol;
     let (status, pcr_banks', f) = GetActivePcrBanks p pcr_banks (firmware w);
     let w' = report_status H ''GetActivePcrBanks failed: 0x%x\<newline>'' status (w\<lparr>firmware := f\<rparr>);
     Some (status, pcr_banks', w') }"

definition tcg2_get_capability ::
  "headers \<Rightarrow> 'fw EFI_TCG2_PROTOCOL option \<Rightarrow> EFI_TCG2_BOOT_SERVICE_CAPABILITY \<Rightarrow> 'fw world \<Rightarrow>
   (EFI_STATUS \<times> EFI_TCG2_BOOT_SERVICE_CAPABILITY \<times> 'fw world) option" where
  "tcg2_get_capability H tcg2_protocol tcg2_bs_caps w = do {
     p \<leftarrow> tcg2_protocol;
     let (status, caps', f) = GetCapability p tcg2_bs_caps (firmware w);
     let w' = report_status H ''GetCapability failed: 0x%x\<newline>'' status (w\<lparr>firmware := f\<rparr>);
     Some (status, caps', w') }"

definition tcg2_get_max_buf ::
  "headers \<Rightarrow> 'fw EFI_TCG2_PROTOCOL option \<Rightarrow> 'fw world \<Rightarrow> (UINT16 \<times> 'fw world) option" where
  "tcg2_get_max_buf H tcg2_protocol w = do {
     (status, tcg2_bs_caps, w) \<leftarrow> tcg2_get_capability H tcg2_protocol
       (caps_init (of_nat sizeof_EFI_TCG2_BOOT_SERVICE_CAPABILITY)) w;
     if EFI_ERROR H status then
       Some (0, Print ''Failed to GetCapability: 0x%x\<newline>'' [A_num (unat status)] w)
     else if MaxCommandSize tcg2_bs_caps > MaxResponseSize tcg2_bs_caps then
       Some (MaxCommandSize tcg2_bs_caps, w)
     else
       Some (MaxResponseSize tcg2_bs_caps, w) }"

definition tcg2_submit_command ::
  "headers \<Rightarrow> 'fw EFI_TCG2_PROTOCOL option \<Rightarrow> UINT32 \<Rightarrow> UINT8 list \<Rightarrow> UINT32 \<Rightarrow> UINT8 list \<Rightarrow>
   'fw world \<Rightarrow> (EFI_STATUS \<times> UINT8 list \<times> 'fw world) option" where
  "tcg2_submit_command H tcg2_protocol input_size input_buf output_size output_buf w = do {
     p \<leftarrow> tcg2_protocol;
     let (status, output', f) =
       SubmitCommand p input_size input_buf output_size output_buf (firmware w);
     let w' = report_status H ''Tcg2 SubmitCommand failed: 0x%x\<newline>'' status (w\<lparr>firmware := f\<rparr>);
     Some (status, output', w') }"

definition tcg2_get_protocol ::
  "headers \<Rightarrow> 'fw locate \<Rightarrow> 'fw EFI_TCG2_PROTOCOL option \<Rightarrow> 'fw world \<Rightarrow>
   EFI_STATUS \<times> 'fw EFI_TCG2_PROTOCOL option \<times> 'fw world" where
  "tcg2_get_protocol H LibLocateProtocol tcg2_protocol w =
     (let (status, tcg2_proto_tmp, f) = LibLocateProtocol EFI_TCG2_PROTOCOL_GUID (firmware w)
      in (status, if \<not> EFI_ERROR H status then tcg2_proto_tmp else tcg2_protocol,
          w\<lparr>firmware := f\<rparr>))"

subsection \<open>The contract the wrappers share\<close>

text \<open>
  A wrapper is a protocol function \<open>prim\<close> (arguments already given) lifted to the
  world. Every lemma a caller needs about a wrapper follows from the two laws.
\<close>

locale tcg2_wrapper =
  fixes H :: headers
    and fmt :: string
    and prim :: "'fw EFI_TCG2_PROTOCOL \<Rightarrow> 'fw \<Rightarrow> EFI_STATUS \<times> 'o \<times> 'fw"
    and wrap :: "'fw EFI_TCG2_PROTOCOL option \<Rightarrow> 'fw world \<Rightarrow> (EFI_STATUS \<times> 'o \<times> 'fw world) option"
  assumes null_undefined: "wrap None w = None"
    and lifts: "prim p (firmware w) = (status, out, f) \<Longrightarrow>
      wrap (Some p) w = Some (status, out, report_status H fmt status (w\<lparr>firmware := f\<rparr>))"
begin

lemma defined: "wrap (Some p) w \<noteq> None"
  by (cases "prim p (firmware w)") (auto simp: lifts)

lemma passes_on:
  assumes "wrap (Some p) w = Some (status, out, w')"
  shows "prim p (firmware w) = (status, out, firmware w')"
  using assms
  by (cases "prim p (firmware w)") (auto simp: lifts report_status_def)

lemma console_law:
  assumes "wrap (Some p) w = Some (status, out, w')"
  shows "console w' = console w @
    (if EFI_ERROR H status then [Printed fmt [A_num (unat status)]] else [])"
  using assms
  by (cases "prim p (firmware w)") (auto simp: lifts report_status_def)

lemma contract:
  "wrap prot w = Some (status, out, w') \<longleftrightarrow>
     (\<exists>p. prot = Some p \<and> prim p (firmware w) = (status, out, firmware w')
        \<and> console w' = console w @
            (if EFI_ERROR H status then [Printed fmt [A_num (unat status)]] else []))"
  by (cases prot; cases "prim (the prot) (firmware w)")
    (auto simp: null_undefined lifts report_status_def intro!: world_eqI)

end

interpretation capability_wrapper:
  tcg2_wrapper H "''GetCapability failed: 0x%x\<newline>''" "\<lambda>p. GetCapability p caps"
    "\<lambda>prot. tcg2_get_capability H prot caps" for H caps
  by unfold_locales (simp_all add: tcg2_get_capability_def)

interpretation eventlog_wrapper:
  tcg2_wrapper H "''Tcg2 SubmitCommand failed: 0x%x\<newline>''" "\<lambda>p. GetEventLog p format out"
    "\<lambda>prot. tcg2_get_eventlog H prot format out" for H format out
  by unfold_locales (simp_all add: tcg2_get_eventlog_def)

interpretation banks_wrapper:
  tcg2_wrapper H "''GetActivePcrBanks failed: 0x%x\<newline>''" "\<lambda>p. GetActivePcrBanks p banks"
    "\<lambda>prot. tcg2_get_active_pcr_banks H prot banks" for H banks
  by unfold_locales (simp_all add: tcg2_get_active_pcr_banks_def)

interpretation submit_wrapper:
  tcg2_wrapper H "''Tcg2 SubmitCommand failed: 0x%x\<newline>''"
    "\<lambda>p. SubmitCommand p input_size input_buf output_size output_buf"
    "\<lambda>prot. tcg2_submit_command H prot input_size input_buf output_size output_buf"
  for H input_size input_buf output_size output_buf
  by unfold_locales (simp_all add: tcg2_submit_command_def)

subsection \<open>The largest buffer and the protocol lookup\<close>

lemma get_max_buf_cases:
  "tcg2_get_max_buf H prot w = Some (n, w') \<longleftrightarrow>
     (\<exists>p status caps f.
        prot = Some p \<and> GetCapability p (caps_init 36) (firmware w) = (status, caps, f)
      \<and> firmware w' = f
      \<and> (if EFI_ERROR H status
         then n = 0 \<and> console w' = console w @
           [Printed ''GetCapability failed: 0x%x\<newline>'' [A_num (unat status)],
            Printed ''Failed to GetCapability: 0x%x\<newline>'' [A_num (unat status)]]
         else n = max (MaxCommandSize caps) (MaxResponseSize caps) \<and> console w' = console w))"
  (is "?L \<longleftrightarrow> ?R")
proof (cases prot)
  case None
  then show ?thesis
    by (simp add: tcg2_get_max_buf_def capability_wrapper.null_undefined)
next
  case (Some p)
  obtain status caps f where
    prim: "GetCapability p (caps_init 36) (firmware w) = (status, caps, f)"
    by (cases "GetCapability p (caps_init 36) (firmware w)")
  have call: "tcg2_get_capability H prot (caps_init 36) w =
      Some (status, caps, report_status H ''GetCapability failed: 0x%x\<newline>'' status
        (w\<lparr>firmware := f\<rparr>))"
    unfolding Some by (rule capability_wrapper.lifts) (rule prim)
  show ?thesis
    unfolding tcg2_get_max_buf_def sizeof_caps of_nat_numeral call
    using Some prim
    by (auto simp: report_status_def max_def not_less intro!: world_eqI)
qed

lemma get_protocol_success:
  assumes "LibLocateProtocol EFI_TCG2_PROTOCOL_GUID (firmware w) = (status, p, f)"
    and "\<not> EFI_ERROR H status"
  shows "tcg2_get_protocol H LibLocateProtocol old w = (status, p, w\<lparr>firmware := f\<rparr>)"
  using assms by (simp add: tcg2_get_protocol_def)

lemma get_protocol_failure:
  assumes "LibLocateProtocol EFI_TCG2_PROTOCOL_GUID (firmware w) = (status, p, f)"
    and "EFI_ERROR H status"
  shows "tcg2_get_protocol H LibLocateProtocol old w = (status, old, w\<lparr>firmware := f\<rparr>)"
  using assms by (simp add: tcg2_get_protocol_def)

end
