(* ===== verification/Demo_Firmware.thy ===== *)
theory Demo_Firmware
  imports Tcg2_Protocol
begin

section \<open>A concrete firmware\<close>

text \<open>
  The firmware is a parameter of the model. The applications of the theorems to concrete
  inputs use this one: its state is the list of the blocks submitted to it, SubmitCommand
  answers with the status \<open>st\<close> and a buffer of the caller's length filled with 0x80, and
  the capability structure and the log addresses are given.
\<close>

definition demo_protocol ::
  "EFI_STATUS \<Rightarrow> EFI_TCG2_BOOT_SERVICE_CAPABILITY \<Rightarrow> eventlog_out \<Rightarrow>
   UINT8 list list EFI_TCG2_PROTOCOL" where
  "demo_protocol st caps log = \<lparr>
     GetCapability = (\<lambda>c f. (st, caps, f)),
     GetEventLog = (\<lambda>format out f. (st, log, f)),
     HashLogExtendEvent = (\<lambda>flags a n e f. (st, f)),
     SubmitCommand = (\<lambda>n inb m outb f. (st, map (\<lambda>_. 0x80) outb, f @ [take (unat n) inb])),
     GetActivePcrBanks = (\<lambda>banks f. (st, ActivePcrBanks caps, f)),
     SetActivePcrBanks = (\<lambda>banks f. (st, f)),
     GetResultOfSetActivePcrBanks = (\<lambda>r f. (st, r, f)) \<rparr>"

definition demo_caps :: EFI_TCG2_BOOT_SERVICE_CAPABILITY where
  "demo_caps = (caps_init 36)\<lparr>MaxCommandSize := 12, MaxResponseSize := 10,
     SupportedEventLogs := 3, ActivePcrBanks := 3, ProtocolVersion := \<lparr>Major = 1, Minor = 1\<rparr>\<rparr>"

definition demo_log :: eventlog_out where
  "demo_log = \<lparr>EventLogLocation = Some 0x1000, EventLogLastEntry = Some 0x1000,
     EventLogTruncated = Some 0\<rparr>"

definition demo_locate ::
  "EFI_STATUS \<Rightarrow> EFI_STATUS \<Rightarrow> UINT8 list list locate" where
  "demo_locate st st' = (\<lambda>guid f. (st, Some (demo_protocol st' demo_caps demo_log), f))"

definition demo_world :: "UINT8 list list world" where
  "demo_world = \<lparr>firmware = [], console = []\<rparr>"

lemmas demo_simps = demo_protocol_def demo_caps_def demo_log_def demo_locate_def demo_world_def

end
