(* ===== verification/Wrapper_Contract.thy ===== *)
theory Wrapper_Contract
  imports Tcg2_Util Demo_Firmware
begin

section \<open>What the TCG2 wrappers promise\<close>

text \<open>
  The properties of the wrappers of src/tcg2-util.c, drawn from the shared contract of
  Tcg2_Util, which the four interpretations give for the four wrappers.
\<close>

text \<open>
  Each of the four wrappers hands its caller exactly what the firmware function gave:
  status, out parameters and firmware state; it prints one line when the status is an
  error and none otherwise, and is undefined exactly on a NULL protocol pointer. The line
  that GetEventLog prints on failure names SubmitCommand.
\<close>

theorem wrappers_pass_firmware_results:
  "(tcg2_get_capability H prot caps w = Some (status, caps', w') \<longleftrightarrow>
      (\<exists>p. prot = Some p \<and> GetCapability p caps (firmware w) = (status, caps', firmware w')
         \<and> console w' = console w @ (if EFI_ERROR H status
             then [Printed ''GetCapability failed: 0x%x\<newline>'' [A_num (unat status)]] else [])))
 \<and> (tcg2_get_eventlog H prot format out w = Some (status, out', w') \<longleftrightarrow>
      (\<exists>p. prot = Some p \<and> GetEventLog p format out (firmware w) = (status, out', firmware w')
         \<and> console w' = console w @ (if EFI_ERROR H status
             then [Printed ''Tcg2 SubmitCommand failed: 0x%x\<newline>'' [A_num (unat status)]] else [])))
 \<and> (tcg2_get_active_pcr_banks H prot banks w = Some (status, banks', w') \<longleftrightarrow>
      (\<exists>p. prot = Some p \<and> GetActivePcrBanks p banks (firmware w) = (status, banks', firmware w')
         \<and> console w' = console w @ (if EFI_ERROR H status
             then [Printed ''GetActivePcrBanks failed: 0x%x\<newline>'' [A_num (unat status)]] else [])))
 \<and> (tcg2_submit_command H prot n input m output w = Some (status, output', w') \<longleftrightarrow>
      (\<exists>p. prot = Some p \<and> SubmitCommand p n input m output (firmware w) = (status, output', firmware w')
         \<and> console w' = console w @ (if EFI_ERROR H status
             then [Printed ''Tcg2 SubmitCommand failed: 0x%x\<newline>'' [A_num (unat status)]] else [])))"
  by (intro conjI capability_wrapper.contract eventlog_wrapper.contract banks_wrapper.contract
      submit_wrapper.contract)

text \<open>
  The buffer size the TCTI asks for is the larger of the two limits in the capability
  structure, and 0 when GetCapability fails, in which case the status is printed twice; the
  firmware is asked once, with a structure whose Size field is its real size of 36 bytes.
\<close>

theorem max_buf_is_larger_limit:
  "tcg2_get_max_buf H prot w = Some (n, w') \<longleftrightarrow>
     (\<exists>p status caps.
        prot = Some p \<and> GetCapability p (caps_init 36) (firmware w) = (status, caps, firmware w')
      \<and> (if EFI_ERROR H status
         then n = 0 \<and> console w' = console w @
           [Printed ''GetCapability failed: 0x%x\<newline>'' [A_num (unat status)],
            Printed ''Failed to GetCapability: 0x%x\<newline>'' [A_num (unat status)]]
         else unat n = max (unat (MaxCommandSize caps)) (unat (MaxResponseSize caps))
           \<and> console w' = console w))"
proof -
  have "n = max a b \<longleftrightarrow> unat n = max (unat a) (unat b)" for a b :: UINT16
    by (auto simp: max_def word_le_nat_alt word_unat_eq_iff)
  then show ?thesis
    by (subst get_max_buf_cases) auto
qed

end
