(* ===== verification/Tcti_Uefi.thy ===== *)
theory Tcti_Uefi
  imports Tcg2_Util
begin

section \<open>The TCTI: src/tcti-uefi.c and src/tcti-uefi.h\<close>

text \<open>
  The TCTI context and its operations. A context pointer is an \<open>option\<close>: None is NULL,
  \<open>Some c\<close> points to the context \<open>c\<close>, and an operation returns the context as it
  leaves it. \<open>cmd_buf\<close> is the flexible array member; the length of the list is what
  the allocation really holds behind the structure, which the code only knows as
  \<open>ctx_size\<close>. A write past it is undefined (None).
\<close>

subsection \<open>The context\<close>

definition TPM2_HEADER_SIZE :: size_t where
  [unfolds]: "TPM2_HEADER_SIZE = 10"

definition TCTI_UEFI_MAGIC :: UINT64 where
  "TCTI_UEFI_MAGIC = 0x3a2e16965be011f2"

definition TCTI_UEFI_VERSION :: UINT64 where
  "TCTI_UEFI_VERSION = 2"

datatype tcti_uefi_state_t = UEFI_STATE_FINAL | UEFI_STATE_RECEIVE | UEFI_STATE_TRANSMIT

text \<open>
  A function pointer of the TCTI dispatch table: NULL, one of the three operations of this
  file, or whatever address the memory held before initialisation.
\<close>

datatype tcti_fn =
    FN_NULL
  | FN_tcti_uefi_transmit
  | FN_tcti_uefi_receive
  | FN_tcti_uefi_finalize
  | FN_other address

record TSS2_TCTI_CONTEXT_COMMON =
  magic :: UINT64
  version :: UINT64
  fn_transmit :: tcti_fn
  fn_receive :: tcti_fn
  fn_finalize :: tcti_fn
  fn_cancel :: tcti_fn
  fn_get_poll_handles :: tcti_fn
  fn_set_locality :: tcti_fn
  fn_make_sticky :: tcti_fn

record TSS2_TCTI_UEFI_CONTEXT =
  common :: TSS2_TCTI_CONTEXT_COMMON
  ctx_state :: tcti_uefi_state_t
  ctx_size :: size_t
  cmd_buf :: "UINT8 list"

text \<open>
  \<open>sizeof (TSS2_TCTI_UEFI_CONTEXT)\<close>: the common part, an enum, a size_t, and a flexible
  array that takes no room.
\<close>

definition sizeof_ctx :: "headers \<Rightarrow> size_t" where
  "sizeof_ctx H =
     of_nat (struct_size [(sizeof_TSS2_TCTI_CONTEXT_COMMON_V2 H, 8), (4, 4), (8, 8)])"

definition tcti_uefi_context_cast ::
  "TSS2_TCTI_UEFI_CONTEXT option \<Rightarrow> TSS2_TCTI_UEFI_CONTEXT option" where
  "tcti_uefi_context_cast tcti_ctx =
     (case tcti_ctx of
        None \<Rightarrow> None
      | Some c \<Rightarrow>
          if magic (common c) = TCTI_UEFI_MAGIC \<and> version (common c) = TCTI_UEFI_VERSION
          then Some c else None)"

subsection \<open>The operations\<close>

text \<open>
  \<open>CopyMem\<close> of \<open>n\<close> bytes: undefined when either side is shorter.
\<close>

definition CopyMem :: "UINT8 list \<Rightarrow> UINT8 list \<Rightarrow> nat \<Rightarrow> UINT8 list option" where
  "CopyMem dst src n =
     (if n \<le> length dst \<and> n \<le> length src then Some (take n src @ drop n dst) else None)"

definition tcti_uefi_transmit ::
  "headers \<Rightarrow> TSS2_TCTI_UEFI_CONTEXT option \<Rightarrow> size_t \<Rightarrow> UINT8 list option \<Rightarrow> 'fw world \<Rightarrow>
   (TSS2_RC \<times> TSS2_TCTI_UEFI_CONTEXT option \<times> 'fw world) option" where
  "tcti_uefi_transmit H context sz command w =
     (if context = None \<or> command = None then
        Some (TSS2_TCTI_RC_BAD_REFERENCE H, context, w)
      else case tcti_uefi_context_cast context of
        None \<Rightarrow> Some (TSS2_TCTI_RC_BAD_CONTEXT H, context,
          Print ''upcast to TSS2_TCTI_UEFI_CONTEXT failed\<newline>'' [] w)
      | Some tcti_uefi \<Rightarrow>
          if ctx_state tcti_uefi \<noteq> UEFI_STATE_TRANSMIT then
            Some (TSS2_TCTI_RC_BAD_SEQUENCE H, context, w)
          else if sz > ctx_size tcti_uefi \<or> sz \<le> TPM2_HEADER_SIZE then
            Some (TSS2_TCTI_RC_BAD_VALUE H, context, w)
          else do {
            src \<leftarrow> command;
            buf \<leftarrow> CopyMem (cmd_buf tcti_uefi) src (unat sz);
            Some (TSS2_RC_SUCCESS H,
              Some (tcti_uefi\<lparr>cmd_buf := buf, ctx_state := UEFI_STATE_RECEIVE\<rparr>), w) })"

text \<open>The status of a failed submission as a TSS2 code, with the line it prints.\<close>

definition receive_error :: "headers \<Rightarrow> EFI_STATUS \<Rightarrow> TSS2_RC \<times> string" where
  "receive_error H status =
     (if status = EFI_INVALID_PARAMETER H then
        (TSS2_TCTI_RC_BAD_VALUE H, ''EFI_INVALID_PARAMTER\<newline>'')
      else if status = EFI_BUFFER_TOO_SMALL H then
        (TSS2_TCTI_RC_INSUFFICIENT_BUFFER H, ''EFI_BUFFER_TOO_SMALL\<newline>'')
      else if status = EFI_DEVICE_ERROR H then
        (TSS2_TCTI_RC_IO_ERROR H, ''EFI_DEVICE_ERROR\<newline>'')
      else if status = EFI_ACCESS_DENIED H then
        (TSS2_TCTI_RC_GENERAL_FAILURE H, ''EFI_ACCESS_DENIED\<newline>'')
      else
        (TSS2_TCTI_RC_GENERAL_FAILURE H, ''Unexpected EFI error code\<newline>''))"

text \<open>
  \<open>sz\<close> (the source's \<open>size\<close>) and \<open>response\<close> are pointers: None is NULL. The result
  holds the code, the context, what \<open>*size\<close> and the response buffer hold afterwards, and the world.
\<close>

definition tcti_uefi_receive ::
  "headers \<Rightarrow> 'fw locate \<Rightarrow> TSS2_TCTI_UEFI_CONTEXT option \<Rightarrow> size_t option \<Rightarrow>
   UINT8 list option \<Rightarrow> 32 word \<Rightarrow> 'fw world \<Rightarrow>
   (TSS2_RC \<times> TSS2_TCTI_UEFI_CONTEXT option \<times> size_t option \<times> UINT8 list option \<times> 'fw world)
     option" where
  "tcti_uefi_receive H LibLocateProtocol context sz response timeout w =
     (if context = None \<or> sz = None then
        Some (TSS2_TCTI_RC_BAD_REFERENCE H, context, sz, response, w)
      else if timeout \<noteq> TSS2_TCTI_TIMEOUT_BLOCK H then
        Some (TSS2_TCTI_RC_NOT_IMPLEMENTED H, context, sz, response, w)
      else case tcti_uefi_context_cast context of
        None \<Rightarrow> Some (TSS2_TCTI_RC_BAD_CONTEXT H, context, sz, response, w)
      | Some tcti_uefi \<Rightarrow>
          if ctx_state tcti_uefi \<noteq> UEFI_STATE_RECEIVE then
            Some (TSS2_TCTI_RC_BAD_SEQUENCE H, context, sz, response, w)
          else if response = None then
            Some (TSS2_RC_SUCCESS H, context, Some (ctx_size tcti_uefi), response, w)
          else
            let (status, tcg2_proto, w) = tcg2_get_protocol H LibLocateProtocol None w in
            if EFI_ERROR H status then
              Some (TSS2_TCTI_RC_GENERAL_FAILURE H, context, sz, response, w)
            else do {
              n \<leftarrow> sz;
              buf \<leftarrow> response;
              (status, buf', w) \<leftarrow> tcg2_submit_command H tcg2_proto (ucast (ctx_size tcti_uefi))
                (cmd_buf tcti_uefi) (ucast n) buf w;
              if status = EFI_SUCCESS H then
                Some (TSS2_RC_SUCCESS H, Some (tcti_uefi\<lparr>ctx_state := UEFI_STATE_TRANSMIT\<rparr>),
                  sz, Some buf', w)
              else
                Some (fst (receive_error H status), context, sz, Some buf',
                  Print (snd (receive_error H status)) [] w) })"

definition tcti_uefi_finalize ::
  "TSS2_TCTI_UEFI_CONTEXT option \<Rightarrow> 'fw world \<Rightarrow>
   TSS2_TCTI_UEFI_CONTEXT option \<times> 'fw world" where
  "tcti_uefi_finalize context w =
     (if context = None then (context, Print ''Invalid parameter'' [] w)
      else case tcti_uefi_context_cast context of
        Some tcti_uefi \<Rightarrow> (Some (tcti_uefi\<lparr>ctx_state := UEFI_STATE_FINAL\<rparr>), w)
      | None \<Rightarrow> (context, w))"

definition sizeof_tcti_uefi_context ::
  "headers \<Rightarrow> 'fw locate \<Rightarrow> 'fw world \<Rightarrow> (size_t \<times> 'fw world) option" where
  "sizeof_tcti_uefi_context H LibLocateProtocol w =
     (let sz = 0;
          (status, tcg2_proto, w) = tcg2_get_protocol H LibLocateProtocol None w in
      if EFI_ERROR H status then Some (0, w)
      else do {
        (max_buf, w) \<leftarrow> tcg2_get_max_buf H tcg2_proto w;
        let sz = sz + ucast max_buf;
        if sz = 0 then Some (0, w)
        else Some (sz + sizeof_ctx H, w) })"

definition Tss2_Tcti_Uefi_Init ::
  "headers \<Rightarrow> 'fw locate \<Rightarrow> TSS2_TCTI_UEFI_CONTEXT option \<Rightarrow> size_t option \<Rightarrow> string option \<Rightarrow>
   'fw world \<Rightarrow>
   (TSS2_RC \<times> TSS2_TCTI_UEFI_CONTEXT option \<times> size_t option \<times> 'fw world) option" where
  "Tss2_Tcti_Uefi_Init H LibLocateProtocol context sz conf w =
     (case sz of
        None \<Rightarrow> Some (TSS2_TCTI_RC_BAD_VALUE H, context, sz, w)
      | Some n \<Rightarrow>
        (case context of
           None \<Rightarrow> do {
             (n', w) \<leftarrow> sizeof_tcti_uefi_context H LibLocateProtocol w;
             if n' = 0 then Some (TSS2_TCTI_RC_GENERAL_FAILURE H, context, Some n', w)
             else Some (TSS2_RC_SUCCESS H, context, Some n', w) }
         | Some c \<Rightarrow> do {
             let c = c\<lparr>common := (common c)\<lparr>magic := TCTI_UEFI_MAGIC,
                                            version := TCTI_UEFI_VERSION\<rparr>\<rparr>;
             tcti_uefi \<leftarrow> tcti_uefi_context_cast (Some c);
             let tcti_uefi = tcti_uefi\<lparr>common := (common tcti_uefi)\<lparr>
                 fn_transmit := FN_tcti_uefi_transmit,
                 fn_receive := FN_tcti_uefi_receive,
                 fn_finalize := FN_tcti_uefi_finalize,
                 fn_cancel := FN_NULL,
                 fn_get_poll_handles := FN_NULL,
                 fn_set_locality := FN_NULL,
                 fn_make_sticky := FN_NULL\<rparr>,
               ctx_state := UEFI_STATE_TRANSMIT,
               ctx_size := n - sizeof_ctx H\<rparr>;
             Some (TSS2_RC_SUCCESS H, Some tcti_uefi, sz, w) }))"

subsection \<open>Well-formed contexts\<close>

text \<open>
  A tagged context is one the cast accepts. A well-formed one is tagged, has the dispatch
  table of this TCTI, and its \<open>ctx_size\<close> is the room there is behind the structure.
\<close>

definition tagged :: "TSS2_TCTI_UEFI_CONTEXT \<Rightarrow> bool" where
  "tagged c \<longleftrightarrow> magic (common c) = TCTI_UEFI_MAGIC \<and> version (common c) = TCTI_UEFI_VERSION"

definition dispatch_ok :: "TSS2_TCTI_CONTEXT_COMMON \<Rightarrow> bool" where
  "dispatch_ok t \<longleftrightarrow>
     fn_transmit t = FN_tcti_uefi_transmit \<and> fn_receive t = FN_tcti_uefi_receive
   \<and> fn_finalize t = FN_tcti_uefi_finalize \<and> fn_cancel t = FN_NULL
   \<and> fn_get_poll_handles t = FN_NULL \<and> fn_set_locality t = FN_NULL
   \<and> fn_make_sticky t = FN_NULL"

definition ctx_wf :: "TSS2_TCTI_UEFI_CONTEXT \<Rightarrow> bool" where
  "ctx_wf c \<longleftrightarrow> tagged c \<and> dispatch_ok (common c) \<and> unat (ctx_size c) = length (cmd_buf c)"

text \<open>LocateProtocol that reports no error gives an interface.\<close>

definition locate_ok :: "headers \<Rightarrow> 'fw locate \<Rightarrow> bool" where
  "locate_ok H LibLocateProtocol \<longleftrightarrow>
     (\<forall>g f status p f'. LibLocateProtocol g f = (status, p, f') \<longrightarrow>
        \<not> EFI_ERROR H status \<longrightarrow> p \<noteq> None)"

lemma cast_Some: "tcti_uefi_context_cast (Some c) = (if tagged c then Some c else None)"
  by (simp add: tcti_uefi_context_cast_def tagged_def)

lemma cast_None [simp]: "tcti_uefi_context_cast None = None"
  by (simp add: tcti_uefi_context_cast_def)

lemma tagged_update [simp]:
  "tagged (c\<lparr>ctx_state := s\<rparr>) = tagged c"
  "tagged (c\<lparr>cmd_buf := b\<rparr>) = tagged c"
  "tagged (c\<lparr>ctx_size := n\<rparr>) = tagged c"
  by (simp_all add: tagged_def)

lemma ctx_wf_state [simp]: "ctx_wf (c\<lparr>ctx_state := s\<rparr>) = ctx_wf c"
  by (simp add: ctx_wf_def)

lemma ctx_wf_tagged: "ctx_wf c \<Longrightarrow> tagged c"
  by (simp add: ctx_wf_def)

text \<open>The size SubmitCommand is told, in 32 bits.\<close>

lemma ctx_wf_size32:
  assumes "ctx_wf c"
  shows "ucast (ctx_size c) = (of_nat (length (cmd_buf c)) :: UINT32)"
proof -
  have "length (cmd_buf c) = unat (ctx_size c)" using assms by (simp add: ctx_wf_def)
  then show ?thesis by simp
qed

subsection \<open>transmit\<close>

lemma transmit_null:
  "context = None \<or> command = None \<Longrightarrow>
   tcti_uefi_transmit H context sz command w = Some (TSS2_TCTI_RC_BAD_REFERENCE H, context, w)"
  by (simp add: tcti_uefi_transmit_def)

lemma transmit_untagged:
  "\<not> tagged c \<Longrightarrow>
   tcti_uefi_transmit H (Some c) sz (Some cmd) w = Some (TSS2_TCTI_RC_BAD_CONTEXT H, Some c,
     Print ''upcast to TSS2_TCTI_UEFI_CONTEXT failed\<newline>'' [] w)"
  by (simp add: tcti_uefi_transmit_def cast_Some)

lemma transmit_tagged:
  assumes "tagged c"
  shows "tcti_uefi_transmit H (Some c) sz (Some cmd) w =
     (if ctx_state c \<noteq> UEFI_STATE_TRANSMIT then Some (TSS2_TCTI_RC_BAD_SEQUENCE H, Some c, w)
      else if unat (ctx_size c) < unat sz \<or> unat sz \<le> 10 then
        Some (TSS2_TCTI_RC_BAD_VALUE H, Some c, w)
      else map_option (\<lambda>buf. (TSS2_RC_SUCCESS H,
          Some (c\<lparr>cmd_buf := buf, ctx_state := UEFI_STATE_RECEIVE\<rparr>), w))
        (CopyMem (cmd_buf c) cmd (unat sz)))"
  using assms
  by (simp add: tcti_uefi_transmit_def cast_Some TPM2_HEADER_SIZE_def word_less_nat_alt
      word_le_nat_alt map_conv_bind_option comp_def)

lemma transmit_accepts:
  assumes "ctx_wf c" "ctx_state c = UEFI_STATE_TRANSMIT"
    and "10 < unat sz" "unat sz \<le> length (cmd_buf c)" "unat sz \<le> length cmd"
  shows "tcti_uefi_transmit H (Some c) sz (Some cmd) w =
     Some (TSS2_RC_SUCCESS H, Some (c\<lparr>cmd_buf := take (unat sz) cmd @ drop (unat sz) (cmd_buf c),
       ctx_state := UEFI_STATE_RECEIVE\<rparr>), w)"
  using assms by (simp add: transmit_tagged ctx_wf_def CopyMem_def)

lemma ctx_wf_copied:
  assumes "ctx_wf c" "n \<le> length (cmd_buf c)" "n \<le> length cmd"
  shows "ctx_wf (c\<lparr>cmd_buf := take n cmd @ drop n (cmd_buf c), ctx_state := s\<rparr>)"
  using assms by (simp add: ctx_wf_def)

subsection \<open>receive\<close>

lemma receive_null:
  "context = None \<or> sz = None \<Longrightarrow>
   tcti_uefi_receive H L context sz response timeout w =
     Some (TSS2_TCTI_RC_BAD_REFERENCE H, context, sz, response, w)"
  by (simp add: tcti_uefi_receive_def)

lemma receive_timeout:
  "timeout \<noteq> TSS2_TCTI_TIMEOUT_BLOCK H \<Longrightarrow>
   tcti_uefi_receive H L (Some c) (Some n) response timeout w =
     Some (TSS2_TCTI_RC_NOT_IMPLEMENTED H, Some c, Some n, response, w)"
  by (simp add: tcti_uefi_receive_def)

lemma receive_untagged:
  "\<not> tagged c \<Longrightarrow>
   tcti_uefi_receive H L (Some c) (Some n) response (TSS2_TCTI_TIMEOUT_BLOCK H) w =
     Some (TSS2_TCTI_RC_BAD_CONTEXT H, Some c, Some n, response, w)"
  by (simp add: tcti_uefi_receive_def cast_Some)

lemma receive_out_of_order:
  "tagged c \<Longrightarrow> ctx_state c \<noteq> UEFI_STATE_RECEIVE \<Longrightarrow>
   tcti_uefi_receive H L (Some c) (Some n) response (TSS2_TCTI_TIMEOUT_BLOCK H) w =
     Some (TSS2_TCTI_RC_BAD_SEQUENCE H, Some c, Some n, response, w)"
  by (simp add: tcti_uefi_receive_def cast_Some)

lemma receive_query:
  "tagged c \<Longrightarrow> ctx_state c = UEFI_STATE_RECEIVE \<Longrightarrow>
   tcti_uefi_receive H L (Some c) (Some n) None (TSS2_TCTI_TIMEOUT_BLOCK H) w =
     Some (TSS2_RC_SUCCESS H, Some c, Some (ctx_size c), None, w)"
  by (simp add: tcti_uefi_receive_def cast_Some)

lemma receive_no_protocol:
  assumes "tagged c" "ctx_state c = UEFI_STATE_RECEIVE"
    and "L EFI_TCG2_PROTOCOL_GUID (firmware w) = (status, p, f)" "EFI_ERROR H status"
  shows "tcti_uefi_receive H L (Some c) (Some n) (Some buf) (TSS2_TCTI_TIMEOUT_BLOCK H) w =
     Some (TSS2_TCTI_RC_GENERAL_FAILURE H, Some c, Some n, Some buf, w\<lparr>firmware := f\<rparr>)"
  using assms
  by (simp add: tcti_uefi_receive_def cast_Some tcg2_get_protocol_def)

text \<open>The branch that reaches the firmware.\<close>

lemma receive_submits:
  assumes "tagged c" "ctx_state c = UEFI_STATE_RECEIVE"
    and "L EFI_TCG2_PROTOCOL_GUID (firmware w) = (st, Some p, f)" "\<not> EFI_ERROR H st"
    and "SubmitCommand p (ucast (ctx_size c)) (cmd_buf c) (ucast n) buf f = (status, buf', f')"
  shows "tcti_uefi_receive H L (Some c) (Some n) (Some buf) (TSS2_TCTI_TIMEOUT_BLOCK H) w =
     (let w' = report_status H ''Tcg2 SubmitCommand failed: 0x%x\<newline>'' status (w\<lparr>firmware := f'\<rparr>) in
      if status = EFI_SUCCESS H then
        Some (TSS2_RC_SUCCESS H, Some (c\<lparr>ctx_state := UEFI_STATE_TRANSMIT\<rparr>), Some n, Some buf', w')
      else
        Some (fst (receive_error H status), Some c, Some n, Some buf',
          Print (snd (receive_error H status)) [] w'))"
proof -
  have call: "tcg2_submit_command H (Some p) (ucast (ctx_size c)) (cmd_buf c) (ucast n) buf
      (w\<lparr>firmware := f\<rparr>) = Some (status, buf',
        report_status H ''Tcg2 SubmitCommand failed: 0x%x\<newline>'' status (w\<lparr>firmware := f'\<rparr>))"
    using submit_wrapper.lifts [of p "ucast (ctx_size c)" "cmd_buf c" "ucast n" buf
        "w\<lparr>firmware := f\<rparr>" status buf' f' H] assms(5)
    by simp
  show ?thesis
    using assms(1-4)
    by (simp add: tcti_uefi_receive_def cast_Some tcg2_get_protocol_def call)
qed

lemma receive_error_codes:
  assumes "efi_codes_ok H"
  shows "receive_error H (EFI_INVALID_PARAMETER H) =
      (TSS2_TCTI_RC_BAD_VALUE H, ''EFI_INVALID_PARAMTER\<newline>'')"
    and "receive_error H (EFI_BUFFER_TOO_SMALL H) =
      (TSS2_TCTI_RC_INSUFFICIENT_BUFFER H, ''EFI_BUFFER_TOO_SMALL\<newline>'')"
    and "receive_error H (EFI_DEVICE_ERROR H) =
      (TSS2_TCTI_RC_IO_ERROR H, ''EFI_DEVICE_ERROR\<newline>'')"
    and "receive_error H (EFI_ACCESS_DENIED H) =
      (TSS2_TCTI_RC_GENERAL_FAILURE H, ''EFI_ACCESS_DENIED\<newline>'')"
  using assms by (auto simp: receive_error_def efi_codes_ok_def)

lemma receive_error_not_success:
  "tcti_codes_ok H \<Longrightarrow> fst (receive_error H status) \<noteq> TSS2_RC_SUCCESS H"
  by (auto simp: receive_error_def tcti_codes_ok_def)

text \<open>What one call of receive can do to a tagged context: answer, or leave it alone.\<close>

lemma receive_effect:
  assumes "tcti_codes_ok H" "locate_ok H L" "tagged c"
  obtains
    (answered) buf buf' w' where
      "tcti_uefi_receive H L (Some c) sz response timeout w =
         Some (TSS2_RC_SUCCESS H, Some (c\<lparr>ctx_state := UEFI_STATE_TRANSMIT\<rparr>), sz, Some buf', w')"
      "response = Some buf" "ctx_state c = UEFI_STATE_RECEIVE"
  | (same) rc sz' response' w' where
      "tcti_uefi_receive H L (Some c) sz response timeout w = Some (rc, Some c, sz', response', w')"
      "rc = TSS2_RC_SUCCESS H \<longrightarrow> response = None" "rc \<noteq> TSS2_RC_SUCCESS H \<longrightarrow> sz' = sz"
proof (cases "sz = None \<or> timeout \<noteq> TSS2_TCTI_TIMEOUT_BLOCK H \<or> ctx_state c \<noteq> UEFI_STATE_RECEIVE
    \<or> response = None")
  case True
  have "\<exists>rc sz'. tcti_uefi_receive H L (Some c) sz response timeout w = Some (rc, Some c, sz', response, w)
      \<and> (rc = TSS2_RC_SUCCESS H \<longrightarrow> response = None) \<and> (rc \<noteq> TSS2_RC_SUCCESS H \<longrightarrow> sz' = sz)"
    using True assms(1,3) by (auto simp: tcti_uefi_receive_def cast_Some tcti_codes_ok_def)
  with same show ?thesis by blast
next
  case False
  then obtain n buf where n: "sz = Some n" "response = Some buf"
    "timeout = TSS2_TCTI_TIMEOUT_BLOCK H" "ctx_state c = UEFI_STATE_RECEIVE"
    by auto
  obtain st q f where L: "L EFI_TCG2_PROTOCOL_GUID (firmware w) = (st, q, f)"
    by (cases "L EFI_TCG2_PROTOCOL_GUID (firmware w)")
  show ?thesis
  proof (cases "EFI_ERROR H st")
    case True
    have "TSS2_TCTI_RC_GENERAL_FAILURE H \<noteq> TSS2_RC_SUCCESS H"
      using assms(1) by (auto simp: tcti_codes_ok_def)
    with receive_no_protocol [where L = L, OF assms(3) n(4) L True] show ?thesis
      unfolding n by (intro same [unfolded n]) auto
  next
    case ok: False
    with assms(2) L obtain p where p: "q = Some p"
      unfolding locate_ok_def by blast
    obtain status buf' f' where sub:
      "SubmitCommand p (ucast (ctx_size c)) (cmd_buf c) (ucast n) buf f = (status, buf', f')"
      by (cases "SubmitCommand p (ucast (ctx_size c)) (cmd_buf c) (ucast n) buf f")
    note call = receive_submits [where L = L, OF assms(3) n(4) L [unfolded p] ok sub]
    show ?thesis
    proof (cases "status = EFI_SUCCESS H")
      case True
      with call n show ?thesis
        by (intro answered) (auto simp: Let_def)
    next
      case False
      with call n receive_error_not_success [OF assms(1), of status] show ?thesis
        by (intro same) (auto simp: Let_def)
    qed
  qed
qed

subsection \<open>finalize\<close>

lemma finalize_Some:
  "tcti_uefi_finalize (Some c) w =
     (Some (if tagged c then c\<lparr>ctx_state := UEFI_STATE_FINAL\<rparr> else c), w)"
  by (simp add: tcti_uefi_finalize_def cast_Some)

subsection \<open>Initialisation\<close>

text \<open>
  Initialising a block: the result depends on the block's length only, never on what the
  header held.
\<close>

definition fresh_ctx :: "headers \<Rightarrow> size_t \<Rightarrow> UINT8 list \<Rightarrow> TSS2_TCTI_UEFI_CONTEXT" where
  "fresh_ctx H n buf = \<lparr>
     common = \<lparr>magic = TCTI_UEFI_MAGIC, version = TCTI_UEFI_VERSION,
       fn_transmit = FN_tcti_uefi_transmit, fn_receive = FN_tcti_uefi_receive,
       fn_finalize = FN_tcti_uefi_finalize, fn_cancel = FN_NULL,
       fn_get_poll_handles = FN_NULL, fn_set_locality = FN_NULL, fn_make_sticky = FN_NULL\<rparr>,
     ctx_state = UEFI_STATE_TRANSMIT,
     ctx_size = n - sizeof_ctx H,
     cmd_buf = buf\<rparr>"

lemma init_context:
  "Tss2_Tcti_Uefi_Init H L (Some c) (Some n) conf w =
     Some (TSS2_RC_SUCCESS H, Some (fresh_ctx H n (cmd_buf c)), Some n, w)"
  by (simp add: Tss2_Tcti_Uefi_Init_def tcti_uefi_context_cast_def fresh_ctx_def Let_def)

lemma fresh_ctx_tagged: "tagged (fresh_ctx H n buf)"
  by (simp add: tagged_def fresh_ctx_def)

lemma fresh_ctx_wf:
  assumes "unat n = unat (sizeof_ctx H) + length buf"
  shows "ctx_wf (fresh_ctx H n buf)"
proof -
  have "unat (n - sizeof_ctx H) = length buf"
    using assms by (simp add: unat_sub word_le_nat_alt)
  then show ?thesis
    by (simp add: ctx_wf_def fresh_ctx_tagged dispatch_ok_def) (simp add: fresh_ctx_def)
qed

lemma fresh_ctx_state [simp]:
  "ctx_state (fresh_ctx H n buf) = UEFI_STATE_TRANSMIT" "cmd_buf (fresh_ctx H n buf) = buf"
  "ctx_size (fresh_ctx H n buf) = n - sizeof_ctx H"
  by (simp_all add: fresh_ctx_def)

lemma sizeof_query:
  assumes L: "L EFI_TCG2_PROTOCOL_GUID (firmware w) = (st, Some p, f)" "\<not> EFI_ERROR H st"
    and G: "GetCapability p (caps_init 36) f = (status, caps, f')" "\<not> EFI_ERROR H status"
  shows "sizeof_tcti_uefi_context H L w =
     (let m = max (MaxCommandSize caps) (MaxResponseSize caps) in
      Some (if m = 0 then 0 else ucast m + sizeof_ctx H, w\<lparr>firmware := f'\<rparr>))"
proof -
  have "tcg2_get_max_buf H (Some p) (w\<lparr>firmware := f\<rparr>) =
      Some (max (MaxCommandSize caps) (MaxResponseSize caps), w\<lparr>firmware := f'\<rparr>)"
    using G by (subst get_max_buf_cases) simp
  then show ?thesis
    by (simp add: sizeof_tcti_uefi_context_def tcg2_get_protocol_def L Let_def)
qed

lemma sizeof_no_protocol:
  assumes L: "L EFI_TCG2_PROTOCOL_GUID (firmware w) = (st, q, f)" "EFI_ERROR H st"
  shows "sizeof_tcti_uefi_context H L w = Some (0, w\<lparr>firmware := f\<rparr>)"
  by (simp add: sizeof_tcti_uefi_context_def tcg2_get_protocol_def L)

lemma init_query:
  "Tss2_Tcti_Uefi_Init H L None (Some n) conf w =
     map_option (\<lambda>(n', w). (if n' = 0 then TSS2_TCTI_RC_GENERAL_FAILURE H else TSS2_RC_SUCCESS H,
       None, Some n', w)) (sizeof_tcti_uefi_context H L w)"
  by (cases "sizeof_tcti_uefi_context H L w") (auto simp: Tss2_Tcti_Uefi_Init_def)

lemma sizeof_ctx_std: "sizeof_ctx std_headers = 88"
  by (simp add: sizeof_ctx_def std_headers_def struct_size_def align_up_def)

end
