(* ===== verification/Machines.thy ===== *)
theory Machines
  imports Prelude
begin

section \<open>Machines driven by calls, and specifications over events\<close>

text \<open>
  A component whose operations are called in any order is a step function from a call and
  a state to an event and the next state, None where the call's behaviour is undefined.
  Its specification is a relation on abstract states labelled by the same events. The
  locale states the simulation law once; its lemma lifts the law from calls to runs.
\<close>

primrec run_calls ::
  "('call \<Rightarrow> 's \<Rightarrow> ('e \<times> 's) option) \<Rightarrow> 'call list \<Rightarrow> 's \<Rightarrow> ('e list \<times> 's) option" where
  "run_calls step [] s = Some ([], s)"
| "run_calls step (c # cs) s = do {
     (e, s') \<leftarrow> step c s;
     (es, s'') \<leftarrow> run_calls step cs s';
     Some (e # es, s'') }"

inductive spec_run :: "('a \<Rightarrow> 'e \<Rightarrow> 'a \<Rightarrow> bool) \<Rightarrow> 'a \<Rightarrow> 'e list \<Rightarrow> 'a \<Rightarrow> bool"
  for spec where
  spec_run_Nil: "spec_run spec a [] a"
| spec_run_Cons: "spec a e a' \<Longrightarrow> spec_run spec a' es a'' \<Longrightarrow> spec_run spec a (e # es) a''"

inductive_cases spec_run_NilE: "spec_run spec a [] a'"
inductive_cases spec_run_ConsE: "spec_run spec a (e # es) a''"
inductive_simps spec_run_Nil_iff [simp]: "spec_run spec a [] a'"
inductive_simps spec_run_Cons_iff: "spec_run spec a (e # es) a''"

lemma run_calls_append:
  "run_calls step (cs @ ds) s = do {
     (es, s') \<leftarrow> run_calls step cs s;
     (fs, s'') \<leftarrow> run_calls step ds s';
     Some (es @ fs, s'') }"
  by (induction cs arbitrary: s) (auto split: bind_splits)

lemma run_calls_length: "run_calls step cs s = Some (es, s') \<Longrightarrow> length es = length cs"
  by (induction cs arbitrary: s es) (auto split: bind_splits)

lemma spec_run_append:
  "spec_run spec a (es @ fs) a'' \<longleftrightarrow> (\<exists>a'. spec_run spec a es a' \<and> spec_run spec a' fs a'')"
  by (induction es arbitrary: a) (auto simp: spec_run_Cons_iff)

locale simulated_machine =
  fixes step :: "'call \<Rightarrow> 's \<Rightarrow> ('e \<times> 's) option"
    and admissible :: "'call \<Rightarrow> bool"
    and spec :: "'a \<Rightarrow> 'e \<Rightarrow> 'a \<Rightarrow> bool"
    and sim :: "'s \<Rightarrow> 'a \<Rightarrow> bool"
  assumes simulates: "sim s a \<Longrightarrow> admissible c \<Longrightarrow>
      \<exists>e s' a'. step c s = Some (e, s') \<and> spec a e a' \<and> sim s' a'"
begin

lemma run_simulates:
  "sim s a \<Longrightarrow> list_all admissible cs \<Longrightarrow>
     \<exists>es s' a'. run_calls step cs s = Some (es, s') \<and> spec_run spec a es a' \<and> sim s' a'"
proof (induction cs arbitrary: s a)
  case Nil
  then show ?case by auto
next
  case (Cons c cs)
  from Cons.prems have c: "admissible c" and cs: "list_all admissible cs" by simp_all
  from simulates [OF Cons.prems(1) c] obtain e s' a'
    where 1: "step c s = Some (e, s')" "spec a e a'" "sim s' a'" by auto
  from Cons.IH [OF 1(3) cs] obtain es s'' a'' where
    "run_calls step cs s' = Some (es, s'')" "spec_run spec a' es a''" "sim s'' a''" by auto
  with 1 show ?case
    by (auto intro: spec_run_Cons)
qed

lemma run_defined:
  assumes "sim s a" "list_all admissible cs" "run_calls step cs s = Some (es, s')"
  shows "\<exists>a'. spec_run spec a es a' \<and> sim s' a'"
  using run_simulates [OF assms(1,2)] assms(3) by auto

end

text \<open>
  A machine that waits for an answer: an attempt either answers or brings the answer nearer,
  any other admissible call changes nothing that matters. The locale's lemma turns this into
  an answer within a bounded number of attempts, whatever else is called in between.
\<close>

locale retried_machine =
  fixes step :: "'call \<Rightarrow> 's \<Rightarrow> ('e \<times> 's) option"
    and admissible :: "'call \<Rightarrow> bool"
    and attempt :: "'call \<Rightarrow> bool"
    and waiting :: "'s \<Rightarrow> bool"
    and rank :: "'s \<Rightarrow> nat"
    and silent :: 'e
    and answered :: "'s \<Rightarrow> 'e \<times> 's \<Rightarrow> bool"
    and kept :: "'s \<Rightarrow> 's \<Rightarrow> bool"
  assumes progress: "waiting s \<Longrightarrow> admissible c \<Longrightarrow>
      (\<exists>r. step c s = Some r \<and> answered s r)
    \<or> (\<exists>s'. step c s = Some (silent, s') \<and> waiting s' \<and> kept s s' \<and> rank s' \<le> rank s
          \<and> (attempt c \<longrightarrow> rank s' < rank s))"
    and kept_refl: "kept s s"
    and kept_trans: "kept s s' \<Longrightarrow> kept s' s'' \<Longrightarrow> kept s s''"
begin

lemma answered_in_the_end:
  "waiting s \<Longrightarrow> list_all admissible cs \<Longrightarrow> rank s < length (filter attempt cs) \<Longrightarrow>
     \<exists>i s' e s''. i < length cs \<and> run_calls step (take (Suc i) cs) s = Some (replicate i silent @ [e], s'')
       \<and> kept s s' \<and> answered s' (e, s'')"
proof (induction cs arbitrary: s)
  case Nil
  then show ?case by simp
next
  case (Cons c cs)
  from Cons.prems(2) have c: "admissible c" and cs: "list_all admissible cs" by simp_all
  from progress [OF Cons.prems(1) c] show ?case
  proof (elim disjE exE conjE)
    fix r assume "step c s = Some r" "answered s r"
    then show ?thesis
      using kept_refl [of s]
      by (intro exI [of _ 0] exI [of _ s] exI [of _ "fst r"] exI [of _ "snd r"]) (cases r, simp)
  next
    fix s1
    assume s1: "step c s = Some (silent, s1)" "waiting s1" "kept s s1" "rank s1 \<le> rank s"
      "attempt c \<longrightarrow> rank s1 < rank s"
    with Cons.prems(3) have "rank s1 < length (filter attempt cs)"
      by (cases "attempt c") auto
    from Cons.IH [OF s1(2) cs this] obtain i s' e s'' where
      "i < length cs" "run_calls step (take (Suc i) cs) s1 = Some (replicate i silent @ [e], s'')"
      "kept s1 s'" "answered s' (e, s'')" by blast
    with s1(1) kept_trans [OF s1(3)] show ?thesis
      by (intro exI [of _ "Suc i"] exI [of _ s'] exI [of _ e] exI [of _ s'']) simp
  qed
qed

end

subsection \<open>Several machines that share a world\<close>

text \<open>
  A store of cells, one of them changed at a time; and machines whose local states are the
  cells, which share the rest of the state. A call names the cell it is for, and so does
  the event it gives.
\<close>

locale cells =
  fixes look :: "'p \<Rightarrow> 'i \<Rightarrow> 'l option"
    and put :: "'i \<Rightarrow> 'l \<Rightarrow> 'p \<Rightarrow> 'p"
  assumes look_put: "look p i \<noteq> None \<Longrightarrow> look (put i l p) = (look p)(i := Some l)"
begin

lemma put_present: "look p i \<noteq> None \<Longrightarrow> look (put i l p) j \<noteq> None \<longleftrightarrow> look p j \<noteq> None"
  by (auto simp: look_put)

end

definition family_step ::
  "('p \<Rightarrow> 'i \<Rightarrow> 'l option) \<Rightarrow> ('i \<Rightarrow> 'l \<Rightarrow> 'p \<Rightarrow> 'p) \<Rightarrow>
   ('call \<Rightarrow> 'l \<times> 'w \<Rightarrow> ('e \<times> 'l \<times> 'w) option) \<Rightarrow>
   'i \<times> 'call \<Rightarrow> 'p \<times> 'w \<Rightarrow> (('i \<times> 'e) \<times> 'p \<times> 'w) option" where
  "family_step look put step ic s = do {
     l \<leftarrow> look (fst s) (fst ic);
     (e, l', w') \<leftarrow> step (snd ic) (l, snd s);
     Some ((fst ic, e), put (fst ic) l' (fst s), w') }"

definition family_spec ::
  "('i \<Rightarrow> 'a \<Rightarrow> 'e \<Rightarrow> 'a \<Rightarrow> bool) \<Rightarrow> ('i \<Rightarrow> 'a) \<Rightarrow> 'i \<times> 'e \<Rightarrow> ('i \<Rightarrow> 'a) \<Rightarrow> bool" where
  "family_spec spec as ie as' \<longleftrightarrow> (\<exists>a. spec (fst ie) (as (fst ie)) (snd ie) a \<and> as' = as(fst ie := a))"

definition project :: "'i \<Rightarrow> ('i \<times> 'e) list \<Rightarrow> 'e list" where
  "project i es = map snd (filter (\<lambda>ie. fst ie = i) es)"

lemma project_simps [simp]:
  "project i [] = []"
  "project i ((j, e) # es) = (if j = i then e # project i es else project i es)"
  by (simp_all add: project_def)

text \<open>A run of the family is a run of each member.\<close>

lemma spec_run_project:
  "spec_run (family_spec spec) as es as' \<Longrightarrow> spec_run (spec i) (as i) (project i es) (as' i)"
proof (induction rule: spec_run.induct)
  case (spec_run_Cons as ie as' es as'')
  then show ?case
    by (cases ie) (auto simp: family_spec_def intro: spec_run.spec_run_Cons split: if_splits)
qed simp

locale machine_family = cells look put
  for look :: "'p \<Rightarrow> 'i \<Rightarrow> 'l option" and put :: "'i \<Rightarrow> 'l \<Rightarrow> 'p \<Rightarrow> 'p" +
  fixes step :: "'call \<Rightarrow> 'l \<times> 'w \<Rightarrow> ('e \<times> 'l \<times> 'w) option"
    and admissible :: "'call \<Rightarrow> bool"
    and spec :: "'i \<Rightarrow> 'a \<Rightarrow> 'e \<Rightarrow> 'a \<Rightarrow> bool"
    and sim :: "'i \<Rightarrow> 'l \<Rightarrow> 'a \<Rightarrow> bool"
    and members :: "'i set"
  assumes member_simulates: "sim i l a \<Longrightarrow> admissible c \<Longrightarrow>
      \<exists>e l' w' a'. step c (l, w) = Some (e, l', w') \<and> spec i a e a' \<and> sim i l' a'"
begin

definition family_sim :: "'p \<times> 'w \<Rightarrow> ('i \<Rightarrow> 'a) \<Rightarrow> bool" where
  "family_sim s as \<longleftrightarrow> (\<forall>i \<in> members. \<exists>l. look (fst s) i = Some l \<and> sim i l (as i))"

lemma family_simulates:
  assumes "family_sim s as" "fst ic \<in> members" "admissible (snd ic)"
  shows "\<exists>ie s' as'. family_step look put step ic s = Some (ie, s') \<and> family_spec spec as ie as' \<and> family_sim s' as'"
proof -
  obtain i c where ic: "ic = (i, c)" by (cases ic)
  obtain p w where s: "s = (p, w)" by (cases s)
  from assms(1,2) obtain l where l: "look p i = Some l" "sim i l (as i)"
    by (auto simp: family_sim_def ic s)
  from member_simulates [OF l(2), of c w] assms(3) obtain e l' w' a' where
    "step c (l, w) = Some (e, l', w')" "spec i (as i) e a'" "sim i l' a'" by (auto simp: ic)
  moreover have "look (put i l' p) = (look p)(i := Some l')"
    using l(1) by (intro look_put) simp
  ultimately show ?thesis
    using assms(1) l(1)
    by (intro exI [of _ "(i, e)"] exI [of _ "(put i l' p, w')"] exI [of _ "as(i := a')"])
      (auto simp: family_step_def family_spec_def family_sim_def ic s)
qed

end

sublocale machine_family \<subseteq> family: simulated_machine
  "family_step look put step" "\<lambda>ic. fst ic \<in> members \<and> admissible (snd ic)" "family_spec spec" family_sim
  by unfold_locales (use family_simulates in blast)

end
