(* ===== verification/Tcti_Machine.thy ===== *)
theory Tcti_Machine
  imports Tcti_Uefi Machines Demo_Firmware
begin

section \<open>The TCTI as a state machine\<close>

text \<open>
  Any sequence of calls on one context, against the protocol the TCTI promises: commands
  and responses alternate, the block submitted for a response begins with the command
  that was transmitted last, and a finalized context does nothing any more.
\<close>

subsection \<open>Calls and events\<close>

datatype tcti_call =
    Call_transmit size_t "UINT8 list option"
  | Call_receive "size_t option" "UINT8 list option" "32 word"
  | Call_finalize

text \<open>
  What a call amounts to: a command accepted, a block submitted and answered, the context
  closed, or nothing (an error, or a query of the response size).
\<close>

datatype tcti_event =
    Sent "UINT8 list"
  | Answered "UINT8 list"
  | Closed
  | Nothing

fun tcti_step ::
  "headers \<Rightarrow> 'fw locate \<Rightarrow> tcti_call \<Rightarrow> TSS2_TCTI_UEFI_CONTEXT \<times> 'fw world \<Rightarrow>
   (tcti_event \<times> TSS2_TCTI_UEFI_CONTEXT \<times> 'fw world) option" where
  "tcti_step H L (Call_transmit sz command) (c, w) = do {
     (rc, context, w') \<leftarrow> tcti_uefi_transmit H (Some c) sz command w;
     c' \<leftarrow> context;
     Some (if rc = TSS2_RC_SUCCESS H then Sent (take (unat sz) (the command)) else Nothing,
       c', w') }"
| "tcti_step H L (Call_receive sz response timeout) (c, w) = do {
     (rc, context, sz', response', w') \<leftarrow> tcti_uefi_receive H L (Some c) sz response timeout w;
     c' \<leftarrow> context;
     Some (if rc = TSS2_RC_SUCCESS H \<and> response \<noteq> None then Answered (cmd_buf c) else Nothing,
       c', w') }"
| "tcti_step H L Call_finalize (c, w) = (case tcti_uefi_finalize (Some c) w of
     (Some c', w') \<Rightarrow> Some (Closed, c', w') | _ \<Rightarrow> None)"

text \<open>A transmit call must come with a buffer that holds as many bytes as it says.\<close>

fun buffer_ok :: "tcti_call \<Rightarrow> bool" where
  "buffer_ok (Call_transmit sz (Some cmd)) \<longleftrightarrow> unat sz \<le> length cmd"
| "buffer_ok _ \<longleftrightarrow> True"

subsection \<open>The protocol\<close>

datatype tcti_phase = Idle | Pending "UINT8 list" | Finalized

inductive tcti_spec :: "nat \<Rightarrow> tcti_phase \<Rightarrow> tcti_event \<Rightarrow> tcti_phase \<Rightarrow> bool"
  for cap where
  send: "10 < length cmd \<Longrightarrow> length cmd \<le> cap \<Longrightarrow> tcti_spec cap Idle (Sent cmd) (Pending cmd)"
| answer: "length block = cap \<Longrightarrow> take (length cmd) block = cmd \<Longrightarrow>
     tcti_spec cap (Pending cmd) (Answered block) Idle"
| close: "tcti_spec cap ph Closed Finalized"
| nothing: "tcti_spec cap ph Nothing ph"

inductive_simps tcti_spec_Sent: "tcti_spec cap ph (Sent cmd) ph'"
inductive_simps tcti_spec_Answered: "tcti_spec cap ph (Answered block) ph'"
inductive_simps tcti_spec_Closed: "tcti_spec cap ph Closed ph'"
inductive_simps tcti_spec_Nothing: "tcti_spec cap ph Nothing ph'"
inductive_cases tcti_spec_FinalizedE: "tcti_spec cap Finalized e ph"

lemmas tcti_spec_simps = tcti_spec_Sent tcti_spec_Answered tcti_spec_Closed tcti_spec_Nothing

definition tcti_sim ::
  "nat \<Rightarrow> TSS2_TCTI_UEFI_CONTEXT \<times> 'fw world \<Rightarrow> tcti_phase \<Rightarrow> bool" where
  "tcti_sim cap s ph \<longleftrightarrow>
     ctx_wf (fst s) \<and> length (cmd_buf (fst s)) = cap
   \<and> (case ph of
        Idle \<Rightarrow> ctx_state (fst s) = UEFI_STATE_TRANSMIT
      | Pending cmd \<Rightarrow> ctx_state (fst s) = UEFI_STATE_RECEIVE
          \<and> take (length cmd) (cmd_buf (fst s)) = cmd
      | Finalized \<Rightarrow> ctx_state (fst s) = UEFI_STATE_FINAL)"

subsection \<open>Each call keeps to the protocol\<close>

definition matched ::
  "headers \<Rightarrow> 'fw locate \<Rightarrow> nat \<Rightarrow> tcti_call \<Rightarrow> TSS2_TCTI_UEFI_CONTEXT \<times> 'fw world \<Rightarrow> tcti_phase \<Rightarrow> bool"
where
  "matched H L cap call s ph \<longleftrightarrow>
     (\<exists>e s' ph'. tcti_step H L call s = Some (e, s') \<and> tcti_spec cap ph e ph' \<and> tcti_sim cap s' ph')"

lemma matchedI:
  "tcti_step H L call s = Some (e, s') \<Longrightarrow> tcti_spec cap ph e ph' \<Longrightarrow> tcti_sim cap s' ph' \<Longrightarrow>
     matched H L cap call s ph"
  unfolding matched_def by blast

lemma tcti_sim_world: "tcti_sim cap (c, w) ph \<Longrightarrow> tcti_sim cap (c, w') ph"
  by (cases ph) (simp_all add: tcti_sim_def)

lemma matched_nothing:
  "tcti_step H L call (c, w) = Some (Nothing, c, w') \<Longrightarrow> tcti_sim cap (c, w) ph \<Longrightarrow>
     matched H L cap call (c, w) ph"
  by (rule matchedI [OF _ tcti_spec.nothing]) (assumption, erule tcti_sim_world)

lemma step_transmit:
  assumes codes: "tcti_codes_ok H" and sim: "tcti_sim cap (c, w) ph"
    and buf: "buffer_ok (Call_transmit sz command)"
  shows "matched H L cap (Call_transmit sz command) (c, w) ph"
proof -
  from sim have wf: "ctx_wf c" and cap: "length (cmd_buf c) = cap"
    by (auto simp: tcti_sim_def)
  show ?thesis
  proof (cases command)
    case None
    have "TSS2_TCTI_RC_BAD_REFERENCE H \<noteq> TSS2_RC_SUCCESS H"
      using codes by (auto simp: tcti_codes_ok_def)
    then show ?thesis
      by (intro matched_nothing [OF _ sim]) (simp add: None transmit_null)
  next
    case (Some cmd)
    show ?thesis
    proof (cases "ctx_state c = UEFI_STATE_TRANSMIT \<and> 10 < unat sz \<and> unat sz \<le> cap")
      case True
      with sim have ph: "ph = Idle"
        by (cases ph) (auto simp: tcti_sim_def)
      from buf Some have len: "unat sz \<le> length cmd" by simp
      let ?c = "c\<lparr>cmd_buf := take (unat sz) cmd @ drop (unat sz) (cmd_buf c),
            ctx_state := UEFI_STATE_RECEIVE\<rparr>"
      have "tcti_uefi_transmit H (Some c) sz (Some cmd) w = Some (TSS2_RC_SUCCESS H, Some ?c, w)"
        using True wf cap len by (intro transmit_accepts) auto
      then have step: "tcti_step H L (Call_transmit sz command) (c, w) =
          Some (Sent (take (unat sz) cmd), ?c, w)"
        by (simp add: Some)
      show ?thesis
      proof (rule matchedI [OF step])
        show "tcti_spec cap ph (Sent (take (unat sz) cmd)) (Pending (take (unat sz) cmd))"
          unfolding ph using True len by (intro tcti_spec.send) auto
        show "tcti_sim cap (?c, w) (Pending (take (unat sz) cmd))"
          using True cap len ctx_wf_copied [OF wf] by (simp add: tcti_sim_def)
      qed
    next
      case False
      have "\<exists>rc. tcti_uefi_transmit H (Some c) sz (Some cmd) w = Some (rc, Some c, w)
          \<and> rc \<noteq> TSS2_RC_SUCCESS H"
        using False wf cap codes by (auto simp: transmit_tagged ctx_wf_def tcti_codes_ok_def)
      then show ?thesis
        by (intro matched_nothing [OF _ sim]) (auto simp: Some)
    qed
  qed
qed

lemma step_receive:
  assumes codes: "tcti_codes_ok H" and L: "locate_ok H L" and sim: "tcti_sim cap (c, w) ph"
  shows "matched H L cap (Call_receive sz response timeout) (c, w) ph"
proof -
  from sim have wf: "ctx_wf c" and cap: "length (cmd_buf c) = cap"
    by (auto simp: tcti_sim_def)
  show ?thesis
  proof (rule receive_effect [OF codes L ctx_wf_tagged [OF wf], of sz response timeout w])
    fix buf buf' w'
    assume call: "tcti_uefi_receive H L (Some c) sz response timeout w =
         Some (TSS2_RC_SUCCESS H, Some (c\<lparr>ctx_state := UEFI_STATE_TRANSMIT\<rparr>), sz, Some buf', w')"
      and "response = Some buf" "ctx_state c = UEFI_STATE_RECEIVE"
    then obtain cmd where ph: "ph = Pending cmd" and pre: "take (length cmd) (cmd_buf c) = cmd"
      using sim by (cases ph) (auto simp: tcti_sim_def)
    have step: "tcti_step H L (Call_receive sz response timeout) (c, w) =
        Some (Answered (cmd_buf c), c\<lparr>ctx_state := UEFI_STATE_TRANSMIT\<rparr>, w')"
      using call \<open>response = Some buf\<close> by simp
    show ?thesis
      by (rule matchedI [OF step, of _ _ Idle])
        (use cap pre wf in \<open>auto simp: ph tcti_sim_def intro: tcti_spec.answer\<close>)
  next
    fix rc sz' response' w'
    assume "tcti_uefi_receive H L (Some c) sz response timeout w = Some (rc, Some c, sz', response', w')"
      and "rc = TSS2_RC_SUCCESS H \<longrightarrow> response = None"
    then show ?thesis
      by (intro matched_nothing [OF _ sim]) auto
  qed
qed

lemma step_finalize:
  assumes sim: "tcti_sim cap (c, w) ph"
  shows "matched H L cap Call_finalize (c, w) ph"
proof -
  from sim have "tagged c" by (simp add: tcti_sim_def ctx_wf_tagged)
  then have step: "tcti_step H L Call_finalize (c, w) =
      Some (Closed, c\<lparr>ctx_state := UEFI_STATE_FINAL\<rparr>, w)"
    by (simp add: finalize_Some)
  show ?thesis
    by (rule matchedI [OF step tcti_spec.close]) (use sim in \<open>simp add: tcti_sim_def\<close>)
qed

lemma step_simulates:
  assumes "tcti_codes_ok H" "locate_ok H L" "tcti_sim cap s ph" "buffer_ok call"
  shows "matched H L cap call s ph"
  using assms by (cases s; cases call) (simp_all add: step_transmit step_receive step_finalize)

text \<open>
  The environment the code relies on is part of the relation that the interpretation
  simulates: the return codes differ, and a located protocol is not NULL.
\<close>

definition tcti_sim_env ::
  "headers \<Rightarrow> 'fw locate \<Rightarrow> nat \<Rightarrow> TSS2_TCTI_UEFI_CONTEXT \<times> 'fw world \<Rightarrow> tcti_phase \<Rightarrow> bool" where
  "tcti_sim_env H L cap s ph \<longleftrightarrow> tcti_codes_ok H \<and> locate_ok H L \<and> tcti_sim cap s ph"

interpretation tcti: simulated_machine
  "tcti_step H L" buffer_ok "tcti_spec cap" "tcti_sim_env H L cap" for H L cap
  by unfold_locales (use step_simulates [unfolded matched_def] in \<open>auto simp: tcti_sim_env_def\<close>)

lemma fresh_sim:
  assumes "unat n = unat (sizeof_ctx H) + length buf"
  shows "tcti_sim (length buf) (fresh_ctx H n buf, w) Idle"
  using fresh_ctx_wf [OF assms] by (simp add: tcti_sim_def)

subsection \<open>What the protocol implies of a trace\<close>

fun sent_cmds :: "tcti_event list \<Rightarrow> UINT8 list list" where
  "sent_cmds [] = []"
| "sent_cmds (Sent cmd # es) = cmd # sent_cmds es"
| "sent_cmds (_ # es) = sent_cmds es"

fun answered_blocks :: "tcti_event list \<Rightarrow> UINT8 list list" where
  "answered_blocks [] = []"
| "answered_blocks (Answered block # es) = block # answered_blocks es"
| "answered_blocks (_ # es) = answered_blocks es"

text \<open>\<open>answers block cmd\<close>: the block begins with the command.\<close>

definition answers :: "UINT8 list \<Rightarrow> UINT8 list \<Rightarrow> bool" where
  "answers block cmd \<longleftrightarrow> take (length cmd) block = cmd"

definition phase_cmds :: "tcti_phase \<Rightarrow> UINT8 list list" where
  "phase_cmds ph = (case ph of Pending cmd \<Rightarrow> [cmd] | _ \<Rightarrow> [])"

lemma spec_run_Finalized:
  "spec_run (tcti_spec cap) Finalized es ph \<Longrightarrow> ph = Finalized \<and> set es \<subseteq> {Closed, Nothing}"
proof (induction es arbitrary: ph)
  case Nil
  then show ?case by simp
next
  case (Cons e es)
  then obtain ph' where "tcti_spec cap Finalized e ph'" "spec_run (tcti_spec cap) ph' es ph"
    by (auto simp: spec_run_Cons_iff)
  with Cons.IH show ?case
    by (auto elim: tcti_spec_FinalizedE)
qed

lemma no_exchange_closed:
  "set es \<subseteq> {Closed, Nothing} \<Longrightarrow> sent_cmds es = [] \<and> answered_blocks es = []"
proof (induction es)
  case (Cons e es)
  then show ?case by (cases e) auto
qed simp

text \<open>
  The answered blocks pair up with the commands in order, starting with the pending one,
  and at most one command is left over.
\<close>

lemma spec_run_pairs:
  "spec_run (tcti_spec cap) ph es ph' \<Longrightarrow>
     (let cmds = phase_cmds ph @ sent_cmds es; blocks = answered_blocks es in
      length blocks \<le> length cmds \<and> length cmds \<le> length blocks + 1
    \<and> list_all2 answers blocks (take (length blocks) cmds))"
proof (induction rule: spec_run.induct)
  case (spec_run_Nil ph)
  then show ?case by (simp add: phase_cmds_def split: tcti_phase.split)
next
  case (spec_run_Cons ph e ph' es ph'')
  show ?case
  proof (cases "e = Closed")
    case True
    with spec_run_Cons.hyps have "spec_run (tcti_spec cap) Finalized es ph''"
      by (simp add: tcti_spec_Closed)
    from no_exchange_closed [OF conjunct2 [OF spec_run_Finalized [OF this]]] True show ?thesis
      by (simp add: phase_cmds_def split: tcti_phase.split)
  next
    case False
    with spec_run_Cons.hyps(1) spec_run_Cons.IH show ?thesis
      by (cases rule: tcti_spec.cases) (auto simp: phase_cmds_def answers_def Let_def)
  qed
qed

subsection \<open>Properties: runs\<close>

lemma init_run:
  assumes "Tss2_Tcti_Uefi_Init H L (Some c0) (Some n) conf w0 = Some (rc, Some c, sz, w)"
    and "unat n = unat (sizeof_ctx H) + length (cmd_buf c0)"
  shows "tcti_sim (length (cmd_buf c0)) (c, w) Idle"
  using assms by (auto simp: init_context fresh_sim)

lemma init_run_simulates:
  assumes "tcti_codes_ok H" "locate_ok H L"
    and "Tss2_Tcti_Uefi_Init H L (Some c0) (Some n) conf w0 = Some (rc, Some c, sz, w)"
    and "unat n = unat (sizeof_ctx H) + length (cmd_buf c0)"
    and "list_all buffer_ok calls"
  shows "\<exists>es s' ph. run_calls (tcti_step H L) calls (c, w) = Some (es, s')
      \<and> spec_run (tcti_spec (length (cmd_buf c0))) Idle es ph
      \<and> tcti_sim (length (cmd_buf c0)) s' ph"
  using tcti.run_simulates [of H L "length (cmd_buf c0)" "(c, w)" Idle calls]
    init_run [OF assms(3,4)] assms(1,2,5)
  by (auto simp: tcti_sim_env_def)

text \<open>
  C1. Any sequence of transmit, receive and finalize calls on a context that Init has set up
  in a block of the size Init is told, whatever the arguments and the firmware do, has
  defined behaviour, keeps the context well formed, and refines the abstract TCTI protocol
  event by event: no write ever leaves the block.
\<close>

theorem tcti_refines_protocol:
  assumes "tcti_codes_ok H" "locate_ok H L"
    and "Tss2_Tcti_Uefi_Init H L (Some c0) (Some n) conf w0 = Some (rc, Some c, sz, w)"
    and "unat n = unat (sizeof_ctx H) + length (cmd_buf c0)"
    and "list_all buffer_ok calls"
  shows "\<exists>es c' w' ph. run_calls (tcti_step H L) calls (c, w) = Some (es, (c', w'))
      \<and> spec_run (tcti_spec (length (cmd_buf c0))) Idle es ph
      \<and> ctx_wf c' \<and> length (cmd_buf c') = length (cmd_buf c0)"
  using init_run_simulates [OF assms] by (fastforce simp: tcti_sim_def)

definition demo_room :: "UINT8 list" where
  "demo_room = [0xFF, 0xFF, 0xFF, 0xFF, 0xFF, 0xFF, 0xFF, 0xFF, 0xFF, 0xFF, 0xFF, 0xFF]"

definition demo_block :: TSS2_TCTI_UEFI_CONTEXT where
  "demo_block = \<lparr>common = \<lparr>magic = 0, version = 7, fn_transmit = FN_other 1, fn_receive = FN_NULL,
      fn_finalize = FN_NULL, fn_cancel = FN_other 2, fn_get_poll_handles = FN_NULL,
      fn_set_locality = FN_NULL, fn_make_sticky = FN_NULL\<rparr>,
    ctx_state = UEFI_STATE_FINAL, ctx_size = 5, cmd_buf = demo_room\<rparr>"

definition demo_ctx :: TSS2_TCTI_UEFI_CONTEXT where
  "demo_ctx = fresh_ctx std_headers 100 demo_room"

lemma demo_init:
  "Tss2_Tcti_Uefi_Init std_headers L (Some demo_block) (Some 100) None w =
     Some (0, Some demo_ctx, Some 100, w)"
  by (simp add: init_context demo_ctx_def demo_block_def)

lemma demo_block_size: "unat (100 :: 64 word) = unat (sizeof_ctx std_headers) + length (cmd_buf demo_block)"
  by (simp add: sizeof_ctx_std demo_block_def demo_room_def)

lemma demo_locate_ok: "locate_ok H (demo_locate st st')"
  by (auto simp: locate_ok_def demo_locate_def)

theorem tcti_refines_protocol_witness:
  "\<exists>es c' w' ph. run_calls (tcti_step std_headers (demo_locate 0 0))
        [Call_transmit 11 (Some [1, 2, 3, 4, 5, 6, 7, 8, 9, 10, 11]), Call_finalize]
        (demo_ctx, demo_world) = Some (es, (c', w'))
      \<and> spec_run (tcti_spec (length (cmd_buf demo_block))) Idle es ph
      \<and> ctx_wf c' \<and> length (cmd_buf c') = length (cmd_buf demo_block)"
  by (rule tcti_refines_protocol [OF std_headers_ok(2) demo_locate_ok demo_init demo_block_size])
    simp

text \<open>
  Commands and responses alternate and correspond: over any run after Init, the blocks
  that were submitted to the firmware and answered are, in order, blocks that begin with
  the first, second, ... command transmitted, and at most one transmitted command is still
  waiting. No command is submitted twice, dropped or answered out of order.
\<close>

theorem tcti_exchanges_correspond:
  assumes "tcti_codes_ok H" "locate_ok H L"
    and "Tss2_Tcti_Uefi_Init H L (Some c0) (Some n) conf w0 = Some (rc, Some c, sz, w)"
    and "unat n = unat (sizeof_ctx H) + length (cmd_buf c0)"
    and "list_all buffer_ok calls"
    and "run_calls (tcti_step H L) calls (c, w) = Some (es, s')"
  shows "length (answered_blocks es) \<le> length (sent_cmds es)
       \<and> length (sent_cmds es) \<le> length (answered_blocks es) + 1
       \<and> list_all2 answers (answered_blocks es) (take (length (answered_blocks es)) (sent_cmds es))"
proof -
  from init_run_simulates [OF assms(1-5)] assms(6) obtain ph where
    "spec_run (tcti_spec (length (cmd_buf c0))) Idle es ph" by auto
  from spec_run_pairs [OF this] show ?thesis
    by (simp add: phase_cmds_def Let_def)
qed

definition demo_calls :: "tcti_call list" where
  "demo_calls =
     [Call_transmit 11 (Some [1, 2, 3, 4, 5, 6, 7, 8, 9, 10, 11]),
      Call_receive (Some 4) (Some [0, 0, 0, 0]) (- 1)]"

lemma demo_calls_run:
  "\<exists>s'. run_calls (tcti_step std_headers (demo_locate 0 0)) demo_calls (demo_ctx, demo_world) =
     Some ([Sent [1, 2, 3, 4, 5, 6, 7, 8, 9, 10, 11],
       Answered [1, 2, 3, 4, 5, 6, 7, 8, 9, 10, 11, 0xFF]], s')"
  by (simp add: demo_calls_def demo_ctx_def fresh_ctx_def demo_room_def demo_simps sizeof_ctx_std
      tcti_uefi_transmit_def tcti_uefi_receive_def tcti_uefi_context_cast_def CopyMem_def
      TPM2_HEADER_SIZE_def tcg2_get_protocol_def tcg2_submit_command_def report_status_def Let_def)

theorem tcti_exchanges_correspond_witness:
  "\<exists>es s'. run_calls (tcti_step std_headers (demo_locate 0 0)) demo_calls (demo_ctx, demo_world)
      = Some (es, s')
    \<and> list_all2 answers (answered_blocks es) (take (length (answered_blocks es)) (sent_cmds es))
    \<and> length (answered_blocks es) = 1"
proof -
  from demo_calls_run obtain s' where
    run: "run_calls (tcti_step std_headers (demo_locate 0 0)) demo_calls (demo_ctx, demo_world) =
     Some ([Sent [1, 2, 3, 4, 5, 6, 7, 8, 9, 10, 11],
       Answered [1, 2, 3, 4, 5, 6, 7, 8, 9, 10, 11, 0xFF]], s')" ..
  have ok: "list_all buffer_ok demo_calls" by (simp add: demo_calls_def)
  from run tcti_exchanges_correspond [OF std_headers_ok(2) demo_locate_ok demo_init demo_block_size ok run]
  show ?thesis by auto
qed

end
