(* ===== verification/Tcti_Contract.thy ===== *)
theory Tcti_Contract
  imports Tcti_Machine
begin

section \<open>What each TCTI call promises\<close>

text \<open>
  The properties of the single operations: what transmit accepts and refuses, what a
  complete exchange hands to the firmware, how failures leave the context, the size
  negotiation of Init, and the two places where the sizes the code trusts go wrong.
\<close>

subsection \<open>Typing\<close>

text \<open>
  What never changes of a context: its dispatch table with magic number and version, the
  size field, and the room behind it; and it stays well formed.
\<close>

definition same_block :: "TSS2_TCTI_UEFI_CONTEXT \<Rightarrow> TSS2_TCTI_UEFI_CONTEXT \<Rightarrow> bool" where
  "same_block c d \<longleftrightarrow> ctx_wf d \<and> common d = common c \<and> ctx_size d = ctx_size c
     \<and> length (cmd_buf d) = length (cmd_buf c)"

lemma same_block_state [simp]: "same_block c (c\<lparr>ctx_state := s\<rparr>) = ctx_wf c"
  by (simp add: same_block_def)

lemma same_block_copied:
  assumes "ctx_wf c" "n \<le> length (cmd_buf c)" "n \<le> length cmd"
  shows "same_block c (c\<lparr>cmd_buf := take n cmd @ drop n (cmd_buf c), ctx_state := s\<rparr>)"
  using assms ctx_wf_copied [OF assms] by (simp add: same_block_def)

text \<open>
  C26. Typing: on a well-formed context every operation of the dispatch table has defined
  behaviour, whatever its arguments (a transmit must come with as many bytes as it says) and
  whatever the firmware does, and leaves a well-formed context with the same table, size and
  room; only transmit writes the command buffer.
\<close>

theorem tcti_operations_keep_block:
  assumes "tcti_codes_ok H" "locate_ok H (L :: 'a locate)" "ctx_wf c"
  shows "(\<forall>sz cmd (w :: 'a world). unat sz \<le> length cmd \<longrightarrow>
        (\<exists>rc d w'. tcti_uefi_transmit H (Some c) sz (Some cmd) w = Some (rc, Some d, w') \<and> same_block c d))
   \<and> (\<forall>sz response timeout w. \<exists>rc d sz' response' w'.
        tcti_uefi_receive H L (Some c) sz response timeout w = Some (rc, Some d, sz', response', w')
        \<and> same_block c d \<and> cmd_buf d = cmd_buf c)
   \<and> (\<forall>w :: 'a world. \<exists>d. tcti_uefi_finalize (Some c) w = (Some d, w) \<and> same_block c d \<and> cmd_buf d = cmd_buf c)"
proof (intro conjI allI impI)
  fix sz :: size_t and cmd :: "UINT8 list" and w :: "'a world"
  assume len: "unat sz \<le> length cmd"
  have same: "same_block c c" using assms(3) by (simp add: same_block_def)
  show "\<exists>rc d w'. tcti_uefi_transmit H (Some c) sz (Some cmd) w = Some (rc, Some d, w') \<and> same_block c d"
  proof (cases "ctx_state c = UEFI_STATE_TRANSMIT \<and> 10 < unat sz \<and> unat sz \<le> length (cmd_buf c)")
    case True
    with transmit_accepts [OF assms(3), of sz cmd H w] len same_block_copied [OF assms(3), of "unat sz" cmd]
    show ?thesis by auto
  next
    case False
    with assms(3) same show ?thesis
      by (auto simp: transmit_tagged [OF ctx_wf_tagged [OF assms(3)]] ctx_wf_def)
  qed
next
  fix sz :: "size_t option" and response :: "UINT8 list option" and timeout and w :: "'a world"
  show "\<exists>rc d sz' response' w'.
      tcti_uefi_receive H L (Some c) sz response timeout w = Some (rc, Some d, sz', response', w')
      \<and> same_block c d \<and> cmd_buf d = cmd_buf c"
    by (rule receive_effect [OF assms(1,2) ctx_wf_tagged [OF assms(3)], of sz response timeout w])
      (use assms(3) in \<open>auto simp: same_block_def\<close>)
next
  fix w :: "'a world"
  show "\<exists>d. tcti_uefi_finalize (Some c) w = (Some d, w) \<and> same_block c d \<and> cmd_buf d = cmd_buf c"
    using assms(3) by (simp add: finalize_Some ctx_wf_tagged)
qed

theorem tcti_operations_keep_block_witness:
  "\<exists>rc d sz' response' w'. tcti_uefi_receive std_headers (demo_locate 0 0) (Some demo_ctx) (Some 4)
      (Some [0, 0, 0, 0]) (- 1) demo_world = Some (rc, Some d, sz', response', w')
    \<and> same_block demo_ctx d"
proof -
  have "ctx_wf demo_ctx"
    unfolding demo_ctx_def by (rule fresh_ctx_wf) (simp add: sizeof_ctx_std demo_room_def)
  from conjunct1 [OF conjunct2 [OF tcti_operations_keep_block [OF std_headers_ok(2) demo_locate_ok this]]]
  show ?thesis by blast
qed

subsection \<open>After finalize\<close>

text \<open>
  C24. Once finalize has been called on a context, no later transmit or receive of any run
  has an effect any more: every later event is another finalize or an error.
\<close>

theorem finalized_context_is_inert:
  assumes "tcti_codes_ok H" "locate_ok H L"
    and "Tss2_Tcti_Uefi_Init H L (Some c0) (Some n) conf w0 = Some (rc, Some c, sz, w)"
    and "unat n = unat (sizeof_ctx H) + length (cmd_buf c0)"
    and "list_all buffer_ok calls" "list_all buffer_ok later"
    and "run_calls (tcti_step H L) (calls @ Call_finalize # later) (c, w) = Some (es, s')"
  shows "es ! length calls = Closed
       \<and> set (drop (Suc (length calls)) es) \<subseteq> {Closed, Nothing}
       \<and> ctx_state (fst s') = UEFI_STATE_FINAL"
proof -
  let ?cap = "length (cmd_buf c0)"
  from init_run_simulates [OF assms(1-5)] obtain es1 s1 ph1 where
    1: "run_calls (tcti_step H L) calls (c, w) = Some (es1, s1)" "tcti_sim ?cap s1 ph1"
    by auto
  from step_finalize [of ?cap "fst s1" "snd s1" ph1 H L] 1(2) obtain e s2 ph2 where
    2: "tcti_step H L Call_finalize s1 = Some (e, s2)" "tcti_spec ?cap ph1 e ph2" "tcti_sim ?cap s2 ph2"
    by (auto simp: matched_def)
  have e: "e = Closed"
    using 2(1) by (cases s1) (auto split: option.splits prod.splits)
  with 2(2) have ph2: "ph2 = Finalized" by (simp add: tcti_spec_Closed)
  have "tcti_sim_env H L ?cap s2 Finalized"
    using 2(3) assms(1,2) by (simp add: tcti_sim_env_def ph2)
  from tcti.run_simulates [OF this assms(6)] obtain es3 s3 ph3 where
    3: "run_calls (tcti_step H L) later s2 = Some (es3, s3)"
       "spec_run (tcti_spec ?cap) Finalized es3 ph3" "tcti_sim_env H L ?cap s3 ph3"
    by auto
  have "es = es1 @ Closed # es3" and s': "s' = s3"
    using assms(7) 1(1) 2(1) 3(1) e by (auto simp: run_calls_append)
  moreover have "length es1 = length calls"
    using 1(1) by (rule run_calls_length)
  moreover from spec_run_Finalized [OF 3(2)] 3(3) have "ctx_state (fst s3) = UEFI_STATE_FINAL"
    by (auto simp: tcti_sim_env_def tcti_sim_def)
  ultimately show ?thesis
    using spec_run_Finalized [OF 3(2)] by (simp add: nth_append)
qed

lemma demo_final_run:
  "\<exists>es s'. run_calls (tcti_step std_headers (demo_locate 0 0)) (demo_calls @ Call_finalize # demo_calls)
     (demo_ctx, demo_world) = Some (es, s')"
proof -
  have "list_all buffer_ok (demo_calls @ Call_finalize # demo_calls)"
    by (simp add: demo_calls_def)
  from init_run_simulates [OF std_headers_ok(2) demo_locate_ok demo_init demo_block_size this]
  show ?thesis by blast
qed

theorem finalized_context_is_inert_witness:
  "\<exists>es s'. run_calls (tcti_step std_headers (demo_locate 0 0)) (demo_calls @ Call_finalize # demo_calls)
     (demo_ctx, demo_world) = Some (es, s') \<and> set (drop 3 es) \<subseteq> {Closed, Nothing}"
proof -
  from demo_final_run obtain es s' where
    run: "run_calls (tcti_step std_headers (demo_locate 0 0)) (demo_calls @ Call_finalize # demo_calls)
     (demo_ctx, demo_world) = Some (es, s')" by blast
  have ok: "list_all buffer_ok demo_calls" by (simp add: demo_calls_def)
  have three: "Suc (length demo_calls) = 3" by (simp add: demo_calls_def)
  from finalized_context_is_inert [OF std_headers_ok(2) demo_locate_ok demo_init demo_block_size
      ok ok run] run
  show ?thesis unfolding three by blast
qed

subsection \<open>transmit\<close>

text \<open>
  C8. On a well-formed context transmit succeeds exactly when it is in the transmit state
  and the command is longer than the 10-byte header and no longer than the buffer. On
  success the command fills the front of the buffer, the bytes behind it are the old ones,
  and the context waits for receive; on failure the context is untouched and the code says
  why, sequence errors first.
\<close>

theorem transmit_contract:
  assumes "tcti_codes_ok H" "ctx_wf c" "unat sz \<le> length cmd"
  shows "\<exists>rc c'. tcti_uefi_transmit H (Some c) sz (Some cmd) w = Some (rc, Some c', w)
     \<and> (rc = TSS2_RC_SUCCESS H \<longleftrightarrow> ctx_state c = UEFI_STATE_TRANSMIT \<and> 10 < unat sz
           \<and> unat sz \<le> length (cmd_buf c))
     \<and> (rc = TSS2_RC_SUCCESS H \<longrightarrow> ctx_wf c' \<and> ctx_state c' = UEFI_STATE_RECEIVE
           \<and> cmd_buf c' = take (unat sz) cmd @ drop (unat sz) (cmd_buf c))
     \<and> (rc \<noteq> TSS2_RC_SUCCESS H \<longrightarrow> c' = c
           \<and> rc = (if ctx_state c \<noteq> UEFI_STATE_TRANSMIT then TSS2_TCTI_RC_BAD_SEQUENCE H
                   else TSS2_TCTI_RC_BAD_VALUE H))"
proof (cases "ctx_state c = UEFI_STATE_TRANSMIT \<and> 10 < unat sz \<and> unat sz \<le> length (cmd_buf c)")
  case True
  with assms(2,3) show ?thesis
    using ctx_wf_copied [OF assms(2), of "unat sz" cmd] by (simp add: transmit_accepts)
next
  case False
  with assms show ?thesis
    by (auto simp: transmit_tagged ctx_wf_def tcti_codes_ok_def)
qed

lemma demo_ctx_wf: "ctx_wf demo_ctx"
  unfolding demo_ctx_def by (rule fresh_ctx_wf) (simp add: sizeof_ctx_std demo_room_def)

lemma demo_ctx_sel [simp]:
  "ctx_state demo_ctx = UEFI_STATE_TRANSMIT" "cmd_buf demo_ctx = demo_room" "ctx_size demo_ctx = 12"
  by (simp_all add: demo_ctx_def sizeof_ctx_std)

theorem transmit_contract_witness:
  "\<exists>c'. tcti_uefi_transmit std_headers (Some demo_ctx) 11 (Some (replicate 11 7)) demo_world =
      Some (0, Some c', demo_world) \<and> cmd_buf c' = replicate 11 7 @ [0xFF]"
  using transmit_contract [OF std_headers_ok(2) demo_ctx_wf, of 11 "replicate 11 7" demo_world]
  by (auto simp: demo_room_def)

text \<open>
  A command that is just the 10-byte TPM header is refused with BAD_VALUE on every
  well-formed idle context, however large its buffer: the length guard is \<open><=\<close> where a
  header without parameters is a complete TPM command.
\<close>

theorem header_only_command_refused:
  assumes "ctx_wf c" "ctx_state c = UEFI_STATE_TRANSMIT"
  shows "tcti_uefi_transmit H (Some c) TPM2_HEADER_SIZE (Some cmd) w =
     Some (TSS2_TCTI_RC_BAD_VALUE H, Some c, w)"
  using assms by (simp add: transmit_tagged ctx_wf_def TPM2_HEADER_SIZE_def)

theorem header_only_command_refused_witness:
  "tcti_uefi_transmit std_headers (Some demo_ctx) TPM2_HEADER_SIZE (Some (replicate 10 1)) demo_world =
     Some (0xA000B, Some demo_ctx, demo_world)"
  using header_only_command_refused [OF demo_ctx_wf, of std_headers "replicate 10 1" demo_world]
  by simp

text \<open>
  A context with a wrong magic number or version is never acted on: transmit and
  receive return BAD_CONTEXT, finalize does nothing, the context keeps its state and the
  firmware is not called.
\<close>

theorem foreign_context_rejected:
  assumes "magic (common c) \<noteq> TCTI_UEFI_MAGIC \<or> version (common c) \<noteq> TCTI_UEFI_VERSION"
  shows "(\<exists>w'. tcti_uefi_transmit H (Some c) sz (Some cmd) w =
           Some (TSS2_TCTI_RC_BAD_CONTEXT H, Some c, w') \<and> firmware w' = firmware w)
       \<and> tcti_uefi_receive H L (Some c) (Some n) response (TSS2_TCTI_TIMEOUT_BLOCK H) w =
           Some (TSS2_TCTI_RC_BAD_CONTEXT H, Some c, Some n, response, w)
       \<and> tcti_uefi_finalize (Some c) w = (Some c, w)"
proof -
  from assms have "\<not> tagged c" by (auto simp: tagged_def)
  then show ?thesis
    by (simp add: transmit_untagged receive_untagged finalize_Some)
qed

theorem foreign_context_rejected_witness:
  "tcti_uefi_finalize (Some demo_block) demo_world = (Some demo_block, demo_world)"
proof -
  have "magic (common demo_block) \<noteq> TCTI_UEFI_MAGIC \<or> version (common demo_block) \<noteq> TCTI_UEFI_VERSION"
    by (simp add: demo_block_def TCTI_UEFI_MAGIC_def)
  from foreign_context_rejected [OF this, of std_headers 0 "[]" demo_world "demo_locate 0 0" 0 None]
  show ?thesis by blast
qed

subsection \<open>receive\<close>

text \<open>
  C7. A complete exchange: transmit of an acceptable command followed by a blocking receive
  hands the firmware one block of the buffer's size that starts with the command, with the
  low 32 bits of the two sizes; when the firmware reports success the caller gets its
  response, and the context is idle and well formed again. The bytes behind the command are
  what the buffer held before, and the caller's size stays what it was: the length of the
  response is not reported.
\<close>

theorem exchange_delivers_command_and_response:
  assumes "ctx_wf c" "ctx_state c = UEFI_STATE_TRANSMIT"
    and "10 < unat sz" "unat sz \<le> length (cmd_buf c)" "unat sz \<le> length cmd"
    and "L EFI_TCG2_PROTOCOL_GUID (firmware w) = (st, Some p, f)" "\<not> EFI_ERROR H st"
    and "SubmitCommand p (ucast (ctx_size c)) (take (unat sz) cmd @ drop (unat sz) (cmd_buf c))
           (ucast n) buf f = (EFI_SUCCESS H, buf', f')"
    and "efi_codes_ok H"
  shows "\<exists>c1 c2. tcti_uefi_transmit H (Some c) sz (Some cmd) w = Some (TSS2_RC_SUCCESS H, Some c1, w)
     \<and> tcti_uefi_receive H L (Some c1) (Some n) (Some buf) (TSS2_TCTI_TIMEOUT_BLOCK H) w =
         Some (TSS2_RC_SUCCESS H, Some c2, Some n, Some buf', w\<lparr>firmware := f'\<rparr>)
     \<and> ctx_wf c2 \<and> ctx_state c2 = UEFI_STATE_TRANSMIT"
proof -
  let ?c1 = "c\<lparr>cmd_buf := take (unat sz) cmd @ drop (unat sz) (cmd_buf c),
      ctx_state := UEFI_STATE_RECEIVE\<rparr>"
  have "tcti_uefi_receive H L (Some ?c1) (Some n) (Some buf) (TSS2_TCTI_TIMEOUT_BLOCK H) w =
      Some (TSS2_RC_SUCCESS H, Some (?c1\<lparr>ctx_state := UEFI_STATE_TRANSMIT\<rparr>), Some n, Some buf',
        w\<lparr>firmware := f'\<rparr>)"
    using assms(1,8,9)
    by (subst receive_submits [where L = L, OF _ _ assms(6,7)])
      (auto simp: ctx_wf_tagged report_status_def efi_codes_ok_def)
  with transmit_accepts [OF assms(1-5)] ctx_wf_copied [OF assms(1,4,5)] show ?thesis
    by (intro exI [of _ ?c1] exI [of _ "?c1\<lparr>ctx_state := UEFI_STATE_TRANSMIT\<rparr>"]) simp
qed

theorem exchange_delivers_command_and_response_witness:
  "\<exists>c1 c2. tcti_uefi_transmit std_headers (Some demo_ctx) 11 (Some (replicate 11 7)) demo_world =
         Some (0, Some c1, demo_world)
     \<and> tcti_uefi_receive std_headers (demo_locate 0 0) (Some c1) (Some 2) (Some [0, 0]) (- 1) demo_world =
         Some (0, Some c2, Some 2, Some [0x80, 0x80],
           demo_world\<lparr>firmware := [replicate 11 7 @ [0xFF]]\<rparr>)
     \<and> ctx_wf c2 \<and> ctx_state c2 = UEFI_STATE_TRANSMIT"
  using exchange_delivers_command_and_response [OF demo_ctx_wf, where H = std_headers
      and sz = 11 and cmd = "replicate 11 7" and L = "demo_locate 0 0" and w = demo_world
      and st = 0 and p = "demo_protocol 0 demo_caps demo_log" and f = "[]" and n = 2
      and buf = "[0, 0]" and buf' = "[0x80, 0x80]" and f' = "[replicate 11 7 @ [0xFF]]"]
  by (simp add: demo_room_def demo_locate_def demo_world_def demo_protocol_def)

text \<open>
  C22. A receive that fails, for whatever reason, keeps the pending command: the context and
  the caller's size are unchanged, so the caller can retry with a larger buffer and the
  same command is submitted again.
\<close>

theorem failed_receive_keeps_command:
  assumes "tcti_codes_ok H" "locate_ok H L" "tagged c"
    and "tcti_uefi_receive H L (Some c) sz response timeout w = Some (rc, context, sz', response', w')"
    and "rc \<noteq> TSS2_RC_SUCCESS H"
  shows "context = Some c \<and> sz' = sz"
  by (rule receive_effect [OF assms(1-3), of sz response timeout w]) (use assms(4,5) in auto)

lemma demo_pending_receive:
  "\<exists>rc context sz' response' w'. tcti_uefi_receive std_headers (demo_locate 0 0x8000000000000005)
      (Some (demo_ctx\<lparr>ctx_state := UEFI_STATE_RECEIVE\<rparr>)) (Some 2) (Some [0, 0]) (- 1) demo_world =
     Some (rc, context, sz', response', w') \<and> rc = 0xA0006"
  using receive_submits [where L = "demo_locate 0 0x8000000000000005" and H = std_headers and n = 2
      and c = "demo_ctx\<lparr>ctx_state := UEFI_STATE_RECEIVE\<rparr>" and w = demo_world
      and st = 0 and f = "[]" and p = "demo_protocol 0x8000000000000005 demo_caps demo_log"
      and buf = "[0, 0]"]
    demo_ctx_wf receive_error_codes(2) [OF std_headers_ok(1)]
  by (simp add: demo_locate_def demo_protocol_def demo_world_def ctx_wf_tagged Let_def)

theorem failed_receive_keeps_command_witness:
  "\<exists>sz' response' w'. tcti_uefi_receive std_headers (demo_locate 0 0x8000000000000005)
      (Some (demo_ctx\<lparr>ctx_state := UEFI_STATE_RECEIVE\<rparr>)) (Some 2) (Some [0, 0]) (- 1) demo_world =
     Some (0xA0006, Some (demo_ctx\<lparr>ctx_state := UEFI_STATE_RECEIVE\<rparr>), sz', response', w')
   \<and> sz' = Some 2"
proof -
  from demo_pending_receive obtain rc ctx' sz' response' w' where
    call: "tcti_uefi_receive std_headers (demo_locate 0 0x8000000000000005)
      (Some (demo_ctx\<lparr>ctx_state := UEFI_STATE_RECEIVE\<rparr>)) (Some 2) (Some [0, 0]) (- 1) demo_world =
     Some (rc, ctx', sz', response', w')" and rc: "rc = 0xA0006" by blast
  have "tagged (demo_ctx\<lparr>ctx_state := UEFI_STATE_RECEIVE\<rparr>)"
    using demo_ctx_wf by (simp add: ctx_wf_tagged)
  from failed_receive_keeps_command [OF std_headers_ok(2) demo_locate_ok this call] call rc
  show ?thesis by simp
qed

text \<open>
  C23. The status of a failed submission reaches the caller as the TCTI code that names the
  failure: an invalid parameter as BAD_VALUE, a short response buffer as
  INSUFFICIENT_BUFFER, a device error as IO_ERROR, and any other status, warnings included,
  as GENERAL_FAILURE; no failure is reported as success.
\<close>

theorem receive_reports_firmware_status:
  assumes "efi_codes_ok H" "tcti_codes_ok H" "tagged c" "ctx_state c = UEFI_STATE_RECEIVE"
    and "L EFI_TCG2_PROTOCOL_GUID (firmware w) = (st, Some p, f)" "\<not> EFI_ERROR H st"
    and "SubmitCommand p (ucast (ctx_size c)) (cmd_buf c) (ucast n) buf f = (status, buf', f')"
    and "status \<noteq> EFI_SUCCESS H"
  shows "\<exists>rc w'. tcti_uefi_receive H L (Some c) (Some n) (Some buf) (TSS2_TCTI_TIMEOUT_BLOCK H) w =
       Some (rc, Some c, Some n, Some buf', w')
     \<and> rc \<noteq> TSS2_RC_SUCCESS H
     \<and> (rc = TSS2_TCTI_RC_BAD_VALUE H \<longleftrightarrow> status = EFI_INVALID_PARAMETER H)
     \<and> (rc = TSS2_TCTI_RC_INSUFFICIENT_BUFFER H \<longleftrightarrow> status = EFI_BUFFER_TOO_SMALL H)
     \<and> (rc = TSS2_TCTI_RC_IO_ERROR H \<longleftrightarrow> status = EFI_DEVICE_ERROR H)
     \<and> (rc = TSS2_TCTI_RC_GENERAL_FAILURE H \<longleftrightarrow>
          status \<notin> {EFI_INVALID_PARAMETER H, EFI_BUFFER_TOO_SMALL H, EFI_DEVICE_ERROR H})"
proof -
  have "fst (receive_error H status) \<noteq> TSS2_RC_SUCCESS H"
    using assms(2) by (rule receive_error_not_success)
  moreover have "(fst (receive_error H status) = TSS2_TCTI_RC_BAD_VALUE H \<longleftrightarrow> status = EFI_INVALID_PARAMETER H)
     \<and> (fst (receive_error H status) = TSS2_TCTI_RC_INSUFFICIENT_BUFFER H \<longleftrightarrow> status = EFI_BUFFER_TOO_SMALL H)
     \<and> (fst (receive_error H status) = TSS2_TCTI_RC_IO_ERROR H \<longleftrightarrow> status = EFI_DEVICE_ERROR H)
     \<and> (fst (receive_error H status) = TSS2_TCTI_RC_GENERAL_FAILURE H \<longleftrightarrow>
          status \<notin> {EFI_INVALID_PARAMETER H, EFI_BUFFER_TOO_SMALL H, EFI_DEVICE_ERROR H})"
    using assms(1,2) by (auto simp: receive_error_def efi_codes_ok_def tcti_codes_ok_def)
  ultimately show ?thesis
    using receive_submits [where L = L, OF assms(3-7)] assms(8) by (simp add: Let_def)
qed

theorem receive_reports_firmware_status_witness:
  "\<exists>w'. tcti_uefi_receive std_headers (demo_locate 0 0x8000000000000005)
      (Some (demo_ctx\<lparr>ctx_state := UEFI_STATE_RECEIVE\<rparr>)) (Some 2) (Some [0, 0]) (- 1) demo_world =
     Some (0xA0006, Some (demo_ctx\<lparr>ctx_state := UEFI_STATE_RECEIVE\<rparr>), Some 2, Some [0x80, 0x80], w')"
proof -
  have 1: "tagged (demo_ctx\<lparr>ctx_state := UEFI_STATE_RECEIVE\<rparr>)"
    using demo_ctx_wf by (simp add: ctx_wf_tagged)
  have 2: "ctx_state (demo_ctx\<lparr>ctx_state := UEFI_STATE_RECEIVE\<rparr>) = UEFI_STATE_RECEIVE" by simp
  have 3: "demo_locate 0 0x8000000000000005 EFI_TCG2_PROTOCOL_GUID (firmware demo_world) =
      (0, Some (demo_protocol 0x8000000000000005 demo_caps demo_log), [])"
    by (simp add: demo_locate_def demo_world_def)
  have 4: "\<not> EFI_ERROR std_headers 0" by simp
  have 5: "SubmitCommand (demo_protocol 0x8000000000000005 demo_caps demo_log)
      (ucast (ctx_size (demo_ctx\<lparr>ctx_state := UEFI_STATE_RECEIVE\<rparr>)))
      (cmd_buf (demo_ctx\<lparr>ctx_state := UEFI_STATE_RECEIVE\<rparr>)) (ucast (2 :: 64 word)) [0, 0] [] =
      (0x8000000000000005, [0x80, 0x80], [demo_room])"
    by (simp add: demo_protocol_def demo_room_def)
  have 6: "(0x8000000000000005 :: 64 word) \<noteq> EFI_SUCCESS std_headers" by simp
  note spec = receive_reports_firmware_status [where L = "demo_locate 0 0x8000000000000005",
      OF std_headers_ok(1,2) 1 2 3 4 5 6]
  obtain rc w' where call: "tcti_uefi_receive std_headers (demo_locate 0 0x8000000000000005)
      (Some (demo_ctx\<lparr>ctx_state := UEFI_STATE_RECEIVE\<rparr>)) (Some 2) (Some [0, 0])
      (TSS2_TCTI_TIMEOUT_BLOCK std_headers) demo_world =
     Some (rc, Some (demo_ctx\<lparr>ctx_state := UEFI_STATE_RECEIVE\<rparr>), Some 2, Some [0x80, 0x80], w')"
    and code: "rc = TSS2_TCTI_RC_INSUFFICIENT_BUFFER std_headers \<longleftrightarrow>
      0x8000000000000005 = EFI_BUFFER_TOO_SMALL std_headers"
    apply (rule exE [OF spec])
    apply (erule exE)
    apply (rule that)
     apply (erule conjunct1)
    apply (drule conjunct2, drule conjunct2, drule conjunct2, erule conjunct1)
    done
  have "rc = 0xA0006" using code unfolding std_values by simp
  with call show ?thesis unfolding std_values by (intro exI [of _ w']) (simp only:)
qed

text \<open>
  Asking for the response size (a NULL response buffer) reports the context's buffer
  size and changes nothing else: no call to the firmware, no state change, any number of
  times.
\<close>

theorem receive_size_query:
  assumes "ctx_wf c" "ctx_state c = UEFI_STATE_RECEIVE"
  shows "tcti_uefi_receive H L (Some c) (Some n) None (TSS2_TCTI_TIMEOUT_BLOCK H) w =
       Some (TSS2_RC_SUCCESS H, Some c, Some (of_nat (length (cmd_buf c))), None, w)"
proof -
  from assms(1) have "of_nat (unat (ctx_size c)) = (of_nat (length (cmd_buf c)) :: size_t)"
    by (simp add: ctx_wf_def)
  then have "ctx_size c = of_nat (length (cmd_buf c))" by simp
  with assms show ?thesis
    by (simp add: receive_query ctx_wf_tagged)
qed

theorem receive_size_query_witness:
  "tcti_uefi_receive std_headers (demo_locate 0 0) (Some (demo_ctx\<lparr>ctx_state := UEFI_STATE_RECEIVE\<rparr>))
      (Some 0) None (- 1) demo_world =
     Some (0, Some (demo_ctx\<lparr>ctx_state := UEFI_STATE_RECEIVE\<rparr>), Some 12, None, demo_world)"
proof -
  have 1: "ctx_wf (demo_ctx\<lparr>ctx_state := UEFI_STATE_RECEIVE\<rparr>)" using demo_ctx_wf by simp
  have 2: "ctx_state (demo_ctx\<lparr>ctx_state := UEFI_STATE_RECEIVE\<rparr>) = UEFI_STATE_RECEIVE" by simp
  show ?thesis
    using receive_size_query [OF 1 2, of std_headers "demo_locate 0 0" 0 demo_world]
    by (simp add: demo_room_def)
qed

subsection \<open>Initialisation\<close>

text \<open>
  C25. The size negotiation closes: the size that Init reports for a NULL context is the
  larger of the firmware's two buffer limits plus the structure, and a context initialised
  in a block of that size can hold every command of up to the larger limit.
\<close>

theorem init_size_negotiation:
  assumes "L EFI_TCG2_PROTOCOL_GUID (firmware w) = (st, Some p, f)" "\<not> EFI_ERROR H st"
    and "GetCapability p (caps_init 36) f = (status, caps, f')" "\<not> EFI_ERROR H status"
    and "max (MaxCommandSize caps) (MaxResponseSize caps) \<noteq> 0"
    and "unat (sizeof_ctx H) + 65536 \<le> 2 ^ 64"
    and "length (cmd_buf c0) = unat (max (MaxCommandSize caps) (MaxResponseSize caps))"
  shows "\<exists>n c. Tss2_Tcti_Uefi_Init H L None (Some n0) conf w =
           Some (TSS2_RC_SUCCESS H, None, Some n, w\<lparr>firmware := f'\<rparr>)
       \<and> unat n = unat (sizeof_ctx H) + unat (max (MaxCommandSize caps) (MaxResponseSize caps))
       \<and> Tss2_Tcti_Uefi_Init H L (Some c0) (Some n) conf w' =
           Some (TSS2_RC_SUCCESS H, Some c, Some n, w')
       \<and> ctx_wf c \<and> ctx_state c = UEFI_STATE_TRANSMIT
       \<and> unat (ctx_size c) = unat (max (MaxCommandSize caps) (MaxResponseSize caps))"
proof -
  let ?m = "max (MaxCommandSize caps) (MaxResponseSize caps)"
  let ?n = "ucast ?m + sizeof_ctx H :: 64 word"
  have m: "unat ?m < 65536"
    using unsigned_less [of ?m] by simp
  have n: "unat ?n = unat (sizeof_ctx H) + unat ?m"
    using m assms(6) by (simp add: unat_word_ariths)
  have nz: "?n \<noteq> 0"
  proof
    assume "?n = 0"
    with n have "unat ?m = 0" by (metis add_is_0 unat_0)
    with assms(5) show False by (metis unat_eq_zero)
  qed
  have "sizeof_tcti_uefi_context H L w = Some (?n, w\<lparr>firmware := f'\<rparr>)"
    using assms(5) by (simp add: sizeof_query [where L = L, OF assms(1-4)] Let_def)
  then have 1: "Tss2_Tcti_Uefi_Init H L None (Some n0) conf w =
      Some (TSS2_RC_SUCCESS H, None, Some ?n, w\<lparr>firmware := f'\<rparr>)"
    using nz by (simp add: init_query)
  have wf: "ctx_wf (fresh_ctx H ?n (cmd_buf c0))"
    using n assms(7) by (intro fresh_ctx_wf) simp
  then have "unat (ctx_size (fresh_ctx H ?n (cmd_buf c0))) = unat ?m"
    using assms(7) by (simp add: ctx_wf_def)
  with 1 n wf show ?thesis
    by (intro exI [of _ ?n] exI [of _ "fresh_ctx H ?n (cmd_buf c0)"]) (simp add: init_context)
qed

theorem init_size_negotiation_witness:
  "\<exists>n c. Tss2_Tcti_Uefi_Init std_headers (demo_locate 0 0) None (Some 7) None demo_world =
           Some (0, None, Some n, demo_world\<lparr>firmware := []\<rparr>)
       \<and> unat n = 100
       \<and> Tss2_Tcti_Uefi_Init std_headers (demo_locate 0 0) (Some demo_block) (Some n) None demo_world =
           Some (0, Some c, Some n, demo_world)
       \<and> ctx_wf c"
proof -
  have 1: "demo_locate 0 0 EFI_TCG2_PROTOCOL_GUID (firmware demo_world) =
      (0, Some (demo_protocol 0 demo_caps demo_log), [])"
    by (simp add: demo_locate_def demo_world_def)
  have 2: "\<not> EFI_ERROR std_headers 0" by simp
  have 3: "GetCapability (demo_protocol 0 demo_caps demo_log) (caps_init 36) [] = (0, demo_caps, [])"
    by (simp add: demo_protocol_def)
  have 4: "max (MaxCommandSize demo_caps) (MaxResponseSize demo_caps) \<noteq> 0"
    by (simp add: demo_caps_def)
  have 5: "unat (sizeof_ctx std_headers) + 65536 \<le> 2 ^ 64" by (simp add: sizeof_ctx_std)
  have 6: "length (cmd_buf demo_block) = unat (max (MaxCommandSize demo_caps) (MaxResponseSize demo_caps))"
    by (simp add: demo_block_def demo_room_def demo_caps_def)
  have "unat (sizeof_ctx std_headers) + unat (max (MaxCommandSize demo_caps) (MaxResponseSize demo_caps)) = 100"
    by (simp add: sizeof_ctx_std demo_caps_def)
  with init_size_negotiation [where L = "demo_locate 0 0", OF 1 2 3 2 4 5 6, of 7 None demo_world]
  show ?thesis by auto
qed

text \<open>
  A NULL context reports failure, with a size of 0, exactly when no size is known: the
  protocol is not found, GetCapability fails, or both limits are 0. Otherwise it reports
  success and a size that is not 0. It never touches a context.
\<close>

theorem init_query_outcome:
  assumes "tcti_codes_ok H" "locate_ok H L" "unat (sizeof_ctx H) + 65536 \<le> 2 ^ 64"
  shows "\<exists>rc n w'. Tss2_Tcti_Uefi_Init H L None (Some n0) conf w = Some (rc, None, Some n, w')
     \<and> (rc = TSS2_RC_SUCCESS H \<or> rc = TSS2_TCTI_RC_GENERAL_FAILURE H)
     \<and> (rc = TSS2_RC_SUCCESS H \<longleftrightarrow> n \<noteq> 0)
     \<and> (rc = TSS2_RC_SUCCESS H \<longleftrightarrow>
          (\<exists>st p f status caps f'. L EFI_TCG2_PROTOCOL_GUID (firmware w) = (st, Some p, f)
             \<and> \<not> EFI_ERROR H st
             \<and> GetCapability p (caps_init 36) f = (status, caps, f') \<and> \<not> EFI_ERROR H status
             \<and> max (MaxCommandSize caps) (MaxResponseSize caps) \<noteq> 0))"
proof -
  have ne: "TSS2_TCTI_RC_GENERAL_FAILURE H \<noteq> TSS2_RC_SUCCESS H"
    using assms(1) by (auto simp: tcti_codes_ok_def)
  obtain st q f where L: "L EFI_TCG2_PROTOCOL_GUID (firmware w) = (st, q, f)"
    by (cases "L EFI_TCG2_PROTOCOL_GUID (firmware w)")
  show ?thesis
  proof (cases "EFI_ERROR H st")
    case True
    with L ne show ?thesis
      by (simp add: init_query sizeof_no_protocol [where L = L, OF L True])
  next
    case ok: False
    with assms(2) L obtain p where p: "q = Some p" unfolding locate_ok_def by blast
    obtain status caps f' where G: "GetCapability p (caps_init 36) f = (status, caps, f')"
      by (cases "GetCapability p (caps_init 36) f")
    show ?thesis
    proof (cases "EFI_ERROR H status")
      case True
      have "\<exists>w'. tcg2_get_max_buf H (Some p) (w\<lparr>firmware := f\<rparr>) = Some (0, w')"
        by (subst get_max_buf_cases)
          (use G True in \<open>auto intro!: exI [of _ "\<lparr>firmware = f', console = console w @
            [Printed ''GetCapability failed: 0x%x\<newline>'' [A_num (unat status)],
             Printed ''Failed to GetCapability: 0x%x\<newline>'' [A_num (unat status)]]\<rparr>"]\<close>)
      then obtain w' where "sizeof_tcti_uefi_context H L w = Some (0, w')"
        by (auto simp: sizeof_tcti_uefi_context_def tcg2_get_protocol_def L ok p)
      with L ne G True p show ?thesis by (auto simp: init_query)
    next
      case False
      let ?m = "max (MaxCommandSize caps) (MaxResponseSize caps)"
      have "unat ?m < 65536" using unsigned_less [of ?m] by simp
      then have "unat (ucast ?m + sizeof_ctx H :: 64 word) = unat (sizeof_ctx H) + unat ?m"
        using assms(3) by (simp add: unat_word_ariths)
      then have nz: "?m \<noteq> 0 \<Longrightarrow> ucast ?m + sizeof_ctx H \<noteq> (0 :: 64 word)"
        by (metis add_is_0 unat_0 unat_eq_zero)
      have "sizeof_tcti_uefi_context H L w =
          Some (if ?m = 0 then 0 else ucast ?m + sizeof_ctx H, w\<lparr>firmware := f'\<rparr>)"
        by (simp add: sizeof_query [where L = L, OF L [unfolded p] ok G False] Let_def)
      with L ne G False ok p nz show ?thesis by (cases "?m = 0") (simp_all add: init_query)
    qed
  qed
qed

theorem init_query_outcome_witness:
  "\<exists>n w'. Tss2_Tcti_Uefi_Init std_headers (demo_locate 0x800000000000000E 0) None (Some 7) None demo_world =
     Some (0xA0001, None, Some n, w') \<and> n = 0"
proof -
  have ok: "locate_ok std_headers (demo_locate 0x800000000000000E 0)"
    by (simp add: locate_ok_def demo_locate_def)
  have sz: "unat (sizeof_ctx std_headers) + 65536 \<le> 2 ^ 64" by (simp add: sizeof_ctx_std)
  have none: "\<not> (\<exists>st p f. demo_locate 0x800000000000000E 0 EFI_TCG2_PROTOCOL_GUID (firmware demo_world) =
      (st, Some p, f) \<and> \<not> EFI_ERROR std_headers st)"
    by (simp add: demo_locate_def)
  from init_query_outcome [OF std_headers_ok(2) ok sz, of 7 None demo_world] none
  show ?thesis by fastforce
qed

text \<open>
  C32. Init does not check the size it is given: told a size smaller than the structure, it
  reports success, the buffer size it derives wraps around to nearly 2^64, and the first
  transmit of any command that is longer than the room behind the structure writes past
  the block (undefined behaviour).
\<close>

theorem init_undersized_overflows:
  assumes "unat n < unat (sizeof_ctx H)"
    and "10 < unat sz" "unat sz + unat (sizeof_ctx H) \<le> 2 ^ 64" "unat sz \<le> length cmd"
    and "length (cmd_buf c0) < unat sz"
  shows "\<exists>c. Tss2_Tcti_Uefi_Init H L (Some c0) (Some n) conf w = Some (TSS2_RC_SUCCESS H, Some c, Some n, w)
      \<and> unat (ctx_size c) = 2 ^ 64 - (unat (sizeof_ctx H) - unat n)
      \<and> tcti_uefi_transmit H (Some c) sz (Some cmd) w = None"
proof -
  have size: "unat (n - sizeof_ctx H) = 2 ^ 64 - (unat (sizeof_ctx H) - unat n)"
    using assms(1) unat_lt64 [of "sizeof_ctx H"]
    by (simp add: unat_sub_if' not_le)
  show ?thesis
    using assms(2-5) size
    by (intro exI [of _ "fresh_ctx H n (cmd_buf c0)"])
      (simp add: init_context transmit_tagged fresh_ctx_tagged CopyMem_def)
qed

theorem init_undersized_overflows_witness:
  "\<exists>c. Tss2_Tcti_Uefi_Init std_headers (demo_locate 0 0) (Some (demo_block\<lparr>cmd_buf := []\<rparr>)) (Some 80)
        None demo_world = Some (0, Some c, Some 80, demo_world)
      \<and> tcti_uefi_transmit std_headers (Some c) 11 (Some (replicate 11 7)) demo_world = None"
proof -
  have 1: "unat (80 :: size_t) < unat (sizeof_ctx std_headers)" by (simp add: sizeof_ctx_std)
  have 2: "unat (11 :: size_t) + unat (sizeof_ctx std_headers) \<le> 2 ^ 64" by (simp add: sizeof_ctx_std)
  have 3: "10 < unat (11 :: size_t)" "unat (11 :: size_t) \<le> length (replicate 11 (7 :: 8 word))"
    "length (cmd_buf (demo_block\<lparr>cmd_buf := []\<rparr>)) < unat (11 :: size_t)" by simp_all
  from init_undersized_overflows [where L = "demo_locate 0 0", OF 1 3(1) 2 3(2,3), of None demo_world]
  show ?thesis by auto
qed

end
