(* ===== verification/Tcti_Firmware.thy ===== *)
theory Tcti_Firmware
  imports Tcti_Machine
begin

section \<open>What the firmware sees of a run\<close>

text \<open>
  The events of \<open>Tcti_Machine\<close> are read off the calls on the caller's side. Here the other
  side is observed: \<open>seen\<close> reads from the firmware's own state the blocks it has accepted,
  and the theorem states what any run of calls adds to them.
\<close>

subsection \<open>Firmware that remembers what it accepted\<close>

definition remembers :: "headers \<Rightarrow> ('fw \<Rightarrow> UINT8 list list) \<Rightarrow> 'fw EFI_TCG2_PROTOCOL \<Rightarrow> bool" where
  "remembers H seen p \<longleftrightarrow> (\<forall>n inb m outb f status outb' f'.
     SubmitCommand p n inb m outb f = (status, outb', f') \<longrightarrow>
       seen f' = seen f @ (if status = EFI_SUCCESS H then [take (unat n) inb] else []))"

definition firmware_remembers ::
  "headers \<Rightarrow> 'fw locate \<Rightarrow> ('fw \<Rightarrow> UINT8 list list) \<Rightarrow> bool" where
  "firmware_remembers H L seen \<longleftrightarrow> (\<forall>guid f status q f'. L guid f = (status, q, f') \<longrightarrow>
     seen f' = seen f \<and> (\<forall>p. q = Some p \<longrightarrow> remembers H seen p))"

subsection \<open>One call\<close>

lemma receive_seen:
  assumes "tcti_codes_ok H" "locate_ok H L" "firmware_remembers H L seen" "tagged c"
    and call: "tcti_uefi_receive H L (Some c) sz response timeout w = Some (rc, c', sz', response', w')"
  shows "seen (firmware w') = seen (firmware w) @
     (if rc = TSS2_RC_SUCCESS H \<and> response \<noteq> None
      then [take (unat (ucast (ctx_size c) :: UINT32)) (cmd_buf c)] else [])"
proof (cases "sz = None \<or> timeout \<noteq> TSS2_TCTI_TIMEOUT_BLOCK H \<or> ctx_state c \<noteq> UEFI_STATE_RECEIVE
    \<or> response = None")
  case True
  with call assms(1,4) show ?thesis
    by (auto simp: tcti_uefi_receive_def cast_Some tcti_codes_ok_def split: if_splits)
next
  case False
  then obtain n buf where n: "sz = Some n" "response = Some buf"
    "timeout = TSS2_TCTI_TIMEOUT_BLOCK H" and state: "ctx_state c = UEFI_STATE_RECEIVE"
    by auto
  obtain st q f where L: "L EFI_TCG2_PROTOCOL_GUID (firmware w) = (st, q, f)"
    by (cases "L EFI_TCG2_PROTOCOL_GUID (firmware w)")
  with assms(3) have f: "seen f = seen (firmware w)" and rem: "\<And>p. q = Some p \<Longrightarrow> remembers H seen p"
    unfolding firmware_remembers_def by blast+
  show ?thesis
  proof (cases "EFI_ERROR H st")
    case True
    from call [unfolded n receive_no_protocol [where L = L, OF assms(4) state L True]] assms(1) f
    show ?thesis by (auto simp: tcti_codes_ok_def)
  next
    case ok: False
    with assms(2) L obtain p where p: "q = Some p"
      unfolding locate_ok_def by blast
    obtain status buf' f' where sub:
      "SubmitCommand p (ucast (ctx_size c)) (cmd_buf c) (ucast n) buf f = (status, buf', f')"
      by (cases "SubmitCommand p (ucast (ctx_size c)) (cmd_buf c) (ucast n) buf f")
    from rem [OF p] sub f have f': "seen f' = seen (firmware w) @
        (if status = EFI_SUCCESS H then [take (unat (ucast (ctx_size c) :: UINT32)) (cmd_buf c)] else [])"
      unfolding remembers_def by metis
    from call [unfolded n receive_submits [where L = L, OF assms(4) state L [unfolded p] ok sub]]
      receive_error_not_success [OF assms(1), of status] f'
    show ?thesis
      by (auto simp: Let_def report_status_def n split: if_splits)
  qed
qed

lemma step_seen:
  assumes "tcti_codes_ok H" "locate_ok H L" "firmware_remembers H L seen"
    and "ctx_wf c" "unat (ctx_size c) < 2 ^ 32"
    and step: "tcti_step H L call (c, w) = Some (e, c', w')"
  shows "seen (firmware w') = seen (firmware w) @ answered_blocks [e]"
proof (cases call)
  case (Call_transmit sz command)
  with step have "firmware w' = firmware w \<and> (\<forall>block. e \<noteq> Answered block)"
    by (auto simp: tcti_uefi_transmit_def Let_def split: bind_splits option.splits if_splits)
  then show ?thesis by (cases e) auto
next
  case (Call_receive sz response timeout)
  with step obtain rc sz' response' where
    call: "tcti_uefi_receive H L (Some c) sz response timeout w = Some (rc, Some c', sz', response', w')"
    and e: "e = (if rc = TSS2_RC_SUCCESS H \<and> response \<noteq> None then Answered (cmd_buf c) else Nothing)"
    by (auto split: bind_splits)
  have "unat (ucast (ctx_size c) :: UINT32) = length (cmd_buf c)"
    using assms(4,5) by (simp add: unsigned_ucast_eq take_bit_nat_eq_self ctx_wf_def)
  with receive_seen [OF assms(1-3) ctx_wf_tagged [OF assms(4)] call] show ?thesis
    by (simp add: e)
next
  case Call_finalize
  with step show ?thesis by (auto simp: finalize_Some)
qed

subsection \<open>A run\<close>

lemma answered_blocks_Cons: "answered_blocks (e # es) = answered_blocks [e] @ answered_blocks es"
  by (cases e) simp_all

lemma run_seen:
  assumes "tcti_codes_ok H" "locate_ok H L" "firmware_remembers H L seen" "cap < 2 ^ 32"
  shows "tcti_sim cap (c, w) ph \<Longrightarrow> list_all buffer_ok calls \<Longrightarrow>
    run_calls (tcti_step H L) calls (c, w) = Some (es, c', w') \<Longrightarrow>
    seen (firmware w') = seen (firmware w) @ answered_blocks es"
proof (induction calls arbitrary: c w ph es)
  case Nil
  then show ?case by simp
next
  case (Cons call calls)
  from step_simulates [OF assms(1,2) Cons.prems(1), of call] Cons.prems(2) obtain e c1 w1 ph1 where
    step: "tcti_step H L call (c, w) = Some (e, c1, w1)" and sim: "tcti_sim cap (c1, w1) ph1"
    by (auto simp: matched_def)
  from Cons.prems(3) step obtain es1 where
    rest: "run_calls (tcti_step H L) calls (c1, w1) = Some (es1, c', w')" and es: "es = e # es1"
    by (auto split: bind_splits)
  from Cons.prems(1) assms(4) have "ctx_wf c" "unat (ctx_size c) < 2 ^ 32"
    by (auto simp: tcti_sim_def ctx_wf_def)
  from step_seen [OF assms(1-3) this step] Cons.IH [OF sim _ rest] Cons.prems(2) show ?case
    unfolding es answered_blocks_Cons [of e es1] by simp
qed

text \<open>
  C2. What the firmware accepts is what was sent: over any run after Init, of any calls in
  any order, the blocks that the firmware's own record has gained are as long as the
  context's buffer and begin, in order, with the first, second, ... command transmitted; at
  most one transmitted command is still missing. No command reaches the firmware twice, out
  of order or altered. The context must be smaller than 2^32 bytes, as SubmitCommand is told
  its size in 32 bits.
\<close>

theorem firmware_sees_commands:
  assumes "tcti_codes_ok H" "locate_ok H L" "firmware_remembers H L seen"
    and "Tss2_Tcti_Uefi_Init H L (Some c0) (Some n) conf w0 = Some (rc, Some c, sz, w)"
    and "unat n = unat (sizeof_ctx H) + length (cmd_buf c0)" "length (cmd_buf c0) < 2 ^ 32"
    and "list_all buffer_ok calls"
    and "run_calls (tcti_step H L) calls (c, w) = Some (es, (c', w'))"
  shows "\<exists>accepted. seen (firmware w') = seen (firmware w0) @ accepted
     \<and> length accepted \<le> length (sent_cmds es) \<and> length (sent_cmds es) \<le> length accepted + 1
     \<and> list_all2 answers accepted (take (length accepted) (sent_cmds es))
     \<and> list_all (\<lambda>block. length block = length (cmd_buf c0)) accepted"
proof -
  let ?cap = "length (cmd_buf c0)"
  have w: "firmware w0 = firmware w"
    using assms(4) by (auto simp: init_context)
  from run_seen [OF assms(1-3,6) init_run [OF assms(4,5)] assms(7,8)]
  have seen: "seen (firmware w') = seen (firmware w0) @ answered_blocks es"
    by (simp add: w)
  from init_run_simulates [OF assms(1,2,4,5,7)] assms(8) obtain ph where
    run: "spec_run (tcti_spec ?cap) Idle es ph" by auto
  have "spec_run (tcti_spec ?cap) ph es ph' \<Longrightarrow>
      list_all (\<lambda>block. length block = ?cap) (answered_blocks es)" for ph ph'
  proof (induction rule: spec_run.induct)
    case (spec_run_Cons ph e ph' es ph'')
    then show ?case by (cases rule: tcti_spec.cases) auto
  qed simp
  with run spec_run_pairs [OF run] seen show ?thesis
    by (intro exI [of _ "answered_blocks es"]) (auto simp: phase_cmds_def Let_def)
qed

text \<open>The demonstration firmware's state is such a record, when it answers at all.\<close>

lemma demo_remembers: "firmware_remembers std_headers (demo_locate 0 0) (\<lambda>f. f)"
  by (simp add: firmware_remembers_def remembers_def demo_locate_def demo_protocol_def)

lemma demo_calls_firmware:
  "\<exists>c' w'. run_calls (tcti_step std_headers (demo_locate 0 0)) demo_calls (demo_ctx, demo_world) =
     Some ([Sent [1, 2, 3, 4, 5, 6, 7, 8, 9, 10, 11],
       Answered [1, 2, 3, 4, 5, 6, 7, 8, 9, 10, 11, 0xFF]], (c', w'))
   \<and> firmware w' = [[1, 2, 3, 4, 5, 6, 7, 8, 9, 10, 11, 0xFF]]"
  by (simp add: demo_calls_def demo_ctx_def fresh_ctx_def demo_room_def demo_simps sizeof_ctx_std
      tcti_uefi_transmit_def tcti_uefi_receive_def tcti_uefi_context_cast_def CopyMem_def
      TPM2_HEADER_SIZE_def tcg2_get_protocol_def tcg2_submit_command_def report_status_def Let_def)

theorem firmware_sees_commands_witness:
  "\<exists>es c' w' block. run_calls (tcti_step std_headers (demo_locate 0 0)) demo_calls (demo_ctx, demo_world)
      = Some (es, (c', w'))
    \<and> firmware w' = [block] \<and> answers block [1, 2, 3, 4, 5, 6, 7, 8, 9, 10, 11]"
proof -
  from demo_calls_firmware obtain c' w' where
    run: "run_calls (tcti_step std_headers (demo_locate 0 0)) demo_calls (demo_ctx, demo_world) =
     Some ([Sent [1, 2, 3, 4, 5, 6, 7, 8, 9, 10, 11],
       Answered [1, 2, 3, 4, 5, 6, 7, 8, 9, 10, 11, 0xFF]], (c', w'))"
    and w': "firmware w' = [[1, 2, 3, 4, 5, 6, 7, 8, 9, 10, 11, 0xFF]]" by blast
  have ok: "list_all buffer_ok demo_calls" by (simp add: demo_calls_def)
  have small: "length (cmd_buf demo_block) < 2 ^ 32" by (simp add: demo_block_def demo_room_def)
  from firmware_sees_commands [OF std_headers_ok(2) demo_locate_ok demo_remembers demo_init
      demo_block_size small ok run]
  have "answers [1, 2, 3, 4, 5, 6, 7, 8, 9, 10, 11, 0xFF] [1, 2, 3, 4, 5, 6, 7, 8, 9, 10, 11]"
    by (simp add: w' demo_world_def)
  with run w' show ?thesis by blast
qed

end
