(* ===== verification/Tcti_Liveness.thy ===== *)
theory Tcti_Liveness
  imports Tcti_Machine
begin

section \<open>A pending command is answered in the end\<close>

text \<open>
  \<open>Tcti_Machine\<close> says what a context may do; this theory says what it does in the end.
  Firmware that is busy, or whose device fails, for a while comes with a measure of its state
  that every such failure decreases. Against it a caller that keeps asking with a buffer that
  is large enough gets its answer, and the calls in between, whatever they are, neither lose
  the command nor delay it.
\<close>

subsection \<open>Firmware that recovers\<close>

text \<open>
  What is asked of the firmware concerns one block only, the one that is waiting, and buffers
  that hold what the caller says. With \<open>room\<close> bytes or more for the response a submission
  succeeds or brings the firmware nearer to the answer. With fewer it may be refused as often
  as it is tried (EFI_BUFFER_TOO_SMALL, EFI_INVALID_PARAMETER), but a refusal does not set the
  firmware back.
\<close>

definition submit_recovers ::
  "headers \<Rightarrow> ('fw \<Rightarrow> nat) \<Rightarrow> UINT8 list \<Rightarrow> nat \<Rightarrow> 'fw EFI_TCG2_PROTOCOL \<Rightarrow> 'fw \<Rightarrow> bool" where
  "submit_recovers H rank block room p f \<longleftrightarrow>
     (\<forall>m outb status outb' f'.
        SubmitCommand p (of_nat (length block)) block m outb f = (status, outb', f') \<longrightarrow>
        unat m \<le> length outb \<longrightarrow>
        status = EFI_SUCCESS H \<or> rank f' \<le> rank f \<and> (room \<le> unat m \<longrightarrow> rank f' < rank f))"

definition firmware_recovers ::
  "headers \<Rightarrow> 'fw locate \<Rightarrow> ('fw \<Rightarrow> nat) \<Rightarrow> UINT8 list \<Rightarrow> nat \<Rightarrow> bool" where
  "firmware_recovers H L rank block room \<longleftrightarrow>
     (\<forall>f. \<exists>status p f'. L EFI_TCG2_PROTOCOL_GUID f = (status, Some p, f')
        \<and> \<not> EFI_ERROR H status \<and> rank f' \<le> rank f \<and> submit_recovers H rank block room p f')"

text \<open>
  A call that reaches the firmware when a command is pending; such a call with room enough;
  and the caller's promise that a response buffer is as long as it says.
\<close>

fun submits :: "headers \<Rightarrow> tcti_call \<Rightarrow> bool" where
  "submits H (Call_receive (Some n) (Some buf) timeout) \<longleftrightarrow> timeout = TSS2_TCTI_TIMEOUT_BLOCK H"
| "submits H _ \<longleftrightarrow> False"

fun attempts :: "headers \<Rightarrow> nat \<Rightarrow> tcti_call \<Rightarrow> bool" where
  "attempts H room (Call_receive (Some n) (Some buf) timeout) \<longleftrightarrow>
     timeout = TSS2_TCTI_TIMEOUT_BLOCK H \<and> room \<le> unat n \<and> unat n < 2 ^ 32"
| "attempts H room _ \<longleftrightarrow> False"

fun response_ok :: "tcti_call \<Rightarrow> bool" where
  "response_ok (Call_receive (Some n) (Some buf) timeout) \<longleftrightarrow> unat n \<le> length buf"
| "response_ok _ \<longleftrightarrow> True"

lemma attempts_submits: "attempts H room call \<Longrightarrow> submits H call"
  by (cases "(H, room, call)" rule: attempts.cases) auto

lemma submitsE:
  assumes "submits H call"
  obtains n buf where "call = Call_receive (Some n) (Some buf) (TSS2_TCTI_TIMEOUT_BLOCK H)"
  using assms by (cases "(H, call)" rule: submits.cases) auto

lemma ucast_size_le: "unat (ucast (n :: size_t) :: UINT32) \<le> unat n"
  by (simp add: unsigned_ucast_eq take_bit_nat_less_eq_self)

lemma ucast_size: "unat n < 2 ^ 32 \<Longrightarrow> unat (ucast (n :: size_t) :: UINT32) = unat n"
  by (simp add: unsigned_ucast_eq take_bit_nat_eq_self)

subsection \<open>One call while a command is pending\<close>

definition pending :: "TSS2_TCTI_UEFI_CONTEXT \<Rightarrow> bool" where
  "pending c \<longleftrightarrow> ctx_wf c \<and> ctx_state c = UEFI_STATE_RECEIVE"

lemma pending_submission:
  assumes codes: "tcti_codes_ok H" and fw: "firmware_recovers H L rank (cmd_buf c) room"
    and c: "ctx_wf c" "ctx_state c = UEFI_STATE_RECEIVE" and n: "unat n \<le> length buf"
  shows "\<exists>w'. tcti_step H L (Call_receive (Some n) (Some buf) (TSS2_TCTI_TIMEOUT_BLOCK H)) (c, w) =
        Some (Answered (cmd_buf c), c\<lparr>ctx_state := UEFI_STATE_TRANSMIT\<rparr>, w')
      \<or> tcti_step H L (Call_receive (Some n) (Some buf) (TSS2_TCTI_TIMEOUT_BLOCK H)) (c, w) =
        Some (Nothing, c, w') \<and> rank (firmware w') \<le> rank (firmware w)
          \<and> (room \<le> unat n \<and> unat n < 2 ^ 32 \<longrightarrow> rank (firmware w') < rank (firmware w))"
proof -
  from fw obtain st p f where
    L: "L EFI_TCG2_PROTOCOL_GUID (firmware w) = (st, Some p, f)" "\<not> EFI_ERROR H st"
    and f: "rank f \<le> rank (firmware w)" and sub: "submit_recovers H rank (cmd_buf c) room p f"
    unfolding firmware_recovers_def by blast
  obtain status buf' f' where
    S: "SubmitCommand p (ucast (ctx_size c)) (cmd_buf c) (ucast n) buf f = (status, buf', f')"
    by (cases "SubmitCommand p (ucast (ctx_size c)) (cmd_buf c) (ucast n) buf f")
  note ctx_wf_size32 [OF c(1)]
  moreover have "unat (ucast n :: UINT32) \<le> length buf"
    using ucast_size_le n by (rule order_trans)
  ultimately have f': "status = EFI_SUCCESS H
      \<or> rank f' \<le> rank f \<and> (room \<le> unat (ucast n :: UINT32) \<longrightarrow> rank f' < rank f)"
    using sub [unfolded submit_recovers_def] S by metis
  note call = receive_submits [where L = L, OF ctx_wf_tagged [OF c(1)] c(2) L S]
  from f f' receive_error_not_success [OF codes, of status] show ?thesis
    by (cases "status = EFI_SUCCESS H") (auto simp: call Let_def report_status_def ucast_size)
qed

lemma pending_idle_call:
  assumes "tcti_codes_ok H" "pending c" "\<not> submits H call" "call \<noteq> Call_finalize"
  shows "\<exists>w'. tcti_step H L call (c, w) = Some (Nothing, c, w') \<and> firmware w' = firmware w"
proof (cases call)
  case (Call_transmit sz command)
  have "TSS2_TCTI_RC_BAD_REFERENCE H \<noteq> TSS2_RC_SUCCESS H"
    "TSS2_TCTI_RC_BAD_SEQUENCE H \<noteq> TSS2_RC_SUCCESS H"
    using assms(1) by (auto simp: tcti_codes_ok_def)
  with assms(2) Call_transmit show ?thesis
    by (cases command) (simp_all add: pending_def transmit_null transmit_tagged ctx_wf_tagged)
next
  case (Call_receive sz response timeout)
  have "TSS2_TCTI_RC_BAD_REFERENCE H \<noteq> TSS2_RC_SUCCESS H"
    "TSS2_TCTI_RC_NOT_IMPLEMENTED H \<noteq> TSS2_RC_SUCCESS H"
    using assms(1) by (auto simp: tcti_codes_ok_def)
  with assms(2,3) Call_receive show ?thesis
    by (cases sz; cases response; cases "timeout = TSS2_TCTI_TIMEOUT_BLOCK H")
      (simp_all add: pending_def receive_null receive_timeout receive_query ctx_wf_tagged)
qed (use assms(4) in simp)

subsection \<open>Any sequence of calls\<close>

text \<open>
  The TCTI with a pending command is a machine that waits for an answer: what it keeps is
  the whole context, and the answer is the block of the context's buffer.
\<close>

definition waits ::
  "headers \<Rightarrow> 'fw locate \<Rightarrow> ('fw \<Rightarrow> nat) \<Rightarrow> nat \<Rightarrow> TSS2_TCTI_UEFI_CONTEXT \<times> 'fw world \<Rightarrow> bool" where
  "waits H L rank room s \<longleftrightarrow>
     tcti_codes_ok H \<and> firmware_recovers H L rank (cmd_buf (fst s)) room \<and> pending (fst s)"

definition answered_from ::
  "TSS2_TCTI_UEFI_CONTEXT \<times> 'fw world \<Rightarrow> tcti_event \<times> TSS2_TCTI_UEFI_CONTEXT \<times> 'fw world \<Rightarrow> bool" where
  "answered_from s r \<longleftrightarrow> fst r = Answered (cmd_buf (fst s))
     \<and> fst (snd r) = (fst s)\<lparr>ctx_state := UEFI_STATE_TRANSMIT\<rparr>"

lemma waits_progress:
  assumes "waits H L rank room s" "call \<noteq> Call_finalize" "response_ok call"
  shows "(\<exists>r. tcti_step H L call s = Some r \<and> answered_from s r)
    \<or> (\<exists>s'. tcti_step H L call s = Some (Nothing, s') \<and> waits H L rank room s' \<and> fst s' = fst s
        \<and> rank (firmware (snd s')) \<le> rank (firmware (snd s))
        \<and> (attempts H room call \<longrightarrow> rank (firmware (snd s')) < rank (firmware (snd s))))"
proof -
  obtain c w where s: "s = (c, w)" by (cases s)
  with assms(1) have env: "tcti_codes_ok H" "firmware_recovers H L rank (cmd_buf c) room" "pending c"
    by (simp_all add: waits_def)
  show ?thesis
  proof (cases "submits H call")
    case True
    then obtain n buf where call: "call = Call_receive (Some n) (Some buf) (TSS2_TCTI_TIMEOUT_BLOCK H)"
      by (rule submitsE)
    with assms(3) have "unat n \<le> length buf" by simp
    from pending_submission [OF env(1,2) _ _ this, of w] env show ?thesis
      by (auto simp: s call waits_def answered_from_def pending_def)
  next
    case False
    with pending_idle_call [OF env(1,3) False assms(2), of L w] attempts_submits env show ?thesis
      by (auto simp: s waits_def)
  qed
qed

interpretation tcti_waiting: retried_machine
  "tcti_step H L" "\<lambda>call. call \<noteq> Call_finalize \<and> response_ok call" "attempts H room" "waits H L rank room"
  "\<lambda>s. rank (firmware (snd s))" Nothing answered_from "\<lambda>s s'. fst s' = fst s" for H L rank room
proof unfold_locales
  fix s call
  assume "waits H L rank room s" "call \<noteq> Call_finalize \<and> response_ok call"
  then show "(\<exists>r. tcti_step H L call s = Some r \<and> answered_from s r)
    \<or> (\<exists>s'. tcti_step H L call s = Some (Nothing, s') \<and> waits H L rank room s' \<and> fst s' = fst s
        \<and> rank (firmware (snd s')) \<le> rank (firmware (snd s))
        \<and> (attempts H room call \<longrightarrow> rank (firmware (snd s')) < rank (firmware (snd s))))"
    by (intro waits_progress) simp_all
qed simp_all

text \<open>What is pending is the command that was sent last.\<close>

lemma spec_run_pending:
  "spec_run (tcti_spec cap) ph es ph' \<Longrightarrow> ph' = Pending cmd \<Longrightarrow>
     phase_cmds ph @ sent_cmds es \<noteq> [] \<and> List.last (phase_cmds ph @ sent_cmds es) = cmd"
proof (induction rule: spec_run.induct)
  case (spec_run_Nil ph)
  then show ?case by (simp add: phase_cmds_def)
next
  case (spec_run_Cons ph e ph' es ph'')
  show ?case
  proof (cases "e = Closed")
    case True
    with spec_run_Cons.hyps have "spec_run (tcti_spec cap) Finalized es ph''"
      by (simp add: tcti_spec_Closed)
    from conjunct1 [OF spec_run_Finalized [OF this]] spec_run_Cons.prems show ?thesis by simp
  next
    case False
    from spec_run_Cons.hyps(1) spec_run_Cons.IH [OF spec_run_Cons.prems] False show ?thesis
      by (cases rule: tcti_spec.cases) (auto simp: phase_cmds_def)
  qed
qed

subsection \<open>Properties\<close>

text \<open>
  C3. Liveness: a command the TCTI has accepted is answered in the end. Take any run after
  Init that leaves a command waiting, and firmware that for the waiting block, given \<open>room\<close>
  bytes for the response, fails at most \<open>rank\<close> times more; too small a buffer it may refuse
  for ever. Then any further calls, with no finalize and with response buffers of the size
  they say, that hold more than \<open>rank\<close> attempts to receive with room enough contain a first
  answer: nothing happens before it (every other call is refused and loses nothing), the block
  submitted begins with the command transmitted last, and the context is ready for the next
  command.
\<close>

theorem pending_command_answered:
  assumes "tcti_codes_ok H" "locate_ok H L"
    and "Tss2_Tcti_Uefi_Init H L (Some c0) (Some n) conf w0 = Some (rc, Some c, sz, w)"
    and "unat n = unat (sizeof_ctx H) + length (cmd_buf c0)"
    and "list_all buffer_ok calls"
    and "run_calls (tcti_step H L) calls (c, w) = Some (es, (c1, w1))"
    and "ctx_state c1 = UEFI_STATE_RECEIVE" "firmware_recovers H L rank (cmd_buf c1) room"
    and "Call_finalize \<notin> set later" "list_all response_ok later"
    and "rank (firmware w1) < length (filter (attempts H room) later)"
  shows "\<exists>i c2 w2. i < length later
      \<and> run_calls (tcti_step H L) (take (Suc i) later) (c1, w1) =
          Some (replicate i Nothing @ [Answered (cmd_buf c1)], (c2, w2))
      \<and> sent_cmds es \<noteq> [] \<and> answers (cmd_buf c1) (List.last (sent_cmds es))
      \<and> ctx_wf c2 \<and> ctx_state c2 = UEFI_STATE_TRANSMIT"
proof -
  from init_run_simulates [OF assms(1-5)] assms(6) obtain ph where
    run: "spec_run (tcti_spec (length (cmd_buf c0))) Idle es ph"
    and sim: "tcti_sim (length (cmd_buf c0)) (c1, w1) ph" by auto
  from sim assms(7) obtain cmd where ph: "ph = Pending cmd"
    and pre: "answers (cmd_buf c1) cmd" and wf: "ctx_wf c1"
    by (cases ph) (auto simp: tcti_sim_def answers_def)
  from wf assms(1,7,8) have "waits H L rank room (c1, w1)"
    by (simp add: waits_def pending_def)
  moreover have "list_all (\<lambda>call. call \<noteq> Call_finalize \<and> response_ok call) later"
    using assms(9,10) by (auto simp: list_all_iff)
  ultimately obtain i c2 w2 where
    "i < length later"
    "run_calls (tcti_step H L) (take (Suc i) later) (c1, w1) =
       Some (replicate i Nothing @ [Answered (cmd_buf c1)], c2, w2)"
    and c2: "c2 = c1\<lparr>ctx_state := UEFI_STATE_TRANSMIT\<rparr>"
    using tcti_waiting.answered_in_the_end [of H L rank room "(c1, w1)" later] assms(11)
    by (fastforce simp: answered_from_def)
  moreover from spec_run_pending [OF run ph] have
    "sent_cmds es \<noteq> [] \<and> List.last (sent_cmds es) = cmd"
    by (simp add: phase_cmds_def)
  ultimately show ?thesis
    using pre wf by (intro exI [of _ i] exI [of _ c2] exI [of _ w2]) simp
qed

text \<open>
  Firmware with a response of four bytes that is busy a number of times, its state the number
  left: it refuses a block that is not as long as it is said to be (EFI_INVALID_PARAMETER)
  and a buffer of less than four bytes (EFI_BUFFER_TOO_SMALL), always; it answers
  EFI_DEVICE_ERROR while it is busy.
\<close>

definition busy_protocol :: "nat EFI_TCG2_PROTOCOL" where
  "busy_protocol = \<lparr>
     GetCapability = (\<lambda>c f. (0, c, f)),
     GetEventLog = (\<lambda>format out f. (0, demo_log, f)),
     HashLogExtendEvent = (\<lambda>flags a n e f. (0, f)),
     SubmitCommand = (\<lambda>n inb m outb f.
        if unat n \<noteq> length inb \<or> length outb < unat m then (0x8000000000000002, outb, f)
        else if unat m < 4 then (0x8000000000000005, outb, f)
        else if f = 0 then (0, replicate 4 0x80 @ drop 4 outb, 0)
        else (0x8000000000000007, outb, f - 1)),
     GetActivePcrBanks = (\<lambda>banks f. (0, 0, f)),
     SetActivePcrBanks = (\<lambda>banks f. (0, f)),
     GetResultOfSetActivePcrBanks = (\<lambda>r f. (0, r, f)) \<rparr>"

definition busy_locate :: "nat locate" where
  "busy_locate = (\<lambda>guid f. (0, Some busy_protocol, f))"

definition busy_world :: "nat world" where
  "busy_world = \<lparr>firmware = 2, console = []\<rparr>"

lemma busy_recovers:
  assumes "length block < 2 ^ 32"
  shows "firmware_recovers std_headers busy_locate (\<lambda>f. f) block 4"
  using unat_of_nat32 [OF assms]
  by (auto simp: firmware_recovers_def busy_locate_def submit_recovers_def busy_protocol_def
      split: if_splits)

lemma busy_locate_ok: "locate_ok std_headers busy_locate"
  by (simp add: locate_ok_def busy_locate_def)

definition busy_sent :: "tcti_call list" where
  "busy_sent = [Call_transmit 11 (Some [1, 2, 3, 4, 5, 6, 7, 8, 9, 10, 11])]"

text \<open>
  The caller queries the size, tries without room, tries, transmits out of turn, and tries
  twice more.
\<close>

definition busy_later :: "tcti_call list" where
  "busy_later = [Call_receive (Some 0) None (- 1), Call_receive (Some 0) (Some []) (- 1),
     Call_receive (Some 4) (Some [0, 0, 0, 0]) (- 1),
     Call_transmit 11 (Some [1, 2, 3, 4, 5, 6, 7, 8, 9, 10, 11]),
     Call_receive (Some 4) (Some [0, 0, 0, 0]) (- 1), Call_receive (Some 4) (Some [0, 0, 0, 0]) (- 1)]"

definition busy_ctx :: TSS2_TCTI_UEFI_CONTEXT where
  "busy_ctx = demo_ctx\<lparr>ctx_state := UEFI_STATE_RECEIVE,
     cmd_buf := [1, 2, 3, 4, 5, 6, 7, 8, 9, 10, 11, 0xFF]\<rparr>"

lemma busy_sent_run:
  "run_calls (tcti_step std_headers busy_locate) busy_sent (demo_ctx, busy_world) =
     Some ([Sent [1, 2, 3, 4, 5, 6, 7, 8, 9, 10, 11]], (busy_ctx, busy_world))"
  by (simp add: busy_sent_def busy_ctx_def demo_ctx_def fresh_ctx_def demo_room_def sizeof_ctx_std
      tcti_uefi_transmit_def tcti_uefi_context_cast_def CopyMem_def TPM2_HEADER_SIZE_def Let_def)

theorem pending_command_answered_witness:
  "\<exists>i c2 w2. i < length busy_later
      \<and> run_calls (tcti_step std_headers busy_locate) (take (Suc i) busy_later) (busy_ctx, busy_world) =
          Some (replicate i Nothing @ [Answered (cmd_buf busy_ctx)], (c2, w2))
      \<and> answers (cmd_buf busy_ctx) [1, 2, 3, 4, 5, 6, 7, 8, 9, 10, 11]
      \<and> ctx_wf c2 \<and> ctx_state c2 = UEFI_STATE_TRANSMIT"
proof -
  have ok: "list_all buffer_ok busy_sent" and fin: "Call_finalize \<notin> set busy_later"
    and room: "list_all response_ok busy_later"
    and busy: "firmware busy_world < length (filter (attempts std_headers 4) busy_later)"
    and state: "ctx_state busy_ctx = UEFI_STATE_RECEIVE"
    by (simp_all add: busy_sent_def busy_later_def busy_world_def busy_ctx_def)
  have "firmware_recovers std_headers busy_locate (\<lambda>f. f) (cmd_buf busy_ctx) 4"
    by (rule busy_recovers) (simp add: busy_ctx_def)
  from pending_command_answered [OF std_headers_ok(2) busy_locate_ok demo_init
      demo_block_size ok busy_sent_run state this fin room busy] show ?thesis
    by simp
qed

end
