(* ===== verification/Alg_Tables.thy ===== *)
theory Alg_Tables
  imports Tcg2_Util Demo_Firmware
begin

section \<open>Names and sizes of algorithms and events: example/util.c\<close>

subsection \<open>Definitions\<close>

definition bitmap_val_str :: "UINT32 \<Rightarrow> UINT32 \<Rightarrow> string" where
  "bitmap_val_str member selector = (if member AND selector \<noteq> 0 then ''true'' else ''false'')"

definition tcg2_algorithm_bitmap_prettyprint :: "UINT32 \<Rightarrow> 'fw world \<Rightarrow> 'fw world" where
  "tcg2_algorithm_bitmap_prettyprint bitmap w =
     (let w = Print ''    EFI_TCG2_BOOT_HASH_ALG_SHA1: %s\<newline>''
            [A_str (bitmap_val_str bitmap EFI_TCG2_BOOT_HASH_ALG_SHA1)] w;
          w = Print ''    EFI_TCG2_BOOT_HASH_ALG_SHA256: %s\<newline>''
            [A_str (bitmap_val_str bitmap EFI_TCG2_BOOT_HASH_ALG_SHA256)] w;
          w = Print ''    EFI_TCG2_BOOT_HASH_ALG_SHA384: %s\<newline>''
            [A_str (bitmap_val_str bitmap EFI_TCG2_BOOT_HASH_ALG_SHA384)] w;
          w = Print ''    EFI_TCG2_BOOT_HASH_ALG_SHA512: %s\<newline>''
            [A_str (bitmap_val_str bitmap EFI_TCG2_BOOT_HASH_ALG_SHA512)] w
      in Print ''    EFI_TCG2_BOOT_HASH_ALG_SM3_256: %s\<newline>''
            [A_str (bitmap_val_str bitmap EFI_TCG2_BOOT_HASH_ALG_SM3_256)] w)"

text \<open>
  The names of the event types; a C \<open>switch\<close> over distinct labels is a chain of tests.
\<close>

definition eventtype_to_string :: "TCG_EVENTTYPE \<Rightarrow> string" where
  "eventtype_to_string event_type =
     (if event_type = EV_PREBOOT_CERT then ''EV_PREBOOT_CERT''
      else if event_type = EV_POST_CODE then ''EV_POST_CODE''
      else if event_type = EV_UNUSED then ''EV_UNUSED''
      else if event_type = EV_NO_ACTION then ''EV_NO_ACTION''
      else if event_type = EV_SEPARATOR then ''EV_SEPARATOR''
      else if event_type = EV_ACTION then ''EV_ACTION''
      else if event_type = EV_EVENT_TAG then ''EV_EVENT_TAG''
      else if event_type = EV_S_CRTM_CONTENTS then ''EV_S_CRTM_CONTENTS''
      else if event_type = EV_S_CRTM_VERSION then ''EV_S_CRTM_VERSION''
      else if event_type = EV_CPU_MICROCODE then ''EV_CPU_MICROCODE''
      else if event_type = EV_PLATFORM_CONFIG_FLAGS then ''EV_PLATFORM_CONFIG_FLAGS''
      else if event_type = EV_TABLE_OF_DEVICES then ''EV_TABLE_OF_DEVICES''
      else if event_type = EV_COMPACT_HASH then ''EV_COMPACT_HASH''
      else if event_type = EV_IPL then ''EV_IPL''
      else if event_type = EV_IPL_PARTITION_DATA then ''EV_IPL_PARTITION_DATA''
      else if event_type = EV_NONHOST_CODE then ''EV_NONHOST_CODE''
      else if event_type = EV_NONHOST_CONFIG then ''EV_NONHOST_CONFIG''
      else if event_type = EV_NONHOST_INFO then ''EV_NONHOST_INFO''
      else if event_type = EV_OMIT_BOOT_DEVICE_EVENTS then ''EV_OMIT_BOOT_DEVICE_EVENTS''
      else if event_type = EV_EFI_VARIABLE_DRIVER_CONFIG then ''EV_EFI_VARIABLE_DRIVER_CONFIG''
      else if event_type = EV_EFI_VARIABLE_BOOT then ''EV_EFI_VARIABLE_BOOT''
      else if event_type = EV_EFI_BOOT_SERVICES_APPLICATION then ''EV_EFI_BOOT_SERVICES_APPLICATION''
      else if event_type = EV_EFI_BOOT_SERVICES_DRIVER then ''EV_EFI_BOOT_SERVICES_DRIVER''
      else if event_type = EV_EFI_RUNTIME_SERVICES_DRIVER then ''EV_EFI_RUNTIME_SERVICES_DRIVER''
      else if event_type = EV_EFI_GPT_EVENT then ''EV_EFI_GPT_EVENT''
      else if event_type = EV_EFI_ACTION then ''EV_EFI_ACTION''
      else if event_type = EV_EFI_PLATFORM_FIRMWARE_BLOB then ''EV_EFI_PLATFORM_FIRMWARE_BLOB''
      else if event_type = EV_EFI_HANDOFF_TABLES then ''EV_EFI_HANDOFF_TABLES''
      else if event_type = EV_EFI_VARIABLE_AUTHORITY then ''EV_EFI_VARIABLE_AUTHORITY''
      else ''Unknown event type'')"

definition get_alg_size :: "headers \<Rightarrow> UINT16 \<Rightarrow> size_t" where
  "get_alg_size H alg_id =
     (if alg_id = TPM2_ALG_SHA1 H then TPM2_SHA1_DIGEST_SIZE H
      else if alg_id = TPM2_ALG_SHA256 H then TPM2_SHA256_DIGEST_SIZE H
      else if alg_id = TPM2_ALG_SHA384 H then TPM2_SHA384_DIGEST_SIZE H
      else if alg_id = TPM2_ALG_SHA512 H then TPM2_SHA512_DIGEST_SIZE H
      else if alg_id = TPM2_ALG_SM3_256 H then TPM2_SM3_256_DIGEST_SIZE H
      else 0)"

definition get_alg_name :: "headers \<Rightarrow> UINT16 \<Rightarrow> string" where
  "get_alg_name H alg_id =
     (if alg_id = TPM2_ALG_SHA1 H then ''EFI_TCG2_BOOT_HASH_ALG_SHA1''
      else if alg_id = TPM2_ALG_SHA256 H then ''EFI_TCG2_BOOT_HASH_ALG_SHA256''
      else if alg_id = TPM2_ALG_SHA384 H then ''EFI_TCG2_BOOT_HASH_ALG_SHA384''
      else if alg_id = TPM2_ALG_SHA512 H then ''EFI_TCG2_BOOT_HASH_ALG_SHA512''
      else if alg_id = TPM2_ALG_SM3_256 H then ''EFI_TCG2_BOOT_HASH_ALG_SM3_256''
      else ''UNKNOWN_ALGORITHM'')"

text \<open>
  The format choice. The C operator between the bitmap and the constant is the logical
  \<open>&&\<close>: the test is that both are not zero.
\<close>

definition get_eventlog_format_high ::
  "headers \<Rightarrow> 'fw EFI_TCG2_PROTOCOL option \<Rightarrow> EFI_TCG2_EVENT_LOG_FORMAT \<Rightarrow> 'fw world \<Rightarrow>
   (EFI_STATUS \<times> EFI_TCG2_EVENT_LOG_FORMAT \<times> 'fw world) option" where
  "get_eventlog_format_high H tcg2_protocol format w = do {
     (status, caps, w) \<leftarrow> tcg2_get_capability H tcg2_protocol
       (caps_init (of_nat sizeof_EFI_TCG2_BOOT_SERVICE_CAPABILITY)) w;
     if EFI_ERROR H status then Some (status, format, w)
     else if SupportedEventLogs caps \<noteq> 0 \<and> EFI_TCG2_EVENT_LOG_FORMAT_TCG_2 \<noteq> 0 then
       Some (EFI_SUCCESS H, EFI_TCG2_EVENT_LOG_FORMAT_TCG_2, w)
     else if SupportedEventLogs caps \<noteq> 0 \<and> EFI_TCG2_EVENT_LOG_FORMAT_TCG_1_2 \<noteq> 0 then
       Some (EFI_SUCCESS H, EFI_TCG2_EVENT_LOG_FORMAT_TCG_1_2, w)
     else Some (EFI_SUCCESS H, 0, w) }"

subsection \<open>Sizes and names\<close>

text \<open>The five algorithms with their digest sizes in bytes and their names.\<close>

definition alg_table :: "headers \<Rightarrow> (UINT16 \<times> nat \<times> string) list" where
  "alg_table H =
     [(TPM2_ALG_SHA1 H, 20, ''EFI_TCG2_BOOT_HASH_ALG_SHA1''),
      (TPM2_ALG_SHA256 H, 32, ''EFI_TCG2_BOOT_HASH_ALG_SHA256''),
      (TPM2_ALG_SHA384 H, 48, ''EFI_TCG2_BOOT_HASH_ALG_SHA384''),
      (TPM2_ALG_SHA512 H, 64, ''EFI_TCG2_BOOT_HASH_ALG_SHA512''),
      (TPM2_ALG_SM3_256 H, 32, ''EFI_TCG2_BOOT_HASH_ALG_SM3_256'')]"

definition known_alg :: "headers \<Rightarrow> UINT16 \<Rightarrow> bool" where
  "known_alg H alg \<longleftrightarrow> map_of (alg_table H) alg \<noteq> None"

lemma alg_size_lookup:
  assumes "digest_sizes_ok H"
  shows "unat (get_alg_size H alg) = (case map_of (alg_table H) alg of None \<Rightarrow> 0 | Some (n, _) \<Rightarrow> n)"
  using assms by (simp add: get_alg_size_def alg_table_def digest_sizes_ok_def)

lemma alg_size_bound:
  assumes "digest_sizes_ok H"
  shows "unat (get_alg_size H alg) \<le> 64"
  using assms by (simp add: get_alg_size_def digest_sizes_ok_def)

lemma alg_size_unknown: "\<not> known_alg H alg \<Longrightarrow> get_alg_size H alg = 0"
  by (auto simp: known_alg_def alg_table_def get_alg_size_def split: if_splits)

lemma known_alg_cases:
  "known_alg H alg \<longleftrightarrow> alg \<in> {TPM2_ALG_SHA1 H, TPM2_ALG_SHA256 H, TPM2_ALG_SHA384 H,
     TPM2_ALG_SHA512 H, TPM2_ALG_SM3_256 H}"
  by (auto simp: known_alg_def alg_table_def)

lemma alg_size_positive: "digest_sizes_ok H \<Longrightarrow> get_alg_size H alg \<noteq> 0 \<longleftrightarrow> known_alg H alg"
  by (auto simp: known_alg_cases get_alg_size_def digest_sizes_ok_def)

lemma alg_names_differ:
  "known_alg H alg \<Longrightarrow> known_alg H alg' \<Longrightarrow> get_alg_name H alg = get_alg_name H alg' \<Longrightarrow> alg = alg'"
  unfolding known_alg_cases
  by (elim insertE emptyE; simp add: get_alg_name_def split: if_splits)

text \<open>
  The digest size and the name of an algorithm are those of the table of the five known
  algorithms; every other identifier has size 0 and the name of an unknown algorithm, and
  different known algorithms have different names.
\<close>

theorem alg_size_and_name:
  assumes "alg_ids_ok H" "digest_sizes_ok H"
  shows "(case map_of (alg_table H) alg of
       Some (n, name) \<Rightarrow> get_alg_size H alg = of_nat n \<and> get_alg_name H alg = name
     | None \<Rightarrow> get_alg_size H alg = 0 \<and> get_alg_name H alg = ''UNKNOWN_ALGORITHM'')
   \<and> (known_alg H alg \<longrightarrow> known_alg H alg' \<longrightarrow> get_alg_name H alg = get_alg_name H alg' \<longrightarrow> alg = alg')"
proof (rule conjI)
  show "case map_of (alg_table H) alg of
       Some (n, name) \<Rightarrow> get_alg_size H alg = of_nat n \<and> get_alg_name H alg = name
     | None \<Rightarrow> get_alg_size H alg = 0 \<and> get_alg_name H alg = ''UNKNOWN_ALGORITHM''"
    using assms(2) by (simp add: alg_table_def get_alg_size_def get_alg_name_def digest_sizes_ok_def)
  show "known_alg H alg \<longrightarrow> known_alg H alg' \<longrightarrow> get_alg_name H alg = get_alg_name H alg' \<longrightarrow> alg = alg'"
    using alg_names_differ by blast
qed

theorem alg_size_and_name_witness:
  "get_alg_size std_headers 0xC = 48 \<and> get_alg_size std_headers 0x14 = 0"
  using conjunct1 [OF alg_size_and_name [where alg = "0xC", OF std_headers_ok(3,4)]]
    conjunct1 [OF alg_size_and_name [where alg = "0x14", OF std_headers_ok(3,4)]]
  by (simp add: alg_table_def)

definition event_table :: "(TCG_EVENTTYPE \<times> string) list" where
  "event_table =
  [(EV_PREBOOT_CERT, ''EV_PREBOOT_CERT''),
   (EV_POST_CODE, ''EV_POST_CODE''),
   (EV_UNUSED, ''EV_UNUSED''),
   (EV_NO_ACTION, ''EV_NO_ACTION''),
   (EV_SEPARATOR, ''EV_SEPARATOR''),
   (EV_ACTION, ''EV_ACTION''),
   (EV_EVENT_TAG, ''EV_EVENT_TAG''),
   (EV_S_CRTM_CONTENTS, ''EV_S_CRTM_CONTENTS''),
   (EV_S_CRTM_VERSION, ''EV_S_CRTM_VERSION''),
   (EV_CPU_MICROCODE, ''EV_CPU_MICROCODE''),
   (EV_PLATFORM_CONFIG_FLAGS, ''EV_PLATFORM_CONFIG_FLAGS''),
   (EV_TABLE_OF_DEVICES, ''EV_TABLE_OF_DEVICES''),
   (EV_COMPACT_HASH, ''EV_COMPACT_HASH''),
   (EV_IPL, ''EV_IPL''),
   (EV_IPL_PARTITION_DATA, ''EV_IPL_PARTITION_DATA''),
   (EV_NONHOST_CODE, ''EV_NONHOST_CODE''),
   (EV_NONHOST_CONFIG, ''EV_NONHOST_CONFIG''),
   (EV_NONHOST_INFO, ''EV_NONHOST_INFO''),
   (EV_OMIT_BOOT_DEVICE_EVENTS, ''EV_OMIT_BOOT_DEVICE_EVENTS''),
   (EV_EFI_VARIABLE_DRIVER_CONFIG, ''EV_EFI_VARIABLE_DRIVER_CONFIG''),
   (EV_EFI_VARIABLE_BOOT, ''EV_EFI_VARIABLE_BOOT''),
   (EV_EFI_BOOT_SERVICES_APPLICATION, ''EV_EFI_BOOT_SERVICES_APPLICATION''),
   (EV_EFI_BOOT_SERVICES_DRIVER, ''EV_EFI_BOOT_SERVICES_DRIVER''),
   (EV_EFI_RUNTIME_SERVICES_DRIVER, ''EV_EFI_RUNTIME_SERVICES_DRIVER''),
   (EV_EFI_GPT_EVENT, ''EV_EFI_GPT_EVENT''),
   (EV_EFI_ACTION, ''EV_EFI_ACTION''),
   (EV_EFI_PLATFORM_FIRMWARE_BLOB, ''EV_EFI_PLATFORM_FIRMWARE_BLOB''),
   (EV_EFI_HANDOFF_TABLES, ''EV_EFI_HANDOFF_TABLES''),
   (EV_EFI_VARIABLE_AUTHORITY, ''EV_EFI_VARIABLE_AUTHORITY'')]"

lemma lookup_chain:
  "(case map_of [] t of Some s \<Rightarrow> s | None \<Rightarrow> d) = d"
  "(case map_of ((k, s) # kvs) t of Some s \<Rightarrow> s | None \<Rightarrow> d) =
     (if t = k then s else case map_of kvs t of Some s \<Rightarrow> s | None \<Rightarrow> d)"
  by simp_all

lemma event_lookup:
  "eventtype_to_string t =
     (case map_of event_table t of Some s \<Rightarrow> s | None \<Rightarrow> ''Unknown event type'')"
  by (simp only: eventtype_to_string_def event_table_def lookup_chain)

lemma event_types_distinct: "distinct (map fst event_table)"
  by (simp add: event_table_def ev_defs)

lemma event_names_distinct: "distinct (''Unknown event type'' # map snd event_table)"
  by (simp add: event_table_def)

lemma lookup_unique_name:
  assumes "distinct (d # map snd kvs)" "distinct (map fst kvs)" "k \<in> fst ` set kvs"
    and "(case map_of kvs k of Some s \<Rightarrow> s | None \<Rightarrow> d) = (case map_of kvs k' of Some s \<Rightarrow> s | None \<Rightarrow> d)"
  shows "k = k'"
proof -
  from assms(3) obtain s where s: "map_of kvs k = Some s"
    by (cases "map_of kvs k") (auto simp: map_of_eq_None_iff)
  then have in_s: "(k, s) \<in> set kvs" by (rule map_of_SomeD)
  then have "s \<noteq> d" using assms(1) by force
  with s assms(4) have s': "map_of kvs k' = Some s" by (auto split: option.splits)
  then have "(k', s) \<in> set kvs" by (rule map_of_SomeD)
  moreover have "inj_on snd (set kvs)" using assms(1) by (simp add: distinct_map)
  ultimately have "(k, s) = (k', s)" using in_s
    by (intro inj_onD [of snd "set kvs"]) simp_all
  then show ?thesis by simp
qed

text \<open>
  The name printed for an event type of the header identifies it: no other 32-bit value
  has the same name, so the log reader never confuses two event types, or a known with an
  unknown one.
\<close>

theorem event_name_identifies_type:
  assumes "t \<in> fst ` set event_table"
  shows "eventtype_to_string t' = eventtype_to_string t \<longleftrightarrow> t' = t"
proof
  assume "eventtype_to_string t' = eventtype_to_string t"
  from lookup_unique_name [OF event_names_distinct event_types_distinct assms
      this [symmetric, unfolded event_lookup]]
  show "t' = t" by simp
qed simp

theorem event_name_identifies_type_witness:
  "eventtype_to_string 0x80000009 \<noteq> eventtype_to_string 0x80000008"
proof -
  have "0x80000008 \<in> fst ` set event_table" by (simp add: event_table_def ev_defs)
  from event_name_identifies_type [OF this, of "0x80000009"] show ?thesis by simp
qed

subsection \<open>The log format\<close>

text \<open>
  The log format chosen is TCG_2 whenever the firmware's bitmap of formats is not 0,
  and 0 when it is; a failed GetCapability leaves the caller's variable alone. TCG_1_2 is
  never chosen: the source tests the bitmap with \<open>&&\<close>, so a firmware that supports only
  the 1.2 format, or only formats the tool does not know, is asked for the TCG_2 log.
\<close>

theorem eventlog_format_choice:
  assumes "GetCapability p (caps_init 36) (firmware w) = (status, caps, f)" "\<not> EFI_ERROR H (EFI_SUCCESS H)"
  shows "\<exists>st format' w'. get_eventlog_format_high H (Some p) format w = Some (st, format', w')
     \<and> firmware w' = f
     \<and> (EFI_ERROR H status \<longrightarrow> st = status \<and> format' = format)
     \<and> (\<not> EFI_ERROR H status \<longrightarrow> st = EFI_SUCCESS H
          \<and> format' = (if SupportedEventLogs caps = 0 then 0 else EFI_TCG2_EVENT_LOG_FORMAT_TCG_2))"
proof -
  have "tcg2_get_capability H (Some p) (caps_init (of_nat sizeof_EFI_TCG2_BOOT_SERVICE_CAPABILITY)) w =
      Some (status, caps, report_status H ''GetCapability failed: 0x%x\<newline>'' status (w\<lparr>firmware := f\<rparr>))"
    unfolding sizeof_caps of_nat_numeral by (rule capability_wrapper.lifts) (rule assms(1))
  then show ?thesis
    by (simp add: get_eventlog_format_high_def report_status_def unfolds)
qed

theorem eventlog_format_choice_witness:
  "\<exists>w'. get_eventlog_format_high std_headers
     (Some (demo_protocol 0 (demo_caps\<lparr>SupportedEventLogs := EFI_TCG2_EVENT_LOG_FORMAT_TCG_1_2\<rparr>) demo_log))
     0 demo_world = Some (0, EFI_TCG2_EVENT_LOG_FORMAT_TCG_2, w')"
proof -
  have 1: "GetCapability (demo_protocol 0 (demo_caps\<lparr>SupportedEventLogs := EFI_TCG2_EVENT_LOG_FORMAT_TCG_1_2\<rparr>)
      demo_log) (caps_init 36) (firmware demo_world) =
      (0, demo_caps\<lparr>SupportedEventLogs := EFI_TCG2_EVENT_LOG_FORMAT_TCG_1_2\<rparr>, [])"
    by (simp add: demo_protocol_def demo_world_def)
  have 2: "\<not> EFI_ERROR std_headers (EFI_SUCCESS std_headers)" by simp
  from eventlog_format_choice [OF 1 2, of 0] show ?thesis by (auto simp: unfolds)
qed

end
