(* ===== verification/Record_Walk.thy ===== *)
theory Record_Walk
  imports Prelude
begin

section \<open>Walking variable-length records in memory\<close>

text \<open>
  The digests of an event, the events of a TCG_2 log and the events of a TCG_1_2 log are
  walked in the same way: each record says how long it is, and the code computes the
  address of the next one. The locale states the interface once. \<open>enc\<close> gives the bytes
  of a record, \<open>ok\<close> says which records the code can size, and \<open>next_at\<close> is the
  code's step; \<open>pos\<close> gives the address of the i-th of a list of records.
\<close>

lemma visit_fold2:
  assumes "length xs = length rs" "P d"
    and "\<And>i d. i < length rs \<Longrightarrow> P d \<Longrightarrow> callback (xs ! i) d = Some (True, f (rs ! i) d) \<and> P (f (rs ! i) d)"
  shows "visit callback xs d = Some (True, fold f rs d) \<and> P (fold f rs d)"
  using assms
proof (induction xs rs arbitrary: d rule: list_induct2)
  case Nil
  then show ?case by simp
next
  case (Cons x xs r rs)
  from Cons.prems(1) Cons.prems(2) [of 0 d] have hd: "callback x d = Some (True, f r d)" "P (f r d)"
    by simp_all
  have "visit callback xs (f r d) = Some (True, fold f rs (f r d)) \<and> P (fold f rs (f r d))"
    using hd(2) Cons.prems(2) [of "Suc i" for i] by (intro Cons.IH) auto
  with hd(1) show ?case by simp
qed

locale record_walk =
  fixes enc :: "'r \<Rightarrow> UINT8 list"
    and ok :: "'r \<Rightarrow> bool"
    and next_at :: "memory \<Rightarrow> address \<Rightarrow> address option"
  assumes enc_nonempty: "ok r \<Longrightarrow> enc r \<noteq> []"
    and next_lands: "ok r \<Longrightarrow> holds m a (enc r) \<Longrightarrow> unat a + length (enc r) < 2 ^ 64 \<Longrightarrow> a \<noteq> 0 \<Longrightarrow>
      next_at m a = Some (a + of_nat (length (enc r)))"
begin

definition enc_list :: "'r list \<Rightarrow> UINT8 list" where
  "enc_list rs = concat (map enc rs)"

definition offset :: "'r list \<Rightarrow> nat \<Rightarrow> nat" where
  "offset rs i = length (enc_list (take i rs))"

definition pos :: "address \<Rightarrow> 'r list \<Rightarrow> nat \<Rightarrow> address" where
  "pos base rs i = base + of_nat (offset rs i)"

lemma enc_list_simps [simp]:
  "enc_list [] = []" "enc_list (r # rs) = enc r @ enc_list rs"
  "enc_list (rs @ qs) = enc_list rs @ enc_list qs"
  by (simp_all add: enc_list_def)

lemma offset_0 [simp]: "offset rs 0 = 0" "offset rs (length rs) = length (enc_list rs)"
  by (simp_all add: offset_def)

lemma offset_Suc: "i < length rs \<Longrightarrow> offset rs (Suc i) = offset rs i + length (enc (rs ! i))"
  by (simp add: offset_def take_Suc_conv_app_nth)

lemma offset_le: "offset rs i \<le> length (enc_list rs)"
proof -
  have "enc_list rs = enc_list (take i rs) @ enc_list (drop i rs)"
    by (metis append_take_drop_id enc_list_simps(3))
  then show ?thesis by (simp add: offset_def)
qed

lemma offset_increases:
  assumes "list_all ok rs" "i < j" "j \<le> length rs"
  shows "offset rs i < offset rs j"
  using assms(2,3)
proof (induction j)
  case (Suc j)
  then have j: "j < length rs" by simp
  with assms(1) have "enc (rs ! j) \<noteq> []"
    by (intro enc_nonempty) (simp add: list_all_length)
  with offset_Suc [OF j] have "offset rs j < offset rs (Suc j)" by simp
  with Suc show ?case by (cases "i = j") auto
qed simp

lemma pos_unat:
  assumes "unat base + length (enc_list rs) < 2 ^ 64"
  shows "unat (pos base rs i) = unat base + offset rs i"
  using assms offset_le [of rs i] unfolding pos_def by (intro unat_add_nowrap) linarith

lemma pos_nonnull:
  assumes "unat base + length (enc_list rs) < 2 ^ 64" "base \<noteq> 0"
  shows "pos base rs i \<noteq> 0"
  using pos_unat [OF assms(1), of i] assms(2) by (metis add_is_0 unat_0 unat_eq_zero)

lemma pos_le_iff:
  assumes "unat base + length (enc_list rs) < 2 ^ 64" "list_all ok rs" "i \<le> length rs" "j \<le> length rs"
  shows "pos base rs i \<le> pos base rs j \<longleftrightarrow> i \<le> j"
proof -
  have "pos base rs i \<le> pos base rs j \<longleftrightarrow> offset rs i \<le> offset rs j"
    by (simp add: word_le_nat_alt pos_unat [OF assms(1)])
  then show ?thesis
    using offset_increases [OF assms(2), of i j] offset_increases [OF assms(2), of j i] assms(3,4)
    by (metis leD linorder_le_less_linear nat_less_le order_refl)
qed

lemma holds_at_pos:
  assumes "holds m base (enc_list rs)" "i < length rs"
  shows "holds m (pos base rs i) (enc (rs ! i))"
proof -
  have "enc_list rs = enc_list (take i rs) @ enc (rs ! i) @ enc_list (drop (Suc i) rs)"
    by (metis assms(2) append_take_drop_id Cons_nth_drop_Suc enc_list_simps(2,3))
  with assms(1) show ?thesis
    by (simp add: mem_simps pos_def offset_def)
qed

lemma next_at_pos:
  assumes "holds m base (enc_list rs)" "list_all ok rs" "i < length rs" "base \<noteq> 0"
    and "unat base + length (enc_list rs) < 2 ^ 64"
  shows "next_at m (pos base rs i) = Some (pos base rs (Suc i))"
proof -
  have "unat (pos base rs i) + length (enc (rs ! i)) < 2 ^ 64"
    using assms(5) offset_le [of rs "Suc i"]
    by (simp add: pos_unat [OF assms(5)] offset_Suc [OF assms(3)])
  with assms have "next_at m (pos base rs i) = Some (pos base rs i + of_nat (length (enc (rs ! i))))"
    by (intro next_lands) (auto simp: list_all_length holds_at_pos pos_nonnull)
  then show ?thesis
    by (simp add: pos_def offset_Suc [OF assms(3)] add.assoc)
qed

text \<open>
  Visiting the addresses of the records with a callback that goes on is a fold over the
  records, when the callback at an address does what \<open>f\<close> says of the record there.
\<close>

lemma visit_records:
  assumes "P d"
    and "\<And>i d. i < length rs \<Longrightarrow> P d \<Longrightarrow>
      callback (pos base rs i) d = Some (True, f (rs ! i) d) \<and> P (f (rs ! i) d)"
  shows "visit callback (map (pos base rs) [0..<length rs]) d = Some (True, fold f rs d)
     \<and> P (fold f rs d)"
  by (rule visit_fold2) (use assms in auto)

text \<open>
  A loop that calls back at a record and moves on to the next visits the records from the
  i-th to the last and stops behind it.
\<close>

lemma walk_visits:
  assumes enc: "holds m base (enc_list rs)" "list_all ok rs" "base \<noteq> 0"
    and room: "unat base + length (enc_list rs) < 2 ^ 64"
    and body: "\<And>i d. i < length rs \<Longrightarrow> body (pos base rs i, d) =
      (case callback (pos base rs i) d of
         None \<Rightarrow> None
       | Some (go, d) \<Rightarrow> if go then map_option (\<lambda>a. Inl (a, d)) (next_at m (pos base rs i))
                          else Some (Inr (False, d)))"
    and exit: "\<And>d. body (pos base rs (length rs), d) = Some (Inr (True, d))"
    and fuel: "length rs - i < fuel" "i \<le> length rs"
  shows "run_loop fuel body (pos base rs i, d) =
     (case visit callback (map (pos base rs) [i..<length rs]) d of
        None \<Rightarrow> Undefined | Some r \<Rightarrow> Returned r)"
  using fuel
proof (induction "length rs - i" arbitrary: i d fuel)
  case 0
  then have "i = length rs" by simp
  moreover obtain k where "fuel = Suc k" using 0 by (cases fuel) auto
  ultimately show ?case by (simp add: exit)
next
  case (Suc n)
  then have i: "i < length rs" by simp
  obtain k where k: "fuel = Suc k" using Suc by (cases fuel) auto
  have "run_loop k body (pos base rs (Suc i), d) =
     (case visit callback (map (pos base rs) [Suc i..<length rs]) d of
        None \<Rightarrow> Undefined | Some r \<Rightarrow> Returned r)" for d
    using Suc.prems Suc.hyps(2) k by (intro Suc.hyps(1)) auto
  then show ?case
    using i by (auto simp: k body next_at_pos [OF enc(1,2) i enc(3) room] upt_conv_Cons
        split: option.splits)
qed

text \<open>
  A loop that works on a record and then stops if it was the last one, or moves on.
\<close>

lemma walk_until_last:
  assumes body: "\<And>i d. i < length rs \<Longrightarrow> body (pos base rs i, d) =
      map_option (\<lambda>d. if Suc i = length rs then Inr d else Inl (pos base rs (Suc i), d))
        (work (pos base rs i) d)"
    and fuel: "length rs - i \<le> fuel" "i < length rs"
  shows "run_loop fuel body (pos base rs i, d) =
     (case visit (\<lambda>a d. map_option (Pair True) (work a d)) (map (pos base rs) [i..<length rs]) d of
        None \<Rightarrow> Undefined | Some r \<Rightarrow> Returned (snd r))"
  using fuel
proof (induction "length rs - i" arbitrary: i d fuel)
  case 0
  then show ?case by simp
next
  case (Suc n)
  obtain k where k: "fuel = Suc k" using Suc by (cases fuel) auto
  have step: "body (pos base rs i, d) =
      map_option (\<lambda>d. if Suc i = length rs then Inr d else Inl (pos base rs (Suc i), d))
        (work (pos base rs i) d)"
    using Suc.prems by (intro body)
  show ?case
  proof (cases "Suc i = length rs")
    case True
    then have "[i..<length rs] = [i]" using Suc.prems by (metis upt_conv_Cons upt_rec less_irrefl)
    then show ?thesis by (cases "work (pos base rs i) d") (simp_all add: k step True)
  next
    case False
    have "run_loop k body (pos base rs (Suc i), d) =
       (case visit (\<lambda>a d. map_option (Pair True) (work a d)) (map (pos base rs) [Suc i..<length rs]) d of
          None \<Rightarrow> Undefined | Some r \<Rightarrow> Returned (snd r))" for d
      using Suc.prems Suc.hyps(2) k False by (intro Suc.hyps(1)) auto
    then show ?thesis
      using Suc.prems by (cases "work (pos base rs i) d") (simp_all add: k step False upt_conv_Cons)
  qed
qed

end

end
