(* ===== verification/Event_Log.thy ===== *)
theory Event_Log
  imports Alg_Tables Record_Walk
begin

section \<open>The crypto-agile event log: example/util.c\<close>

text \<open>
  The walk over the events of a TCG_2 log and over the digests of an event, and the
  functions that print them. A pointer into the log is its address, 0 is NULL; a field is
  read from memory at its offset, and reading an unmapped byte is undefined (None).
  Pointer arithmetic wraps at 64 bits, as the uintptr_t casts of the source do.
\<close>

subsection \<open>Reading the structures\<close>

text \<open>TCG_DIGEST2: AlgorithmId at 0, Digest at 2. TCG_EVENT2: EventSize at 0, Event at 4.\<close>

definition digest_alg :: "memory \<Rightarrow> address \<Rightarrow> UINT16 option" where
  "digest_alg m digest = rd16 m digest"

definition digest_bytes :: "address \<Rightarrow> address" where
  "digest_bytes digest = digest + of_nat sizeof_TCG_DIGEST2"

definition event_bytes :: "address \<Rightarrow> address" where
  "event_bytes event = event + of_nat sizeof_TCG_EVENT2"

text \<open>TCG_EVENT_HEADER2: PCRIndex at 0, EventType at 4, DigestCount at 8, Digests at 12.\<close>

definition hdr_pcr :: "memory \<Rightarrow> address \<Rightarrow> UINT32 option" where
  "hdr_pcr m event_hdr = rd32 m event_hdr"

definition hdr_type :: "memory \<Rightarrow> address \<Rightarrow> UINT32 option" where
  "hdr_type m event_hdr = rd32 m (event_hdr + 4)"

definition hdr_count :: "memory \<Rightarrow> address \<Rightarrow> UINT32 option" where
  "hdr_count m event_hdr = rd32 m (event_hdr + 8)"

definition hdr_digests :: "address \<Rightarrow> address" where
  "hdr_digests event_hdr = event_hdr + of_nat sizeof_TCG_EVENT_HEADER2"

lemma layout [simp]:
  "digest_bytes a = a + 2" "event_bytes a = a + 4" "hdr_digests a = a + 12"
  by (simp_all add: digest_bytes_def event_bytes_def hdr_digests_def unfolds packed_size_def)

subsection \<open>The walks\<close>

definition get_next_digest :: "headers \<Rightarrow> memory \<Rightarrow> address \<Rightarrow> address option" where
  "get_next_digest H m digest = do {
     alg \<leftarrow> digest_alg m digest;
     Some (digest_bytes digest + get_alg_size H alg) }"

definition sizeof_digest2 :: "headers \<Rightarrow> memory \<Rightarrow> address \<Rightarrow> size_t option" where
  "sizeof_digest2 H m digest = do {
     alg \<leftarrow> digest_alg m digest;
     Some (of_nat sizeof_TCG_DIGEST2 + get_alg_size H alg) }"

text \<open>
  A callback gets the address and its data and returns whether to go on, with the data. The
  digest loop counts the digests that are left; DigestCount does not change meanwhile, as
  the callbacks only read the log.
\<close>

type_synonym 'd log_callback = "address \<Rightarrow> 'd \<Rightarrow> (bool \<times> 'd) option"

primrec digest_loop ::
  "headers \<Rightarrow> memory \<Rightarrow> 'd log_callback \<Rightarrow> nat \<Rightarrow> address \<Rightarrow> 'd \<Rightarrow> (bool \<times> 'd) option" where
  "digest_loop H m callback 0 digest d = Some (True, d)"
| "digest_loop H m callback (Suc left) digest d =
     (if digest \<noteq> 0 then do {
        (ret, d) \<leftarrow> callback digest d;
        if \<not> ret then Some (False, d)
        else do {
          digest \<leftarrow> get_next_digest H m digest;
          digest_loop H m callback left digest d } }
      else Some (True, d))"

definition foreach_digest2 ::
  "headers \<Rightarrow> memory \<Rightarrow> address \<Rightarrow> 'd log_callback \<Rightarrow> 'd \<Rightarrow> (bool \<times> 'd) option" where
  "foreach_digest2 H m event_hdr callback d = do {
     count \<leftarrow> hdr_count m event_hdr;
     digest_loop H m callback (unat count) (hdr_digests event_hdr) d }"

text \<open>The data of this callback is a pointer to a size_t: None is NULL.\<close>

definition digest2_accumulator_callback :: "headers \<Rightarrow> memory \<Rightarrow> size_t option log_callback" where
  "digest2_accumulator_callback H m digest sz =
     (case sz of
        None \<Rightarrow> Some (False, sz)
      | Some n \<Rightarrow> do { k \<leftarrow> sizeof_digest2 H m digest; Some (True, Some (n + k)) })"

definition get_next_event :: "headers \<Rightarrow> memory \<Rightarrow> address \<Rightarrow> address option" where
  "get_next_event H m event_hdr = do {
     (ret, digests_size) \<leftarrow>
       foreach_digest2 H m event_hdr (digest2_accumulator_callback H m) (Some 0);
     if \<not> ret then Some 0
     else do {
       digests_size \<leftarrow> digests_size;
       let event = hdr_digests event_hdr + digests_size;
       event_size \<leftarrow> rd32 m event;
       Some (event_bytes event + ucast event_size) } }"

definition event2_body ::
  "headers \<Rightarrow> memory \<Rightarrow> address \<Rightarrow> 'd log_callback \<Rightarrow> address \<times> 'd \<Rightarrow>
   (address \<times> 'd + bool \<times> 'd) option" where
  "event2_body H m event_last callback s =
     (let (event, d) = s in
      if event \<le> event_last \<and> event \<noteq> 0 then do {
        (go, d) \<leftarrow> callback event d;
        if \<not> go then Some (Inr (False, d))
        else do { event \<leftarrow> get_next_event H m event; Some (Inl (event, d)) } }
      else Some (Inr (True, d)))"

text \<open>
  The event loop follows the addresses the log gives it and need not end, so it runs with
  fuel. The callback is a function pointer: None is NULL.
\<close>

definition foreach_event2 ::
  "headers \<Rightarrow> nat \<Rightarrow> memory \<Rightarrow> address \<Rightarrow> address \<Rightarrow> 'd log_callback option \<Rightarrow> 'd \<Rightarrow>
   (address \<times> 'd, bool \<times> 'd) run" where
  "foreach_event2 H fuel m event_first event_last callback d =
     (case callback of
        None \<Rightarrow> Returned (False, d)
      | Some cb \<Rightarrow>
          if event_first = 0 \<or> event_last = 0 then Returned (False, d)
          else run_loop fuel (event2_body H m event_last cb) (event_first, d))"

subsection \<open>Printing\<close>

definition prettyprint_tpm2_digest ::
  "headers \<Rightarrow> memory \<Rightarrow> address \<Rightarrow> 'fw world \<Rightarrow> 'fw world option" where
  "prettyprint_tpm2_digest H m digest w = do {
     alg \<leftarrow> digest_alg m digest;
     let w = Print ''    AlgorithmId: %s (0x%PRIx16)\<newline>'' [A_str (get_alg_name H alg), A_num (unat alg)] w;
     let digest_size = get_alg_size H alg;
     let w = Print ''    Digest: %d bytes\<newline>'' [A_num (unat digest_size)] w;
     bytes \<leftarrow> rd_bytes m (digest_bytes digest) (unat digest_size);
     Some (DumpHex 4 0 bytes w) }"

definition prettyprint_tpm2_digest_callback ::
  "headers \<Rightarrow> memory \<Rightarrow> (size_t option \<times> 'fw world) log_callback" where
  "prettyprint_tpm2_digest_callback H m digest d = do {
     w \<leftarrow> prettyprint_tpm2_digest H m digest (snd d);
     case fst d of
       None \<Rightarrow> Some (True, (None, w))
     | Some n \<Rightarrow> do { k \<leftarrow> sizeof_digest2 H m digest; Some (True, (Some (n + k), w)) } }"

definition prettyprint_tpm2_event_header ::
  "memory \<Rightarrow> address \<Rightarrow> 'fw world \<Rightarrow> 'fw world option" where
  "prettyprint_tpm2_event_header m event_hdr w = do {
     pcr \<leftarrow> hdr_pcr m event_hdr;
     let w = Print ''  PCRIndex: %d\<newline>'' [A_num (unat pcr)] w;
     ty \<leftarrow> hdr_type m event_hdr;
     let w = Print ''  EventType: %s (0x%PRIx32)\<newline>'' [A_str (eventtype_to_string ty), A_num (unat ty)] w;
     count \<leftarrow> hdr_count m event_hdr;
     Some (Print ''  DigestCount: %d\<newline>'' [A_num (unat count)] w) }"

definition prettyprint_tpm2_eventbuf ::
  "memory \<Rightarrow> address \<Rightarrow> 'fw world \<Rightarrow> 'fw world option" where
  "prettyprint_tpm2_eventbuf m event w = do {
     n \<leftarrow> rd32 m event;
     let w = Print ''  Event: %PRIu32 bytes\<newline>'' [A_num (unat n)] w;
     bytes \<leftarrow> rd_bytes m (event_bytes event) (unat n);
     Some (DumpHex 2 0 bytes w) }"

definition prettyprint_tpm2_event ::
  "headers \<Rightarrow> memory \<Rightarrow> address \<Rightarrow> 'fw world \<Rightarrow> 'fw world option" where
  "prettyprint_tpm2_event H m event_hdr w =
     (if event_hdr = 0 then Some w
      else do {
        w \<leftarrow> prettyprint_tpm2_event_header m event_hdr w;
        (ret, (digests_size, w)) \<leftarrow>
          foreach_digest2 H m event_hdr (prettyprint_tpm2_digest_callback H m) (Some 0, w);
        if \<not> ret then Some w
        else do {
          digests_size \<leftarrow> digests_size;
          prettyprint_tpm2_eventbuf m (hdr_digests event_hdr + digests_size) w } })"

definition prettyprint_tpm2_event_callback ::
  "headers \<Rightarrow> memory \<Rightarrow> 'fw world log_callback" where
  "prettyprint_tpm2_event_callback H m event_hdr w =
     map_option (\<lambda>w. (True, w)) (prettyprint_tpm2_event H m event_hdr w)"

subsection \<open>Encoded logs\<close>

text \<open>
  The bytes of a digest and of an event, and which of them the code can size: a digest is
  as long as its algorithm says, and the counts are those of the parts. A digest of an
  algorithm the code does not know is sized only when it is empty.
\<close>

record tcg_event =
  ev_header :: TCG_EVENT_HEADER2
  ev_digests :: "TCG_DIGEST2 list"
  ev_event :: TCG_EVENT2

definition enc_digest :: "TCG_DIGEST2 \<Rightarrow> UINT8 list" where
  "enc_digest d = le16 (AlgorithmId d) @ Digest d"

definition digest_ok :: "headers \<Rightarrow> TCG_DIGEST2 \<Rightarrow> bool" where
  "digest_ok H d \<longleftrightarrow> length (Digest d) = unat (get_alg_size H (AlgorithmId d))"

definition enc_header :: "TCG_EVENT_HEADER2 \<Rightarrow> UINT8 list" where
  "enc_header h = le32 (PCRIndex h) @ le32 (EventType h) @ le32 (DigestCount h)"

definition enc_body :: "TCG_EVENT2 \<Rightarrow> UINT8 list" where
  "enc_body e = le32 (EventSize e) @ Event e"

definition enc_event :: "tcg_event \<Rightarrow> UINT8 list" where
  "enc_event e = enc_header (ev_header e) @ concat (map enc_digest (ev_digests e)) @ enc_body (ev_event e)"

definition event_ok :: "headers \<Rightarrow> tcg_event \<Rightarrow> bool" where
  "event_ok H e \<longleftrightarrow>
     list_all (digest_ok H) (ev_digests e)
   \<and> unat (DigestCount (ev_header e)) = length (ev_digests e)
   \<and> unat (EventSize (ev_event e)) = length (Event (ev_event e))"

lemma length_enc [simp]:
  "length (enc_digest d) = 2 + length (Digest d)" "length (enc_header h) = 12"
  "length (enc_body e) = 4 + length (Event e)"
  by (simp_all add: enc_digest_def enc_header_def enc_body_def)

lemma digest_sizes_add:
  "digest_ok H d \<Longrightarrow> 2 + get_alg_size H (AlgorithmId d) = of_nat (length (enc_digest d))"
  by (simp add: digest_ok_def)

lemma digest_alg_holds: "holds m a (enc_digest d) \<Longrightarrow> digest_alg m a = Some (AlgorithmId d)"
  by (simp add: digest_alg_def enc_digest_def mem_simps)

lemma next_digest_holds:
  assumes "digest_ok H d" "holds m a (enc_digest d)"
  shows "get_next_digest H m a = Some (a + of_nat (length (enc_digest d)))"
  using assms digest_sizes_add [OF assms(1)]
  by (simp add: get_next_digest_def digest_alg_holds algebra_simps)

lemma sizeof_digest_holds:
  assumes "digest_ok H d" "holds m a (enc_digest d)"
  shows "sizeof_digest2 H m a = Some (of_nat (length (enc_digest d)))"
  using assms digest_sizes_add [OF assms(1)]
  by (simp add: sizeof_digest2_def digest_alg_holds sizeof_TCG_DIGEST2_def packed_size_def)

interpretation digests: record_walk enc_digest "digest_ok H" "get_next_digest H" for H
  by unfold_locales (simp_all add: enc_digest_def next_digest_holds le16_def)

lemma digests_enc_list: "digests.enc_list ds = concat (map enc_digest ds)"
  by (simp add: digests.enc_list_def)

subsection \<open>The digests of an event\<close>

lemma digest_loop_visits:
  assumes "holds m base (digests.enc_list ds)" "list_all (digest_ok H) ds" "base \<noteq> 0"
    and "unat base + length (digests.enc_list ds) < 2 ^ 64" "i \<le> length ds"
  shows "digest_loop H m callback (length ds - i) (digests.pos base ds i) d =
     visit callback (map (digests.pos base ds) [i..<length ds]) d"
  using assms(5)
proof (induction "length ds - i" arbitrary: i d)
  case 0
  then show ?case by simp
next
  case (Suc n)
  then have i: "i < length ds" and n: "length ds - Suc i = n" by simp_all
  note nz = digests.pos_nonnull [OF assms(4,3), of i]
  note nxt = digests.next_at_pos [OF assms(1,2) i assms(3,4)]
  have IH: "digest_loop H m callback n (digests.pos base ds (Suc i)) d =
      visit callback (map (digests.pos base ds) [Suc i..<length ds]) d" for d
    using Suc.hyps(1) [of "Suc i"] n i by simp
  show ?case
    unfolding Suc.hyps(2) [symmetric] using nz i
    by (simp add: nxt IH upt_conv_Cons) (auto simp: nxt IH split: bind_splits)
qed

text \<open>The parts of an event that lies in memory.\<close>

definition event_at :: "headers \<Rightarrow> memory \<Rightarrow> address \<Rightarrow> tcg_event \<Rightarrow> bool" where
  "event_at H m a e \<longleftrightarrow> event_ok H e \<and> holds m a (enc_event e) \<and> a \<noteq> 0
     \<and> unat a + length (enc_event e) < 2 ^ 64"

lemma event_parts:
  assumes "event_at H m a e"
  shows "hdr_pcr m a = Some (PCRIndex (ev_header e))"
    and "hdr_type m a = Some (EventType (ev_header e))"
    and "hdr_count m a = Some (DigestCount (ev_header e))"
    and "holds m (a + 12) (digests.enc_list (ev_digests e))"
    and "a + 12 \<noteq> 0"
    and "unat (a + 12) + length (digests.enc_list (ev_digests e)) < 2 ^ 64"
    and "holds m (a + 12 + of_nat (length (digests.enc_list (ev_digests e)))) (enc_body (ev_event e))"
proof -
  have h: "holds m a (enc_header (ev_header e))"
    "holds m (a + 12) (digests.enc_list (ev_digests e))"
    "holds m (a + 12 + of_nat (length (digests.enc_list (ev_digests e)))) (enc_body (ev_event e))"
    using assms by (simp_all add: event_at_def enc_event_def mem_simps digests_enc_list)
  then show "hdr_pcr m a = Some (PCRIndex (ev_header e))"
    "hdr_type m a = Some (EventType (ev_header e))" "hdr_count m a = Some (DigestCount (ev_header e))"
    "holds m (a + 12) (digests.enc_list (ev_digests e))"
    "holds m (a + 12 + of_nat (length (digests.enc_list (ev_digests e)))) (enc_body (ev_event e))"
    by (simp_all add: hdr_pcr_def hdr_type_def hdr_count_def enc_header_def mem_simps ac_simps)
  have room: "unat a + 12 + length (digests.enc_list (ev_digests e)) + 4 < 2 ^ 64"
    using assms by (simp add: event_at_def enc_event_def digests_enc_list)
  then have u: "unat (a + 12) = unat a + 12"
    using unat_add_nowrap [of a 12] by simp
  with room show "unat (a + 12) + length (digests.enc_list (ev_digests e)) < 2 ^ 64" by simp
  from u show "a + 12 \<noteq> 0" by (metis add_is_0 unat_0 zero_neq_numeral)
qed

lemma foreach_digest2_visits:
  assumes "event_at H m a e"
  shows "foreach_digest2 H m a callback d =
     visit callback (map (digests.pos (a + 12) (ev_digests e)) [0..<length (ev_digests e)]) d"
proof -
  note parts = event_parts [OF assms]
  have "list_all (digest_ok H) (ev_digests e)"
    and n: "unat (DigestCount (ev_header e)) = length (ev_digests e)"
    using assms by (simp_all add: event_at_def event_ok_def)
  from digest_loop_visits [OF parts(4) this(1) parts(5,6), of 0 callback d] show ?thesis
    by (simp add: foreach_digest2_def parts(3) n digests.pos_def)
qed

subsection \<open>The next event\<close>

lemma accumulated:
  assumes "event_at H m a e"
  shows "foreach_digest2 H m a (digest2_accumulator_callback H m) (Some 0) =
     Some (True, Some (of_nat (length (digests.enc_list (ev_digests e)))))"
proof -
  let ?ds = "ev_digests e"
  let ?f = "\<lambda>d n. map_option (\<lambda>n. n + of_nat (length (enc_digest d))) n :: size_t option"
  have "list_all (digest_ok H) ?ds" using assms by (simp add: event_at_def event_ok_def)
  then have size: "i < length ?ds \<Longrightarrow>
      sizeof_digest2 H m (digests.pos (a + 12) ?ds i) = Some (of_nat (length (enc_digest (?ds ! i))))" for i
    using digests.holds_at_pos [OF event_parts(4) [OF assms]]
    by (intro sizeof_digest_holds) (auto simp: list_all_length)
  have "fold ?f ds (Some n) = Some (n + of_nat (length (digests.enc_list ds)))" for ds n
    by (induction ds arbitrary: n) (simp_all add: ac_simps)
  moreover have "visit (digest2_accumulator_callback H m)
      (map (digests.pos (a + 12) ?ds) [0..<length ?ds]) (Some 0) = Some (True, fold ?f ?ds (Some 0))
      \<and> fold ?f ?ds (Some 0) \<noteq> None"
    by (rule digests.visit_records) (auto simp: digest2_accumulator_callback_def size)
  ultimately show ?thesis
    by (simp add: foreach_digest2_visits [OF assms])
qed

lemma length_enc_event:
  "length (enc_event e) =
     16 + length (digests.enc_list (ev_digests e)) + length (Event (ev_event e))"
  by (simp add: enc_event_def digests_enc_list)

lemma ucast_of_nat_unat: "of_nat (unat x) = (ucast x :: 64 word)" for x :: "32 word"
  by (simp add: of_nat_unat)

lemma next_event_holds:
  assumes "event_at H m a e"
  shows "get_next_event H m a = Some (a + of_nat (length (enc_event e)))"
proof -
  from event_parts(7) [OF assms] have "rd32 m (a + 12 + of_nat (length (digests.enc_list (ev_digests e)))) =
      Some (EventSize (ev_event e))"
    by (simp add: enc_body_def mem_simps)
  moreover have "ucast (EventSize (ev_event e)) = (of_nat (length (Event (ev_event e))) :: address)"
    using assms ucast_of_nat_unat [of "EventSize (ev_event e)"]
    by (simp add: event_at_def event_ok_def)
  ultimately show ?thesis
    by (simp add: get_next_event_def accumulated [OF assms] length_enc_event algebra_simps)
qed

interpretation events: record_walk enc_event "event_ok H" "get_next_event H" for H
proof unfold_locales
  fix r m a
  show "event_ok H r \<Longrightarrow> enc_event r \<noteq> []"
    by (simp add: enc_event_def enc_header_def le32_def)
  assume "event_ok H r" "holds m a (enc_event r)" "unat a + length (enc_event r) < 2 ^ 64" "a \<noteq> 0"
  then show "get_next_event H m a = Some (a + of_nat (length (enc_event r)))"
    by (intro next_event_holds) (simp add: event_at_def)
qed

text \<open>A log that lies in memory: its events one after the other, from a first address on.\<close>

definition log_at :: "headers \<Rightarrow> memory \<Rightarrow> address \<Rightarrow> tcg_event list \<Rightarrow> bool" where
  "log_at H m base es \<longleftrightarrow> es \<noteq> [] \<and> list_all (event_ok H) es \<and> holds m base (events.enc_list es)
     \<and> base \<noteq> 0 \<and> unat base + length (events.enc_list es) < 2 ^ 64"

definition last_event :: "address \<Rightarrow> tcg_event list \<Rightarrow> address" where
  "last_event base es = events.pos base es (length es - 1)"

lemma log_event_at:
  assumes "log_at H m base es" "i < length es"
  shows "event_at H m (events.pos base es i) (es ! i)"
proof -
  have room: "unat base + length (events.enc_list es) < 2 ^ 64" and nz: "base \<noteq> 0"
    and h: "holds m base (events.enc_list es)" and ok: "list_all (event_ok H) es"
    using assms(1) by (simp_all add: log_at_def)
  have "unat (events.pos base es i) + length (enc_event (es ! i)) < 2 ^ 64"
    using room events.offset_le [of es "Suc i"]
    by (simp add: events.pos_unat [OF room] events.offset_Suc [OF assms(2)])
  with ok assms(2) show ?thesis
    using events.holds_at_pos [OF h assms(2)] events.pos_nonnull [OF room nz]
    by (simp add: event_at_def list_all_length)
qed

lemma foreach_event2_visits:
  assumes log: "log_at H m base es" and fuel: "length es < fuel"
  shows "foreach_event2 H fuel m base (last_event base es) (Some callback) d =
     (case visit callback (map (events.pos base es) [0..<length es]) d of
        None \<Rightarrow> Undefined | Some r \<Rightarrow> Returned r)"
proof -
  have ne: "es \<noteq> []" and ok: "list_all (event_ok H) es" and h: "holds m base (events.enc_list es)"
    and nz: "base \<noteq> 0" and room: "unat base + length (events.enc_list es) < 2 ^ 64"
    using log by (simp_all add: log_at_def)
  let ?pos = "events.pos base es"
  have le: "?pos i \<le> last_event base es \<longleftrightarrow> i < length es" if "i \<le> length es" for i
    using events.pos_le_iff [OF room ok that, of "length es - 1"] ne
    by (cases "length es") (auto simp: last_event_def)
  have nonnull: "?pos i \<noteq> 0" for i
    by (rule events.pos_nonnull [OF room nz])
  have "run_loop fuel (event2_body H m (last_event base es) callback) (?pos 0, d) =
      (case visit callback (map ?pos [0..<length es]) d of None \<Rightarrow> Undefined | Some r \<Rightarrow> Returned r)"
  proof (rule events.walk_visits [OF h ok nz room])
    fix i d
    assume i: "i < length es"
    show "event2_body H m (last_event base es) callback (?pos i, d) =
      (case callback (?pos i) d of None \<Rightarrow> None
       | Some (go, d) \<Rightarrow> if go then map_option (\<lambda>a. Inl (a, d)) (get_next_event H m (?pos i))
           else Some (Inr (False, d)))"
      using i le [of i] nonnull
      by (auto simp: event2_body_def map_conv_bind_option comp_def split: option.splits bind_splits)
  next
    fix d
    show "event2_body H m (last_event base es) callback (?pos (length es), d) = Some (Inr (True, d))"
      using le [of "length es"] by (simp add: event2_body_def)
  qed (use fuel in simp_all)
  moreover have "last_event base es \<noteq> 0" by (simp add: last_event_def nonnull)
  ultimately show ?thesis
    using nz by (simp add: foreach_event2_def events.pos_def)
qed

subsection \<open>Events of the 1.2 format\<close>

text \<open>
  TCG_PCR_EVENT: PCRIndex at 0, EventType at 4, Digest at 8, EventSize at 28, Event at 32.
\<close>

definition enc_pcr_event :: "TCG_PCR_EVENT \<Rightarrow> UINT8 list" where
  "enc_pcr_event e = le32 (pe_PCRIndex e) @ le32 (pe_EventType e) @ pe_Digest e @
     le32 (pe_EventSize e) @ pe_Event e"

definition pcr_event_ok :: "TCG_PCR_EVENT \<Rightarrow> bool" where
  "pcr_event_ok e \<longleftrightarrow> length (pe_Digest e) = 20 \<and> unat (pe_EventSize e) = length (pe_Event e)"

lemma length_enc_pcr_event: "pcr_event_ok e \<Longrightarrow> length (enc_pcr_event e) = 32 + length (pe_Event e)"
  by (simp add: enc_pcr_event_def pcr_event_ok_def)

lemma pcr_event_parts:
  assumes "holds m a (enc_pcr_event e)" "pcr_event_ok e"
  shows "rd32 m a = Some (pe_PCRIndex e)" "rd32 m (a + 4) = Some (pe_EventType e)"
    "holds m (a + 8) (pe_Digest e)" "rd32 m (a + 28) = Some (pe_EventSize e)"
    "holds m (a + 32) (pe_Event e)"
  using assms by (simp_all add: enc_pcr_event_def pcr_event_ok_def mem_simps ac_simps)

end
