(* ===== verification/Log_Contract.thy ===== *)
theory Log_Contract
  imports Event_Log
begin

section \<open>What the event log walk promises\<close>

text \<open>
  The walk over a well-formed log visits its events one by one and its end; on any memory
  it ends; and two kinds of logs that it does not read as they are meant.
\<close>

subsection \<open>Well-formed logs\<close>

text \<open>
  C20. On an event that lies in memory as the specification encodes it, with any number of
  digests of known algorithms and any event data, the digest walk visits each digest at its
  address and the next event is found exactly behind the event's last byte.
\<close>

theorem event_fully_skipped:
  assumes "event_ok H e" "holds m a (enc_event e)" "a \<noteq> 0" "unat a + length (enc_event e) < 2 ^ 64"
  shows "get_next_event H m a = Some (a + of_nat (length (enc_event e)))
       \<and> foreach_digest2 H m a callback d = visit callback
           (map (\<lambda>i. a + 12 + of_nat (length (concat (map enc_digest (take i (ev_digests e))))))
              [0..<length (ev_digests e)]) d"
proof -
  have at: "event_at H m a e" using assms by (simp add: event_at_def)
  have "map (digests.pos (a + 12) (ev_digests e)) is =
      map (\<lambda>i. a + 12 + of_nat (length (concat (map enc_digest (take i (ev_digests e)))))) is" for "is"
    by (simp add: digests.pos_def digests.offset_def digests_enc_list)
  with next_event_holds [OF at] foreach_digest2_visits [OF at] show ?thesis by simp
qed

definition demo_event :: "UINT32 \<Rightarrow> tcg_event" where
  "demo_event pcr = \<lparr>
     ev_header = \<lparr>PCRIndex = pcr, EventType = EV_SEPARATOR, DigestCount = 2\<rparr>,
     ev_digests = [\<lparr>AlgorithmId = 4, Digest = replicate 20 0x11\<rparr>,
                   \<lparr>AlgorithmId = 0xB, Digest = replicate 32 0x22\<rparr>],
     ev_event = \<lparr>EventSize = 4, Event = [0, 0, 0, 0]\<rparr>\<rparr>"

definition demo_events :: "tcg_event list" where
  "demo_events = [demo_event 0, demo_event 7]"

definition demo_mem :: memory where
  "demo_mem = mem_of 0x1000 (events.enc_list demo_events)"

lemma demo_event_ok: "event_ok std_headers (demo_event pcr)"
  by (simp add: event_ok_def demo_event_def digest_ok_def get_alg_size_def)

lemma demo_event_length: "length (enc_event (demo_event pcr)) = 76"
  by (simp add: length_enc_event digests_enc_list demo_event_def)

lemma demo_log_at: "log_at std_headers demo_mem 0x1000 demo_events"
proof -
  have "length (events.enc_list demo_events) = 152"
    by (simp add: demo_events_def demo_event_length)
  then show ?thesis
    unfolding log_at_def demo_mem_def
    by (intro conjI holds_mem_of) (simp_all add: demo_events_def demo_event_ok)
qed

theorem event_fully_skipped_witness:
  "get_next_event std_headers demo_mem 0x1000 = Some 0x104C"
proof -
  have "holds demo_mem 0x1000 (enc_event (demo_event 0))"
    using events.holds_at_pos [of demo_mem "0x1000" demo_events 0] demo_log_at
    by (simp add: log_at_def demo_events_def events.pos_def)
  from event_fully_skipped [OF demo_event_ok this, of "\<lambda>_ d. Some (True, d)" "()"] show ?thesis
    by (simp add: demo_event_length)
qed

text \<open>
  C6. On a log whose first and last event are where the firmware says, the event walk calls
  back for every event, in order and once each, until the callback says stop, and returns
  whether it reached the end; one iteration more than there are events is enough.
\<close>

theorem foreach_event2_visits_every_event:
  assumes "log_at H m event_first es" "event_last = last_event event_first es" "length es < fuel"
  shows "foreach_event2 H fuel m event_first event_last (Some callback) d =
     (case visit callback (map (\<lambda>i. event_first + of_nat (length (concat (map enc_event (take i es)))))
         [0..<length es]) d of
        None \<Rightarrow> Undefined | Some r \<Rightarrow> Returned r)"
proof -
  have "map (events.pos event_first es) is =
      map (\<lambda>i. event_first + of_nat (length (concat (map enc_event (take i es))))) is" for "is"
    by (simp add: events.pos_def events.offset_def events.enc_list_def)
  with foreach_event2_visits [OF assms(1,3)] assms(2) show ?thesis by simp
qed

theorem foreach_event2_visits_every_event_witness:
  "foreach_event2 std_headers 3 demo_mem 0x1000 (last_event 0x1000 demo_events)
     (Some (\<lambda>a seen. Some (True, seen @ [a]))) [] = Returned (True, [0x1000, 0x104C])"
proof -
  have "length demo_events < 3" by (simp add: demo_events_def)
  from foreach_event2_visits_every_event [OF demo_log_at refl this,
      of "\<lambda>a seen. Some (True, seen @ [a])" "[]"]
  show ?thesis
    by (simp add: demo_events_def upt_rec demo_event_length)
qed

subsection \<open>Termination on any memory\<close>

lemma accumulate_step:
  "digest2_accumulator_callback H m digest (Some n) =
     map_option (\<lambda>alg. (True, Some (n + (2 + get_alg_size H alg)))) (digest_alg m digest)"
  by (cases "digest_alg m digest")
    (simp_all add: digest2_accumulator_callback_def sizeof_digest2_def sizeof_TCG_DIGEST2_def
      packed_size_def)

lemma accumulate_bounds:
  assumes "digest_sizes_ok H"
    and "digest_loop H m (digest2_accumulator_callback H m) left digest (Some n) = Some (ret, r)"
    and "unat n + 66 * left < 2 ^ 64"
  shows "ret \<and> (\<exists>k. r = Some k \<and> unat n \<le> unat k \<and> unat k \<le> unat n + 66 * left)"
  using assms(2,3)
proof (induction left arbitrary: digest n)
  case 0
  then show ?case by auto
next
  case (Suc left)
  show ?case
  proof (cases "digest = 0")
    case True
    with Suc.prems show ?thesis by auto
  next
    case False
    then obtain alg digest' where alg: "digest_alg m digest = Some alg"
      and rest: "digest_loop H m (digest2_accumulator_callback H m) left digest'
        (Some (n + (2 + get_alg_size H alg))) = Some (ret, r)"
      using Suc.prems(1)
      by (auto simp: accumulate_step split: bind_splits)
    have "unat (get_alg_size H alg) \<le> 64" by (rule alg_size_bound [OF assms(1)])
    then have u: "unat (n + (2 + get_alg_size H alg)) = unat n + (2 + unat (get_alg_size H alg))"
      using Suc.prems(2) by (simp add: unat_word_ariths)
    with Suc.IH [OF rest] Suc.prems(2) \<open>unat (get_alg_size H alg) \<le> 64\<close> show ?thesis
      by force
  qed
qed

text \<open>One step of the event walk goes forward by at least 16 and by less than 2^39 bytes.\<close>

lemma next_event_advances:
  assumes "digest_sizes_ok H" "get_next_event H m a = Some a'" "unat a + 2 ^ 39 \<le> 2 ^ 64"
  shows "unat a + 16 \<le> unat a' \<and> unat a' < unat a + 2 ^ 39"
proof -
  from assms(2) obtain count ret sz where
    count: "hdr_count m a = Some count"
    and loop: "digest_loop H m (digest2_accumulator_callback H m) (unat count) (a + 12) (Some 0) =
      Some (ret, sz)"
    by (auto simp: get_next_event_def foreach_digest2_def split: bind_splits)
  have c: "unat count < 4294967296" by (rule unat_lt32)
  then have bound: "unat (0 :: size_t) + 66 * unat count < 2 ^ 64" by simp
  from accumulate_bounds [OF assms(1) loop bound] c obtain k where
    k: "ret" "sz = Some k" "unat k \<le> 66 * 4294967296" by auto
  with assms(2) count loop obtain es where
    a': "a' = a + 12 + k + 4 + ucast (es :: UINT32)"
    by (auto simp: get_next_event_def foreach_digest2_def split: bind_splits)
  have "unat es < 4294967296" by (rule unat_lt32)
  with k(3) assms(3) have "unat a' = unat a + 12 + unat k + 4 + unat es"
    by (simp add: a' unat_word_ariths)
  with k(3) \<open>unat es < 4294967296\<close> show ?thesis by simp
qed

lemma div_step: "x' \<le> y \<Longrightarrow> x = y + 16 \<Longrightarrow> x' div 16 < x div 16" for x x' y :: nat
  using div_le_mono [of x' y 16] by simp

lemma event_walk_ends:
  assumes "digest_sizes_ok H" "unat event_last + 2 ^ 39 \<le> 2 ^ 64" "(unat event_last + 16 - unat event_first) div 16 < fuel"
  shows "\<not> running (foreach_event2 H fuel m event_first event_last callback d)"
proof -
  let ?\<mu> = "\<lambda>s :: address \<times> 'a. (unat event_last + 16 - unat (fst s)) div 16"
  have step: "?\<mu> s' < ?\<mu> s" if step: "event2_body H m event_last cb s = Some (Inl s')" for cb s s'
  proof -
    obtain event d where s: "s = (event, d)" by (cases s)
    from step s obtain d' event' where s': "s' = (event', d')" and le: "event \<le> event_last"
      and next_ev: "get_next_event H m event = Some event'"
      by (auto simp: event2_body_def split: if_splits bind_splits)
    from le have "unat event \<le> unat event_last" by (simp add: word_le_nat_alt)
    moreover from this assms(2) have "unat event + 2 ^ 39 \<le> 2 ^ 64" by simp
    from next_event_advances [OF assms(1) next_ev this] have "unat event + 16 \<le> unat event'" by simp
    ultimately have "unat event_last + 16 - unat event' \<le> unat event_last - unat event"
      and "unat event_last + 16 - unat event = unat event_last - unat event + 16" by simp_all
    then show ?thesis unfolding s s' fst_conv by (rule div_step)
  qed
  have "\<not> running (run_loop fuel (event2_body H m event_last cb) (event_first, d))" for cb
    by (rule run_loop_enough [where I = "\<lambda>_. True" and \<mu> = ?\<mu>]) (use step assms(3) in auto)
  then show ?thesis
    by (simp add: foreach_event2_def split: option.split)
qed

text \<open>
  C21. The event walk ends on every memory, however the log is damaged, as long as the last
  event is not within 2^39 bytes of the end of the address space: each step moves forward by
  at least 16 bytes, which bounds the number of iterations by the distance between the two
  addresses. An address that is not mapped ends it as undefined.
\<close>

theorem event_walk_terminates:
  assumes "digest_sizes_ok H" "unat event_last + 2 ^ 39 \<le> 2 ^ 64" "(unat event_last + 16 - unat event_first) div 16 < fuel"
  shows "\<not> running (foreach_event2 H fuel m event_first event_last callback d)"
  using assms by (rule event_walk_ends)

theorem event_walk_terminates_witness:
  "\<not> running (foreach_event2 std_headers 3 (\<lambda>_. Some 0) 0x1000 0x1010 (Some (\<lambda>a d. Some (True, d))) ())"
proof -
  have "unat (0x1010 :: address) + 2 ^ 39 \<le> 2 ^ 64" by simp
  moreover have "(unat (0x1010 :: address) + 16 - unat (0x1000 :: address)) div 16 < 3" by simp
  ultimately show ?thesis
    by (rule event_walk_terminates [OF std_headers_ok(4)])
qed

subsection \<open>Logs the walk does not read as they are meant\<close>

lemma add_nonnull:
  fixes a :: address
  assumes "unat a + n < 2 ^ 64" "0 < n"
  shows "a + of_nat n \<noteq> 0"
proof
  assume "a + of_nat n = 0"
  with unat_add_nowrap [OF assms(1)] assms(2) show False by simp
qed

text \<open>
  C35. A digest of an algorithm the code does not know is not skipped: its size counts as 0,
  so the four bytes after its algorithm identifier are taken for the size of the event, and
  the walk goes on at an address that the digest's first bytes determine.
\<close>

theorem unknown_digest_misread:
  assumes "\<not> known_alg H alg" "holds m a (enc_header h @ le16 alg @ le32 x @ rest)"
    and "DigestCount h = 1" "unat a + 18 < 2 ^ 64"
  shows "get_next_digest H m (a + 12) = Some (a + 14)
       \<and> get_next_event H m a = Some (a + 18 + ucast x)"
proof -
  have h: "hdr_count m a = Some 1" "digest_alg m (a + 12) = Some alg" "rd32 m (a + 14) = Some x"
    using assms(2,3)
    by (simp_all add: enc_header_def hdr_count_def digest_alg_def mem_simps ac_simps)
  have nz: "a + 12 \<noteq> 0"
    using add_nonnull [of a 12] assms(4) by simp
  have n: "get_next_digest H m (a + 12) = Some (a + 14)"
    by (simp add: get_next_digest_def h alg_size_unknown [OF assms(1)])
  then show ?thesis
    by (simp add: get_next_event_def foreach_digest2_def h accumulate_step nz
        alg_size_unknown [OF assms(1)] ac_simps)
qed

text \<open>
  C36. A crypto-agile log starts with one event in the 1.2 format, whose digest is 20 zero
  bytes. The walk does not know it and reads it as two events of the other format: one
  without digests and data that ends in the middle of the zero digest, and one with PCR 0,
  type EV_PREBOOT_CERT and the event's data. Only because the digest is zero, the second
  ends where the first event really ends.
\<close>

theorem spec_id_event_read_as_two:
  assumes "pcr_event_ok e" "pe_Digest e = replicate 20 0" "holds m a (enc_pcr_event e)"
  shows "get_next_event H m a = Some (a + 16)
       \<and> hdr_pcr m (a + 16) = Some 0 \<and> hdr_type m (a + 16) = Some EV_PREBOOT_CERT
       \<and> hdr_count m (a + 16) = Some 0
       \<and> get_next_event H m (a + 16) = Some (a + of_nat (length (enc_pcr_event e)))"
proof -
  have zero: "replicate 20 (0 :: UINT8) = le32 0 @ le32 0 @ le32 0 @ le32 0 @ le32 0"
    by (simp add: le32_def numeral_eq_Suc)
  from pcr_event_parts(3) [OF assms(3,1)] have z:
    "rd32 m (a + 8) = Some 0" "rd32 m (a + 12) = Some 0" "rd32 m (a + 16) = Some 0"
    "rd32 m (a + 20) = Some 0" "rd32 m (a + 24) = Some 0"
    unfolding assms(2) zero by (simp_all add: mem_simps ac_simps)
  have size: "ucast (pe_EventSize e) = (of_nat (length (pe_Event e)) :: address)"
    using assms(1) ucast_of_nat_unat [of "pe_EventSize e"] by (simp add: pcr_event_ok_def)
  have one: "get_next_event H m a = Some (a + 16)"
    using z by (simp add: get_next_event_def foreach_digest2_def hdr_count_def ac_simps)
  have two: "get_next_event H m (a + 16) = Some (a + of_nat (length (enc_pcr_event e)))"
    using z pcr_event_parts(4) [OF assms(3,1)]
    by (simp add: get_next_event_def foreach_digest2_def hdr_count_def size
        length_enc_pcr_event [OF assms(1)] ac_simps)
  show ?thesis
    using one two z by (simp add: hdr_pcr_def hdr_type_def hdr_count_def EV_PREBOOT_CERT_def ac_simps)
qed

definition demo_spec_id :: TCG_PCR_EVENT where
  "demo_spec_id = \<lparr>pe_PCRIndex = 0, pe_EventType = EV_NO_ACTION, pe_Digest = replicate 20 0,
     pe_EventSize = 3, pe_Event = [0x53, 0x70, 0x65]\<rparr>"

theorem spec_id_event_read_as_two_witness:
  "get_next_event std_headers (mem_of 0x1000 (enc_pcr_event demo_spec_id)) 0x1010 = Some 0x1023"
proof -
  have ok: "pcr_event_ok demo_spec_id" by (simp add: pcr_event_ok_def demo_spec_id_def)
  have len: "length (enc_pcr_event demo_spec_id) = 35"
    unfolding length_enc_pcr_event [OF ok] by (simp add: demo_spec_id_def)
  then have h: "holds (mem_of 0x1000 (enc_pcr_event demo_spec_id)) 0x1000 (enc_pcr_event demo_spec_id)"
    by (intro holds_mem_of) simp
  have zero: "pe_Digest demo_spec_id = replicate 20 0" by (simp add: demo_spec_id_def)
  from spec_id_event_read_as_two [OF ok zero h, of std_headers] show ?thesis
    unfolding len by simp
qed

theorem unknown_digest_misread_witness:
  "get_next_event std_headers (mem_of 0x1000 (enc_header \<lparr>PCRIndex = 0, EventType = 1, DigestCount = 1\<rparr> @
     le16 0x14 @ le32 5 @ [7, 8])) 0x1000 = Some 0x1017"
proof -
  let ?h = "\<lparr>PCRIndex = 0, EventType = 1, DigestCount = 1\<rparr>"
  let ?bs = "enc_header ?h @ le16 0x14 @ le32 5 @ [7, 8]"
  have unknown: "\<not> known_alg std_headers 0x14" by (simp add: known_alg_cases)
  have h: "holds (mem_of 0x1000 ?bs) 0x1000 ?bs" by (rule holds_mem_of) simp
  have "unat (0x1000 :: address) + 18 < 2 ^ 64" by simp
  with unknown_digest_misread [OF unknown h] show ?thesis by simp
qed

end
