(* ===== verification/Eventlog_App.thy ===== *)
theory Eventlog_App
  imports Log_Contract
begin

section \<open>The event log tool: example/tcg2-get-eventlog.c\<close>

text \<open>
  The printing of a log in either format and the program itself. The log lies in the
  firmware's memory: \<open>mem\<close> reads it from the firmware state, a parameter. The library
  call InitializeLib is left out: it sets up the UEFI library, which is not modelled.
\<close>

subsection \<open>The 1.2 format\<close>

definition prettyprint_tpm12_event :: "memory \<Rightarrow> address \<Rightarrow> 'fw world \<Rightarrow> 'fw world option" where
  "prettyprint_tpm12_event m event w = do {
     let w = Print ''TCG_PCR_EVENT: 0x%PRIxPTR\<newline>'' [A_num (unat event)] w;
     pcr \<leftarrow> rd32 m event;
     let w = Print ''  PCRIndex: %d\<newline>'' [A_num (unat pcr)] w;
     ty \<leftarrow> rd32 m (event + 4);
     let w = Print ''  EventType: %s (0x%08PRIx32)\<newline>'' [A_str (eventtype_to_string ty), A_num (unat ty)] w;
     let w = Print ''  Digest: \<newline>'' [] w;
     digest \<leftarrow> rd_bytes m (event + 8) sizeof_TCG_DIGEST;
     let w = DumpHex 4 0 digest w;
     n \<leftarrow> rd32 m (event + 28);
     let w = Print ''  EventSize: %d\<newline>'' [A_num (unat n)] w;
     let w = Print ''  Event: \<newline>'' [] w;
     data \<leftarrow> rd_bytes m (event + 32) (unat n);
     Some (DumpHex 4 0 data w) }"

text \<open>The address behind an event: \<open>(char*)(current + 1) + current->EventSize - 1\<close>.\<close>

definition tpm12_after :: "memory \<Rightarrow> address \<Rightarrow> address option" where
  "tpm12_after m current = do {
     n \<leftarrow> rd32 m (current + 28);
     Some (current + of_nat sizeof_TCG_PCR_EVENT + ucast n - 1) }"

definition tpm12_event_next ::
  "memory \<Rightarrow> address \<Rightarrow> address \<Rightarrow> 'fw world \<Rightarrow> (address \<times> 'fw world) option" where
  "tpm12_event_next m current event_last w =
     (if current = event_last then Some (0, w)
      else do {
        next_event \<leftarrow> tpm12_after m current;
        if next_event > event_last then
          Some (0, Print ''Error: current element is beyond the end of the log\<newline>'' [] w)
        else Some (next_event, w) })"

definition tpm12_body ::
  "memory \<Rightarrow> address \<Rightarrow> address \<times> 'fw world \<Rightarrow> (address \<times> 'fw world + 'fw world) option" where
  "tpm12_body m event_last s = do {
     w \<leftarrow> prettyprint_tpm12_event m (fst s) (snd s);
     (event, w) \<leftarrow> tpm12_event_next m (fst s) event_last w;
     Some (if event \<noteq> 0 then Inl (event, w) else Inr w) }"

definition prettyprint_tpm12_eventlog ::
  "nat \<Rightarrow> memory \<Rightarrow> address \<Rightarrow> address \<Rightarrow> 'fw world \<Rightarrow> (address \<times> 'fw world, 'fw world) run" where
  "prettyprint_tpm12_eventlog fuel m event event_last w =
     (if event = 0 then Returned (Print ''TPM2 EventLog is empty.'' [] w)
      else run_loop fuel (tpm12_body m event_last)
        (event, Print ''TPM2 EventLog, EFI_TCG2_EVENT_LOG_FORMAT_TCG_1_2 format\<newline>'' [] w))"

subsection \<open>The crypto-agile format, and the choice\<close>

definition prettyprint_tpm2_eventlog ::
  "headers \<Rightarrow> nat \<Rightarrow> memory \<Rightarrow> address \<Rightarrow> address \<Rightarrow> 'fw world \<Rightarrow> (address \<times> 'fw world, 'fw world) run" where
  "prettyprint_tpm2_eventlog H fuel m event event_last w =
     (if event = 0 then Returned (Print ''TPM2 EventLog is empty.\<newline>'' [] w)
      else
        let w = Print ''TPM2 EventLog, EFI_TCG2_EVENT_LOG_FORMAT_TCG_2 format\<newline>'' [] w in
        case foreach_event2 H fuel m event event_last (Some (prettyprint_tpm2_event_callback H m)) w of
          Running s \<Rightarrow> Running s
        | Undefined \<Rightarrow> Undefined
        | Returned (ret, w) \<Rightarrow> Returned (Print ''TPM2 EventLog end\<newline>'' [] w))"

definition prettyprint_eventlog ::
  "headers \<Rightarrow> nat \<Rightarrow> memory \<Rightarrow> address \<Rightarrow> address \<Rightarrow> UINT32 \<Rightarrow> 'fw world \<Rightarrow>
   (address \<times> 'fw world, 'fw world) run" where
  "prettyprint_eventlog H fuel m event event_last format w =
     (if format = EFI_TCG2_EVENT_LOG_FORMAT_TCG_2 then
        prettyprint_tpm2_eventlog H fuel m event event_last w
      else if format = EFI_TCG2_EVENT_LOG_FORMAT_TCG_1_2 then
        prettyprint_tpm12_eventlog fuel m event event_last w
      else Returned (Print ''ERROR: Unknown format: 0x%PRIx32\<newline>'' [A_num (unat format)] w))"

subsection \<open>The program\<close>

definition eventlog_unset :: eventlog_out where
  "eventlog_unset = \<lparr>EventLogLocation = None, EventLogLastEntry = None, EventLogTruncated = None\<rparr>"

text \<open>The part of \<open>efi_main\<close> after the log has been located.\<close>

definition eventlog_print ::
  "headers \<Rightarrow> nat \<Rightarrow> memory \<Rightarrow> UINT32 \<Rightarrow> EFI_STATUS \<Rightarrow> eventlog_out \<Rightarrow> 'fw world \<Rightarrow>
   (address \<times> 'fw world, EFI_STATUS \<times> 'fw world) run" where
  "eventlog_print H fuel m format status out w =
     (case (EventLogTruncated out, EventLogLocation out, EventLogLastEntry out) of
        (Some trunc, Some event, Some event_last) \<Rightarrow>
          let w = if trunc \<noteq> 0 then Print ''WARNING: Eventlog has been truncated\<newline>'' [] w else w in
          (case prettyprint_eventlog H fuel m event event_last format w of
             Running s \<Rightarrow> Running s
           | Undefined \<Rightarrow> Undefined
           | Returned w \<Rightarrow> Returned (status, w))
      | _ \<Rightarrow> Undefined)"

definition eventlog_main ::
  "headers \<Rightarrow> 'fw locate \<Rightarrow> ('fw \<Rightarrow> memory) \<Rightarrow> nat \<Rightarrow> 'fw world \<Rightarrow>
   (address \<times> 'fw world, EFI_STATUS \<times> 'fw world) run" where
  "eventlog_main H LibLocateProtocol mem fuel w =
     (let (status, tcg2_protocol, w) = tcg2_get_protocol H LibLocateProtocol None w in
      if EFI_ERROR H status then Returned (status, w)
      else case get_eventlog_format_high H tcg2_protocol 0 w of
        None \<Rightarrow> Undefined
      | Some (status, format, w) \<Rightarrow>
          if EFI_ERROR H status then Returned (status, w)
          else if format = 0 then
            Returned (1, Print ''ERROR: TCG2 UEFI protocol doesn't support a log format known to this tool.\<newline>'' [] w)
          else case tcg2_get_eventlog H tcg2_protocol format eventlog_unset w of
            None \<Rightarrow> Undefined
          | Some (status, out, w) \<Rightarrow>
              if EFI_ERROR H status then Returned (status, w)
              else eventlog_print H fuel (mem (firmware w)) format status out w)"

end
