(* ===== verification/Log_Rendering.thy ===== *)
theory Log_Rendering
  imports Eventlog_App
begin

section \<open>What the event log tool prints\<close>

text \<open>
  The abstract specification of the printing: the calls to Print and DumpHex that show a
  digest, an event and a log, as functions of the structured log, with no memory. The
  refinement: the code, walking the encoded log in memory, makes exactly these calls.
\<close>

subsection \<open>The specification\<close>

definition render_digest :: "headers \<Rightarrow> TCG_DIGEST2 \<Rightarrow> call list" where
  "render_digest H d =
     [Printed ''    AlgorithmId: %s (0x%PRIx16)\<newline>''
        [A_str (get_alg_name H (AlgorithmId d)), A_num (unat (AlgorithmId d))],
      Printed ''    Digest: %d bytes\<newline>'' [A_num (length (Digest d))],
      Dumped 4 0 (Digest d)]"

definition render_event :: "headers \<Rightarrow> tcg_event \<Rightarrow> call list" where
  "render_event H e =
     [Printed ''  PCRIndex: %d\<newline>'' [A_num (unat (PCRIndex (ev_header e)))],
      Printed ''  EventType: %s (0x%PRIx32)\<newline>''
        [A_str (eventtype_to_string (EventType (ev_header e))), A_num (unat (EventType (ev_header e)))],
      Printed ''  DigestCount: %d\<newline>'' [A_num (length (ev_digests e))]]
     @ concat (map (render_digest H) (ev_digests e))
     @ [Printed ''  Event: %PRIu32 bytes\<newline>'' [A_num (length (Event (ev_event e)))],
        Dumped 2 0 (Event (ev_event e))]"

definition render_log :: "headers \<Rightarrow> tcg_event list \<Rightarrow> call list" where
  "render_log H es =
     [Printed ''TPM2 EventLog, EFI_TCG2_EVENT_LOG_FORMAT_TCG_2 format\<newline>'' []]
     @ concat (map (render_event H) es)
     @ [Printed ''TPM2 EventLog end\<newline>'' []]"

definition render_pcr_event :: "address \<times> TCG_PCR_EVENT \<Rightarrow> call list" where
  "render_pcr_event ae = (case ae of (a, e) \<Rightarrow>
     [Printed ''TCG_PCR_EVENT: 0x%PRIxPTR\<newline>'' [A_num (unat a)],
      Printed ''  PCRIndex: %d\<newline>'' [A_num (unat (pe_PCRIndex e))],
      Printed ''  EventType: %s (0x%08PRIx32)\<newline>''
        [A_str (eventtype_to_string (pe_EventType e)), A_num (unat (pe_EventType e))],
      Printed ''  Digest: \<newline>'' [],
      Dumped 4 0 (pe_Digest e),
      Printed ''  EventSize: %d\<newline>'' [A_num (length (pe_Event e))],
      Printed ''  Event: \<newline>'' [],
      Dumped 4 0 (pe_Event e)])"

definition emit :: "call list \<Rightarrow> 'fw world \<Rightarrow> 'fw world" where
  "emit cs w = w\<lparr>console := console w @ cs\<rparr>"

lemma emit_simps [simp]:
  "emit [] w = w" "emit ds (emit cs w) = emit (cs @ ds) w"
  "firmware (emit cs w) = firmware w" "console (emit cs w) = console w @ cs"
  by (simp_all add: emit_def)

lemma emit_calls:
  "Print fmt args w = emit [Printed fmt args] w" "DumpHex i off bs w = emit [Dumped i off bs] w"
  by (simp_all add: emit_def Print_def DumpHex_def)

lemma fold_emit: "fold (\<lambda>x. emit (f x)) xs w = emit (concat (map f xs)) w"
  by (induction xs arbitrary: w) simp_all

subsection \<open>The crypto-agile format\<close>

lemma print_digest:
  assumes "digest_ok H d" "holds m a (enc_digest d)"
  shows "prettyprint_tpm2_digest H m a w = Some (emit (render_digest H d) w)"
proof -
  have "rd_bytes m (a + 2) (unat (get_alg_size H (AlgorithmId d))) = Some (Digest d)"
    using assms holds_rd_bytes [of m "a + 2" "Digest d"]
    by (simp add: enc_digest_def digest_ok_def mem_simps)
  moreover have "unat (get_alg_size H (AlgorithmId d)) = length (Digest d)"
    using assms(1) by (simp add: digest_ok_def)
  ultimately show ?thesis
    using digest_alg_holds [OF assms(2)]
    by (simp add: prettyprint_tpm2_digest_def emit_calls render_digest_def Let_def)
qed

lemma print_digests:
  assumes at: "event_at H m a e"
  shows "foreach_digest2 H m a (prettyprint_tpm2_digest_callback H m) (Some 0, w :: 'a world) =
      Some (True, (Some (of_nat (length (digests.enc_list (ev_digests e)))),
        emit (concat (map (render_digest H) (ev_digests e))) w))"
proof -
  let ?ds = "ev_digests e"
  let ?f = "\<lambda>d (s :: size_t option \<times> 'a world). (map_option (\<lambda>n. n + of_nat (length (enc_digest d))) (fst s),
      emit (render_digest H d) (snd s))"
  have ok: "list_all (digest_ok H) ?ds" using at by (simp add: event_at_def event_ok_def)
  have digest: "digest_ok H (?ds ! i)" "holds m (digests.pos (a + 12) ?ds i) (enc_digest (?ds ! i))"
    if "i < length ?ds" for i
    using ok that digests.holds_at_pos [OF event_parts(4) [OF at] that] by (simp_all add: list_all_length)
  have fold: "fold ?f ds (Some n, w) =
      (Some (n + of_nat (length (digests.enc_list ds))), emit (concat (map (render_digest H) ds)) w)"
    for ds n and w :: "'a world"
    by (induction ds arbitrary: n w) (simp_all add: ac_simps)
  have "visit (prettyprint_tpm2_digest_callback H m) (map (digests.pos (a + 12) ?ds) [0..<length ?ds])
      (Some 0, w) = Some (True, fold ?f ?ds (Some 0, w)) \<and> fst (fold ?f ?ds (Some 0, w)) \<noteq> None"
  proof (rule digests.visit_records [where P = "\<lambda>s. fst s \<noteq> None"])
    fix i and s :: "size_t option \<times> 'a world"
    assume i: "i < length ?ds" and "fst s \<noteq> None"
    then obtain n w where s: "s = (Some n, w)" by (cases s) auto
    show "prettyprint_tpm2_digest_callback H m (digests.pos (a + 12) ?ds i) s = Some (True, ?f (?ds ! i) s)
        \<and> fst (?f (?ds ! i) s) \<noteq> None"
      using digest [OF i]
      by (simp add: s prettyprint_tpm2_digest_callback_def print_digest sizeof_digest_holds)
  qed simp
  then show ?thesis
    by (simp add: foreach_digest2_visits [OF at] fold del: length_enc)
qed

lemma print_event:
  assumes at: "event_at H m a e"
  shows "prettyprint_tpm2_event H m a w = Some (emit (render_event H e) w)"
proof -
  let ?ds = "ev_digests e"
  let ?body = "a + 12 + of_nat (length (digests.enc_list ?ds))"
  note parts = event_parts [OF at]
  have n: "unat (DigestCount (ev_header e)) = length ?ds"
    and k: "unat (EventSize (ev_event e)) = length (Event (ev_event e))" and nz: "a \<noteq> 0"
    using at by (simp_all add: event_at_def event_ok_def)
  have "prettyprint_tpm2_event_header m a w = Some (emit
     [Printed ''  PCRIndex: %d\<newline>'' [A_num (unat (PCRIndex (ev_header e)))],
      Printed ''  EventType: %s (0x%PRIx32)\<newline>''
        [A_str (eventtype_to_string (EventType (ev_header e))), A_num (unat (EventType (ev_header e)))],
      Printed ''  DigestCount: %d\<newline>'' [A_num (length ?ds)]] w)"
    by (simp add: prettyprint_tpm2_event_header_def parts(1-3) n emit_calls Let_def)
  moreover have "rd32 m ?body = Some (EventSize (ev_event e))"
    "rd_bytes m (?body + 4) (length (Event (ev_event e))) = Some (Event (ev_event e))"
    using parts(7) by (auto simp: enc_body_def mem_simps)
  then have "prettyprint_tpm2_eventbuf m ?body w = Some (emit
     [Printed ''  Event: %PRIu32 bytes\<newline>'' [A_num (length (Event (ev_event e)))],
      Dumped 2 0 (Event (ev_event e))] w)" for w :: "'a world"
    by (simp add: prettyprint_tpm2_eventbuf_def k emit_calls Let_def)
  ultimately show ?thesis
    using nz by (simp add: prettyprint_tpm2_event_def print_digests [OF at] render_event_def)
qed

lemma tpm2_log_printed:
  assumes "log_at H m base es" "length es < fuel"
  shows "prettyprint_tpm2_eventlog H fuel m base (last_event base es) w =
     Returned (emit (render_log H es) w)"
proof -
  have nz: "base \<noteq> 0" using assms(1) by (simp add: log_at_def)
  have "visit (prettyprint_tpm2_event_callback H m) (map (events.pos base es) [0..<length es]) w =
      Some (True, fold (\<lambda>e. emit (render_event H e)) es w) \<and> True" for w :: "'a world"
    by (rule events.visit_records)
      (simp_all add: prettyprint_tpm2_event_callback_def print_event [OF log_event_at [OF assms(1)]])
  then have "foreach_event2 H fuel m base (last_event base es)
      (Some (prettyprint_tpm2_event_callback H m)) w =
      Returned (True, emit (concat (map (render_event H) es)) w)" for w :: "'a world"
    by (simp add: foreach_event2_visits [OF assms] fold_emit)
  with nz show ?thesis
    by (simp add: prettyprint_tpm2_eventlog_def emit_calls render_log_def Let_def)
qed

text \<open>
  On a crypto-agile log in memory the printing of the log makes exactly the calls that
  show the structured log: every event's header, digests and data, in order, and nothing
  else. One iteration more than there are events is enough.
\<close>

theorem tpm2_log_printed_as_specified:
  assumes "log_at H m base es" "length es < fuel"
  shows "prettyprint_tpm2_eventlog H fuel m base (last_event base es) w =
     Returned (emit (render_log H es) w)"
  using assms by (rule tpm2_log_printed)

theorem tpm2_log_printed_as_specified_witness:
  "\<exists>w. prettyprint_tpm2_eventlog std_headers 3 demo_mem 0x1000 (last_event 0x1000 demo_events) demo_world =
     Returned w \<and> Dumped 4 0 (replicate 20 0x11) \<in> set (console w)"
proof -
  have "length demo_events < 3" by (simp add: demo_events_def)
  from tpm2_log_printed_as_specified [OF demo_log_at this, of demo_world]
  show ?thesis
    by (simp add: render_log_def render_event_def render_digest_def demo_events_def demo_event_def)
qed

subsection \<open>The 1.2 format\<close>

interpretation pcr_events: record_walk enc_pcr_event pcr_event_ok tpm12_after
proof unfold_locales
  fix r m a
  show "pcr_event_ok r \<Longrightarrow> enc_pcr_event r \<noteq> []"
    by (simp add: enc_pcr_event_def le32_def)
  assume ok: "pcr_event_ok r" and "holds m a (enc_pcr_event r)"
  then have "rd32 m (a + 28) = Some (pe_EventSize r)"
    by (intro pcr_event_parts(4))
  moreover have "ucast (pe_EventSize r) = (of_nat (length (pe_Event r)) :: address)"
    using ok ucast_of_nat_unat [of "pe_EventSize r"] by (simp add: pcr_event_ok_def)
  ultimately show "tpm12_after m a = Some (a + of_nat (length (enc_pcr_event r)))"
    using ok by (simp add: tpm12_after_def length_enc_pcr_event unfolds packed_size_def)
qed

definition pcr_log_at :: "memory \<Rightarrow> address \<Rightarrow> TCG_PCR_EVENT list \<Rightarrow> bool" where
  "pcr_log_at m base es \<longleftrightarrow> es \<noteq> [] \<and> list_all pcr_event_ok es \<and> holds m base (pcr_events.enc_list es)
     \<and> base \<noteq> 0 \<and> unat base + length (pcr_events.enc_list es) < 2 ^ 64"

definition last_pcr_event :: "address \<Rightarrow> TCG_PCR_EVENT list \<Rightarrow> address" where
  "last_pcr_event base es = pcr_events.pos base es (length es - 1)"

text \<open>The events with their addresses.\<close>

definition pcr_items :: "address \<Rightarrow> TCG_PCR_EVENT list \<Rightarrow> (address \<times> TCG_PCR_EVENT) list" where
  "pcr_items base es =
     map (\<lambda>i. (base + of_nat (length (concat (map enc_pcr_event (take i es)))), es ! i)) [0..<length es]"

lemma pcr_items_pos:
  "pcr_items base es = map (\<lambda>i. (pcr_events.pos base es i, es ! i)) [0..<length es]"
  by (simp add: pcr_items_def pcr_events.pos_def pcr_events.offset_def pcr_events.enc_list_def)

lemma print_pcr_event:
  assumes "pcr_event_ok e" "holds m a (enc_pcr_event e)"
  shows "prettyprint_tpm12_event m a w = Some (emit (render_pcr_event (a, e)) w)"
proof -
  note parts = pcr_event_parts [OF assms(2,1)]
  have n: "length (pe_Digest e) = 20" "unat (pe_EventSize e) = length (pe_Event e)"
    using assms(1) by (simp_all add: pcr_event_ok_def)
  have "rd_bytes m (a + 8) 20 = Some (pe_Digest e)"
    "rd_bytes m (a + 32) (length (pe_Event e)) = Some (pe_Event e)"
    using holds_rd_bytes [OF parts(3)] holds_rd_bytes [OF parts(5)] n by simp_all
  with parts(1,2,4) n show ?thesis
    by (simp add: prettyprint_tpm12_event_def render_pcr_event_def emit_calls sizeof_TCG_DIGEST_def Let_def)
qed

text \<open>
  On a log of the 1.2 format in memory, with its first and last event given, the
  printing shows every event with its address, in order, and stops after the last one
  without an error message.
\<close>

theorem tpm12_log_printed_as_specified:
  assumes "pcr_log_at m base es" "length es \<le> fuel"
  shows "prettyprint_tpm12_eventlog fuel m base (last_pcr_event base es) w =
     Returned (emit (Printed ''TPM2 EventLog, EFI_TCG2_EVENT_LOG_FORMAT_TCG_1_2 format\<newline>'' []
       # concat (map render_pcr_event (pcr_items base es))) w)"
proof -
  have ne: "es \<noteq> []" and ok: "list_all pcr_event_ok es" and h: "holds m base (pcr_events.enc_list es)"
    and nz: "base \<noteq> 0" and room: "unat base + length (pcr_events.enc_list es) < 2 ^ 64"
    using assms(1) by (simp_all add: pcr_log_at_def)
  let ?n = "length es" and ?pos = "pcr_events.pos base es" and ?last = "last_pcr_event base es"
  have print: "prettyprint_tpm12_event m (?pos i) w = Some (emit (render_pcr_event (?pos i, es ! i)) w)"
    if "i < ?n" for i and w :: "'a world"
    using ok that pcr_events.holds_at_pos [OF h that] by (intro print_pcr_event) (auto simp: list_all_length)
  have le: "?pos i \<le> ?last \<longleftrightarrow> i < ?n" if "i \<le> ?n" for i
    using pcr_events.pos_le_iff [OF room ok that, of "?n - 1"] ne
    by (cases ?n) (auto simp: last_pcr_event_def)
  have at_last: "?pos i = ?last \<longleftrightarrow> Suc i = ?n" if "i < ?n" for i
    using pcr_events.pos_le_iff [OF room ok, of i "?n - 1"] pcr_events.pos_le_iff [OF room ok, of "?n - 1" i]
      that by (auto simp: last_pcr_event_def intro: antisym)
  have body: "tpm12_body m ?last (?pos i, w) = map_option (\<lambda>w. if Suc i = ?n then Inr w else Inl (?pos (Suc i), w))
      (prettyprint_tpm12_event m (?pos i) w)" if i: "i < ?n" for i and w :: "'a world"
    using pcr_events.next_at_pos [OF h ok i nz room] pcr_events.pos_nonnull [OF room nz, of "Suc i"]
      at_last [OF i] le [of "Suc i"] i
    by (simp add: tpm12_body_def tpm12_event_next_def print not_less) (metis Suc_lessI leD)
  have "visit (\<lambda>a w. map_option (Pair True) (prettyprint_tpm12_event m a w)) (map ?pos [0..<?n]) w =
      Some (True, fold (\<lambda>ae. emit (render_pcr_event ae)) (pcr_items base es) w) \<and> True" for w :: "'a world"
    by (rule visit_fold2) (simp_all add: pcr_items_pos print)
  then have "run_loop fuel (tpm12_body m ?last) (?pos 0, w) =
      Returned (emit (concat (map render_pcr_event (pcr_items base es))) w)" for w :: "'a world"
    using pcr_events.walk_until_last [of es "tpm12_body m ?last" base "prettyprint_tpm12_event m" 0 fuel w]
      body assms(2) ne by (simp add: fold_emit)
  with nz show ?thesis
    by (simp add: prettyprint_tpm12_eventlog_def emit_calls pcr_events.pos_def)
qed

theorem tpm12_log_printed_as_specified_witness:
  "\<exists>w. prettyprint_tpm12_eventlog 2 (mem_of 0x1000 (enc_pcr_event demo_spec_id)) 0x1000 0x1000 demo_world =
     Returned w \<and> Dumped 4 0 [0x53, 0x70, 0x65] \<in> set (console w)"
proof -
  have ok: "pcr_event_ok demo_spec_id" by (simp add: pcr_event_ok_def demo_spec_id_def)
  have len: "length (enc_pcr_event demo_spec_id) = 35"
    unfolding length_enc_pcr_event [OF ok] by (simp add: demo_spec_id_def)
  have log: "pcr_log_at (mem_of 0x1000 (enc_pcr_event demo_spec_id)) 0x1000 [demo_spec_id]"
    using ok len by (auto simp: pcr_log_at_def intro!: holds_mem_of)
  have last: "last_pcr_event 0x1000 [demo_spec_id] = 0x1000"
    by (simp add: last_pcr_event_def pcr_events.pos_def)
  have "length [demo_spec_id] \<le> 2" by simp
  from tpm12_log_printed_as_specified [OF log this, of demo_world] show ?thesis
    unfolding last by (simp add: pcr_items_def render_pcr_event_def demo_spec_id_def)
qed

lemma tpm12_after_advances:
  assumes "tpm12_after m a = Some a'" "unat a + 2 ^ 33 \<le> 2 ^ 64"
  shows "unat a + 32 \<le> unat a'"
proof -
  from assms(1) obtain n where "a' = a + 33 + ucast (n :: UINT32) - 1"
    by (auto simp: tpm12_after_def unfolds packed_size_def split: bind_splits)
  then have "a' = a + of_nat (32 + unat n)" by (simp add: of_nat_unat)
  moreover have "unat n < 4294967296" by (rule unat_lt32)
  ultimately have "unat a' = unat a + (32 + unat n)"
    using assms(2) unat_add_nowrap [of a "32 + unat n"] by simp
  then show ?thesis by simp
qed

lemma tpm12_walk_ends:
  assumes "unat event_last + 2 ^ 33 \<le> 2 ^ 64" "event \<le> event_last"
    and "unat event_last - unat event < fuel"
  shows "\<not> running (prettyprint_tpm12_eventlog fuel m event event_last w)"
proof -
  let ?\<mu> = "\<lambda>s :: address \<times> 'a world. unat event_last - unat (fst s)"
  have step: "fst s' \<le> event_last \<and> ?\<mu> s' < ?\<mu> s"
    if "fst s \<le> event_last" "tpm12_body m event_last s = Some (Inl s')" for s s'
  proof -
    from that(2) have le: "fst s' \<le> event_last" and "tpm12_after m (fst s) = Some (fst s')"
      by (auto simp: tpm12_body_def tpm12_event_next_def not_less split: bind_splits if_splits)
    moreover from that(1) assms(1) have "unat (fst s) + 2 ^ 33 \<le> 2 ^ 64"
      by (simp add: word_le_nat_alt)
    ultimately have "unat (fst s) + 32 \<le> unat (fst s')" by (intro tpm12_after_advances)
    with le show ?thesis by (simp add: word_le_nat_alt)
  qed
  have "\<not> running (run_loop fuel (tpm12_body m event_last) (event, w))" for w :: "'a world"
    by (rule run_loop_enough [where I = "\<lambda>s. fst s \<le> event_last" and \<mu> = ?\<mu>])
      (use step assms(2,3) in auto)
  then show ?thesis by (simp add: prettyprint_tpm12_eventlog_def)
qed

text \<open>
  The printing of a 1.2 log ends on every memory, as long as its last event is not
  within 2^33 bytes of the end of the address space; an event whose size reaches beyond the
  last one ends it with an error message.
\<close>

theorem tpm12_walk_terminates:
  assumes "unat event_last + 2 ^ 33 \<le> 2 ^ 64" "event \<le> event_last"
    and "unat event_last - unat event < fuel"
  shows "\<not> running (prettyprint_tpm12_eventlog fuel m event event_last w)"
  using assms by (rule tpm12_walk_ends)

theorem tpm12_walk_terminates_witness:
  "\<not> running (prettyprint_tpm12_eventlog 17 (\<lambda>_. Some 0xFF) 0x1000 0x1010 demo_world)"
  by (rule tpm12_walk_terminates) simp_all

subsection \<open>The program\<close>

lemma eventlog_calls:
  assumes "GetEventLog p format out (firmware w) = (status, out', f)" "\<not> EFI_ERROR H status"
  shows "tcg2_get_eventlog H (Some p) format out w = Some (status, out', w\<lparr>firmware := f\<rparr>)"
  using eventlog_wrapper.lifts [OF assms(1), of H] assms(2) by (simp add: report_status_def)

lemma capability_calls:
  assumes "GetCapability p caps (firmware w) = (status, caps', f)" "\<not> EFI_ERROR H status"
  shows "tcg2_get_capability H (Some p) caps w = Some (status, caps', w\<lparr>firmware := f\<rparr>)"
  using capability_wrapper.lifts [OF assms(1), of H] assms(2) by (simp add: report_status_def)

text \<open>
  The whole program: when the firmware answers its three calls and its log is a
  well-formed crypto-agile log, the program shows that log, with a warning in front when
  the firmware says the log is truncated, and exits with the status of GetEventLog.
\<close>

theorem eventlog_tool_shows_log:
  assumes "L EFI_TCG2_PROTOCOL_GUID (firmware w) = (st, Some p, f1)" "\<not> EFI_ERROR H st"
    and "GetCapability p (caps_init 36) f1 = (st2, caps, f2)" "\<not> EFI_ERROR H st2"
    and "SupportedEventLogs caps \<noteq> 0" "\<not> EFI_ERROR H (EFI_SUCCESS H)"
    and "GetEventLog p EFI_TCG2_EVENT_LOG_FORMAT_TCG_2 eventlog_unset f2 =
      (st3, \<lparr>EventLogLocation = Some base, EventLogLastEntry = Some (last_event base es),
             EventLogTruncated = Some trunc\<rparr>, f3)" "\<not> EFI_ERROR H st3"
    and "log_at H (mem f3) base es" "length es < fuel"
  shows "\<exists>w'. eventlog_main H L mem fuel w = Returned (st3, w') \<and> firmware w' = f3
     \<and> console w' = console w
         @ (if trunc \<noteq> 0 then [Printed ''WARNING: Eventlog has been truncated\<newline>'' []] else [])
         @ render_log H es"
proof -
  have "tcg2_get_capability H (Some p) (caps_init 36) (w\<lparr>firmware := f1\<rparr>) =
      Some (st2, caps, w\<lparr>firmware := f2\<rparr>)"
    using capability_calls [of p "caps_init 36" "w\<lparr>firmware := f1\<rparr>"] assms(3,4) by simp
  then have format: "get_eventlog_format_high H (Some p) 0 (w\<lparr>firmware := f1\<rparr>) =
      Some (EFI_SUCCESS H, EFI_TCG2_EVENT_LOG_FORMAT_TCG_2, w\<lparr>firmware := f2\<rparr>)"
    using assms(4,5) by (simp add: get_eventlog_format_high_def sizeof_caps unfolds)
  have log: "tcg2_get_eventlog H (Some p) EFI_TCG2_EVENT_LOG_FORMAT_TCG_2 eventlog_unset (w\<lparr>firmware := f2\<rparr>) =
      Some (st3, \<lparr>EventLogLocation = Some base, EventLogLastEntry = Some (last_event base es),
        EventLogTruncated = Some trunc\<rparr>, w\<lparr>firmware := f3\<rparr>)"
    using eventlog_calls [of p _ _ "w\<lparr>firmware := f2\<rparr>"] assms(7,8) by simp
  have "EFI_TCG2_EVENT_LOG_FORMAT_TCG_2 \<noteq> 0" by (simp add: unfolds)
  with assms(1,2,6,8) log format show ?thesis
    by (auto simp: tpm2_log_printed [OF assms(9,10)] eventlog_main_def get_protocol_success [where LibLocateProtocol = L, OF assms(1,2)]
        eventlog_print_def prettyprint_eventlog_def emit_calls Let_def)
qed

theorem eventlog_tool_shows_log_witness:
  "\<exists>w'. eventlog_main std_headers
      (\<lambda>guid f. (0, Some (demo_protocol 0 demo_caps \<lparr>EventLogLocation = Some 0x1000,
         EventLogLastEntry = Some (last_event 0x1000 demo_events), EventLogTruncated = Some 1\<rparr>), f))
      (\<lambda>f. demo_mem) 3 demo_world = Returned (0, w')
    \<and> console w' = Printed ''WARNING: Eventlog has been truncated\<newline>'' [] # render_log std_headers demo_events"
proof -
  let ?log = "\<lparr>EventLogLocation = Some 0x1000,
         EventLogLastEntry = Some (last_event 0x1000 demo_events), EventLogTruncated = Some 1\<rparr>"
  let ?p = "demo_protocol 0 demo_caps ?log"
  have 1: "(\<lambda>guid f. (0, Some ?p, f)) EFI_TCG2_PROTOCOL_GUID (firmware demo_world) = (0, Some ?p, [])"
    by (simp add: demo_world_def)
  have 2: "\<not> EFI_ERROR std_headers 0" "\<not> EFI_ERROR std_headers (EFI_SUCCESS std_headers)" by simp_all
  have 3: "GetCapability ?p (caps_init 36) [] = (0, demo_caps, [])"
    and 4: "GetEventLog ?p EFI_TCG2_EVENT_LOG_FORMAT_TCG_2 eventlog_unset [] = (0, ?log, [])"
    by (simp_all add: demo_protocol_def)
  have 5: "SupportedEventLogs demo_caps \<noteq> 0" by (simp add: demo_caps_def)
  have 6: "length demo_events < 3" by (simp add: demo_events_def)
  from eventlog_tool_shows_log [where L = "\<lambda>guid f. (0, Some ?p, f)" and mem = "\<lambda>f. demo_mem",
      OF 1 2(1) 3 2(1) 5 2(2) 4 2(1) demo_log_at 6]
  obtain w' where "eventlog_main std_headers (\<lambda>guid f. (0, Some ?p, f)) (\<lambda>f. demo_mem) 3 demo_world =
      Returned (0, w')" "console w' = console demo_world @ (if (1 :: 8 word) \<noteq> 0
        then [Printed ''WARNING: Eventlog has been truncated\<newline>'' []] else [])
      @ render_log std_headers demo_events" by blast
  then show ?thesis by (simp add: demo_world_def)
qed

end
