(* ===== verification/Log_Decoding.thy ===== *)
theory Log_Decoding
  imports Log_Rendering
begin

section \<open>Printing as parsing: what is printed of any memory\<close>

text \<open>
  \<open>Log_Rendering\<close> starts from a structured log and its bytes. This theory goes the other
  way: the memory is arbitrary, and whatever the code prints of it is the rendering of the
  one structured log that can be read there. With the termination of the walks this gives
  both directions: the printing returns exactly when the memory holds a chain of events, and
  has undefined behaviour exactly when it does not.
\<close>

subsection \<open>Reading back integers and bytes\<close>

lemma rd16_Some: "rd16 m a = Some x \<Longrightarrow> holds m a (le16 x)"
proof -
  have "ucast (word_cat b1 b0 :: UINT16) = b0" "ucast (drop_bit 8 (word_cat b1 b0 :: UINT16)) = b1"
    for b0 b1 :: UINT8
    by (rule bit_eqI, auto simp: bit_word_cat_iff bit_simps)+
  then show "rd16 m a = Some x \<Longrightarrow> holds m a (le16 x)"
    by (auto simp: rd16_def le16_def split: bind_splits)
qed

lemma rd32_Some: "rd32 m a = Some x \<Longrightarrow> holds m a (le32 x)"
proof -
  have "ucast (word_cat b3 (word_cat b2 (word_cat b1 b0 :: 16 word) :: 24 word) :: UINT32) = b0"
    "ucast (drop_bit 8 (word_cat b3 (word_cat b2 (word_cat b1 b0 :: 16 word) :: 24 word) :: UINT32)) = b1"
    "ucast (drop_bit 16 (word_cat b3 (word_cat b2 (word_cat b1 b0 :: 16 word) :: 24 word) :: UINT32)) = b2"
    "ucast (drop_bit 24 (word_cat b3 (word_cat b2 (word_cat b1 b0 :: 16 word) :: 24 word) :: UINT32)) = b3"
    for b0 b1 b2 b3 :: UINT8
    by (rule bit_eqI, auto simp: bit_word_cat_iff bit_simps)+
  then show "rd32 m a = Some x \<Longrightarrow> holds m a (le32 x)"
    by (auto simp: rd32_def le32_def ac_simps split: bind_splits)
qed

lemma rd_bytes_Some: "rd_bytes m a n = Some bs \<Longrightarrow> holds m a bs \<and> length bs = n"
  by (induction n arbitrary: a bs) (auto split: bind_splits)

text \<open>
  A run whose result is fixed by what can be read, and undefined when nothing can, is
  characterised by it.
\<close>

lemma outcome_characterised:
  assumes "\<And>x. P x \<Longrightarrow> run = Returned (f x)" "\<nexists>x. P x \<Longrightarrow> run = Undefined"
  shows "(run = Returned r \<longleftrightarrow> (\<exists>x. P x \<and> r = f x)) \<and> (run = Undefined \<longleftrightarrow> (\<nexists>x. P x))"
  using assms by (metis run.distinct(6) run.inject(2))

subsection \<open>Digests\<close>

lemma digest_printed:
  assumes "prettyprint_tpm2_digest H m a w = Some w'"
  obtains d where "digest_ok H d" "holds m a (enc_digest d)"
proof -
  from assms obtain alg bytes where "rd16 m a = Some alg"
    and "rd_bytes m (a + 2) (unat (get_alg_size H alg)) = Some bytes"
    by (auto simp: prettyprint_tpm2_digest_def digest_alg_def Let_def split: bind_splits)
  from rd16_Some [OF this(1)] rd_bytes_Some [OF this(2)] show ?thesis
    by (intro that [of "\<lparr>AlgorithmId = alg, Digest = bytes\<rparr>"])
      (auto simp: digest_ok_def enc_digest_def mem_simps)
qed

lemma digests_printed:
  assumes "digest_sizes_ok H"
  shows "digest_loop H m (prettyprint_tpm2_digest_callback H m) n a (Some k, w) = Some r \<Longrightarrow>
    unat a + 66 * n < 2 ^ 64 \<Longrightarrow> a \<noteq> 0 \<Longrightarrow>
    \<exists>ds w'. length ds = n \<and> list_all (digest_ok H) ds \<and> holds m a (digests.enc_list ds)
      \<and> length (digests.enc_list ds) \<le> 66 * n
      \<and> r = (True, (Some (k + of_nat (length (digests.enc_list ds))), w'))"
proof (induction n arbitrary: a k w)
  case 0
  then show ?case by auto
next
  case (Suc n)
  from Suc.prems(1,3) obtain w1 where "prettyprint_tpm2_digest H m a w = Some w1"
    by (auto simp: prettyprint_tpm2_digest_callback_def split: bind_splits)
  then obtain d where d: "digest_ok H d" "holds m a (enc_digest d)"
    by (rule digest_printed)
  let ?n = "length (enc_digest d)"
  have size: "?n \<le> 66"
    using d(1) alg_size_bound [OF assms, of "AlgorithmId d"] by (simp add: digest_ok_def)
  have u: "unat (a + of_nat ?n) = unat a + ?n"
    using Suc.prems(2) size by (intro unat_add_nowrap) (simp del: length_enc)
  with Suc.prems(3) have nz: "a + of_nat ?n \<noteq> 0"
    by (metis add_is_0 unat_0 unat_eq_zero)
  have "prettyprint_tpm2_digest_callback H m a (Some k, w) =
      Some (True, (Some (k + of_nat ?n), emit (render_digest H d) w))"
    by (simp add: prettyprint_tpm2_digest_callback_def print_digest [OF d] sizeof_digest_holds [OF d]
        del: length_enc)
  then have rest: "digest_loop H m (prettyprint_tpm2_digest_callback H m) n (a + of_nat ?n)
      (Some (k + of_nat ?n), emit (render_digest H d) w) = Some r"
    using Suc.prems(1,3)
    by (simp add: next_digest_holds [OF d] del: length_enc)
  have "unat (a + of_nat ?n) + 66 * n < 2 ^ 64"
    using Suc.prems(2) size by (simp add: u del: length_enc)
  from Suc.IH [OF rest this nz] obtain ds w' where ds: "length ds = n" "list_all (digest_ok H) ds"
    "holds m (a + of_nat ?n) (digests.enc_list ds)" "length (digests.enc_list ds) \<le> 66 * n"
    "r = (True, (Some (k + of_nat ?n + of_nat (length (digests.enc_list ds))), w'))" by blast
  show ?case
  proof (intro exI [of _ "d # ds"] exI [of _ w'] conjI)
    show "holds m a (digests.enc_list (d # ds))"
      using d(2) ds(3) by (simp add: mem_simps)
    show "length (digests.enc_list (d # ds)) \<le> 66 * Suc n"
      using size ds(4) by simp
    show "r = (True, (Some (k + of_nat (length (digests.enc_list (d # ds)))), w'))"
      using ds(5) by (simp add: add.assoc)
  qed (use d(1) ds in simp_all)
qed

subsection \<open>Events\<close>

lemma event_print_stages:
  assumes "prettyprint_tpm2_event H m a w = Some w'" "a \<noteq> 0"
  shows "\<exists>w1 count ret sz w2. prettyprint_tpm2_event_header m a w = Some w1 \<and> hdr_count m a = Some count
    \<and> digest_loop H m (prettyprint_tpm2_digest_callback H m) (unat count) (a + 12) (Some 0, w1) =
        Some (ret, (sz, w2))
    \<and> (ret \<longrightarrow> (\<exists>k. sz = Some k \<and> prettyprint_tpm2_eventbuf m (a + 12 + k) w2 = Some w'))"
  using assms
  by (auto simp: prettyprint_tpm2_event_def foreach_digest2_def Option.bind_eq_Some_conv split: if_splits)

lemma event_printed:
  assumes "digest_sizes_ok H" and print: "prettyprint_tpm2_event H m a w = Some w'"
    and "a \<noteq> 0" and room: "unat a + 2 ^ 39 \<le> 2 ^ 64"
  shows "\<exists>e. event_at H m a e"
proof -
  from event_print_stages [OF print assms(3)] obtain w1 count ret sz w2 where
    header: "prettyprint_tpm2_event_header m a w = Some w1" and count: "rd32 m (a + 8) = Some count"
    and loop: "digest_loop H m (prettyprint_tpm2_digest_callback H m) (unat count) (a + 12) (Some 0, w1) =
      Some (ret, (sz, w2))"
    and buf: "ret \<longrightarrow> (\<exists>k. sz = Some k \<and> prettyprint_tpm2_eventbuf m (a + 12 + k) w2 = Some w')"
    by (auto simp: hdr_count_def)
  from header obtain pcr ty where pcr: "rd32 m a = Some pcr" and ty: "rd32 m (a + 4) = Some ty"
    by (auto simp: prettyprint_tpm2_event_header_def hdr_pcr_def hdr_type_def Let_def
        Option.bind_eq_Some_conv)
  have c: "unat count < 4294967296" by (rule unat_lt32)
  have u: "unat (a + 12) = unat a + 12"
    using unat_add_nowrap [of a 12] room by simp
  then have "unat (a + 12) + 66 * unat count < 2 ^ 64" and "a + 12 \<noteq> 0"
    using c room by (simp, metis add_is_0 unat_0 zero_neq_numeral)
  from digests_printed [OF assms(1) loop this] obtain ds where
    ds: "length ds = unat count" "list_all (digest_ok H) ds" "holds m (a + 12) (digests.enc_list ds)"
    "length (digests.enc_list ds) \<le> 66 * unat count"
    "ret" "sz = Some (of_nat (length (digests.enc_list ds)))" by auto
  let ?body = "a + 12 + of_nat (length (digests.enc_list ds))"
  from buf ds(5,6) have "prettyprint_tpm2_eventbuf m ?body w2 = Some w'" by simp
  then obtain n bytes where n: "rd32 m ?body = Some n" and bytes: "rd_bytes m (?body + 4) (unat n) = Some bytes"
    by (auto simp: prettyprint_tpm2_eventbuf_def Let_def split: bind_splits)
  let ?e = "\<lparr>ev_header = \<lparr>PCRIndex = pcr, EventType = ty, DigestCount = count\<rparr>, ev_digests = ds,
      ev_event = \<lparr>EventSize = n, Event = bytes\<rparr>\<rparr>"
  have "holds m a (enc_header (ev_header ?e))"
    using rd32_Some [OF pcr] rd32_Some [OF ty] rd32_Some [OF count]
    by (simp add: enc_header_def mem_simps ac_simps)
  moreover have "holds m ?body (enc_body (ev_event ?e))"
    using rd32_Some [OF n] rd_bytes_Some [OF bytes] by (simp add: enc_body_def mem_simps)
  ultimately have "holds m a (enc_event ?e)"
    using ds(3) by (simp add: enc_event_def digests_enc_list mem_simps)
  moreover have "unat a + length (enc_event ?e) < 2 ^ 64"
  proof -
    have "unat n < 4294967296" by (rule unat_lt32)
    with rd_bytes_Some [OF bytes] ds(4) c room show ?thesis
      by (simp add: length_enc_event)
  qed
  ultimately have "event_at H m a ?e"
    using ds(1,2) rd_bytes_Some [OF bytes] assms(3) by (simp add: event_at_def event_ok_def)
  then show ?thesis by blast
qed

subsection \<open>Chains of events\<close>

text \<open>
  The events that follow one another in memory from an address on, up to the first address
  behind the last entry the firmware has given.
\<close>

primrec log_chain :: "headers \<Rightarrow> memory \<Rightarrow> address \<Rightarrow> address \<Rightarrow> tcg_event list \<Rightarrow> bool" where
  "log_chain H m event_last a [] \<longleftrightarrow> \<not> a \<le> event_last"
| "log_chain H m event_last a (e # es) \<longleftrightarrow> a \<le> event_last \<and> event_at H m a e
     \<and> log_chain H m event_last (a + of_nat (length (enc_event e))) es"

abbreviation print_body :: "headers \<Rightarrow> memory \<Rightarrow> address \<Rightarrow> address \<times> 'fw world \<Rightarrow>
    (address \<times> 'fw world + bool \<times> 'fw world) option" where
  "print_body H m event_last \<equiv> event2_body H m event_last (prettyprint_tpm2_event_callback H m)"

lemma event_at_nonnull: "event_at H m a e \<Longrightarrow> a \<noteq> 0"
  by (simp add: event_at_def)

lemma next_nonnull: "event_at H m a e \<Longrightarrow> a + of_nat (length (enc_event e)) \<noteq> 0"
  using unat_add_nowrap [of a "length (enc_event e)"]
  by (auto simp: event_at_def)

lemma print_body_event:
  assumes "event_at H m a e" "a \<le> event_last"
  shows "print_body H m event_last (a, w) =
     Some (Inl (a + of_nat (length (enc_event e)), emit (render_event H e) w))"
  using assms event_at_nonnull [OF assms(1)]
  by (simp add: event2_body_def prettyprint_tpm2_event_callback_def print_event next_event_holds
      del: length_enc)

lemma print_body_end: "\<not> a \<le> event_last \<Longrightarrow> print_body H m event_last (a, w) = Some (Inr (True, w))"
  by (simp add: event2_body_def)

lemma chain_printed:
  assumes "log_chain H m event_last a es" "length es < fuel"
  shows "run_loop fuel (print_body H m event_last) (a, w) =
     Returned (True, emit (concat (map (render_event H) es)) w)"
  using assms
proof (induction es arbitrary: a w fuel)
  case Nil
  then obtain k where "fuel = Suc k" by (cases fuel) auto
  with Nil show ?case by (simp add: print_body_end)
next
  case (Cons e es)
  then obtain k where "fuel = Suc k" "length es < k" by (cases fuel) auto
  with Cons print_body_event [of H m a e event_last w] show ?case by simp
qed

lemma printed_chain:
  assumes "digest_sizes_ok H" "unat event_last + 2 ^ 39 \<le> 2 ^ 64"
  shows "a \<noteq> 0 \<Longrightarrow> run_loop fuel (print_body H m event_last) (a, w) = Returned r \<Longrightarrow>
    \<exists>es. log_chain H m event_last a es"
proof (induction fuel arbitrary: a w)
  case 0
  then show ?case by simp
next
  case (Suc fuel)
  show ?case
  proof (cases "a \<le> event_last")
    case False
    then show ?thesis by (intro exI [of _ "[]"]) simp
  next
    case True
    with assms(2) have room: "unat a + 2 ^ 39 \<le> 2 ^ 64"
      by (simp add: word_le_nat_alt)
    from Suc.prems True obtain w' where "prettyprint_tpm2_event H m a w = Some w'"
      by (cases "prettyprint_tpm2_event H m a w") (auto simp: event2_body_def prettyprint_tpm2_event_callback_def)
    from event_printed [OF assms(1) this Suc.prems(1) room] obtain e where e: "event_at H m a e" ..
    from Suc.IH [OF next_nonnull [OF e]] Suc.prems(2) obtain es where
      "log_chain H m event_last (a + of_nat (length (enc_event e))) es"
      by (auto simp: print_body_event [OF e True])
    with e True show ?thesis by (intro exI [of _ "e # es"]) simp
  qed
qed

text \<open>A well-formed log is such a chain.\<close>

lemma log_at_chain:
  assumes "log_at H m base es"
  shows "log_chain H m (last_event base es) base es"
proof -
  have ne: "es \<noteq> []" and ok: "list_all (event_ok H) es"
    and room: "unat base + length (events.enc_list es) < 2 ^ 64"
    using assms by (simp_all add: log_at_def)
  let ?pos = "events.pos base es"
  have le: "?pos i \<le> last_event base es \<longleftrightarrow> i < length es" if "i \<le> length es" for i
    using events.pos_le_iff [OF room ok that, of "length es - 1"] ne
    by (cases "length es") (auto simp: last_event_def)
  have "log_chain H m (last_event base es) (?pos i) (drop i es)" if "i \<le> length es" for i
    using that
  proof (induction "length es - i" arbitrary: i)
    case 0
    then show ?case using le [of i] by simp
  next
    case (Suc n)
    then have i: "i < length es" by simp
    have "?pos (Suc i) = ?pos i + of_nat (length (enc_event (es ! i)))"
      by (simp add: events.pos_def events.offset_Suc [OF i] add.assoc)
    moreover have "log_chain H m (last_event base es) (?pos (Suc i)) (drop (Suc i) es)"
      using Suc.hyps(2) i by (intro Suc.hyps(1)) auto
    ultimately show ?case
      using le [of i] log_event_at [OF assms i] i by (simp add: Cons_nth_drop_Suc [symmetric])
  qed
  from this [of 0] show ?thesis by (simp add: events.pos_def)
qed

subsection \<open>Properties\<close>

lemma print_loop_empty:
  "event_first \<noteq> 0 \<Longrightarrow> 0 < fuel \<Longrightarrow> run_loop fuel (print_body H m 0) (event_first, w) = Returned (True, w)"
  by (cases fuel) (simp_all add: print_body_end)

lemma tpm2_print_loop:
  assumes "event_first \<noteq> 0" "0 < fuel"
  shows "prettyprint_tpm2_eventlog H fuel m event_first event_last w =
    (case run_loop fuel (print_body H m event_last) (event_first,
        emit [Printed ''TPM2 EventLog, EFI_TCG2_EVENT_LOG_FORMAT_TCG_2 format\<newline>'' []] w) of
      Running s \<Rightarrow> Running s
    | Undefined \<Rightarrow> Undefined
    | Returned r \<Rightarrow> Returned (emit [Printed ''TPM2 EventLog end\<newline>'' []] (snd r)))"
proof (cases "event_last = 0")
  case True
  with assms show ?thesis
    unfolding True print_loop_empty [OF assms]
    by (simp add: prettyprint_tpm2_eventlog_def foreach_event2_def emit_calls Let_def)
next
  case False
  with assms(1) show ?thesis
    by (simp add: prettyprint_tpm2_eventlog_def foreach_event2_def emit_calls Let_def
        split: run.split prod.split)
qed

lemma print_loop_ends:
  assumes "digest_sizes_ok H" "event_first \<noteq> 0" "unat event_last + 2 ^ 39 \<le> 2 ^ 64"
    and "(unat event_last + 16 - unat event_first) div 16 < fuel"
  shows "\<not> running (run_loop fuel (print_body H m event_last) (event_first, w))"
proof (cases "event_last = 0")
  case True
  have "0 < fuel" using assms(4) by simp
  with True assms(2) show ?thesis by (simp add: print_loop_empty)
next
  case False
  with event_walk_ends [OF assms(1,3,4), of m "Some (prettyprint_tpm2_event_callback H m)" w] assms(2)
  show ?thesis by (simp add: foreach_event2_def)
qed

lemma tpm2_print_characterised:
  assumes "digest_sizes_ok H" "event_first \<noteq> 0" "unat event_last + 2 ^ 39 \<le> 2 ^ 64"
    and "(unat event_last + 16 - unat event_first) div 16 < fuel"
  shows "(prettyprint_tpm2_eventlog H fuel m event_first event_last w = Returned w' \<longleftrightarrow>
       (\<exists>es. log_chain H m event_last event_first es \<and> w' = emit (render_log H es) w))
   \<and> (prettyprint_tpm2_eventlog H fuel m event_first event_last w = Undefined \<longleftrightarrow>
       \<not> (\<exists>es. log_chain H m event_last event_first es))"
proof -
  let ?w = "emit [Printed ''TPM2 EventLog, EFI_TCG2_EVENT_LOG_FORMAT_TCG_2 format\<newline>'' []] w"
  let ?run = "\<lambda>n. run_loop n (print_body H m event_last) (event_first, ?w)"
  have fuel: "0 < fuel" using assms(4) by simp
  note print = tpm2_print_loop [OF assms(2) fuel, of H m event_last w]
  note fin = print_loop_ends [OF assms, of m ?w]
  have chain: "?run fuel = Returned (True, emit (concat (map (render_event H) es)) ?w)"
    if "log_chain H m event_last event_first es" for es
    using chain_printed [OF that, of "fuel + length es + 1" ?w] run_loop_mono [OF fin, of "fuel + length es + 1"]
    by simp
  let ?print = "prettyprint_tpm2_eventlog H fuel m event_first event_last w"
  have printed: "?print = Returned (emit (render_log H es) w)"
    if "log_chain H m event_last event_first es" for es
    by (simp add: print chain [OF that] render_log_def)
  have "?print = Undefined" if "\<nexists>es. log_chain H m event_last event_first es"
  proof -
    from printed_chain [OF assms(1,3,2), of fuel m ?w] fin that have "?run fuel = Undefined"
      by (cases "?run fuel") auto
    then show ?thesis by (simp add: print)
  qed
  with printed show ?thesis by (rule outcome_characterised)
qed

text \<open>
  C9. Printing is parsing, on every memory: given the addresses of a first and a last event,
  the printing of a crypto-agile log returns exactly when the memory holds a chain of well
  encoded events that leads from the first address beyond the last one, and then it has
  printed the rendering of that chain; otherwise its behaviour is undefined, as it reads
  unmapped memory. There is no third outcome, and nothing is printed that is not there.
\<close>

theorem tpm2_print_is_parse:
  assumes "digest_sizes_ok H" "event_first \<noteq> 0" "unat event_last + 2 ^ 39 \<le> 2 ^ 64"
    and "(unat event_last + 16 - unat event_first) div 16 < fuel"
  shows "(prettyprint_tpm2_eventlog H fuel m event_first event_last w = Returned w' \<longleftrightarrow>
       (\<exists>es. log_chain H m event_last event_first es \<and> w' = emit (render_log H es) w))
   \<and> (prettyprint_tpm2_eventlog H fuel m event_first event_last w = Undefined \<longleftrightarrow>
       \<not> (\<exists>es. log_chain H m event_last event_first es))"
  using assms by (rule tpm2_print_characterised)

lemma demo_last_event: "last_event 0x1000 demo_events = 0x104C"
  by (simp add: last_event_def events.pos_def events.offset_def demo_events_def demo_event_length)

theorem tpm2_print_is_parse_witness:
  "prettyprint_tpm2_eventlog std_headers 6 demo_mem 0x1000 0x104C demo_world =
     Returned (emit (render_log std_headers demo_events) demo_world)
   \<and> prettyprint_tpm2_eventlog std_headers 6 (\<lambda>_. None) 0x1000 0x104C demo_world = Undefined"
proof -
  have "(0x1000 :: address) \<noteq> 0" "unat (0x104C :: address) + 2 ^ 39 \<le> 2 ^ 64"
    "(unat (0x104C :: address) + 16 - unat (0x1000 :: address)) div 16 < 6" by simp_all
  note parse = tpm2_print_is_parse [OF std_headers_ok(4) this]
  have "log_chain std_headers demo_mem 0x104C 0x1000 demo_events"
    using log_at_chain [OF demo_log_at] by (simp only: demo_last_event)
  moreover have "\<not> log_chain std_headers (\<lambda>_. None) 0x104C 0x1000 es" for es
    by (cases es) (simp_all add: event_at_def enc_event_def enc_header_def le32_def)
  ultimately show ?thesis
    using parse [of demo_mem demo_world "emit (render_log std_headers demo_events) demo_world"]
      parse [of "\<lambda>_. None" demo_world]
    by blast
qed

subsection \<open>Logs of the 1.2 format\<close>

text \<open>
  The events from an address on. The chain is whole when it meets the last entry exactly;
  it is broken when an event reaches beyond the last entry.
\<close>

primrec pcr_chain :: "memory \<Rightarrow> address \<Rightarrow> address \<Rightarrow> TCG_PCR_EVENT list \<Rightarrow> bool \<Rightarrow> bool" where
  "pcr_chain m event_last a [] whole \<longleftrightarrow> False"
| "pcr_chain m event_last a (e # es) whole \<longleftrightarrow> pcr_event_ok e \<and> holds m a (enc_pcr_event e)
     \<and> (if a = event_last then es = [] \<and> whole
        else if event_last < a + of_nat (length (enc_pcr_event e)) then es = [] \<and> \<not> whole
        else pcr_chain m event_last (a + of_nat (length (enc_pcr_event e))) es whole)"

definition render_pcr_log :: "address \<Rightarrow> TCG_PCR_EVENT list \<Rightarrow> bool \<Rightarrow> call list" where
  "render_pcr_log base es whole =
     Printed ''TPM2 EventLog, EFI_TCG2_EVENT_LOG_FORMAT_TCG_1_2 format\<newline>'' []
     # concat (map render_pcr_event (pcr_items base es))
     @ (if whole then [] else [Printed ''Error: current element is beyond the end of the log\<newline>'' []])"

lemma pcr_items_Cons:
  "pcr_items a (e # es) = (a, e) # pcr_items (a + of_nat (length (enc_pcr_event e))) es"
proof -
  have "map f [0..<Suc n] = f 0 # map (\<lambda>i. f (Suc i)) [0..<n]" for f :: "nat \<Rightarrow> address \<times> TCG_PCR_EVENT" and n
    by (simp add: upt_conv_Cons map_Suc_upt [symmetric] del: upt_Suc)
  then show ?thesis
    by (simp add: pcr_items_def add.assoc del: upt_Suc)
qed

lemma pcr_items_Nil [simp]: "pcr_items a [] = []"
  by (simp add: pcr_items_def)

lemma pcr_event_printed:
  assumes "prettyprint_tpm12_event m a w = Some w'"
  obtains e where "pcr_event_ok e" "holds m a (enc_pcr_event e)"
proof -
  from assms obtain pcr ty digest n bytes where parts:
    "rd32 m a = Some pcr" "rd32 m (a + 4) = Some ty" "rd_bytes m (a + 8) 20 = Some digest"
    "rd32 m (a + 28) = Some n" "rd_bytes m (a + 32) (unat n) = Some bytes"
    by (auto simp: prettyprint_tpm12_event_def sizeof_TCG_DIGEST_def Let_def Option.bind_eq_Some_conv)
  have "holds m a (le32 pcr)" "holds m (a + 4) (le32 ty)" "holds m (a + 8) digest \<and> length digest = 20"
    "holds m (a + 28) (le32 n)" "holds m (a + 32) bytes \<and> length bytes = unat n"
    using parts by (simp_all add: rd32_Some rd_bytes_Some)
  then show ?thesis
    by (intro that [of "\<lparr>pe_PCRIndex = pcr, pe_EventType = ty, pe_Digest = digest, pe_EventSize = n,
        pe_Event = bytes\<rparr>"]) (simp_all add: pcr_event_ok_def enc_pcr_event_def mem_simps ac_simps)
qed

lemma pcr_event_room:
  fixes a :: address
  assumes "pcr_event_ok e" "a \<le> event_last" "unat event_last + 2 ^ 33 \<le> 2 ^ 64"
  shows "unat a + length (enc_pcr_event e) < 2 ^ 64" "a + of_nat (length (enc_pcr_event e)) \<noteq> 0"
proof -
  have "unat (pe_EventSize e) < 4294967296" by (rule unat_lt32)
  with assms show room: "unat a + length (enc_pcr_event e) < 2 ^ 64"
    by (simp add: length_enc_pcr_event pcr_event_ok_def word_le_nat_alt)
  have "0 < length (enc_pcr_event e)"
    using assms(1) by (simp add: length_enc_pcr_event)
  then show "a + of_nat (length (enc_pcr_event e)) \<noteq> 0"
    by (rule add_nonnull [OF room])
qed

lemma tpm12_body_event:
  assumes "pcr_event_ok e" "holds m a (enc_pcr_event e)" "a \<le> event_last" "a \<noteq> 0"
    and "unat event_last + 2 ^ 33 \<le> 2 ^ 64"
  shows "tpm12_body m event_last (a, w) = Some
    (if a = event_last then Inr (emit (render_pcr_event (a, e)) w)
     else if event_last < a + of_nat (length (enc_pcr_event e)) then
       Inr (emit (render_pcr_event (a, e)
         @ [Printed ''Error: current element is beyond the end of the log\<newline>'' []]) w)
     else Inl (a + of_nat (length (enc_pcr_event e)), emit (render_pcr_event (a, e)) w))"
proof -
  note room = pcr_event_room [OF assms(1,3,5)]
  have "tpm12_after m a = Some (a + of_nat (length (enc_pcr_event e)))"
    by (rule pcr_events.next_lands [OF assms(1,2) room(1) assms(4)])
  with room(2) show ?thesis
    by (simp add: tpm12_body_def tpm12_event_next_def print_pcr_event [OF assms(1,2)] emit_calls)
qed

lemma pcr_chain_printed:
  assumes "unat event_last + 2 ^ 33 \<le> 2 ^ 64"
  shows "pcr_chain m event_last a es whole \<Longrightarrow> a \<le> event_last \<Longrightarrow> a \<noteq> 0 \<Longrightarrow> length es \<le> fuel \<Longrightarrow>
    run_loop fuel (tpm12_body m event_last) (a, w) = Returned (emit (concat (map render_pcr_event (pcr_items a es))
      @ (if whole then [] else [Printed ''Error: current element is beyond the end of the log\<newline>'' []])) w)"
proof (induction es arbitrary: a w fuel)
  case Nil
  then show ?case by simp
next
  case (Cons e es)
  then obtain k where k: "fuel = Suc k" "length es \<le> k" by (cases fuel) auto
  from Cons.prems(1) have e: "pcr_event_ok e" "holds m a (enc_pcr_event e)" by simp_all
  note body = tpm12_body_event [OF e Cons.prems(2,3) assms]
  let ?b = "a + of_nat (length (enc_pcr_event e)) :: address"
  show ?case
  proof (cases "a = event_last \<or> event_last < ?b")
    case True
    with Cons.prems(1) show ?thesis
      by (auto simp: k(1) body pcr_items_Cons)
  next
    case False
    with Cons.prems(1) have "pcr_chain m event_last ?b es whole" "?b \<le> event_last"
      by (simp_all add: not_less)
    from Cons.IH [OF this pcr_event_room(2) [OF e(1) Cons.prems(2) assms] k(2)] False show ?thesis
      by (simp add: k(1) body pcr_items_Cons)
  qed
qed

lemma pcr_printed_chain:
  assumes "unat event_last + 2 ^ 33 \<le> 2 ^ 64"
  shows "run_loop fuel (tpm12_body m event_last) (a, w) = Returned r \<Longrightarrow> a \<le> event_last \<Longrightarrow> a \<noteq> 0 \<Longrightarrow>
    \<exists>es whole. pcr_chain m event_last a es whole"
proof (induction fuel arbitrary: a w)
  case 0
  then show ?case by simp
next
  case (Suc fuel)
  from Suc.prems(1) obtain w' where "prettyprint_tpm12_event m a w = Some w'"
    by (cases "prettyprint_tpm12_event m a w") (auto simp: tpm12_body_def)
  then obtain e where e: "pcr_event_ok e" "holds m a (enc_pcr_event e)"
    by (rule pcr_event_printed)
  note body = tpm12_body_event [OF e Suc.prems(2,3) assms]
  let ?b = "a + of_nat (length (enc_pcr_event e)) :: address"
  show ?case
  proof (cases "a = event_last \<or> event_last < ?b")
    case True
    with e show ?thesis
      by (intro exI [of _ "[e]"] exI [of _ "a = event_last"]) auto
  next
    case False
    with Suc.prems(1) have rest: "run_loop fuel (tpm12_body m event_last)
        (?b, emit (render_pcr_event (a, e)) w) = Returned r"
      by (simp add: body)
    from False have "?b \<le> event_last" by (simp add: not_less)
    from Suc.IH [OF rest this pcr_event_room(2) [OF e(1) Suc.prems(2) assms]] obtain es whole where
      "pcr_chain m event_last ?b es whole" by blast
    with e False show ?thesis
      by (intro exI [of _ "e # es"] exI [of _ whole]) simp
  qed
qed

text \<open>
  C34. The same for the 1.2 format: on every memory the printing returns exactly when a chain
  of well encoded events leads from the first address to the last entry or beyond it. It has
  then printed that chain, with the error message at its end exactly when the chain misses
  the last entry; otherwise it reads unmapped memory.
\<close>

theorem tpm12_print_is_parse:
  assumes "event \<noteq> 0" "event \<le> event_last" "unat event_last + 2 ^ 33 \<le> 2 ^ 64"
    and "unat event_last - unat event < fuel"
  shows "(prettyprint_tpm12_eventlog fuel m event event_last w = Returned w' \<longleftrightarrow>
       (\<exists>es whole. pcr_chain m event_last event es whole \<and> w' = emit (render_pcr_log event es whole) w))
   \<and> (prettyprint_tpm12_eventlog fuel m event event_last w = Undefined \<longleftrightarrow>
       \<not> (\<exists>es whole. pcr_chain m event_last event es whole))"
proof -
  let ?w = "emit [Printed ''TPM2 EventLog, EFI_TCG2_EVENT_LOG_FORMAT_TCG_1_2 format\<newline>'' []] w"
  let ?run = "\<lambda>n. run_loop n (tpm12_body m event_last) (event, ?w)"
  have print: "prettyprint_tpm12_eventlog fuel m event event_last w = ?run fuel"
    using assms(1) by (simp add: prettyprint_tpm12_eventlog_def emit_calls)
  have fin: "\<not> running (?run fuel)"
    using tpm12_walk_ends [OF assms(3,2,4), of m w] by (simp add: print)
  have chain: "?run fuel = Returned (emit (render_pcr_log event es whole) w)"
    if "pcr_chain m event_last event es whole" for es whole
    using pcr_chain_printed [OF assms(3) that assms(2,1), of "fuel + length es" ?w]
      run_loop_mono [OF fin, of "fuel + length es"]
    by (simp add: render_pcr_log_def)
  have "?run fuel = Undefined" if "\<nexists>x. pcr_chain m event_last event (fst x) (snd x)"
  proof -
    from that have "\<not> pcr_chain m event_last event es whole" for es whole
      by (metis fst_conv snd_conv)
    with pcr_printed_chain [OF assms(3) _ assms(2,1), of fuel m ?w] fin show ?thesis
      by (cases "?run fuel") auto
  qed
  with chain have "(?run fuel = Returned w' \<longleftrightarrow> (\<exists>x. pcr_chain m event_last event (fst x) (snd x)
        \<and> w' = emit (render_pcr_log event (fst x) (snd x)) w))
    \<and> (?run fuel = Undefined \<longleftrightarrow> (\<nexists>x. pcr_chain m event_last event (fst x) (snd x)))"
    by (rule outcome_characterised)
  then show ?thesis
    unfolding print by (simp only: split_paired_Ex fst_conv snd_conv)
qed

theorem tpm12_print_is_parse_witness:
  "\<exists>w. prettyprint_tpm12_eventlog 17 (mem_of 0x1000 (enc_pcr_event demo_spec_id)) 0x1000 0x1010 demo_world =
     Returned w \<and> Printed ''Error: current element is beyond the end of the log\<newline>'' [] \<in> set (console w)"
proof -
  have ok: "pcr_event_ok demo_spec_id" by (simp add: pcr_event_ok_def demo_spec_id_def)
  have len: "length (enc_pcr_event demo_spec_id) = 35"
    unfolding length_enc_pcr_event [OF ok] by (simp add: demo_spec_id_def)
  have "holds (mem_of 0x1000 (enc_pcr_event demo_spec_id)) 0x1000 (enc_pcr_event demo_spec_id)"
    by (rule holds_mem_of) (simp add: len)
  with ok have chain: "pcr_chain (mem_of 0x1000 (enc_pcr_event demo_spec_id)) 0x1010 0x1000 [demo_spec_id] False"
    by (simp add: len)
  have "(0x1000 :: address) \<noteq> 0" "(0x1000 :: address) \<le> 0x1010" "unat (0x1010 :: address) + 2 ^ 33 \<le> 2 ^ 64"
    "unat (0x1010 :: address) - unat (0x1000 :: address) < 17" by simp_all
  note parse = tpm12_print_is_parse [OF this, of "mem_of 0x1000 (enc_pcr_event demo_spec_id)" demo_world
      "emit (render_pcr_log 0x1000 [demo_spec_id] False) demo_world"]
  have "prettyprint_tpm12_eventlog 17 (mem_of 0x1000 (enc_pcr_event demo_spec_id)) 0x1000 0x1010 demo_world =
       Returned (emit (render_pcr_log 0x1000 [demo_spec_id] False) demo_world)"
    by (rule iffD2 [OF conjunct1 [OF parse]]) (use chain in blast)
  then show ?thesis by (simp add: render_pcr_log_def)
qed

end
