(* ===== verification/Eventlog_Run.thy ===== *)
theory Eventlog_Run
  imports Log_Decoding
begin

section \<open>The event log program, for every answer of the firmware\<close>

text \<open>
  The program of example/tcg2-get-eventlog.c makes three calls to the firmware and then
  prints from memory. This theory gives its status and its output for every answer of the
  three calls, out parameters that a call leaves unwritten included, and every content of
  the memory. The one limit is that the last event of the log does not lie in the uppermost
  2^39 bytes of the 64-bit address space, where the addresses of the walk could wrap around.
\<close>

subsection \<open>The four ways it ends early\<close>

definition ends_with ::
  "(address \<times> 'fw world, EFI_STATUS \<times> 'fw world) run \<Rightarrow> EFI_STATUS \<Rightarrow> 'fw \<Rightarrow> call list \<Rightarrow> 'fw world \<Rightarrow> bool" where
  "ends_with r status f lines w \<longleftrightarrow> r = Returned (status, (emit lines w)\<lparr>firmware := f\<rparr>)"

lemma report_emit:
  "report_status H fmt status w = emit (if EFI_ERROR H status then [Printed fmt [A_num (unat status)]] else []) w"
  by (simp add: report_status_def emit_calls)

lemma emit_firmware: "emit cs (w\<lparr>firmware := f\<rparr>) = (emit cs w)\<lparr>firmware := f\<rparr>"
  by (simp add: emit_def)

lemma format_high_cases:
  assumes "GetCapability p (caps_init 36) (firmware w) = (st2, caps, f2)"
  shows "get_eventlog_format_high H (Some p) 0 w =
    (if EFI_ERROR H st2 then
       Some (st2, 0, emit [Printed ''GetCapability failed: 0x%x\<newline>'' [A_num (unat st2)]] (w\<lparr>firmware := f2\<rparr>))
     else Some (EFI_SUCCESS H,
       if SupportedEventLogs caps = 0 then 0 else EFI_TCG2_EVENT_LOG_FORMAT_TCG_2, w\<lparr>firmware := f2\<rparr>))"
proof -
  have "tcg2_get_capability H (Some p) (caps_init 36) w = Some (st2, caps,
      report_status H ''GetCapability failed: 0x%x\<newline>'' st2 (w\<lparr>firmware := f2\<rparr>))"
    by (rule capability_wrapper.lifts) (rule assms)
  then show ?thesis
    by (simp add: get_eventlog_format_high_def sizeof_caps report_emit unfolds)
qed

definition trunc_lines :: "BOOLEAN \<Rightarrow> call list" where
  "trunc_lines trunc = (if trunc \<noteq> 0 then [Printed ''WARNING: Eventlog has been truncated\<newline>'' []] else [])"

lemma main_after_log:
  assumes "L EFI_TCG2_PROTOCOL_GUID (firmware w) = (st, Some p, f1)" "\<not> EFI_ERROR H st"
    and "GetCapability p (caps_init 36) f1 = (st2, caps, f2)" "\<not> EFI_ERROR H st2"
    and "SupportedEventLogs caps \<noteq> 0" "\<not> EFI_ERROR H (EFI_SUCCESS H)"
    and "GetEventLog p EFI_TCG2_EVENT_LOG_FORMAT_TCG_2 eventlog_unset f2 = (st3, out, f3)"
  shows "eventlog_main H L mem fuel w =
    (if EFI_ERROR H st3
     then Returned (st3, emit [Printed ''Tcg2 SubmitCommand failed: 0x%x\<newline>'' [A_num (unat st3)]] (w\<lparr>firmware := f3\<rparr>))
     else eventlog_print H fuel (mem f3) EFI_TCG2_EVENT_LOG_FORMAT_TCG_2 st3 out (w\<lparr>firmware := f3\<rparr>))"
proof -
  have cap: "GetCapability p (caps_init 36) (firmware (w\<lparr>firmware := f1\<rparr>)) = (st2, caps, f2)"
    using assms(3) by simp
  have log: "tcg2_get_eventlog H (Some p) EFI_TCG2_EVENT_LOG_FORMAT_TCG_2 eventlog_unset (w\<lparr>firmware := f2\<rparr>) =
      Some (st3, out, report_status H ''Tcg2 SubmitCommand failed: 0x%x\<newline>'' st3 (w\<lparr>firmware := f3\<rparr>))"
    using eventlog_wrapper.lifts [of p EFI_TCG2_EVENT_LOG_FORMAT_TCG_2 eventlog_unset "w\<lparr>firmware := f2\<rparr>"
        st3 out f3 H] assms(7) by simp
  have "EFI_TCG2_EVENT_LOG_FORMAT_TCG_2 \<noteq> 0" by (simp add: unfolds)
  then show ?thesis
    using assms(2,4-6) log
    by (simp add: eventlog_main_def get_protocol_success [where LibLocateProtocol = L, OF assms(1,2)]
        format_high_cases [OF cap] report_emit Let_def)
qed

lemma print_stage:
  "eventlog_print H fuel m EFI_TCG2_EVENT_LOG_FORMAT_TCG_2 status
      \<lparr>EventLogLocation = Some base, EventLogLastEntry = Some event_last, EventLogTruncated = Some trunc\<rparr> w =
    (case prettyprint_tpm2_eventlog H fuel m base event_last (emit (trunc_lines trunc) w) of
       Running s \<Rightarrow> Running s | Undefined \<Rightarrow> Undefined | Returned w \<Rightarrow> Returned (status, w))"
  by (simp add: eventlog_print_def prettyprint_eventlog_def trunc_lines_def emit_calls Let_def)

text \<open>The last stage, on a log whose first address is not 0.\<close>

lemma log_stage:
  assumes "digest_sizes_ok H" "base \<noteq> 0"
    and "unat event_last + 2 ^ 39 \<le> 2 ^ 64" "(unat event_last + 16 - unat base) div 16 < fuel"
    and main: "run = (case prettyprint_tpm2_eventlog H fuel m base event_last
         (emit (trunc_lines trunc) (w\<lparr>firmware := f\<rparr>)) of
       Running s \<Rightarrow> Running s | Undefined \<Rightarrow> Undefined | Returned w \<Rightarrow> Returned (status, w))"
  shows "if \<exists>es. log_chain H m event_last base es
    then \<exists>es. log_chain H m event_last base es
      \<and> ends_with run status f (trunc_lines trunc @ render_log H es) w
    else run = Undefined"
proof -
  let ?w = "emit (trunc_lines trunc) (w\<lparr>firmware := f\<rparr>)"
  note parse = tpm2_print_characterised [OF assms(1-4), of m ?w]
  show ?thesis
  proof (cases "\<exists>es. log_chain H m event_last base es")
    case True
    then obtain es where es: "log_chain H m event_last base es" ..
    then have "prettyprint_tpm2_eventlog H fuel m base event_last ?w = Returned (emit (render_log H es) ?w)"
      using parse [of "emit (render_log H es) ?w"] by blast
    then have "ends_with run status f (trunc_lines trunc @ render_log H es) w"
      by (simp add: main ends_with_def emit_firmware)
    with es show ?thesis by auto
  next
    case False
    with parse have "prettyprint_tpm2_eventlog H fuel m base event_last ?w = Undefined"
      by blast
    with False show ?thesis by (simp add: main)
  qed
qed

text \<open>
  The last event that is named lies below the uppermost 2^39 bytes of the address space, and
  the fuel is enough for the distance of the two addresses.
\<close>

definition log_in_range :: "nat \<Rightarrow> eventlog_out \<Rightarrow> bool" where
  "log_in_range fuel out \<longleftrightarrow> (\<forall>base event_last.
     EventLogLocation out = Some base \<longrightarrow> EventLogLastEntry out = Some event_last \<longrightarrow>
       unat event_last + 2 ^ 39 \<le> 2 ^ 64 \<and> (unat event_last + 16 - unat base) div 16 < fuel)"

text \<open>The last stage, for whatever GetEventLog has written.\<close>

lemma printed_log:
  assumes "digest_sizes_ok H" "log_in_range fuel out"
    and run: "run = eventlog_print H fuel m EFI_TCG2_EVENT_LOG_FORMAT_TCG_2 status out (w\<lparr>firmware := f\<rparr>)"
  shows "case (EventLogLocation out, EventLogLastEntry out, EventLogTruncated out) of
      (Some base, Some event_last, Some trunc) \<Rightarrow>
        if base = 0 then ends_with run status f (trunc_lines trunc @ [Printed ''TPM2 EventLog is empty.\<newline>'' []]) w
        else if \<exists>es. log_chain H m event_last base es
          then \<exists>es. log_chain H m event_last base es
            \<and> ends_with run status f (trunc_lines trunc @ render_log H es) w
        else run = Undefined
    | _ \<Rightarrow> run = Undefined"
proof (cases "\<exists>base event_last trunc. EventLogLocation out = Some base
    \<and> EventLogLastEntry out = Some event_last \<and> EventLogTruncated out = Some trunc")
  case False
  then show ?thesis
    by (auto simp: run eventlog_print_def split: option.split)
next
  case True
  then obtain base event_last trunc where set: "EventLogLocation out = Some base"
    "EventLogLastEntry out = Some event_last" "EventLogTruncated out = Some trunc" by blast
  then have out: "out = \<lparr>EventLogLocation = Some base, EventLogLastEntry = Some event_last,
      EventLogTruncated = Some trunc\<rparr>" by simp
  note run' = run [unfolded out print_stage]
  show ?thesis
  proof (cases "base = 0")
    case True
    with set show ?thesis
      by (simp add: run' prettyprint_tpm2_eventlog_def ends_with_def emit_firmware emit_calls)
  next
    case False
    from assms(2) set(1,2) have
      last: "unat event_last + 2 ^ 39 \<le> 2 ^ 64" "(unat event_last + 16 - unat base) div 16 < fuel"
      unfolding log_in_range_def by blast+
    show ?thesis
      unfolding set prod.case option.case if_not_P [OF False]
      by (rule log_stage [OF assms(1) False last run'])
  qed
qed

subsection \<open>The property\<close>

text \<open>
  C10. The event log program, for every answer of LocateProtocol, GetCapability and
  GetEventLog: it exits with the status of the first call that fails, with that call's line,
  whatever a failing GetEventLog has written; with status 1 and a message when the firmware
  names no log format; with the message of an empty log when the first address is 0; and
  otherwise it shows, after a warning for a truncated log, the one chain of events that the
  memory holds between the two addresses, and exits with the status of GetEventLog. Its
  behaviour is undefined only when the memory holds no such chain, or when GetEventLog
  succeeds without having written all three results. It always asks for the crypto-agile
  format. LocateProtocol gives an interface when it succeeds, and the last event of a log that
  is named does not lie in the uppermost 2^39 bytes of the address space.
\<close>

theorem eventlog_tool_outcome:
  assumes "L EFI_TCG2_PROTOCOL_GUID (firmware w) = (st, q, f1)" "EFI_ERROR H st \<or> q = Some p"
    and "GetCapability p (caps_init 36) f1 = (st2, caps, f2)"
    and "GetEventLog p EFI_TCG2_EVENT_LOG_FORMAT_TCG_2 eventlog_unset f2 = (st3, out, f3)"
    and "\<not> EFI_ERROR H (EFI_SUCCESS H)" "digest_sizes_ok H"
    and "\<not> EFI_ERROR H st3 \<Longrightarrow> log_in_range fuel out"
  shows "if EFI_ERROR H st then ends_with (eventlog_main H L mem fuel w) st f1 [] w
    else if EFI_ERROR H st2 then ends_with (eventlog_main H L mem fuel w) st2 f2
      [Printed ''GetCapability failed: 0x%x\<newline>'' [A_num (unat st2)]] w
    else if SupportedEventLogs caps = 0 then ends_with (eventlog_main H L mem fuel w) 1 f2
      [Printed ''ERROR: TCG2 UEFI protocol doesn't support a log format known to this tool.\<newline>'' []] w
    else if EFI_ERROR H st3 then ends_with (eventlog_main H L mem fuel w) st3 f3
      [Printed ''Tcg2 SubmitCommand failed: 0x%x\<newline>'' [A_num (unat st3)]] w
    else (case (EventLogLocation out, EventLogLastEntry out, EventLogTruncated out) of
        (Some base, Some event_last, Some trunc) \<Rightarrow>
          if base = 0 then ends_with (eventlog_main H L mem fuel w) st3 f3
            (trunc_lines trunc @ [Printed ''TPM2 EventLog is empty.\<newline>'' []]) w
          else if \<exists>es. log_chain H (mem f3) event_last base es
            then \<exists>es. log_chain H (mem f3) event_last base es
              \<and> ends_with (eventlog_main H L mem fuel w) st3 f3 (trunc_lines trunc @ render_log H es) w
          else eventlog_main H L mem fuel w = Undefined
      | _ \<Rightarrow> eventlog_main H L mem fuel w = Undefined)"
proof (cases "EFI_ERROR H st")
  case True
  then show ?thesis
    by (simp add: eventlog_main_def get_protocol_failure [where LibLocateProtocol = L, OF assms(1) True]
        ends_with_def)
next
  case locate: False
  with assms(2) have q: "q = Some p" by simp
  note L = assms(1) [unfolded q]
  have cap: "GetCapability p (caps_init 36) (firmware (w\<lparr>firmware := f1\<rparr>)) = (st2, caps, f2)"
    using assms(3) by simp
  show ?thesis
  proof (cases "EFI_ERROR H st2 \<or> SupportedEventLogs caps = 0")
    case True
    with locate assms(5) show ?thesis
      by (cases "EFI_ERROR H st2")
        (simp_all add: eventlog_main_def get_protocol_success [where LibLocateProtocol = L, OF L locate]
          format_high_cases [OF cap] ends_with_def emit_firmware emit_calls)
  next
    case caps: False
    then have ok: "\<not> EFI_ERROR H st2" "SupportedEventLogs caps \<noteq> 0" by simp_all
    note main = main_after_log [where L = L, OF L locate assms(3) ok(1,2) assms(5,4), of mem fuel]
    show ?thesis
    proof (cases "EFI_ERROR H st3")
      case True
      with locate ok show ?thesis
        by (simp add: main ends_with_def emit_firmware)
    next
      case st3: False
      show ?thesis
        unfolding if_not_P [OF locate] if_not_P [OF ok(1)] if_not_P [OF ok(2)] if_not_P [OF st3]
        by (rule printed_log [where out = out, OF assms(6) assms(7) [OF st3]]) (simp_all add: main st3)
    qed
  qed
qed

text \<open>
  The demonstration log once more, from a firmware that reports it as truncated; a firmware
  whose GetEventLog fails and writes nothing; and a firmware that names no format.
\<close>

definition log_locate :: "EFI_TCG2_BOOT_SERVICE_CAPABILITY \<Rightarrow> EFI_STATUS \<Rightarrow> eventlog_out \<Rightarrow> UINT8 list list locate" where
  "log_locate caps st out = (\<lambda>guid f. (0, Some ((demo_protocol 0 caps demo_log)
     \<lparr>GetEventLog := \<lambda>format old f. (st, out, f)\<rparr>), f))"

theorem eventlog_tool_outcome_witness:
  "(\<exists>es. log_chain std_headers demo_mem 0x104C 0x1000 es
     \<and> ends_with (eventlog_main std_headers (log_locate demo_caps 0
          \<lparr>EventLogLocation = Some 0x1000, EventLogLastEntry = Some 0x104C, EventLogTruncated = Some 1\<rparr>)
        (\<lambda>f. demo_mem) 6 demo_world) 0 [] (trunc_lines 1 @ render_log std_headers es) demo_world)
   \<and> ends_with (eventlog_main std_headers (log_locate demo_caps 0x8000000000000002 eventlog_unset)
        (\<lambda>f. demo_mem) 6 demo_world) 0x8000000000000002 []
      [Printed ''Tcg2 SubmitCommand failed: 0x%x\<newline>'' [A_num 0x8000000000000002]] demo_world
   \<and> ends_with (eventlog_main std_headers (log_locate (demo_caps\<lparr>SupportedEventLogs := 0\<rparr>) 0 eventlog_unset)
        (\<lambda>f. demo_mem) 6 demo_world) 1 []
      [Printed ''ERROR: TCG2 UEFI protocol doesn't support a log format known to this tool.\<newline>'' []] demo_world"
proof -
  let ?log = "\<lparr>EventLogLocation = Some 0x1000, EventLogLastEntry = Some (0x104C :: address),
      EventLogTruncated = Some (1 :: BOOLEAN)\<rparr>"
  let ?p = "\<lambda>caps st out. (demo_protocol 0 caps demo_log)\<lparr>GetEventLog := \<lambda>format old f. (st, out, f)\<rparr>"
  have 1: "log_locate caps st out EFI_TCG2_PROTOCOL_GUID (firmware demo_world) = (0, Some (?p caps st out), [])"
    for caps st out by (simp add: log_locate_def demo_world_def)
  have 2: "EFI_ERROR std_headers 0 \<or> Some p = Some p" for p :: "UINT8 list list EFI_TCG2_PROTOCOL" by simp
  have 3: "GetCapability (?p caps st out) (caps_init 36) [] = (0, caps, [])"
    and 4: "GetEventLog (?p caps st out) EFI_TCG2_EVENT_LOG_FORMAT_TCG_2 eventlog_unset [] = (st, out, [])"
    for caps st out by (simp_all add: demo_protocol_def)
  have 5: "\<not> EFI_ERROR std_headers (EFI_SUCCESS std_headers)" by simp
  have in_range: "log_in_range 6 ?log" "log_in_range 6 eventlog_unset"
    by (simp_all add: log_in_range_def eventlog_unset_def)
  have chain: "log_chain std_headers demo_mem 0x104C 0x1000 demo_events"
    using log_at_chain [OF demo_log_at] by (simp only: demo_last_event)
  have ok: "\<not> EFI_ERROR std_headers 0" "SupportedEventLogs demo_caps \<noteq> 0" "(0x1000 :: address) \<noteq> 0"
    "\<exists>es. log_chain std_headers demo_mem 0x104C 0x1000 es"
    using chain by (auto simp: demo_caps_def)
  have bad: "EFI_ERROR std_headers 0x8000000000000002" "unat (0x8000000000000002 :: 64 word) = 0x8000000000000002"
    by simp_all
  let ?none = "demo_caps\<lparr>SupportedEventLogs := 0\<rparr>"
  have none: "SupportedEventLogs ?none = 0" by simp
  note shown = eventlog_tool_outcome [where L = "log_locate demo_caps 0 ?log" and mem = "\<lambda>f. demo_mem" and w = demo_world
      and caps = demo_caps and out = ?log and fuel = 6, OF 1 2 3 4 5 std_headers_ok(4) in_range(1)]
  note fails = eventlog_tool_outcome [where L = "log_locate demo_caps 0x8000000000000002 eventlog_unset" and mem = "\<lambda>f. demo_mem"
      and w = demo_world and caps = demo_caps and out = eventlog_unset and fuel = 6 and ?st3.0 = "0x8000000000000002", OF 1 2 3 4 5 std_headers_ok(4) in_range(2)]
  note refused = eventlog_tool_outcome [where L = "log_locate ?none 0 eventlog_unset" and mem = "\<lambda>f. demo_mem" and w = demo_world
      and caps = ?none and out = eventlog_unset and fuel = 6 and ?st3.0 = 0, OF 1 2 3 4 5 std_headers_ok(4) in_range(2)]
  from shown fails refused show ?thesis
    unfolding if_not_P [OF ok(1)] if_not_P [OF ok(2)] if_P [OF none] if_P [OF bad(1)] bad(2)
      eventlog_out.select_convs prod.case option.case if_not_P [OF ok(3)] if_P [OF ok(4)]
    by blast
qed

end
