(* ===== verification/Caps_App.thy ===== *)
theory Caps_App
  imports Alg_Tables
begin

section \<open>The capability and the PCR bank tools\<close>

text \<open>
  example/tcg2-get-caps.c and example/tcg2-get-pcr-banks.c: the programs that show the
  capability structure of the firmware and its active PCR banks.
\<close>

subsection \<open>example/tcg2-get-caps.c\<close>

definition tcg2_caps_prettyprint :: "EFI_TCG2_BOOT_SERVICE_CAPABILITY \<Rightarrow> 'fw world \<Rightarrow> 'fw world" where
  "tcg2_caps_prettyprint caps w =
     (let w = Print ''TPM2 Capabilities:\<newline>'' [] w;
          w = Print ''  Size: 0x%02x\<newline>'' [A_num (unat (Size caps))] w;
          w = Print ''  StructureVersion:\<newline>'' [] w;
          w = Print ''    Major: 0x%02x\<newline>'' [A_num (unat (Major (StructureVersion caps)))] w;
          w = Print ''    Minor: 0x%02x\<newline>'' [A_num (unat (Minor (StructureVersion caps)))] w;
          w = Print ''  ProtocolVersion:\<newline>'' [] w;
          w = Print ''    Major: 0x%02x\<newline>'' [A_num (unat (Major (ProtocolVersion caps)))] w;
          w = Print ''    Minor: 0x%02x\<newline>'' [A_num (unat (Minor (ProtocolVersion caps)))] w;
          w = Print ''  HashAlgorithmBitmap: 0x%08x\<newline>'' [A_num (unat (HashAlgorithmBitmap caps))] w;
          w = tcg2_algorithm_bitmap_prettyprint (HashAlgorithmBitmap caps) w;
          w = Print ''  SupportedEventLogs: 0x%08x\<newline>'' [A_num (unat (SupportedEventLogs caps))] w;
          w = Print ''    EFI_TCG2_EVENT_LOG_FORMAT_TCG_1_2: %s\<newline>''
            [A_str (bitmap_val_str (SupportedEventLogs caps) EFI_TCG2_EVENT_LOG_FORMAT_TCG_1_2)] w;
          w = Print ''    EFI_TCG2_EVENT_LOG_FORMAT_TCG_2: %s\<newline>''
            [A_str (bitmap_val_str (SupportedEventLogs caps) EFI_TCG2_EVENT_LOG_FORMAT_TCG_2)] w;
          w = Print ''  TPMPresentFlag: 0x%02x : %s\<newline>''
            [A_num (unat (TPMPresentFlag caps)), A_str (bitmap_val_str (ucast (TPMPresentFlag caps)) 1)] w;
          w = Print ''  MaxCommandSize: 0x%04x\<newline>'' [A_num (unat (MaxCommandSize caps))] w;
          w = Print ''  MaxResponseSize: 0x%04x\<newline>'' [A_num (unat (MaxResponseSize caps))] w;
          w = Print ''  ManufacturerID: 0x%08x\<newline>'' [A_num (unat (ManufacturerID caps))] w;
          w = Print ''  NumberOfPcrBanks: 0x%08x\<newline>'' [A_num (unat (NumberOfPcrBanks caps))] w;
          w = Print ''  ActivePcrBanks: 0x%08x\<newline>'' [A_num (unat (ActivePcrBanks caps))] w
      in tcg2_algorithm_bitmap_prettyprint (ActivePcrBanks caps) w)"

definition get_capability_tcg2 ::
  "headers \<Rightarrow> 'fw EFI_TCG2_PROTOCOL option \<Rightarrow> EFI_TCG2_BOOT_SERVICE_CAPABILITY \<Rightarrow> 'fw world \<Rightarrow>
   (EFI_STATUS \<times> EFI_TCG2_BOOT_SERVICE_CAPABILITY \<times> 'fw world) option" where
  "get_capability_tcg2 H tcg2_protocol tcg2_bs_caps w = do {
     p \<leftarrow> tcg2_protocol;
     let (status, caps', f) = GetCapability p tcg2_bs_caps (firmware w);
     let w' = report_status H ''GetCapability failed: 0x%x\<newline>'' status (w\<lparr>firmware := f\<rparr>);
     Some (status, caps', w') }"

interpretation get_caps_wrapper:
  tcg2_wrapper H "''GetCapability failed: 0x%x\<newline>''" "\<lambda>p. GetCapability p caps"
    "\<lambda>prot. get_capability_tcg2 H prot caps" for H caps
  by unfold_locales (simp_all add: get_capability_tcg2_def)

definition caps_main ::
  "headers \<Rightarrow> 'fw locate \<Rightarrow> 'fw world \<Rightarrow> (EFI_STATUS \<times> 'fw world) option" where
  "caps_main H LibLocateProtocol w =
     (let tcg2_bs_caps = caps_init (of_nat sizeof_EFI_TCG2_BOOT_SERVICE_CAPABILITY);
          (status, tcg2_protocol, w) = tcg2_get_protocol H LibLocateProtocol None w in
      if EFI_ERROR H status then Some (status, w)
      else do {
        (status, tcg2_bs_caps, w) \<leftarrow> tcg2_get_capability H tcg2_protocol tcg2_bs_caps w;
        if EFI_ERROR H status then Some (status, w)
        else Some (status, tcg2_caps_prettyprint tcg2_bs_caps w) })"

subsection \<open>example/tcg2-get-pcr-banks.c\<close>

definition pcr_banks_main ::
  "headers \<Rightarrow> 'fw locate \<Rightarrow> 'fw world \<Rightarrow> (EFI_STATUS \<times> 'fw world) option" where
  "pcr_banks_main H LibLocateProtocol w =
     (let bs_caps = caps_init (of_nat sizeof_EFI_TCG2_BOOT_SERVICE_CAPABILITY);
          active_banks = 0;
          (status, tcg2_protocol, w) = tcg2_get_protocol H LibLocateProtocol None w in
      if EFI_ERROR H status then Some (status, w)
      else do {
        (status, bs_caps, w) \<leftarrow> tcg2_get_capability H tcg2_protocol bs_caps w;
        if EFI_ERROR H status then Some (status, w)
        else
          let proto_major = Major (ProtocolVersion bs_caps);
              proto_minor = Minor (ProtocolVersion bs_caps) in
          if proto_major < 1 \<or> (proto_minor = 1 \<and> proto_minor < 1) then
            Some (1, Print ''ERROR: GetPcrBanks not supported in protocol version %PRIu8.%PRIu8\<newline>''
              [A_num (unat proto_major), A_num (unat proto_minor)] w)
          else do {
            (status, active_banks, w) \<leftarrow> tcg2_get_active_pcr_banks H tcg2_protocol active_banks w;
            if EFI_ERROR H status then Some (status, w)
            else
              let w = (if active_banks \<noteq> ActivePcrBanks bs_caps then
                    Print ''WARNING: GetActivePcrBanks disagrees with EFI_TCG2_BOOT_SERVICE_CAPABILITY.ActivePcrBanks.\<newline>'' [] w
                  else w);
                  w = Print ''GetActivePcrBanks: 0x%08PRIx32\<newline>'' [A_num (unat active_banks)] w in
              Some (status, tcg2_algorithm_bitmap_prettyprint active_banks w) } })"

subsection \<open>What the tools show\<close>

text \<open>The five lines for a bitmap of algorithms: which bit each line is about.\<close>

definition bitmap_lines :: "UINT32 \<Rightarrow> call list" where
  "bitmap_lines b = map (\<lambda>(k, fmt). Printed fmt [A_str (if bit b k then ''true'' else ''false'')])
     [(0, ''    EFI_TCG2_BOOT_HASH_ALG_SHA1: %s\<newline>''),
      (1, ''    EFI_TCG2_BOOT_HASH_ALG_SHA256: %s\<newline>''),
      (2, ''    EFI_TCG2_BOOT_HASH_ALG_SHA384: %s\<newline>''),
      (3, ''    EFI_TCG2_BOOT_HASH_ALG_SHA512: %s\<newline>''),
      (4, ''    EFI_TCG2_BOOT_HASH_ALG_SM3_256: %s\<newline>'')]"

lemma bitmap_val_bit: "bitmap_val_str b (2 ^ k) = (if bit b k then ''true'' else ''false'')"
  by (simp add: bitmap_val_str_def and_exp_eq_0_iff_not_bit)

lemma alg_masks:
  "EFI_TCG2_BOOT_HASH_ALG_SHA1 = 2 ^ 0" "EFI_TCG2_BOOT_HASH_ALG_SHA256 = 2 ^ 1"
  "EFI_TCG2_BOOT_HASH_ALG_SHA384 = 2 ^ 2" "EFI_TCG2_BOOT_HASH_ALG_SHA512 = 2 ^ 3"
  "EFI_TCG2_BOOT_HASH_ALG_SM3_256 = 2 ^ 4"
  "EFI_TCG2_EVENT_LOG_FORMAT_TCG_1_2 = 2 ^ 0" "EFI_TCG2_EVENT_LOG_FORMAT_TCG_2 = 2 ^ 1"
  by (simp_all add: unfolds)

lemma bitmap_shown_world:
  "tcg2_algorithm_bitmap_prettyprint b w = w\<lparr>console := console w @ bitmap_lines b\<rparr>"
  unfolding tcg2_algorithm_bitmap_prettyprint_def alg_masks bitmap_val_bit
  by (simp add: bitmap_lines_def Print_def Let_def)

text \<open>
  A bitmap of algorithms is shown as five lines, one per known algorithm, and each says
  true exactly when the algorithm's bit is set; bits above the fifth are not shown.
\<close>

theorem bitmap_shown_by_bits:
  "console (tcg2_algorithm_bitmap_prettyprint b w) = console w @ bitmap_lines b
 \<and> firmware (tcg2_algorithm_bitmap_prettyprint b w) = firmware w
 \<and> length (bitmap_lines b) = 5
 \<and> (bitmap_lines b = bitmap_lines b' \<longleftrightarrow> (\<forall>k < 5. bit b k = bit b' k))"
proof -
  have "(\<forall>k < 5. bit b k = bit b' k) \<longleftrightarrow> bit b 0 = bit b' 0 \<and> bit b 1 = bit b' 1 \<and> bit b 2 = bit b' 2
      \<and> bit b 3 = bit b' 3 \<and> bit b 4 = bit b' 4"
    by (simp add: numeral_eq_Suc All_less_Suc) blast
  then show ?thesis by (simp add: bitmap_shown_world bitmap_lines_def)
qed

lemma capability_lifts:
  assumes "GetCapability p (caps_init 36) (firmware w) = (status, caps', f)"
  shows "tcg2_get_capability H (Some p) (caps_init (of_nat sizeof_EFI_TCG2_BOOT_SERVICE_CAPABILITY)) w =
    Some (status, caps', report_status H ''GetCapability failed: 0x%x\<newline>'' status (w\<lparr>firmware := f\<rparr>))"
  unfolding sizeof_caps of_nat_numeral by (rule capability_wrapper.lifts) (rule assms)

text \<open>
  C38. The PCR bank tool, for every answer of LocateProtocol, GetCapability and
  GetActivePcrBanks: it ends with the status of the first of them that fails and that call's
  line (LocateProtocol has none). It refuses, with status 1 and the version in the message and
  without asking for the banks, exactly the protocol versions below 1.0; the second half of its
  version test can never hold, so version 1.0, which has no GetActivePcrBanks, is let
  through. Otherwise it shows the active banks, after a warning exactly when they differ from
  those of the capability structure. LocateProtocol gives an interface when it succeeds.
\<close>

theorem pcr_banks_tool_outcome:
  assumes "L EFI_TCG2_PROTOCOL_GUID (firmware w) = (st, q, f1)" "EFI_ERROR H st \<or> q = Some p"
    and "GetCapability p (caps_init 36) f1 = (st2, caps, f2)"
    and "GetActivePcrBanks p 0 f2 = (st3, banks, f3)"
  shows "\<exists>status w'. pcr_banks_main H L w = Some (status, w')
     \<and> (if EFI_ERROR H st then status = st \<and> firmware w' = f1 \<and> console w' = console w
        else if EFI_ERROR H st2 then status = st2 \<and> firmware w' = f2
          \<and> console w' = console w @ [Printed ''GetCapability failed: 0x%x\<newline>'' [A_num (unat st2)]]
        else if Major (ProtocolVersion caps) = 0 then status = 1 \<and> firmware w' = f2
          \<and> console w' = console w @
             [Printed ''ERROR: GetPcrBanks not supported in protocol version %PRIu8.%PRIu8\<newline>''
               [A_num 0, A_num (unat (Minor (ProtocolVersion caps)))]]
        else status = st3 \<and> firmware w' = f3
          \<and> console w' = console w @
             (if EFI_ERROR H st3 then [Printed ''GetActivePcrBanks failed: 0x%x\<newline>'' [A_num (unat st3)]]
              else (if banks \<noteq> ActivePcrBanks caps then
                  [Printed ''WARNING: GetActivePcrBanks disagrees with EFI_TCG2_BOOT_SERVICE_CAPABILITY.ActivePcrBanks.\<newline>'' []]
                else [])
                @ Printed ''GetActivePcrBanks: 0x%08PRIx32\<newline>'' [A_num (unat banks)] # bitmap_lines banks))"
proof (cases "EFI_ERROR H st")
  case True
  then show ?thesis
    by (simp add: pcr_banks_main_def get_protocol_failure [where LibLocateProtocol = L, OF assms(1) True] Let_def)
next
  case ok: False
  with assms(2) have q: "q = Some p" by simp
  have caps: "tcg2_get_capability H (Some p) (caps_init (of_nat sizeof_EFI_TCG2_BOOT_SERVICE_CAPABILITY))
      (w\<lparr>firmware := f1\<rparr>) =
      Some (st2, caps, report_status H ''GetCapability failed: 0x%x\<newline>'' st2 (w\<lparr>firmware := f2\<rparr>))"
    using capability_lifts [of p "w\<lparr>firmware := f1\<rparr>"] assms(3) by simp
  have banks: "tcg2_get_active_pcr_banks H (Some p) 0 (w\<lparr>firmware := f2\<rparr>) =
      Some (st3, banks, report_status H ''GetActivePcrBanks failed: 0x%x\<newline>'' st3 (w\<lparr>firmware := f3\<rparr>))"
    using banks_wrapper.lifts [of p 0 "w\<lparr>firmware := f2\<rparr>" st3 banks f3 H] assms(4) by simp
  have major: "Major (ProtocolVersion caps) < 1 \<longleftrightarrow> Major (ProtocolVersion caps) = 0"
    by (simp add: word_less_nat_alt unat_eq_zero)
  show ?thesis
    using ok
    by (auto simp: pcr_banks_main_def get_protocol_success [where LibLocateProtocol = L, OF assms(1) ok] q
        caps banks major report_status_def bitmap_shown_world Print_def Let_def)
qed

theorem pcr_banks_tool_outcome_witness:
  "\<exists>w'. pcr_banks_main std_headers
     (\<lambda>guid f. (0, Some (demo_protocol 0 (demo_caps\<lparr>ProtocolVersion := \<lparr>Major = 1, Minor = 0\<rparr>\<rparr>) demo_log), f))
     demo_world = Some (0, w') \<and> console w' = Printed ''GetActivePcrBanks: 0x%08PRIx32\<newline>'' [A_num 3] # bitmap_lines 3"
proof -
  let ?caps = "demo_caps\<lparr>ProtocolVersion := \<lparr>Major = 1, Minor = 0\<rparr>\<rparr>"
  let ?p = "demo_protocol 0 ?caps demo_log"
  have 1: "(\<lambda>guid f. (0, Some ?p, f)) EFI_TCG2_PROTOCOL_GUID (firmware demo_world) = (0, Some ?p, [])"
    by (simp add: demo_world_def)
  have 2: "EFI_ERROR std_headers 0 \<or> Some ?p = Some ?p" by simp
  have 3: "GetCapability ?p (caps_init 36) [] = (0, ?caps, [])"
    and 4: "GetActivePcrBanks ?p 0 [] = (0, 3, [])"
    by (simp_all add: demo_protocol_def demo_caps_def)
  have "Major (ProtocolVersion ?caps) \<noteq> 0" "ActivePcrBanks ?caps = 3" by (simp_all add: demo_caps_def)
  with pcr_banks_tool_outcome [where L = "\<lambda>guid f. (0, Some ?p, f)", OF 1 2 3 4] show ?thesis
    by (auto simp: demo_world_def)
qed

text \<open>The lines for a capability structure, its bitmaps by their bits.\<close>

definition bit_string :: "'a::len word \<Rightarrow> nat \<Rightarrow> string" where
  "bit_string b k = (if bit b k then ''true'' else ''false'')"

definition caps_lines :: "EFI_TCG2_BOOT_SERVICE_CAPABILITY \<Rightarrow> call list" where
  "caps_lines caps =
     [Printed ''TPM2 Capabilities:\<newline>'' [],
      Printed ''  Size: 0x%02x\<newline>'' [A_num (unat (Size caps))],
      Printed ''  StructureVersion:\<newline>'' [],
      Printed ''    Major: 0x%02x\<newline>'' [A_num (unat (Major (StructureVersion caps)))],
      Printed ''    Minor: 0x%02x\<newline>'' [A_num (unat (Minor (StructureVersion caps)))],
      Printed ''  ProtocolVersion:\<newline>'' [],
      Printed ''    Major: 0x%02x\<newline>'' [A_num (unat (Major (ProtocolVersion caps)))],
      Printed ''    Minor: 0x%02x\<newline>'' [A_num (unat (Minor (ProtocolVersion caps)))],
      Printed ''  HashAlgorithmBitmap: 0x%08x\<newline>'' [A_num (unat (HashAlgorithmBitmap caps))]]
     @ bitmap_lines (HashAlgorithmBitmap caps)
     @ [Printed ''  SupportedEventLogs: 0x%08x\<newline>'' [A_num (unat (SupportedEventLogs caps))],
      Printed ''    EFI_TCG2_EVENT_LOG_FORMAT_TCG_1_2: %s\<newline>'' [A_str (bit_string (SupportedEventLogs caps) 0)],
      Printed ''    EFI_TCG2_EVENT_LOG_FORMAT_TCG_2: %s\<newline>'' [A_str (bit_string (SupportedEventLogs caps) 1)],
      Printed ''  TPMPresentFlag: 0x%02x : %s\<newline>''
        [A_num (unat (TPMPresentFlag caps)), A_str (bit_string (TPMPresentFlag caps) 0)],
      Printed ''  MaxCommandSize: 0x%04x\<newline>'' [A_num (unat (MaxCommandSize caps))],
      Printed ''  MaxResponseSize: 0x%04x\<newline>'' [A_num (unat (MaxResponseSize caps))],
      Printed ''  ManufacturerID: 0x%08x\<newline>'' [A_num (unat (ManufacturerID caps))],
      Printed ''  NumberOfPcrBanks: 0x%08x\<newline>'' [A_num (unat (NumberOfPcrBanks caps))],
      Printed ''  ActivePcrBanks: 0x%08x\<newline>'' [A_num (unat (ActivePcrBanks caps))]]
     @ bitmap_lines (ActivePcrBanks caps)"

lemma present_flag: "bitmap_val_str (ucast (b :: UINT8)) 1 = bit_string b 0"
  using bitmap_val_bit [of "ucast b" 0] by (simp add: bit_string_def bit_simps)

lemma caps_shown: "tcg2_caps_prettyprint caps w = w\<lparr>console := console w @ caps_lines caps\<rparr>"
  unfolding tcg2_caps_prettyprint_def alg_masks(6,7) bitmap_val_bit present_flag
  by (simp add: caps_lines_def bitmap_shown_world Print_def bit_string_def Let_def)

text \<open>
  C39. The capability tool, for every answer of LocateProtocol and GetCapability: it passes on
  the status of the call that failed, and after a failure shows nothing but that failure's
  line (LocateProtocol has none); when both succeed it shows exactly the structure the
  firmware filled in, its bitmaps bit by bit. LocateProtocol gives an interface when it
  succeeds.
\<close>

theorem caps_tool_outcome:
  assumes "L EFI_TCG2_PROTOCOL_GUID (firmware w) = (st, q, f1)" "EFI_ERROR H st \<or> q = Some p"
    and "GetCapability p (caps_init 36) f1 = (st2, caps, f2)"
  shows "\<exists>status w'. caps_main H L w = Some (status, w')
     \<and> (if EFI_ERROR H st then status = st \<and> firmware w' = f1 \<and> console w' = console w
        else status = st2 \<and> firmware w' = f2
          \<and> console w' = console w @
             (if EFI_ERROR H st2 then [Printed ''GetCapability failed: 0x%x\<newline>'' [A_num (unat st2)]]
              else caps_lines caps))"
proof (cases "EFI_ERROR H st")
  case True
  then show ?thesis
    by (simp add: caps_main_def get_protocol_failure [where LibLocateProtocol = L, OF assms(1) True] Let_def)
next
  case ok: False
  with assms(2) have q: "q = Some p" by simp
  have caps: "tcg2_get_capability H (Some p) (caps_init (of_nat sizeof_EFI_TCG2_BOOT_SERVICE_CAPABILITY))
      (w\<lparr>firmware := f1\<rparr>) = Some (st2, caps, report_status H ''GetCapability failed: 0x%x\<newline>'' st2 (w\<lparr>firmware := f2\<rparr>))"
    using capability_lifts [of p "w\<lparr>firmware := f1\<rparr>"] assms(3) by simp
  show ?thesis
    using ok
    by (simp add: caps_main_def get_protocol_success [where LibLocateProtocol = L, OF assms(1) ok] q caps
        caps_shown report_status_def Print_def Let_def)
qed

theorem caps_tool_outcome_witness:
  "(\<exists>w'. caps_main std_headers (demo_locate 0 0) demo_world = Some (0, w') \<and> console w' = caps_lines demo_caps)
 \<and> (\<exists>w'. caps_main std_headers (\<lambda>guid f. (0x800000000000000E, None, f)) demo_world =
      Some (0x800000000000000E, w') \<and> console w' = [])"
proof -
  have 1: "demo_locate 0 0 EFI_TCG2_PROTOCOL_GUID (firmware demo_world) =
      (0, Some (demo_protocol 0 demo_caps demo_log), [])"
    by (simp add: demo_locate_def demo_world_def)
  have 2: "EFI_ERROR std_headers 0 \<or> Some p = Some p" for p :: "UINT8 list list EFI_TCG2_PROTOCOL" by simp
  have 3: "GetCapability (demo_protocol 0 demo_caps demo_log) (caps_init 36) [] = (0, demo_caps, [])"
    by (simp add: demo_protocol_def)
  have 4: "(\<lambda>guid f. (0x800000000000000E, None, f)) EFI_TCG2_PROTOCOL_GUID (firmware demo_world) =
      (0x800000000000000E, None, [])"
    by (simp add: demo_world_def)
  have 5: "EFI_ERROR std_headers 0x800000000000000E \<or>
      None = Some (demo_protocol 0 demo_caps demo_log)" by simp
  from caps_tool_outcome [where L = "demo_locate 0 0", OF 1 2 3]
    caps_tool_outcome [where L = "\<lambda>guid f. (0x800000000000000E, None, f)", OF 4 5 3]
  show ?thesis by (auto simp: demo_world_def)
qed

end
