(* ===== verification/Pool.thy ===== *)
theory Pool
  imports Tcti_Uefi
begin

section \<open>The pool of allocated blocks\<close>

text \<open>
  The TSS2 utilities and the tools allocate their two contexts with AllocatePool and free
  them with FreePool. A pool maps the handle of a live block (its address) to its contents;
  using or freeing a handle that is not live is undefined (None). Whether AllocatePool
  succeeds is the firmware's decision and a parameter elsewhere.
\<close>

datatype 'sys block = Tcti_block TSS2_TCTI_UEFI_CONTEXT | Sys_block 'sys

record 'sys pool =
  next_handle :: nat
  blocks :: "nat \<Rightarrow> 'sys block option"

definition pool_wf :: "'sys pool \<Rightarrow> bool" where
  "pool_wf p \<longleftrightarrow> (\<forall>h. blocks p h \<noteq> None \<longrightarrow> h < next_handle p)"

definition live :: "'sys pool \<Rightarrow> nat set" where
  "live p = {h. blocks p h \<noteq> None}"

definition pool_alloc :: "'sys block \<Rightarrow> 'sys pool \<Rightarrow> nat \<times> 'sys pool" where
  "pool_alloc b p = (next_handle p,
     p\<lparr>next_handle := Suc (next_handle p), blocks := (blocks p)(next_handle p := Some b)\<rparr>)"

definition FreePool :: "nat \<Rightarrow> 'sys pool \<Rightarrow> 'sys pool option" where
  "FreePool h p = (if blocks p h = None then None else Some (p\<lparr>blocks := (blocks p)(h := None)\<rparr>))"

definition tcti_at :: "'sys pool \<Rightarrow> nat \<Rightarrow> TSS2_TCTI_UEFI_CONTEXT option" where
  "tcti_at p h = (case blocks p h of Some (Tcti_block c) \<Rightarrow> Some c | _ \<Rightarrow> None)"

definition sys_at :: "'sys pool \<Rightarrow> nat \<Rightarrow> 'sys option" where
  "sys_at p h = (case blocks p h of Some (Sys_block s) \<Rightarrow> Some s | _ \<Rightarrow> None)"

definition pool_store :: "nat \<Rightarrow> 'sys block \<Rightarrow> 'sys pool \<Rightarrow> 'sys pool" where
  "pool_store h b p = p\<lparr>blocks := (blocks p)(h := Some b)\<rparr>"

subsection \<open>The interface of an allocator\<close>

locale allocator =
  fixes ok :: "'p \<Rightarrow> bool"
    and lookup :: "'p \<Rightarrow> nat \<Rightarrow> 'b option"
    and alloc :: "'b \<Rightarrow> 'p \<Rightarrow> nat \<times> 'p"
    and release :: "nat \<Rightarrow> 'p \<Rightarrow> 'p option"
    and store :: "nat \<Rightarrow> 'b \<Rightarrow> 'p \<Rightarrow> 'p"
  assumes alloc_fresh: "ok p \<Longrightarrow> alloc b p = (h, p') \<Longrightarrow>
      ok p' \<and> lookup p h = None \<and> lookup p' = (lookup p)(h := Some b)"
    and release_dead: "lookup p h = None \<Longrightarrow> release h p = None"
    and release_live: "lookup p h \<noteq> None \<Longrightarrow>
      \<exists>p'. release h p = Some p' \<and> lookup p' = (lookup p)(h := None) \<and> (ok p \<longrightarrow> ok p')"
    and store_live: "lookup p h \<noteq> None \<Longrightarrow>
      lookup (store h b p) = (lookup p)(h := Some b) \<and> (ok p \<longrightarrow> ok (store h b p))"
begin

lemma alloc_release:
  assumes "ok p" "alloc b p = (h, p')"
  obtains p'' where "release h p' = Some p''" "lookup p'' = lookup p" "ok p''"
proof -
  from alloc_fresh [OF assms] have a: "ok p'" "lookup p h = None" "lookup p' = (lookup p)(h := Some b)"
    by auto
  then have "lookup p' h \<noteq> None" by simp
  from release_live [OF this] a obtain p'' where
    "release h p' = Some p''" "lookup p'' = (lookup p')(h := None)" "ok p''" by auto
  moreover have "(lookup p')(h := None) = lookup p" using a by auto
  ultimately show ?thesis using that by simp
qed

lemma release_twice:
  assumes "release h p = Some p'"
  shows "release h p' = None"
proof -
  from assms release_dead [of p h] have "lookup p h \<noteq> None" by auto
  from release_live [OF this] assms have "lookup p' h = None" by auto
  then show ?thesis by (rule release_dead)
qed

lemma alloc_distinct:
  assumes "ok p" "alloc b p = (h, p')" "alloc b' p' = (h', p'')"
  shows "h' \<noteq> h \<and> lookup p'' h = Some b"
proof -
  from alloc_fresh [OF assms(1,2)] alloc_fresh [OF _ assms(3)] show ?thesis by auto
qed

end

interpretation pool: allocator pool_wf blocks pool_alloc FreePool pool_store
proof unfold_locales
  fix p :: "'a pool" and b h p'
  assume "pool_wf p" "pool_alloc b p = (h, p')"
  then show "pool_wf p' \<and> blocks p h = None \<and> blocks p' = (blocks p)(h := Some b)"
    by (auto simp: pool_wf_def pool_alloc_def less_Suc_eq)
next
  fix p :: "'a pool" and h
  show "blocks p h = None \<Longrightarrow> FreePool h p = None" by (simp add: FreePool_def)
next
  fix p :: "'a pool" and h
  show "blocks p h \<noteq> None \<Longrightarrow>
      \<exists>p'. FreePool h p = Some p' \<and> blocks p' = (blocks p)(h := None) \<and> (pool_wf p \<longrightarrow> pool_wf p')"
    by (auto simp: FreePool_def pool_wf_def)
next
  fix p :: "'a pool" and h b
  show "blocks p h \<noteq> None \<Longrightarrow>
      blocks (pool_store h b p) = (blocks p)(h := Some b) \<and> (pool_wf p \<longrightarrow> pool_wf (pool_store h b p))"
    by (auto simp: pool_store_def pool_wf_def)
qed

end
