(* ===== verification/Tss2_Util.thy ===== *)
theory Tss2_Util
  imports Pool Demo_Firmware
begin

section \<open>Contexts for the tools: example/tss2-util.c\<close>

text \<open>
  Allocation and teardown of the TCTI and the SAPI contexts. The SAPI and the memory
  services are libraries outside the repository, a parameter \<open>E\<close> of the definitions:
  what AllocatePool decides, what fresh memory holds, and the SAPI calls. A pointer to a
  context is a handle of the pool, None is NULL. An operation takes and returns the pool
  and the world.
\<close>

subsection \<open>The libraries\<close>

record TSS2_ABI_VERSION =
  tssCreator :: nat
  tssFamily :: nat
  tssLevel :: nat
  tssVersion :: nat

record ('fw, 'sys) tss_lib =
  AllocatePool :: "size_t \<Rightarrow> 'fw \<Rightarrow> bool \<times> 'fw"   \<comment> \<open>whether it returns memory\<close>
  fresh_memory :: "size_t \<Rightarrow> TSS2_TCTI_UEFI_CONTEXT"    \<comment> \<open>fresh memory seen as a context\<close>
  fresh_sys :: "size_t \<Rightarrow> 'sys"
  Tss2_Tcti_Finalize :: "TSS2_TCTI_UEFI_CONTEXT \<Rightarrow> 'fw world \<Rightarrow> TSS2_TCTI_UEFI_CONTEXT \<times> 'fw world"
  Tss2_Sys_GetContextSize :: "nat \<Rightarrow> size_t"
  Tss2_Sys_Initialize :: "'sys \<Rightarrow> size_t \<Rightarrow> nat option \<Rightarrow> TSS2_ABI_VERSION option \<Rightarrow> TSS2_RC \<times> 'sys"
  Tss2_Sys_Finalize :: "'sys \<Rightarrow> 'sys"
  Tss2_Sys_GetTctiContext :: "'sys \<Rightarrow> TSS2_RC \<times> nat option"

text \<open>A sized buffer of the TPM: the bytes are a fixed array, the size says how many count.\<close>

record TPM2B_DIGEST =
  digest_size :: UINT16
  digest_buffer :: "UINT8 list"

text \<open>
  What the code relies on: fresh memory for a context has room for what was asked, the
  dispatch macro calls the finalize function of the table, and an initialised SAPI context
  gives back the TCTI context it was initialised with.
\<close>

definition memory_ok :: "headers \<Rightarrow> ('fw, 'sys) tss_lib \<Rightarrow> bool" where
  "memory_ok H E \<longleftrightarrow> (\<forall>n. unat (sizeof_ctx H) \<le> unat n \<longrightarrow>
     unat n = unat (sizeof_ctx H) + length (cmd_buf (fresh_memory E n)))"

definition dispatch_finalizes :: "('fw, 'sys) tss_lib \<Rightarrow> bool" where
  "dispatch_finalizes E \<longleftrightarrow> (\<forall>c w. ctx_wf c \<longrightarrow>
     Tss2_Tcti_Finalize E c w = (case tcti_uefi_finalize (Some c) w of (c', w') \<Rightarrow> (the c', w')))"

definition sapi_keeps_tcti :: "headers \<Rightarrow> ('fw, 'sys) tss_lib \<Rightarrow> bool" where
  "sapi_keeps_tcti H E \<longleftrightarrow> (\<forall>s n tcti abi s'.
     Tss2_Sys_Initialize E s n tcti abi = (TSS2_RC_SUCCESS H, s') \<longrightarrow>
     Tss2_Sys_GetTctiContext E s' = (TSS2_RC_SUCCESS H, tcti))"

subsection \<open>The operations\<close>

definition tcti_uefi_init ::
  "headers \<Rightarrow> 'fw locate \<Rightarrow> ('fw, 'sys) tss_lib \<Rightarrow> nat option \<Rightarrow> 'sys pool \<Rightarrow> 'fw world \<Rightarrow>
   (TSS2_RC \<times> nat option \<times> 'sys pool \<times> 'fw world) option" where
  "tcti_uefi_init H LibLocateProtocol E ctx p w = do {
     (rc, _, sz, w) \<leftarrow> Tss2_Tcti_Uefi_Init H LibLocateProtocol None (Some 0) None w;
     if rc \<noteq> TSS2_RC_SUCCESS H then Some (rc, ctx, p, w)
     else do {
       n \<leftarrow> sz;
       let (ok, f) = AllocatePool E n (firmware w);
       let w = w\<lparr>firmware := f\<rparr>;
       if \<not> ok then
         Some (TSS2_TCTI_RC_GENERAL_FAILURE H, None, p,
           Print ''Failed to allocate 0x%x bytes\<newline>'' [A_num (unat n)] w)
       else do {
         let (h, p) = pool_alloc (Tcti_block (fresh_memory E n)) p;
         (rc, c, sz, w) \<leftarrow> Tss2_Tcti_Uefi_Init H LibLocateProtocol (tcti_at p h) (Some n) None w;
         c \<leftarrow> c;
         let p = pool_store h (Tcti_block c) p;
         if rc \<noteq> TSS2_RC_SUCCESS H then do {
           p \<leftarrow> FreePool h p;
           Some (rc, Some h, p, w) }
         else Some (rc, Some h, p, w) } } }"

definition tcti_uefi_teardown ::
  "('fw, 'sys) tss_lib \<Rightarrow> nat option \<Rightarrow> 'sys pool \<Rightarrow> 'fw world \<Rightarrow> ('sys pool \<times> 'fw world) option" where
  "tcti_uefi_teardown E tcti_ctx p w =
     (case tcti_ctx of
        None \<Rightarrow> Some (p, w)
      | Some h \<Rightarrow> do {
          c \<leftarrow> tcti_at p h;
          let (c, w) = Tss2_Tcti_Finalize E c w;
          p \<leftarrow> FreePool h (pool_store h (Tcti_block c) p);
          Some (p, w) })"

definition abi_version :: TSS2_ABI_VERSION where
  "abi_version = \<lparr>tssCreator = 1, tssFamily = 2, tssLevel = 1, tssVersion = 108\<rparr>"

definition sys_uefi_init_from_tcti_ctx ::
  "headers \<Rightarrow> ('fw, 'sys) tss_lib \<Rightarrow> nat option \<Rightarrow> nat option \<Rightarrow> 'sys pool \<Rightarrow> 'fw world \<Rightarrow>
   (TSS2_RC \<times> nat option \<times> 'sys pool \<times> 'fw world) option" where
  "sys_uefi_init_from_tcti_ctx H E tcti_ctx sys_ctx p w =
     (let n = Tss2_Sys_GetContextSize E 0;
          (ok, f) = AllocatePool E n (firmware w);
          w = w\<lparr>firmware := f\<rparr> in
      if \<not> ok then
        Some (TSS2_TCTI_RC_GENERAL_FAILURE H, sys_ctx, p,
          Print ''Failed to allocate 0x%zx bytes for the SAPI context\<newline>'' [A_num (unat n)] w)
      else do {
        let (h, p) = pool_alloc (Sys_block (fresh_sys E n)) p;
        s \<leftarrow> sys_at p h;
        let (rc, s) = Tss2_Sys_Initialize E s n tcti_ctx (Some abi_version);
        let p = pool_store h (Sys_block s) p;
        if rc \<noteq> TSS2_RC_SUCCESS H then do {
          let w = Print ''Failed to initialize SAPI context: 0x%x\<newline>'' [A_num (unat rc)] w;
          p \<leftarrow> FreePool h p;
          Some (rc, sys_ctx, p, w) }
        else Some (TSS2_RC_SUCCESS H, Some h, p, w) })"

definition sys_uefi_init ::
  "headers \<Rightarrow> 'fw locate \<Rightarrow> ('fw, 'sys) tss_lib \<Rightarrow> nat option \<Rightarrow> 'sys pool \<Rightarrow> 'fw world \<Rightarrow>
   (TSS2_RC \<times> nat option \<times> 'sys pool \<times> 'fw world) option" where
  "sys_uefi_init H LibLocateProtocol E sys_ctx p w = do {
     (rc, tcti_ctx, p, w) \<leftarrow> tcti_uefi_init H LibLocateProtocol E None p w;
     if rc \<noteq> TSS2_RC_SUCCESS H then Some (rc, sys_ctx, p, w)
     else sys_uefi_init_from_tcti_ctx H E tcti_ctx sys_ctx p w }"

definition sys_uefi_teardown ::
  "('fw, 'sys) tss_lib \<Rightarrow> nat option \<Rightarrow> 'sys pool \<Rightarrow> 'sys pool option" where
  "sys_uefi_teardown E sys_ctx p =
     (case sys_ctx of
        None \<Rightarrow> Some p
      | Some h \<Rightarrow> do {
          s \<leftarrow> sys_at p h;
          FreePool h (pool_store h (Sys_block (Tss2_Sys_Finalize E s)) p) })"

definition sys_uefi_teardown_full ::
  "headers \<Rightarrow> ('fw, 'sys) tss_lib \<Rightarrow> nat option \<Rightarrow> 'sys pool \<Rightarrow> 'fw world \<Rightarrow>
   ('sys pool \<times> 'fw world) option" where
  "sys_uefi_teardown_full H E sys_ctx p w =
     (case sys_ctx of
        None \<Rightarrow> Some (p, w)
      | Some h \<Rightarrow> do {
          s \<leftarrow> sys_at p h;
          let (rc, tcti_ctx) = Tss2_Sys_GetTctiContext E s;
          if rc \<noteq> TSS2_RC_SUCCESS H then
            Some (p, Print ''Tss2_Sys_GetTctiContext failed\<newline>'' [] w)
          else do {
            p \<leftarrow> sys_uefi_teardown E sys_ctx p;
            tcti_uefi_teardown E tcti_ctx p w } })"

end
