(* ===== verification/Compat.thy ===== *)
theory Compat
  imports Prelude
begin

section \<open>Replacements for libc functions: example/compat.c\<close>

text \<open>
  \<open>isspace\<close> takes and returns a C int. \<open>memmove\<close> is CopyMem of the UEFI library, which
  allows the two regions to overlap; both regions lie in one buffer here, at two offsets,
  and a region outside the buffer is undefined.
\<close>

definition isspace :: "int \<Rightarrow> int" where
  "isspace c =
     (if c = 32 \<or> c = 9 \<or> c = 10 \<or> c = 11 \<or> c = 12 \<or> c = 13 then 1 else 0)"

definition memmove :: "UINT8 list \<Rightarrow> nat \<Rightarrow> nat \<Rightarrow> nat \<Rightarrow> UINT8 list option" where
  "memmove buf dest src count =
     (if dest + count \<le> length buf \<and> src + count \<le> length buf
      then Some (take dest buf @ take count (drop src buf) @ drop (dest + count) buf) else None)"

text \<open>
  memmove gives every byte of the destination the value its source byte had before the
  call, also where the two regions overlap, and changes no other byte; a region that leaves
  the buffer is undefined.
\<close>

theorem memmove_moves_old_bytes:
  "(if dest + count \<le> length buf \<and> src + count \<le> length buf
    then \<exists>buf'. memmove buf dest src count = Some buf' \<and> length buf' = length buf
       \<and> (\<forall>i < length buf. buf' ! i =
            (if dest \<le> i \<and> i < dest + count then buf ! (src + (i - dest)) else buf ! i))
    else memmove buf dest src count = None)"
proof (cases "dest + count \<le> length buf \<and> src + count \<le> length buf")
  case True
  then have len: "length (take dest buf) = dest" "length (take count (drop src buf)) = count" by auto
  have "memmove buf dest src count = Some (take dest buf @ take count (drop src buf) @ drop (dest + count) buf)"
    using True by (simp add: memmove_def)
  moreover from True have "length (take dest buf @ take count (drop src buf) @ drop (dest + count) buf)
      = length buf" by auto
  moreover have "\<forall>i < length buf.
      (take dest buf @ take count (drop src buf) @ drop (dest + count) buf) ! i =
      (if dest \<le> i \<and> i < dest + count then buf ! (src + (i - dest)) else buf ! i)"
    using True by (auto simp: nth_append len simp del: length_take)
  ultimately show ?thesis unfolding if_P [OF True] by blast
next
  case False
  show ?thesis unfolding memmove_def if_not_P [OF False] by (rule refl)
qed

lemma isspace_set: "isspace c = 1 \<longleftrightarrow> c \<in> {9, 10, 11, 12, 13, 32}" "isspace c \<in> {0, 1}"
  by (auto simp: isspace_def)

end
