(* ===== verification/Nv_App.thy ===== *)
theory Nv_App
  imports Tss2_Util Compat
begin

section \<open>The NV tool: example/tpm2-nv-ops.c\<close>

text \<open>
  A test program: it draws random bytes, defines an NV index, writes the bytes, removes the
  index and draws again; any failure goes to the cleanup. The commands are library calls and
  a parameter \<open>N\<close>, with the constants of tpm2-tss they are given; a command takes and
  returns the pool and the world.
\<close>

subsection \<open>The library\<close>

record TSS2L_SYS_AUTH_COMMAND =
  auth_count :: nat
  sessionHandle :: UINT32
  nonce :: TPM2B_DIGEST
  sessionAttributes :: UINT8
  hmac :: TPM2B_DIGEST

record TPMS_NV_PUBLIC =
  nvIndex :: UINT32
  nameAlg :: UINT16
  attributes :: UINT32
  authPolicy :: TPM2B_DIGEST
  dataSize :: UINT16

record TPM2B_NV_PUBLIC =
  nv_size :: UINT16
  nvPublic :: TPMS_NV_PUBLIC

type_synonym ('fw, 'sys) tss_state = "'sys pool \<times> 'fw world"

record ('fw, 'sys) nv_lib =
  TPM2_RH_OWNER :: UINT32
  TPM2_RH_PW :: UINT32
  TPMA_NV_OWNERWRITE :: UINT32
  TPMA_NV_AUTHWRITE :: UINT32
  TPMA_NV_AUTHREAD :: UINT32
  TPMA_NV_OWNERREAD :: UINT32
  Tss2_Sys_GetRandom :: "nat option \<Rightarrow> UINT16 \<Rightarrow> TPM2B_DIGEST \<Rightarrow> ('fw, 'sys) tss_state \<Rightarrow>
    TSS2_RC \<times> TPM2B_DIGEST \<times> ('fw, 'sys) tss_state"
  Tss2_Sys_NV_DefineSpace :: "nat option \<Rightarrow> UINT32 \<Rightarrow> TSS2L_SYS_AUTH_COMMAND \<Rightarrow> TPM2B_DIGEST \<Rightarrow>
    TPM2B_NV_PUBLIC \<Rightarrow> ('fw, 'sys) tss_state \<Rightarrow> TSS2_RC \<times> ('fw, 'sys) tss_state"
  Tss2_Sys_NV_Write :: "nat option \<Rightarrow> UINT32 \<Rightarrow> UINT32 \<Rightarrow> TSS2L_SYS_AUTH_COMMAND \<Rightarrow> TPM2B_DIGEST \<Rightarrow>
    UINT16 \<Rightarrow> ('fw, 'sys) tss_state \<Rightarrow> TSS2_RC \<times> ('fw, 'sys) tss_state"
  Tss2_Sys_NV_UndefineSpace :: "nat option \<Rightarrow> UINT32 \<Rightarrow> UINT32 \<Rightarrow> TSS2L_SYS_AUTH_COMMAND \<Rightarrow>
    ('fw, 'sys) tss_state \<Rightarrow> TSS2_RC \<times> ('fw, 'sys) tss_state"

subsection \<open>The constants of the program\<close>

definition nv_index :: UINT32 where
  "nv_index = 0x01000000"

text \<open>The authorization value of the index: 0xAF 0xFE eight times.\<close>

definition index_auth_bytes :: "UINT8 list" where
  "index_auth_bytes = concat (replicate 8 [0xAF, 0xFE])"

text \<open>
  What an initialiser does not name is zero: a sized buffer of 64 bytes, filled from the front.
\<close>

definition sized :: "UINT16 \<Rightarrow> UINT8 list \<Rightarrow> TPM2B_DIGEST" where
  "sized n bytes = \<lparr>digest_size = n, digest_buffer = bytes @ replicate (64 - length bytes) 0\<rparr>"

definition create_auths :: "('fw, 'sys) nv_lib \<Rightarrow> TSS2L_SYS_AUTH_COMMAND" where
  "create_auths N = \<lparr>auth_count = 1, sessionHandle = TPM2_RH_PW N, nonce = sized 0 [],
     sessionAttributes = 0, hmac = sized 0 [0x12, 0x34]\<rparr>"

definition index_public :: "headers \<Rightarrow> ('fw, 'sys) nv_lib \<Rightarrow> TPM2B_NV_PUBLIC" where
  "index_public H N = \<lparr>nv_size = 0, nvPublic = \<lparr>nvIndex = nv_index, nameAlg = TPM2_ALG_SHA256 H,
     attributes = TPMA_NV_OWNERWRITE N OR TPMA_NV_AUTHWRITE N OR TPMA_NV_AUTHREAD N OR TPMA_NV_OWNERREAD N,
     authPolicy = sized 0 [], dataSize = 32\<rparr>\<rparr>"

definition index_auth :: TPM2B_DIGEST where
  "index_auth = sized 16 index_auth_bytes"

definition index_auths :: "('fw, 'sys) nv_lib \<Rightarrow> TSS2L_SYS_AUTH_COMMAND" where
  "index_auths N = \<lparr>auth_count = 1, sessionHandle = TPM2_RH_PW N, nonce = sized 0 [],
     sessionAttributes = 0, hmac = sized 16 index_auth_bytes\<rparr>"

subsection \<open>The program\<close>

text \<open>
  The buffer to write: the calls to memset, memcpy and memmove at the start, and the loop
  that copies the random bytes. \<open>buffer\<close> is what the uninitialised array holds.
\<close>

definition nv_prepare :: "UINT8 list \<Rightarrow> UINT8 list option" where
  "nv_prepare buffer = do {
     b \<leftarrow> (if 5 \<le> length buffer then Some (replicate 5 0 @ drop 5 buffer) else None);
     b \<leftarrow> memmove b 5 0 5;
     memmove b 5 0 5 }"

primrec copy_bytes :: "UINT8 list \<Rightarrow> nat list \<Rightarrow> UINT8 list \<Rightarrow> UINT8 list option" where
  "copy_bytes src [] dst = Some dst"
| "copy_bytes src (i # is) dst =
     (if i < length src \<and> i < length dst then copy_bytes src is (dst[i := src ! i]) else None)"

text \<open>\<open>exit_cleanup:\<close> tear down, and map the return code to a status.\<close>

definition nv_exit ::
  "headers \<Rightarrow> ('fw, 'sys) tss_lib \<Rightarrow> nat option \<Rightarrow> TSS2_RC \<Rightarrow> ('fw, 'sys) tss_state \<Rightarrow>
   (EFI_STATUS \<times> ('fw, 'sys) tss_state) option" where
  "nv_exit H E sys_ctx rc st = do {
     st \<leftarrow> sys_uefi_teardown_full H E sys_ctx (fst st) (snd st);
     Some (if rc = TSS2_RC_SUCCESS H then EFI_SUCCESS H else EFI_ABORTED H, st) }"

definition say :: "string \<Rightarrow> print_arg list \<Rightarrow> ('fw, 'sys) tss_state \<Rightarrow> ('fw, 'sys) tss_state" where
  "say fmt args st = (fst st, Print fmt args (snd st))"

text \<open>The body of \<open>efi_main\<close> once the SAPI context is there.\<close>

definition nv_body ::
  "headers \<Rightarrow> ('fw, 'sys) tss_lib \<Rightarrow> ('fw, 'sys) nv_lib \<Rightarrow> UINT8 list \<Rightarrow> UINT8 list \<Rightarrow> nat option \<Rightarrow>
   ('fw, 'sys) tss_state \<Rightarrow> (EFI_STATUS \<times> ('fw, 'sys) tss_state) option" where
  "nv_body H E N random_buffer data_buffer sys_ctx st = do {
     let random_data = \<lparr>digest_size = 32, digest_buffer = random_buffer\<rparr>;
     buffer \<leftarrow> nv_prepare data_buffer;
     let (rc, random_data, st) = Tss2_Sys_GetRandom N sys_ctx 32 random_data st;
     if rc \<noteq> TSS2_RC_SUCCESS H then
       nv_exit H E sys_ctx rc (say ''Failed to Tss2_Sys_NV_DefineSpace: 0x%x\<newline>'' [A_num (unat rc)] st)
     else do {
       let st = say ''Tss2_Sys_GetRandom returned TSS2_RC_SUCCESS\<newline>'' [] st;
       buffer \<leftarrow> copy_bytes (digest_buffer random_data) [0..<unat (digest_size random_data)] buffer;
       let data = \<lparr>digest_size = digest_size random_data, digest_buffer = buffer\<rparr>;
       let (rc, st) = Tss2_Sys_NV_DefineSpace N sys_ctx (TPM2_RH_OWNER N) (create_auths N) index_auth
         (index_public H N) st;
       if rc \<noteq> TSS2_RC_SUCCESS H then
         nv_exit H E sys_ctx rc (say ''Failed to Tss2_Sys_NV_DefineSpace: 0x%x\<newline>'' [A_num (unat rc)] st)
       else do {
         let st = say ''Tss2_Sys_NV_DefineSpace returned TSS2_RC_SUCCESS\<newline>'' [] st;
         let (rc, st) = Tss2_Sys_NV_Write N sys_ctx nv_index nv_index (index_auths N) data 0 st;
         let (rc, st) = (if rc = TPM2_RC_RETRY H then
             Tss2_Sys_NV_Write N sys_ctx nv_index nv_index (index_auths N) data 0
               (say ''Tss2_Sys_NV_Write TPM asked for TPM2_RC_RETRY\<newline>'' [] st)
           else (rc, st));
         if rc \<noteq> TSS2_RC_SUCCESS H then
           nv_exit H E sys_ctx rc (say ''Failed to Tss2_Sys_NV_Write: 0x%x\<newline>'' [A_num (unat rc)] st)
         else do {
           let st = say ''Tss2_Sys_NV_Write returned TSS2_RC_SUCCESS\<newline>'' [] st;
           let (rc, st) = Tss2_Sys_NV_UndefineSpace N sys_ctx (TPM2_RH_OWNER N) nv_index (create_auths N) st;
           if rc \<noteq> TSS2_RC_SUCCESS H then
             nv_exit H E sys_ctx rc (say ''Failed to Tss2_Sys_NV_UndefineSpace: 0x%x\<newline>'' [A_num (unat rc)] st)
           else do {
             let st = say ''Tss2_Sys_NV_UndefineSpace returned TSS2_RC_SUCCESS\<newline>'' [] st;
             let (rc, random_data, st) = Tss2_Sys_GetRandom N sys_ctx 32 random_data st;
             if rc \<noteq> TSS2_RC_SUCCESS H then
               nv_exit H E sys_ctx rc (say ''Failed to Tss2_Sys_GetRandom: 0x%x\<newline>'' [A_num (unat rc)] st)
             else
               nv_exit H E sys_ctx rc (say ''Tss2_Sys_GetRandom returned TSS2_RC_SUCCESS\<newline>'' [] st) } } } } }"

definition nv_main ::
  "headers \<Rightarrow> 'fw locate \<Rightarrow> ('fw, 'sys) tss_lib \<Rightarrow> ('fw, 'sys) nv_lib \<Rightarrow> UINT8 list \<Rightarrow> UINT8 list \<Rightarrow>
   ('fw, 'sys) tss_state \<Rightarrow> (EFI_STATUS \<times> ('fw, 'sys) tss_state) option" where
  "nv_main H LibLocateProtocol E N random_buffer data_buffer st = do {
     (rc, sys_ctx, p, w) \<leftarrow> sys_uefi_init H LibLocateProtocol E None (fst st) (snd st);
     if rc \<noteq> TSS2_RC_SUCCESS H then Some (EFI_ABORTED H, p, w)
     else nv_body H E N random_buffer data_buffer sys_ctx (p, w) }"

end
