(* ===== verification/Tss2_Contract.thy ===== *)
theory Tss2_Contract
  imports Tss2_Util Tcti_Machine
begin

section \<open>What the context utilities promise\<close>

text \<open>
  The properties of example/tss2-util.c: an initialisation gives usable contexts or leaves
  the pool as it was, a full teardown undoes an initialisation, and the path on which a
  context is lost.
\<close>

subsection \<open>The TCTI context\<close>

text \<open>The environment the utilities rely on.\<close>

definition tss_env :: "headers \<Rightarrow> 'fw locate \<Rightarrow> ('fw, 'sys) tss_lib \<Rightarrow> bool" where
  "tss_env H L E \<longleftrightarrow> tcti_codes_ok H \<and> locate_ok H L \<and> memory_ok H E
     \<and> unat (sizeof_ctx H) + 65536 \<le> 2 ^ 64"

lemma max_buf_defined: "tcg2_get_max_buf H (Some p) w \<noteq> None"
  by (cases "GetCapability p (caps_init 36) (firmware w)")
    (auto simp: tcg2_get_max_buf_def sizeof_caps capability_wrapper.lifts [of p "caps_init 36" w])

lemma size_query_cases:
  assumes "tss_env H L E"
  obtains n w' where "sizeof_tcti_uefi_context H L w = Some (n, w')"
    "n \<noteq> 0 \<longrightarrow> unat (sizeof_ctx H) \<le> unat n"
proof -
  obtain st q f where L: "L EFI_TCG2_PROTOCOL_GUID (firmware w) = (st, q, f)"
    by (cases "L EFI_TCG2_PROTOCOL_GUID (firmware w)")
  show ?thesis
  proof (cases "EFI_ERROR H st")
    case True
    then show ?thesis using sizeof_no_protocol [where L = L, OF L True] that by simp
  next
    case False
    with assms L obtain p where p: "q = Some p"
      unfolding tss_env_def locate_ok_def by blast
    obtain m w1 where m: "tcg2_get_max_buf H (Some p) (w\<lparr>firmware := f\<rparr>) = Some (m, w1)"
      using max_buf_defined [of H p "w\<lparr>firmware := f\<rparr>"] by auto
    have "unat m < 65536" using unsigned_less [of m] by simp
    with assms have "unat (ucast m + sizeof_ctx H :: 64 word) = unat m + unat (sizeof_ctx H)"
      by (simp add: tss_env_def unat_word_ariths)
    then show ?thesis
      using that [of "if m = 0 then 0 else ucast m + sizeof_ctx H" w1]
      by (simp add: sizeof_tcti_uefi_context_def tcg2_get_protocol_def L False p m)
  qed
qed

lemma sizeof_silent:
  assumes "sizeof_tcti_uefi_context H L w = Some (n, w')" "n \<noteq> 0"
  shows "console w' = console w"
proof -
  obtain st q f where L: "L EFI_TCG2_PROTOCOL_GUID (firmware w) = (st, q, f)"
    by (cases "L EFI_TCG2_PROTOCOL_GUID (firmware w)")
  have ok: "\<not> EFI_ERROR H st"
  proof
    assume "EFI_ERROR H st"
    from sizeof_no_protocol [where L = L, OF L this] assms show False by simp
  qed
  with assms(1) obtain m w1 where
    m: "tcg2_get_max_buf H q (w\<lparr>firmware := f\<rparr>) = Some (m, w1)"
      "(if m = 0 then Some (0, w1) else Some (ucast m + sizeof_ctx H, w1)) = Some (n, w')"
    by (auto simp: sizeof_tcti_uefi_context_def tcg2_get_protocol_def L Let_def split: bind_splits if_splits)
  with assms(2) have "m \<noteq> 0" "w1 = w'" by (auto split: if_splits)
  with m(1) show ?thesis
    by (auto simp: get_max_buf_cases split: if_splits)
qed

lemma tcti_init_cases:
  assumes env: "tss_env H L E" and wf: "pool_wf p"
  obtains
    (ready) h c p' w' where
      "tcti_uefi_init H L E ctx p w = Some (TSS2_RC_SUCCESS H, Some h, p', w')"
      "blocks p h = None" "blocks p' = (blocks p)(h := Some (Tcti_block c))" "pool_wf p'"
      "ctx_wf c" "ctx_state c = UEFI_STATE_TRANSMIT"
  | (failed) rc ctx' w' where
      "tcti_uefi_init H L E ctx p w = Some (rc, ctx', p, w')" "rc \<noteq> TSS2_RC_SUCCESS H"
proof -
  from env have ne: "TSS2_TCTI_RC_GENERAL_FAILURE H \<noteq> TSS2_RC_SUCCESS H"
    by (auto simp: tss_env_def tcti_codes_ok_def)
  from size_query_cases [OF env, of w] obtain n w1 where
    q: "sizeof_tcti_uefi_context H L w = Some (n, w1)" and n: "n \<noteq> 0 \<longrightarrow> unat (sizeof_ctx H) \<le> unat n"
    by blast
  obtain ok f where alloc: "AllocatePool E n (firmware w1) = (ok, f)"
    by (cases "AllocatePool E n (firmware w1)")
  show ?thesis
  proof (cases "n \<noteq> 0 \<and> ok")
    case False
    with q ne alloc show ?thesis
      by (intro failed [of "TSS2_TCTI_RC_GENERAL_FAILURE H" "if n = 0 then ctx else None"
            "if n = 0 then w1 else Print ''Failed to allocate 0x%x bytes\<newline>'' [A_num (unat n)] (w1\<lparr>firmware := f\<rparr>)"])
        (auto simp: tcti_uefi_init_def init_query)
  next
    case True
    let ?raw = "fresh_memory E n"
    obtain h p1 where pa: "pool_alloc (Tcti_block ?raw) p = (h, p1)"
      by (cases "pool_alloc (Tcti_block ?raw) p")
    from pool.alloc_fresh [OF wf this] have fresh: "pool_wf p1" "blocks p h = None"
      "blocks p1 = (blocks p)(h := Some (Tcti_block ?raw))" by auto
    let ?c = "fresh_ctx H n (cmd_buf ?raw)"
    let ?p = "pool_store h (Tcti_block ?c) p1"
    have "blocks ?p = (blocks p)(h := Some (Tcti_block ?c))" "pool_wf ?p"
      using pool.store_live [of p1 h "Tcti_block ?c"] fresh by auto
    moreover have "ctx_wf ?c"
      using env n True by (intro fresh_ctx_wf) (simp add: tss_env_def memory_ok_def)
    moreover have "tcti_at p1 h = Some ?raw" by (simp add: tcti_at_def fresh)
    ultimately show ?thesis
      using True q alloc pa fresh
      by (intro ready [of h ?p "w1\<lparr>firmware := f\<rparr>" ?c])
        (auto simp: tcti_uefi_init_def init_query init_context)
  qed
qed

lemma tcti_init_success:
  assumes "tss_env H L E" "pool_wf p"
    and "tcti_uefi_init H L E ctx p w = Some (TSS2_RC_SUCCESS H, Some h, p', w')"
  obtains c where "blocks p h = None" "blocks p' = (blocks p)(h := Some (Tcti_block c))" "pool_wf p'"
    "ctx_wf c" "ctx_state c = UEFI_STATE_TRANSMIT"
  by (rule tcti_init_cases [OF assms(1,2), of ctx w]) (use assms(3) that in auto)

text \<open>
  C30. tcti_uefi_init either gives the caller a fresh block that holds a well-formed idle TCTI
  context with room for the firmware's largest buffer, or reports a failure and leaves every
  block of the pool as it was: no failure path of it loses memory.
\<close>

theorem tcti_init_all_or_nothing:
  assumes "tss_env H L E" "pool_wf p"
  shows "\<exists>rc ctx' p' w'. tcti_uefi_init H L E ctx p w = Some (rc, ctx', p', w') \<and> pool_wf p'
     \<and> (rc = TSS2_RC_SUCCESS H \<longrightarrow> (\<exists>h c. ctx' = Some h \<and> blocks p h = None
           \<and> blocks p' = (blocks p)(h := Some (Tcti_block c))
           \<and> ctx_wf c \<and> ctx_state c = UEFI_STATE_TRANSMIT))
     \<and> (rc \<noteq> TSS2_RC_SUCCESS H \<longrightarrow> blocks p' = blocks p)"
  by (rule tcti_init_cases [OF assms, of ctx w]) (use assms(2) in auto)

definition demo_lib :: "bool \<Rightarrow> TSS2_RC \<Rightarrow> (UINT8 list list, nat option) tss_lib" where
  "demo_lib ok rc = \<lparr>
     AllocatePool = (\<lambda>n f. (ok, f)),
     fresh_memory = (\<lambda>n. demo_block\<lparr>cmd_buf := replicate (unat n - 88) 0xFF\<rparr>),
     fresh_sys = (\<lambda>n. None),
     Tss2_Tcti_Finalize = (\<lambda>c w. case tcti_uefi_finalize (Some c) w of (c', w') \<Rightarrow> (the c', w')),
     Tss2_Sys_GetContextSize = (\<lambda>m. 4096),
     Tss2_Sys_Initialize = (\<lambda>s n tcti abi. (rc, tcti)),
     Tss2_Sys_Finalize = (\<lambda>s. s),
     Tss2_Sys_GetTctiContext = (\<lambda>s. (0, s)) \<rparr>"

definition demo_pool :: "nat option pool" where
  "demo_pool = \<lparr>next_handle = 1, blocks = (\<lambda>h. None)\<rparr>"

lemma demo_pool_wf: "pool_wf demo_pool"
  by (simp add: demo_pool_def pool_wf_def)

lemma demo_env: "tss_env std_headers (demo_locate 0 0) (demo_lib ok rc)"
  by (simp add: tss_env_def demo_locate_ok memory_ok_def sizeof_ctx_std demo_lib_def)

theorem tcti_init_all_or_nothing_witness:
  "\<exists>rc ctx' p' w'. tcti_uefi_init std_headers (demo_locate 0 0) (demo_lib False 0) None demo_pool demo_world =
     Some (rc, ctx', p', w') \<and> (rc \<noteq> 0 \<longrightarrow> blocks p' = blocks demo_pool)"
  using tcti_init_all_or_nothing [OF demo_env demo_pool_wf, of False 0 None demo_world] by auto

subsection \<open>The SAPI context\<close>

lemma sys_from_tcti_cases:
  assumes wf: "pool_wf p"
  obtains
    (ready) h s p' w' where
      "sys_uefi_init_from_tcti_ctx H E tcti sys p w = Some (TSS2_RC_SUCCESS H, Some h, p', w')"
      "blocks p h = None" "blocks p' = (blocks p)(h := Some (Sys_block s))" "pool_wf p'"
      "\<exists>n s0. Tss2_Sys_Initialize E s0 n tcti (Some abi_version) = (TSS2_RC_SUCCESS H, s)"
  | (failed) rc p' w' where
      "sys_uefi_init_from_tcti_ctx H E tcti sys p w = Some (rc, sys, p', w')"
      "blocks p' = blocks p" "pool_wf p'"
      "rc \<noteq> TSS2_RC_SUCCESS H \<or> rc = TSS2_TCTI_RC_GENERAL_FAILURE H"
proof -
  let ?n = "Tss2_Sys_GetContextSize E 0"
  obtain ok f where alloc: "AllocatePool E ?n (firmware w) = (ok, f)"
    by (cases "AllocatePool E ?n (firmware w)")
  obtain h p1 where pa: "pool_alloc (Sys_block (fresh_sys E ?n)) p = (h, p1)"
    by (cases "pool_alloc (Sys_block (fresh_sys E ?n)) p")
  from pool.alloc_fresh [OF wf this] have fresh: "pool_wf p1" "blocks p h = None"
    "blocks p1 = (blocks p)(h := Some (Sys_block (fresh_sys E ?n)))" by auto
  obtain rc s where init: "Tss2_Sys_Initialize E (fresh_sys E ?n) ?n tcti (Some abi_version) = (rc, s)"
    by (cases "Tss2_Sys_Initialize E (fresh_sys E ?n) ?n tcti (Some abi_version)")
  let ?p = "pool_store h (Sys_block s) p1"
  have st: "blocks ?p = (blocks p)(h := Some (Sys_block s))" "pool_wf ?p"
    using pool.store_live [of p1 h "Sys_block s"] fresh by auto
  then obtain p2 where p2: "FreePool h ?p = Some p2" "blocks p2 = blocks p" "pool_wf p2"
    using pool.release_live [of ?p h] fresh(2) by (auto simp: fun_upd_idem)
  have at: "sys_at p1 h = Some (fresh_sys E ?n)" by (simp add: sys_at_def fresh)
  consider "\<not> ok" | "ok" "rc = TSS2_RC_SUCCESS H" | "ok" "rc \<noteq> TSS2_RC_SUCCESS H" by blast
  then show ?thesis
  proof cases
    case 1
    with alloc wf show ?thesis
      by (intro failed [where rc = "TSS2_TCTI_RC_GENERAL_FAILURE H"])
        (auto simp: sys_uefi_init_from_tcti_ctx_def)
  next
    case 2
    with alloc pa at init st fresh show ?thesis
      by (intro ready [of h ?p "w\<lparr>firmware := f\<rparr>" s]) (auto simp: sys_uefi_init_from_tcti_ctx_def)
  next
    case 3
    with alloc pa at init p2 show ?thesis
      by (intro failed [where rc = rc]) (auto simp: sys_uefi_init_from_tcti_ctx_def)
  qed
qed

lemma sys_init_cases:
  assumes env: "tss_env H L E" and wf: "pool_wf p"
  obtains
    (ready) t c h s p' w' where
      "sys_uefi_init H L E sys p w = Some (TSS2_RC_SUCCESS H, Some h, p', w')"
      "blocks p t = None" "blocks p h = None" "t \<noteq> h"
      "blocks p' = (blocks p)(t := Some (Tcti_block c), h := Some (Sys_block s))" "pool_wf p'"
      "ctx_wf c" "ctx_state c = UEFI_STATE_TRANSMIT"
      "\<exists>n s0. Tss2_Sys_Initialize E s0 n (Some t) (Some abi_version) = (TSS2_RC_SUCCESS H, s)"
  | (failed) rc p' w' where
      "sys_uefi_init H L E sys p w = Some (rc, sys, p', w')" "rc \<noteq> TSS2_RC_SUCCESS H" "pool_wf p'"
proof (rule tcti_init_cases [OF env wf, of None w])
  fix rc ctx' w'
  assume "tcti_uefi_init H L E None p w = Some (rc, ctx', p, w')" "rc \<noteq> TSS2_RC_SUCCESS H"
  then show ?thesis by (intro failed [of rc p w']) (simp_all add: sys_uefi_init_def wf)
next
  fix t c p1 w1
  assume tcti: "tcti_uefi_init H L E None p w = Some (TSS2_RC_SUCCESS H, Some t, p1, w1)"
    and p1: "blocks p t = None" "blocks p1 = (blocks p)(t := Some (Tcti_block c))" "pool_wf p1"
    and c: "ctx_wf c" "ctx_state c = UEFI_STATE_TRANSMIT"
  have ne: "TSS2_TCTI_RC_GENERAL_FAILURE H \<noteq> TSS2_RC_SUCCESS H"
    using env by (auto simp: tss_env_def tcti_codes_ok_def)
  show ?thesis
  proof (rule sys_from_tcti_cases [OF p1(3), of H E "Some t" sys w1])
    fix h s p' w'
    assume "sys_uefi_init_from_tcti_ctx H E (Some t) sys p1 w1 = Some (TSS2_RC_SUCCESS H, Some h, p', w')"
      and p': "blocks p1 h = None" "blocks p' = (blocks p1)(h := Some (Sys_block s))" "pool_wf p'"
      and s: "\<exists>n s0. Tss2_Sys_Initialize E s0 n (Some t) (Some abi_version) = (TSS2_RC_SUCCESS H, s)"
    moreover from p' p1 have "t \<noteq> h" "blocks p h = None" by (auto split: if_splits)
    ultimately show ?thesis
      using tcti p1 c by (intro ready [of h p' w' t c s]) (simp_all add: sys_uefi_init_def)
  next
    fix rc p' w'
    assume "sys_uefi_init_from_tcti_ctx H E (Some t) sys p1 w1 = Some (rc, sys, p', w')"
      and "pool_wf p'" "rc \<noteq> TSS2_RC_SUCCESS H \<or> rc = TSS2_TCTI_RC_GENERAL_FAILURE H"
    with ne tcti p1 c show ?thesis
      by (intro failed [of rc p' w']) (auto simp: sys_uefi_init_def)
  qed
qed

text \<open>What a failed initialisation leaves behind: nothing, or the block of the TCTI context.\<close>

lemma sys_init_failed:
  assumes env: "tss_env H L E" and wf: "pool_wf p"
    and run: "sys_uefi_init H L E None p w = Some (rc, sys, p', w')" "rc \<noteq> TSS2_RC_SUCCESS H"
  obtains
    (clean) rc1 ctx where
      "tcti_uefi_init H L E None p w = Some (rc1, ctx, p', w')" "rc1 \<noteq> TSS2_RC_SUCCESS H"
      "blocks p' = blocks p"
  | (lost) t c p1 w1 where
      "tcti_uefi_init H L E None p w = Some (TSS2_RC_SUCCESS H, Some t, p1, w1)" "blocks p t = None"
      "blocks p' = (blocks p)(t := Some (Tcti_block c))" "ctx_wf c"
proof (rule tcti_init_cases [OF env wf, of None w])
  fix rc1 ctx' w1
  assume "tcti_uefi_init H L E None p w = Some (rc1, ctx', p, w1)" "rc1 \<noteq> TSS2_RC_SUCCESS H"
  with run(1) show ?thesis by (intro clean [of rc1 ctx']) (auto simp: sys_uefi_init_def)
next
  fix t c p2 w2
  assume tcti: "tcti_uefi_init H L E None p w = Some (TSS2_RC_SUCCESS H, Some t, p2, w2)"
    and p2: "blocks p t = None" "blocks p2 = (blocks p)(t := Some (Tcti_block c))" "pool_wf p2" "ctx_wf c"
  with run(1) have "sys_uefi_init_from_tcti_ctx H E (Some t) None p2 w2 = Some (rc, sys, p', w')"
    by (simp add: sys_uefi_init_def)
  with run(2) have "blocks p' = blocks p2"
    by (cases rule: sys_from_tcti_cases [OF p2(3), of H E "Some t" None w2]) auto
  with tcti p2 show ?thesis by (intro lost) simp_all
qed

text \<open>
  C31. When sys_uefi_init fails after it has set up the TCTI context, the block of the TCTI
  context stays allocated while the caller gets no handle to anything: the context is lost.
  The failures are an AllocatePool or a Tss2_Sys_Initialize that fails.
\<close>

theorem sys_init_failure_leaks_tcti:
  assumes "tss_env H L E" "pool_wf p"
    and "tcti_uefi_init H L E None p w = Some (TSS2_RC_SUCCESS H, ctx, p1, w1)"
    and "sys_uefi_init H L E None p w = Some (rc, sys, p', w')" "rc \<noteq> TSS2_RC_SUCCESS H"
  shows "sys = None \<and> (\<exists>t c. t \<notin> live p \<and> live p' = insert t (live p)
       \<and> blocks p' t = Some (Tcti_block c) \<and> ctx_wf c)"
proof (rule tcti_init_cases [OF assms(1,2), of None w])
  fix rc ctx' w'
  assume "tcti_uefi_init H L E None p w = Some (rc, ctx', p, w')" "rc \<noteq> TSS2_RC_SUCCESS H"
  with assms(3) show ?thesis by simp
next
  fix t c p2 w2
  assume "tcti_uefi_init H L E None p w = Some (TSS2_RC_SUCCESS H, Some t, p2, w2)"
    and p2: "blocks p t = None" "blocks p2 = (blocks p)(t := Some (Tcti_block c))" "pool_wf p2" "ctx_wf c"
  with assms(3,4) have run: "sys_uefi_init_from_tcti_ctx H E (Some t) None p2 w2 = Some (rc, sys, p', w')"
    by (simp add: sys_uefi_init_def)
  show ?thesis
    by (rule sys_from_tcti_cases [OF p2(3), of H E "Some t" None w2])
      (use run assms(5) p2 in \<open>auto simp: live_def\<close>)
qed

lemma demo_size:
  "sizeof_tcti_uefi_context std_headers (demo_locate 0 0) demo_world = Some (100, demo_world)"
  using sizeof_query [where L = "demo_locate 0 0" and H = std_headers and w = demo_world and st = 0
        and p = "demo_protocol 0 demo_caps demo_log" and f = "[]" and status = 0 and caps = demo_caps
        and f' = "[]"]
  by (simp add: demo_simps sizeof_ctx_std caps_init_def max_def)

lemma demo_sys_alloc:
  "\<exists>ctx p1 w1 rc sys p' w'.
     tcti_uefi_init std_headers (demo_locate 0 0) (demo_lib True 5) None demo_pool demo_world =
       Some (0, ctx, p1, w1)
   \<and> sys_uefi_init std_headers (demo_locate 0 0) (demo_lib True 5) None demo_pool demo_world =
       Some (rc, sys, p', w') \<and> rc \<noteq> 0"
  by (simp add: sys_uefi_init_def tcti_uefi_init_def init_query demo_size demo_lib_def demo_pool_def
        pool_alloc_def tcti_at_def init_context pool_store_def sys_uefi_init_from_tcti_ctx_def
        sys_at_def FreePool_def)

theorem sys_init_failure_leaks_tcti_witness:
  "\<exists>rc sys p' w'. sys_uefi_init std_headers (demo_locate 0 0) (demo_lib True 5) None demo_pool demo_world =
     Some (rc, sys, p', w') \<and> sys = None \<and> live p' \<noteq> {}"
proof -
  from demo_sys_alloc obtain ctx p1 w1 rc sys p' w' where
    1: "tcti_uefi_init std_headers (demo_locate 0 0) (demo_lib True 5) None demo_pool demo_world =
       Some (TSS2_RC_SUCCESS std_headers, ctx, p1, w1)"
    and 2: "sys_uefi_init std_headers (demo_locate 0 0) (demo_lib True 5) None demo_pool demo_world =
       Some (rc, sys, p', w')" "rc \<noteq> TSS2_RC_SUCCESS std_headers"
    by auto
  from sys_init_failure_leaks_tcti [OF demo_env demo_pool_wf 1 2] 2 show ?thesis by auto
qed

subsection \<open>Teardown\<close>

text \<open>
  The pool \<open>q\<close> is \<open>p\<close> with the two contexts of a successful initialisation: this is what
  the initialisation establishes, what the commands of the library keep, and what the
  teardown needs.
\<close>

definition usable ::
  "headers \<Rightarrow> ('fw, 'sys) tss_lib \<Rightarrow> 'sys pool \<Rightarrow> nat \<Rightarrow> nat \<Rightarrow> 'sys pool \<Rightarrow> bool" where
  "usable H E p t h q \<longleftrightarrow> blocks p t = None \<and> blocks p h = None \<and> t \<noteq> h \<and>
     (\<exists>c s. blocks q = (blocks p)(t := Some (Tcti_block c), h := Some (Sys_block s)) \<and> ctx_wf c
        \<and> Tss2_Sys_GetTctiContext E s = (TSS2_RC_SUCCESS H, Some t))"

lemma init_usable:
  assumes "tss_env H L E" "pool_wf p" "sapi_keeps_tcti H E"
    and "sys_uefi_init H L E sys0 p w = Some (TSS2_RC_SUCCESS H, sys, p', w')"
  obtains t h where "sys = Some h" "usable H E p t h p'"
proof (rule sys_init_cases [OF assms(1,2), of sys0 w])
  fix rc p' w'
  assume "sys_uefi_init H L E sys0 p w = Some (rc, sys0, p', w')" "rc \<noteq> TSS2_RC_SUCCESS H"
  with assms(4) show ?thesis by simp
next
  fix t c h s q v
  assume "sys_uefi_init H L E sys0 p w = Some (TSS2_RC_SUCCESS H, Some h, q, v)"
    "blocks p t = None" "blocks p h = None" "t \<noteq> h"
    "blocks q = (blocks p)(t := Some (Tcti_block c), h := Some (Sys_block s))" "ctx_wf c"
    "\<exists>n s0. Tss2_Sys_Initialize E s0 n (Some t) (Some abi_version) = (TSS2_RC_SUCCESS H, s)"
  moreover from this assms(3) have "Tss2_Sys_GetTctiContext E s = (TSS2_RC_SUCCESS H, Some t)"
    unfolding sapi_keeps_tcti_def by blast
  ultimately have "usable H E p t h q" unfolding usable_def by blast
  moreover have "sys = Some h" "p' = q"
    using assms(4) \<open>sys_uefi_init H L E sys0 p w = Some (TSS2_RC_SUCCESS H, Some h, q, v)\<close> by simp_all
  ultimately show ?thesis using that by simp
qed

lemma usable_live: "usable H E p t h q \<Longrightarrow> live q = live p \<union> {t, h} \<and> card (live q - live p) = 2"
proof -
  assume u: "usable H E p t h q"
  then have "live q = live p \<union> {t, h}" by (auto simp: usable_def live_def)
  moreover from u this have "live q - live p = {t, h}" by (auto simp: usable_def live_def)
  ultimately show ?thesis using u by (simp add: usable_def)
qed

text \<open>Tearing down one context gives back its block and touches nothing else.\<close>

lemma tcti_teardown_live:
  assumes "tcti_at q t = Some c" "ctx_wf c" "dispatch_finalizes E"
  obtains q' where "tcti_uefi_teardown E (Some t) q w = Some (q', w)" "blocks q' = (blocks q)(t := None)"
proof -
  obtain c' where fin: "Tss2_Tcti_Finalize E c w = (c', w)"
    using assms(2,3) by (auto simp: dispatch_finalizes_def finalize_Some)
  have live: "blocks q t \<noteq> None" using assms(1) by (auto simp: tcti_at_def split: option.splits)
  then have store: "blocks (pool_store t (Tcti_block c') q) = (blocks q)(t := Some (Tcti_block c'))"
    using pool.store_live by blast
  then obtain q' where "FreePool t (pool_store t (Tcti_block c') q) = Some q'"
    "blocks q' = (blocks q)(t := None)"
    using pool.release_live [of "pool_store t (Tcti_block c') q" t] by auto
  with fin assms(1) that show ?thesis by (simp add: tcti_uefi_teardown_def)
qed

lemma sys_teardown_live:
  assumes "sys_at q h = Some s"
  obtains q' where "sys_uefi_teardown E (Some h) q = Some q'" "blocks q' = (blocks q)(h := None)"
proof -
  let ?s' = "Sys_block (Tss2_Sys_Finalize E s)"
  have live: "blocks q h \<noteq> None" using assms by (auto simp: sys_at_def split: option.splits)
  then have "blocks (pool_store h ?s' q) = (blocks q)(h := Some ?s')"
    using pool.store_live by blast
  then obtain q' where "FreePool h (pool_store h ?s' q) = Some q'" "blocks q' = (blocks q)(h := None)"
    using pool.release_live [of "pool_store h ?s' q" h] by auto
  with assms that show ?thesis by (simp add: sys_uefi_teardown_def)
qed

lemma usable_teardown:
  assumes "usable H E p t h q" "dispatch_finalizes E"
  obtains p'' where "sys_uefi_teardown_full H E (Some h) q w = Some (p'', w)" "blocks p'' = blocks p"
proof -
  from assms(1) obtain c s where new: "blocks p t = None" "blocks p h = None" "t \<noteq> h"
    and q: "blocks q = (blocks p)(t := Some (Tcti_block c), h := Some (Sys_block s))"
    and c: "ctx_wf c" and tcti: "Tss2_Sys_GetTctiContext E s = (TSS2_RC_SUCCESS H, Some t)"
    by (auto simp: usable_def)
  have sys: "sys_at q h = Some s" by (simp add: sys_at_def q)
  from sys_teardown_live [OF sys] obtain q1 where
    q1: "sys_uefi_teardown E (Some h) q = Some q1" "blocks q1 = (blocks q)(h := None)" .
  then have "tcti_at q1 t = Some c" using new by (simp add: tcti_at_def q)
  from tcti_teardown_live [OF this c assms(2)] obtain q2 where
    q2: "tcti_uefi_teardown E (Some t) q1 w = Some (q2, w)" "blocks q2 = (blocks q1)(t := None)" .
  have "sys_uefi_teardown_full H E (Some h) q w = Some (q2, w)"
    using sys tcti q1(1) q2(1) by (simp add: sys_uefi_teardown_full_def)
  moreover have "blocks q2 = blocks p" using new by (auto simp: q2(2) q1(2) q)
  ultimately show ?thesis using that by blast
qed

lemma demo_sys_init:
  "\<exists>sys p' w'. sys_uefi_init std_headers (demo_locate 0 0) (demo_lib True 0) None demo_pool demo_world =
     Some (TSS2_RC_SUCCESS std_headers, sys, p', w')"
  by (simp add: sys_uefi_init_def tcti_uefi_init_def init_query demo_size demo_lib_def demo_pool_def
        pool_alloc_def tcti_at_def init_context pool_store_def sys_uefi_init_from_tcti_ctx_def
        sys_at_def)

lemma demo_lib_ok:
  "sapi_keeps_tcti std_headers (demo_lib True 0)" "dispatch_finalizes (demo_lib True 0)"
  by (simp_all add: sapi_keeps_tcti_def dispatch_finalizes_def demo_lib_def)

text \<open>
  C15. A full teardown right after a successful sys_uefi_init frees exactly the two blocks the
  initialisation allocated, and every other block is untouched; the TCTI context that the
  library finalizes is the well-formed one, so nothing is printed, and no block is freed
  twice.
\<close>

theorem teardown_undoes_init:
  assumes "tss_env H L E" "pool_wf p" "sapi_keeps_tcti H E" "dispatch_finalizes E"
    and "sys_uefi_init H L E None p w = Some (TSS2_RC_SUCCESS H, sys, p', w')"
  shows "\<exists>p''. sys_uefi_teardown_full H E sys p' w' = Some (p'', w')
     \<and> blocks p'' = blocks p \<and> card (live p' - live p) = 2 \<and> live p \<subseteq> live p'"
proof -
  from init_usable [OF assms(1-3,5)] obtain t h where u: "sys = Some h" "usable H E p t h p'" by blast
  from usable_teardown [OF u(2) assms(4), of w'] obtain p'' where
    "sys_uefi_teardown_full H E sys p' w' = Some (p'', w')" "blocks p'' = blocks p"
    unfolding u(1) by blast
  with usable_live [OF u(2)] show ?thesis by auto
qed

theorem teardown_undoes_init_witness:
  "\<exists>sys p' w' p''. sys_uefi_init std_headers (demo_locate 0 0) (demo_lib True 0) None demo_pool demo_world =
     Some (0, sys, p', w')
   \<and> sys_uefi_teardown_full std_headers (demo_lib True 0) sys p' w' = Some (p'', w') \<and> live p'' = {}"
proof -
  from demo_sys_init obtain sys p' w' where
    init: "sys_uefi_init std_headers (demo_locate 0 0) (demo_lib True 0) None demo_pool demo_world =
      Some (TSS2_RC_SUCCESS std_headers, sys, p', w')" by blast
  from teardown_undoes_init [OF demo_env demo_pool_wf demo_lib_ok init] init show ?thesis
    by (fastforce simp: live_def demo_pool_def)
qed

end
