(* ===== verification/Nv_Contract.thy ===== *)
theory Nv_Contract
  imports Nv_App Tss2_Contract
begin

section \<open>What the NV tool does to the index\<close>

text \<open>
  The nested error handling of example/tpm2-nv-ops.c is a script of commands that stops at
  the first failure; its one asymmetry is that a failing write skips the removal of the
  index. Once it has its contexts, the tool gives back the memory it took on every path; an
  initialisation that fails half-way leaves a block behind.
\<close>

subsection \<open>The byte loop\<close>

lemma copy_bytes_prefix:
  assumes "k \<le> n" "n \<le> length src" "n \<le> length dst"
  shows "copy_bytes src [k..<n] (take k src @ drop k dst) = Some (take n src @ drop n dst)"
  using assms
proof (induction "n - k" arbitrary: k)
  case 0
  then show ?case by simp
next
  case (Suc m)
  then have k: "k < n" by simp
  have "(take k src @ drop k dst)[k := src ! k] = take (Suc k) src @ drop (Suc k) dst"
    using k Suc.prems by (simp add: list_update_append take_Suc_conv_app_nth Cons_nth_drop_Suc [symmetric])
  with k Suc show ?case by (simp add: upt_conv_Cons)
qed

lemma copy_bytes_all:
  assumes "n \<le> length src" "n \<le> length dst"
  shows "copy_bytes src [0..<n] dst = Some (take n src @ drop n dst)"
  using copy_bytes_prefix [OF le0 assms] by simp

lemma nv_prepare_zeroes:
  assumes "10 \<le> length buf"
  shows "nv_prepare buf = Some (replicate 10 0 @ drop 10 buf)"
proof -
  have "(5 :: nat) + 5 = 10" by simp
  then have "replicate 5 0 @ replicate 5 0 = (replicate 10 0 :: UINT8 list)"
    by (metis replicate_add)
  with assms show ?thesis by (simp add: nv_prepare_def memmove_def)
qed

subsection \<open>The script\<close>

text \<open>A step has the format it prints on a failure, the one for a success, and its command.\<close>

type_synonym ('fw, 'sys) nv_step =
  "string \<times> string \<times> (('fw, 'sys) tss_state \<Rightarrow> TSS2_RC \<times> ('fw, 'sys) tss_state)"

fun run_script ::
  "headers \<Rightarrow> ('fw, 'sys) nv_step list \<Rightarrow> ('fw, 'sys) tss_state \<Rightarrow> TSS2_RC \<times> ('fw, 'sys) tss_state" where
  "run_script H [] st = (TSS2_RC_SUCCESS H, st)"
| "run_script H ((bad, good, command) # steps) st =
     (case command st of (rc, st) \<Rightarrow>
        if rc \<noteq> TSS2_RC_SUCCESS H then (rc, say bad [A_num (unat rc)] st)
        else run_script H steps (say good [] st))"

definition write_with_retry ::
  "headers \<Rightarrow> ('fw, 'sys) nv_lib \<Rightarrow> nat option \<Rightarrow> TPM2B_DIGEST \<Rightarrow> ('fw, 'sys) tss_state \<Rightarrow>
   TSS2_RC \<times> ('fw, 'sys) tss_state" where
  "write_with_retry H N sys data st =
     (case Tss2_Sys_NV_Write N sys nv_index nv_index (index_auths N) data 0 st of (rc, st) \<Rightarrow>
        if rc = TPM2_RC_RETRY H then
          Tss2_Sys_NV_Write N sys nv_index nv_index (index_auths N) data 0
            (say ''Tss2_Sys_NV_Write TPM asked for TPM2_RC_RETRY\<newline>'' [] st)
        else (rc, st))"

definition nv_script ::
  "headers \<Rightarrow> ('fw, 'sys) nv_lib \<Rightarrow> nat option \<Rightarrow> TPM2B_DIGEST \<Rightarrow> TPM2B_DIGEST \<Rightarrow> ('fw, 'sys) nv_step list" where
  "nv_script H N sys data random =
     [(''Failed to Tss2_Sys_NV_DefineSpace: 0x%x\<newline>'', ''Tss2_Sys_NV_DefineSpace returned TSS2_RC_SUCCESS\<newline>'',
         Tss2_Sys_NV_DefineSpace N sys (TPM2_RH_OWNER N) (create_auths N) index_auth (index_public H N)),
      (''Failed to Tss2_Sys_NV_Write: 0x%x\<newline>'', ''Tss2_Sys_NV_Write returned TSS2_RC_SUCCESS\<newline>'',
         write_with_retry H N sys data),
      (''Failed to Tss2_Sys_NV_UndefineSpace: 0x%x\<newline>'', ''Tss2_Sys_NV_UndefineSpace returned TSS2_RC_SUCCESS\<newline>'',
         Tss2_Sys_NV_UndefineSpace N sys (TPM2_RH_OWNER N) nv_index (create_auths N)),
      (''Failed to Tss2_Sys_GetRandom: 0x%x\<newline>'', ''Tss2_Sys_GetRandom returned TSS2_RC_SUCCESS\<newline>'',
         \<lambda>st. case Tss2_Sys_GetRandom N sys 32 random st of (rc, _, st) \<Rightarrow> (rc, st))]"

text \<open>What is written: the random bytes over the prepared buffer.\<close>

definition nv_data :: "TPM2B_DIGEST \<Rightarrow> UINT8 list \<Rightarrow> TPM2B_DIGEST" where
  "nv_data random buf = (let n = unat (digest_size random) in
     \<lparr>digest_size = digest_size random,
      digest_buffer = take n (digest_buffer random) @ drop n (replicate 10 0 @ drop 10 buf)\<rparr>)"

definition random_fits :: "UINT8 list \<Rightarrow> TPM2B_DIGEST \<Rightarrow> bool" where
  "random_fits buf r \<longleftrightarrow> unat (digest_size r) \<le> length (digest_buffer r) \<and> unat (digest_size r) \<le> length buf"

lemma case_prod_assoc:
  "(case (case p of (a, b) \<Rightarrow> f a b) of (c, d) \<Rightarrow> g c d) = (case p of (a, b) \<Rightarrow> case f a b of (c, d) \<Rightarrow> g c d)"
  by (cases p) simp

lemma run_script_then:
  "(case run_script H ((bad, good, command) # step # steps) st of (rc, st) \<Rightarrow> f rc st) =
   (case command st of (rc, st) \<Rightarrow>
      if rc \<noteq> TSS2_RC_SUCCESS H then f rc (say bad [A_num (unat rc)] st)
      else case run_script H (step # steps) (say good [] st) of (rc, st) \<Rightarrow> f rc st)"
  "(case run_script H [(bad, good, command)] st of (rc, st) \<Rightarrow> f rc st) =
   (case command st of (rc, st) \<Rightarrow>
      if rc \<noteq> TSS2_RC_SUCCESS H then f rc (say bad [A_num (unat rc)] st) else f rc (say good [] st))"
  by (cases "command st", simp)+

lemma nv_body_random_fails:
  assumes "10 \<le> length buf"
    and "Tss2_Sys_GetRandom N sys 32 \<lparr>digest_size = 32, digest_buffer = rb\<rparr> st = (rc, r, st1)"
    and "rc \<noteq> TSS2_RC_SUCCESS H"
  shows "nv_body H E N rb buf sys st =
    nv_exit H E sys rc (say ''Failed to Tss2_Sys_NV_DefineSpace: 0x%x\<newline>'' [A_num (unat rc)] st1)"
  using assms by (simp add: nv_body_def nv_prepare_zeroes)

lemma nv_body_script:
  assumes buf: "10 \<le> length buf"
    and random: "Tss2_Sys_GetRandom N sys 32 \<lparr>digest_size = 32, digest_buffer = rb\<rparr> st =
      (TSS2_RC_SUCCESS H, r, st1)" "random_fits buf r"
  shows "nv_body H E N rb buf sys st =
    (case run_script H (nv_script H N sys (nv_data r buf) r)
            (say ''Tss2_Sys_GetRandom returned TSS2_RC_SUCCESS\<newline>'' [] st1) of
       (rc, st2) \<Rightarrow> nv_exit H E sys rc st2)"
proof -
  have "copy_bytes (digest_buffer r) [0..<unat (digest_size r)] (replicate 10 0 @ drop 10 buf) =
      Some (digest_buffer (nv_data r buf))"
    using random(2) buf by (simp add: copy_bytes_all nv_data_def random_fits_def Let_def)
  moreover have "\<lparr>digest_size = digest_size r, digest_buffer = digest_buffer (nv_data r buf)\<rparr> = nv_data r buf"
    by (simp add: nv_data_def Let_def)
  ultimately show ?thesis
    using random(1) buf
    by (simp add: nv_body_def nv_prepare_zeroes Let_def nv_script_def write_with_retry_def
        run_script_then case_prod_assoc del: run_script.simps(2) cong: if_cong)
qed

subsection \<open>What the commands keep\<close>

text \<open>
  \<open>nv_keeps N P\<close>: no command of the library breaks the property \<open>P\<close> of the state.
  \<open>nv_random_fits\<close>: a successful TPM2_GetRandom says a size that its buffer, and the tool's
  buffer, can hold.
\<close>

definition nv_keeps :: "('fw, 'sys) nv_lib \<Rightarrow> (('fw, 'sys) tss_state \<Rightarrow> bool) \<Rightarrow> bool" where
  "nv_keeps N P \<longleftrightarrow> (\<forall>st. P st \<longrightarrow>
     (\<forall>sys n r. P (snd (snd (Tss2_Sys_GetRandom N sys n r st))))
   \<and> (\<forall>sys h a d pub. P (snd (Tss2_Sys_NV_DefineSpace N sys h a d pub st)))
   \<and> (\<forall>sys h i a d off. P (snd (Tss2_Sys_NV_Write N sys h i a d off st)))
   \<and> (\<forall>sys h i a. P (snd (Tss2_Sys_NV_UndefineSpace N sys h i a st))))"

definition nv_random_fits :: "headers \<Rightarrow> ('fw, 'sys) nv_lib \<Rightarrow> UINT8 list \<Rightarrow> bool" where
  "nv_random_fits H N buf \<longleftrightarrow> 10 \<le> length buf \<and> (\<forall>sys r st r' st'.
     Tss2_Sys_GetRandom N sys 32 r st = (TSS2_RC_SUCCESS H, r', st') \<longrightarrow> random_fits buf r')"

lemma nv_keepsD:
  assumes "nv_keeps N P" "P st"
  shows "P (snd (snd (Tss2_Sys_GetRandom N sys n r st)))"
    "P (snd (Tss2_Sys_NV_DefineSpace N sys h a d pub st))"
    "P (snd (Tss2_Sys_NV_Write N sys h i a d off st))"
    "P (snd (Tss2_Sys_NV_UndefineSpace N sys h i a st))"
  using assms(1) [unfolded nv_keeps_def, THEN spec, THEN mp, OF assms(2)] by simp_all

lemma write_with_retry_keeps:
  assumes "nv_keeps N P" "\<And>fmt args st. P st \<Longrightarrow> P (say fmt args st)" "P st"
  shows "P (snd (write_with_retry H N sys data st))"
proof -
  let ?nvw = "Tss2_Sys_NV_Write N sys nv_index nv_index (index_auths N) data 0"
  obtain rc st' where w: "?nvw st = (rc, st')" by (metis surj_pair)
  with nv_keepsD(3) [OF assms(1,3), of sys nv_index nv_index "index_auths N" data 0] have P: "P st'" by simp
  show ?thesis
    unfolding write_with_retry_def w using P nv_keepsD(3) [OF assms(1) assms(2) [OF P]] by simp
qed

lemma run_script_keeps:
  assumes "\<And>st. P st \<Longrightarrow> \<forall>(bad, good, command) \<in> set steps. P (snd (command st))"
    and "\<And>fmt args st. P st \<Longrightarrow> P (say fmt args st)" and "P st"
  shows "P (snd (run_script H steps st))"
  using assms(1,3)
proof (induction steps arbitrary: st)
  case Nil
  then show ?case by simp
next
  case (Cons step steps)
  obtain bad good command rc st' where s: "step = (bad, good, command)" "command st = (rc, st')"
    by (metis surj_pair)
  from Cons.prems s have st': "P st'" by fastforce
  show ?case
  proof (cases "rc = TSS2_RC_SUCCESS H")
    case True
    have "P (snd (run_script H steps (say good [] st')))"
      by (rule Cons.IH) (use Cons.prems(1) assms(2) st' in auto)
    with s True show ?thesis by simp
  next
    case False
    with s assms(2) [OF st'] show ?thesis by simp
  qed
qed

lemma nv_script_keeps:
  assumes "nv_keeps N P" and say: "\<And>fmt args st. P st \<Longrightarrow> P (say fmt args st)" and "P st"
  shows "P (snd (run_script H (nv_script H N sys data r) st))"
proof (rule run_script_keeps [OF _ say assms(3)])
  fix st assume P: "P st"
  have random: "P (snd (case Tss2_Sys_GetRandom N sys 32 r st of (rc, _, st) \<Rightarrow> (rc, st)))"
    using nv_keepsD(1) [OF assms(1) P, of sys 32 r] by (simp add: case_prod_unfold)
  show "\<forall>(bad, good, command) \<in> set (nv_script H N sys data r). P (snd (command st))"
    unfolding nv_script_def list.set ball_simps prod.case
    by (intro conjI TrueI nv_keepsD(2,4) [OF assms(1) P] write_with_retry_keeps [of N P, OF assms(1) say P] random)
qed

lemma nv_exit_frees:
  assumes "usable H E p t h (fst st)" "dispatch_finalizes E"
  obtains p' where "nv_exit H E (Some h) rc st =
      Some (if rc = TSS2_RC_SUCCESS H then EFI_SUCCESS H else EFI_ABORTED H, p', snd st)"
    "blocks p' = blocks p"
proof -
  obtain p' where "sys_uefi_teardown_full H E (Some h) (fst st) (snd st) = Some (p', snd st)"
    "blocks p' = blocks p"
    by (rule usable_teardown [OF assms])
  then show ?thesis by (intro that [of p']) (simp_all add: nv_exit_def)
qed

lemma nv_body_frees:
  assumes u: "usable H E p t h (fst st)" and fin: "dispatch_finalizes E"
    and keeps: "nv_keeps N (\<lambda>st. usable H E p t h (fst st))" and fits: "nv_random_fits H N buf"
  obtains rc st' where "nv_body H E N rb buf (Some h) st =
      Some (if rc = TSS2_RC_SUCCESS H then EFI_SUCCESS H else EFI_ABORTED H, st')"
    "blocks (fst st') = blocks p"
proof -
  let ?u = "\<lambda>st. usable H E p t h (fst st)"
  obtain rc r st1 where random: "Tss2_Sys_GetRandom N (Some h) 32 \<lparr>digest_size = 32, digest_buffer = rb\<rparr> st = (rc, r, st1)"
    by (metis surj_pair)
  have say: "?u (say fmt args st)" if "?u st" for fmt args and st :: "('a, 'b) tss_state"
    using that by (simp add: say_def)
  from nv_keepsD(1) [OF keeps u, of "Some h" 32 "\<lparr>digest_size = 32, digest_buffer = rb\<rparr>"] random have u1: "?u st1" by simp
  show ?thesis
  proof (cases "rc = TSS2_RC_SUCCESS H")
    case False
    obtain p' where "nv_exit H E (Some h) rc (say ''Failed to Tss2_Sys_NV_DefineSpace: 0x%x\<newline>'' [A_num (unat rc)] st1) =
        Some (if rc = TSS2_RC_SUCCESS H then EFI_SUCCESS H else EFI_ABORTED H, p', snd
          (say ''Failed to Tss2_Sys_NV_DefineSpace: 0x%x\<newline>'' [A_num (unat rc)] st1))" "blocks p' = blocks p"
      by (rule nv_exit_frees [OF say [OF u1] fin])
    moreover have "10 \<le> length buf" using fits by (simp add: nv_random_fits_def)
    ultimately show ?thesis
      using nv_body_random_fails [OF _ random False, of buf E]
      by (intro that [of rc "(p', snd (say ''Failed to Tss2_Sys_NV_DefineSpace: 0x%x\<newline>'' [A_num (unat rc)] st1))"]) simp_all
  next
    case True
    with fits random have r: "random_fits buf r" "10 \<le> length buf"
      unfolding nv_random_fits_def by blast+
    let ?st = "say ''Tss2_Sys_GetRandom returned TSS2_RC_SUCCESS\<newline>'' [] st1"
    obtain rc2 st2 where run: "run_script H (nv_script H N (Some h) (nv_data r buf) r) ?st = (rc2, st2)"
      by (metis surj_pair)
    have "?u (snd (run_script H (nv_script H N (Some h) (nv_data r buf) r) ?st))"
      by (rule nv_script_keeps [of N ?u, OF keeps say say [OF u1]])
    with run have u2: "?u st2" by simp
    obtain p' where "nv_exit H E (Some h) rc2 st2 =
        Some (if rc2 = TSS2_RC_SUCCESS H then EFI_SUCCESS H else EFI_ABORTED H, p', snd st2)"
      "blocks p' = blocks p"
      by (rule nv_exit_frees [OF u2 fin])
    then show ?thesis
      using nv_body_script [OF r(2) random [unfolded True] r(1), of E] run
      by (intro that [of rc2 "(p', snd st2)"]) simp_all
  qed
qed

subsection \<open>A library to apply the properties to\<close>

text \<open>
  \<open>demo_nv rc\<close>: random numbers are sevens, the write answers \<open>rc\<close>, the first byte list of
  the firmware is the list of the defined indices' data.
\<close>

definition demo_random :: TPM2B_DIGEST where
  "demo_random = \<lparr>digest_size = 32, digest_buffer = replicate 32 7\<rparr>"

definition demo_nv :: "TSS2_RC \<Rightarrow> (UINT8 list list, 'sys) nv_lib" where
  "demo_nv rc = \<lparr>
     TPM2_RH_OWNER = 0x40000001, TPM2_RH_PW = 0x40000009,
     TPMA_NV_OWNERWRITE = 2, TPMA_NV_AUTHWRITE = 4, TPMA_NV_AUTHREAD = 0x40000, TPMA_NV_OWNERREAD = 0x20000,
     Tss2_Sys_GetRandom = (\<lambda>sys n r st. (0, demo_random, st)),
     Tss2_Sys_NV_DefineSpace = (\<lambda>sys h a d pub st. (0, fst st, (snd st)\<lparr>firmware := [[]]\<rparr>)),
     Tss2_Sys_NV_Write = (\<lambda>sys h i a d off st. (rc, st)),
     Tss2_Sys_NV_UndefineSpace = (\<lambda>sys h i a st. (0, fst st, (snd st)\<lparr>firmware := []\<rparr>)) \<rparr>"

definition demo_buffer :: "UINT8 list" where
  "demo_buffer = replicate 2048 0xEE"

lemma demo_nv_keeps: "nv_keeps (demo_nv rc) (\<lambda>st. Q (fst st))"
  by (simp add: nv_keeps_def demo_nv_def)

lemma demo_nv_fits: "nv_random_fits H (demo_nv rc) demo_buffer" "random_fits demo_buffer demo_random"
  by (auto simp: nv_random_fits_def random_fits_def demo_nv_def demo_random_def demo_buffer_def)

subsection \<open>The properties\<close>

text \<open>
  C18. After its first random draw the NV tool is the script of four commands, define, write
  (once more when the TPM asks for a retry), undefine, draw, that reports each command and
  stops at the first failure; what it writes is the drawn bytes, copied byte by byte over
  the prepared buffer; its status is EFI_SUCCESS exactly when the whole script succeeded.
\<close>

theorem nv_tool_is_script:
  assumes "10 \<le> length buf" "random_fits buf r"
    and "Tss2_Sys_GetRandom N sys 32 \<lparr>digest_size = 32, digest_buffer = rb\<rparr> st = (TSS2_RC_SUCCESS H, r, st1)"
    and "run_script H (nv_script H N sys (nv_data r buf) r)
           (say ''Tss2_Sys_GetRandom returned TSS2_RC_SUCCESS\<newline>'' [] st1) = (rc, st2)"
  shows "nv_body H E N rb buf sys st =
     (case sys_uefi_teardown_full H E sys (fst st2) (snd st2) of
        None \<Rightarrow> None
      | Some st' \<Rightarrow> Some (if rc = TSS2_RC_SUCCESS H then EFI_SUCCESS H else EFI_ABORTED H, st'))"
  using nv_body_script [OF assms(1,3,2), of E] assms(4)
  by (simp add: nv_exit_def split: option.split)

theorem nv_tool_is_script_witness:
  "\<exists>st2. nv_body std_headers (demo_lib True 0) (demo_nv 1) [] demo_buffer None (demo_pool, demo_world) =
     Some (0x8000000000000015, st2)"
proof -
  obtain st2 where run: "run_script std_headers (nv_script std_headers (demo_nv 1) None (nv_data demo_random demo_buffer) demo_random)
     (say ''Tss2_Sys_GetRandom returned TSS2_RC_SUCCESS\<newline>'' [] (demo_pool, demo_world)) = (1, st2)"
    by (simp add: nv_script_def write_with_retry_def demo_nv_def)
  have "nv_body std_headers (demo_lib True 0) (demo_nv 1) [] demo_buffer None (demo_pool, demo_world) =
     (case sys_uefi_teardown_full std_headers (demo_lib True 0) None (fst st2) (snd st2) of
        None \<Rightarrow> None
      | Some st' \<Rightarrow> Some (if 1 = TSS2_RC_SUCCESS std_headers then EFI_SUCCESS std_headers
          else EFI_ABORTED std_headers, st'))"
    by (rule nv_tool_is_script [OF _ demo_nv_fits(2) _ run])
      (simp_all add: demo_nv_def demo_buffer_def)
  then show ?thesis by (simp add: sys_uefi_teardown_full_def)
qed

text \<open>
  C29. What the NV tool does to memory, on every path: it returns, and when the contexts were
  set up, whichever command fails, the memory is as it was before and the status EFI_SUCCESS
  or EFI_ABORTED; when they could not be set up the status is EFI_ABORTED, and the memory is
  as it was when already the TCTI context failed, but holds one lost block, a TCTI
  context, when the failure came after it. The library's commands must keep the two contexts
  intact and the random bytes must fit their buffer.
\<close>

theorem nv_tool_memory:
  assumes "tss_env H L E" "pool_wf p" "sapi_keeps_tcti H E" "dispatch_finalizes E"
    and "\<And>t h. nv_keeps N (\<lambda>st. usable H E p t h (fst st))" "nv_random_fits H N buf"
  shows "\<exists>status p' w' rc sys p1 w1. nv_main H L E N rb buf (p, w) = Some (status, p', w')
     \<and> sys_uefi_init H L E None p w = Some (rc, sys, p1, w1)
     \<and> (if rc = TSS2_RC_SUCCESS H then blocks p' = blocks p \<and> (status = EFI_SUCCESS H \<or> status = EFI_ABORTED H)
        else status = EFI_ABORTED H \<and> (\<exists>trc ctx p2 w2. tcti_uefi_init H L E None p w = Some (trc, ctx, p2, w2)
          \<and> (if trc = TSS2_RC_SUCCESS H
             then \<exists>t c. blocks p t = None \<and> blocks p' = (blocks p)(t := Some (Tcti_block c)) \<and> ctx_wf c
             else blocks p' = blocks p)))"
proof -
  obtain rc sys p1 w1 where init: "sys_uefi_init H L E None p w = Some (rc, sys, p1, w1)"
    by (rule sys_init_cases [OF assms(1,2), of None w]) auto
  show ?thesis
  proof (cases "rc = TSS2_RC_SUCCESS H")
    case True
    from init_usable [OF assms(1-3) init [unfolded True]] obtain t h where
      u: "sys = Some h" "usable H E p t h p1" by blast
    then have u': "usable H E p t h (fst (p1, w1))" by simp
    obtain rc' st' where "nv_body H E N rb buf (Some h) (p1, w1) =
        Some (if rc' = TSS2_RC_SUCCESS H then EFI_SUCCESS H else EFI_ABORTED H, st')"
      "blocks (fst st') = blocks p"
      by (rule nv_body_frees [OF u' assms(4-6)])
    with init True u(1) show ?thesis
      by (cases st') (simp add: nv_main_def)
  next
    case False
    then have "nv_main H L E N rb buf (p, w) = Some (EFI_ABORTED H, p1, w1)"
      by (simp add: nv_main_def init)
    with init False show ?thesis
      by (cases rule: sys_init_failed [OF assms(1,2) init False]) auto
  qed
qed

text \<open>The tool on a library whose write is refused, and on one that refuses to initialise.\<close>

theorem nv_tool_memory_witness:
  "(\<exists>status p' w'. nv_main std_headers (demo_locate 0 0) (demo_lib True 0) (demo_nv 0x14B) [] demo_buffer
     (demo_pool, demo_world) = Some (status, p', w') \<and> live p' = {})
 \<and> (\<exists>p' w' t. nv_main std_headers (demo_locate 0 0) (demo_lib True 5) (demo_nv 0x14B) [] demo_buffer
     (demo_pool, demo_world) = Some (0x8000000000000015, p', w') \<and> live p' = {t})"
proof -
  have lib: "sapi_keeps_tcti std_headers (demo_lib True 5)" "dispatch_finalizes (demo_lib True 5)"
    by (simp_all add: sapi_keeps_tcti_def dispatch_finalizes_def demo_lib_def)
  note frees = nv_tool_memory [OF demo_env demo_pool_wf demo_lib_ok demo_nv_keeps demo_nv_fits(1)]
    and loses = nv_tool_memory [OF demo_env demo_pool_wf lib demo_nv_keeps demo_nv_fits(1)]
  from demo_sys_init frees [of "0x14B" "[]" demo_world]
  have 1: "\<exists>status p' w'. nv_main std_headers (demo_locate 0 0) (demo_lib True 0) (demo_nv 0x14B) [] demo_buffer
     (demo_pool, demo_world) = Some (status, p', w') \<and> live p' = {}"
    by (fastforce simp: live_def demo_pool_def)
  from demo_sys_alloc loses [of "0x14B" "[]" demo_world]
  have "\<exists>p' w' t c. nv_main std_headers (demo_locate 0 0) (demo_lib True 5) (demo_nv 0x14B) [] demo_buffer
     (demo_pool, demo_world) = Some (0x8000000000000015, p', w')
     \<and> blocks p' = (blocks demo_pool)(t := Some (Tcti_block c))" by fastforce
  then have "\<exists>p' w' t. nv_main std_headers (demo_locate 0 0) (demo_lib True 5) (demo_nv 0x14B) [] demo_buffer
     (demo_pool, demo_world) = Some (0x8000000000000015, p', w') \<and> live p' = {t}"
    by (fastforce simp: live_def demo_pool_def)
  with 1 show ?thesis ..
qed

text \<open>
  The index in the TPM: \<open>defined\<close> reads from the firmware whether the index exists. A
  successful definition creates it, a successful removal removes it, and the other commands
  leave it alone.
\<close>

definition nv_device :: "headers \<Rightarrow> ('fw, 'sys) nv_lib \<Rightarrow> ('fw \<Rightarrow> bool) \<Rightarrow> bool" where
  "nv_device H N defined \<longleftrightarrow>
     (\<forall>sys n r st rc r' st'. Tss2_Sys_GetRandom N sys n r st = (rc, r', st') \<longrightarrow>
        defined (firmware (snd st')) = defined (firmware (snd st)))
   \<and> (\<forall>sys h a d pub st st'. Tss2_Sys_NV_DefineSpace N sys h a d pub st = (TSS2_RC_SUCCESS H, st') \<longrightarrow>
        nvIndex (nvPublic pub) = nv_index \<longrightarrow> defined (firmware (snd st')))
   \<and> (\<forall>sys h i a d off st rc st'. Tss2_Sys_NV_Write N sys h i a d off st = (rc, st') \<longrightarrow>
        defined (firmware (snd st')) = defined (firmware (snd st)))
   \<and> (\<forall>sys h a st st'. Tss2_Sys_NV_UndefineSpace N sys h nv_index a st = (TSS2_RC_SUCCESS H, st') \<longrightarrow>
        \<not> defined (firmware (snd st')))"

lemma nv_device_random:
  "nv_device H N defined \<Longrightarrow> Tss2_Sys_GetRandom N sys n r st = (rc, r', st') \<Longrightarrow>
   defined (firmware (snd st')) = defined (firmware (snd st))"
  by (rule nv_device_def [THEN iffD1, THEN conjunct1, rule_format])

lemma nv_device_define:
  "nv_device H N defined \<Longrightarrow> Tss2_Sys_NV_DefineSpace N sys h a d pub st = (TSS2_RC_SUCCESS H, st') \<Longrightarrow>
   nvIndex (nvPublic pub) = nv_index \<Longrightarrow> defined (firmware (snd st'))"
  by (rule nv_device_def [THEN iffD1, THEN conjunct2, THEN conjunct1, rule_format])

lemma nv_device_write:
  "nv_device H N defined \<Longrightarrow> Tss2_Sys_NV_Write N sys h i a data off st = (rc, st') \<Longrightarrow>
   defined (firmware (snd st')) = defined (firmware (snd st))"
  by (rule nv_device_def [THEN iffD1, THEN conjunct2, THEN conjunct2, THEN conjunct1, rule_format])

lemma nv_device_undefine:
  "nv_device H N defined \<Longrightarrow> Tss2_Sys_NV_UndefineSpace N sys h nv_index a st = (TSS2_RC_SUCCESS H, st') \<Longrightarrow>
   \<not> defined (firmware (snd st'))"
  by (rule nv_device_def [THEN iffD1, THEN conjunct2, THEN conjunct2, THEN conjunct2, rule_format])

lemma say_world [simp]: "fst (say fmt args st) = fst st" "firmware (snd (say fmt args st)) = firmware (snd st)"
  by (simp_all add: say_def)

lemma nv_device_write_retry:
  assumes "nv_device H N defined" "write_with_retry H N sys data st = (rc, st')"
  shows "defined (firmware (snd st')) = defined (firmware (snd st))"
proof -
  obtain rc1 st1 where 1: "Tss2_Sys_NV_Write N sys nv_index nv_index (index_auths N) data 0 st = (rc1, st1)"
    by (metis surj_pair)
  show ?thesis
    using assms(2) nv_device_write [OF assms(1) 1] nv_device_write [OF assms(1), of _ _ _ _ _ _ "say _ _ st1"]
    by (auto simp: write_with_retry_def 1 split: if_splits)
qed

lemma script_success:
  assumes "run_script H ((bad, good, command) # steps) st = (TSS2_RC_SUCCESS H, st2)"
  obtains st1 where "command st = (TSS2_RC_SUCCESS H, st1)"
    "run_script H steps (say good [] st1) = (TSS2_RC_SUCCESS H, st2)"
  using assms by (cases "command st") (auto split: if_splits)

lemma nv_script_undefines:
  assumes dev: "nv_device H N defined"
    and run: "run_script H (nv_script H N sys data r) st = (TSS2_RC_SUCCESS H, st2)"
  shows "\<not> defined (firmware (snd st2))"
proof -
  let ?draw = "\<lambda>st. case Tss2_Sys_GetRandom N sys 32 r st of (rc, _, st) \<Rightarrow> (rc, st)"
  have draw: "defined (firmware (snd st2)) = defined (firmware (snd st1))" if "?draw st1 = (rc, st2)" for st1 rc st2
  proof -
    obtain rc' r' st' where g: "Tss2_Sys_GetRandom N sys 32 r st1 = (rc', r', st')" by (metis surj_pair)
    with that nv_device_random [OF dev g] show ?thesis by simp
  qed
  from run show ?thesis
    unfolding nv_script_def
  proof (elim script_success)
    fix st_a st_b st_c st_d
    assume u: "Tss2_Sys_NV_UndefineSpace N sys (TPM2_RH_OWNER N) nv_index (create_auths N)
        (say ''Tss2_Sys_NV_Write returned TSS2_RC_SUCCESS\<newline>'' [] st_b) = (TSS2_RC_SUCCESS H, st_c)"
      and d: "?draw (say ''Tss2_Sys_NV_UndefineSpace returned TSS2_RC_SUCCESS\<newline>'' [] st_c) = (TSS2_RC_SUCCESS H, st_d)"
      and r: "run_script H [] (say ''Tss2_Sys_GetRandom returned TSS2_RC_SUCCESS\<newline>'' [] st_d) = (TSS2_RC_SUCCESS H, st2)"
    show ?thesis
      using nv_device_undefine [OF dev u] draw [OF d] r by auto
  qed
qed

text \<open>A pool with a TCTI context and a SAPI context that refers to it.\<close>

definition demo_two_contexts :: "nat option pool" where
  "demo_two_contexts = \<lparr>next_handle = 3,
     blocks = (blocks demo_pool)(1 := Some (Tcti_block (fresh_ctx std_headers 200 (replicate 112 0))),
       2 := Some (Sys_block (Some 1)))\<rparr>"

lemma demo_two_usable: "usable std_headers (demo_lib True 0) demo_pool 1 2 demo_two_contexts"
proof -
  have "ctx_wf (fresh_ctx std_headers 200 (replicate 112 0))"
    by (rule fresh_ctx_wf) (simp add: sizeof_ctx_std)
  then show ?thesis
    by (auto simp: usable_def demo_two_contexts_def demo_pool_def demo_lib_def)
qed

text \<open>
  C19. The NV tool removes the index only when everything before it went well: when it
  reports EFI_SUCCESS the index is gone, but when the TPM refuses the write, after the
  definition succeeded, the tool aborts and the index stays defined in the TPM, because the
  cleanup it jumps to does not remove it.
\<close>

theorem nv_failed_write_leaves_index:
  assumes "efi_codes_ok H" "nv_device H N defined" "dispatch_finalizes E"
    and "10 \<le> length buf" "random_fits buf r" "usable H E p t h (fst st2)"
    and "Tss2_Sys_GetRandom N (Some h) 32 \<lparr>digest_size = 32, digest_buffer = rb\<rparr> st = (TSS2_RC_SUCCESS H, r, st1)"
    and "run_script H (nv_script H N (Some h) (nv_data r buf) r)
           (say ''Tss2_Sys_GetRandom returned TSS2_RC_SUCCESS\<newline>'' [] st1) = (rc, st2)"
  shows "\<exists>status st'. nv_body H E N rb buf (Some h) st = Some (status, st')
     \<and> (status = EFI_SUCCESS H \<longrightarrow> \<not> defined (firmware (snd st')))
     \<and> (\<forall>st3 wrc st4. Tss2_Sys_NV_DefineSpace N (Some h) (TPM2_RH_OWNER N) (create_auths N) index_auth
             (index_public H N) (say ''Tss2_Sys_GetRandom returned TSS2_RC_SUCCESS\<newline>'' [] st1) =
             (TSS2_RC_SUCCESS H, st3)
         \<longrightarrow> write_with_retry H N (Some h) (nv_data r buf)
             (say ''Tss2_Sys_NV_DefineSpace returned TSS2_RC_SUCCESS\<newline>'' [] st3) = (wrc, st4)
         \<longrightarrow> wrc \<noteq> TSS2_RC_SUCCESS H
         \<longrightarrow> status = EFI_ABORTED H \<and> defined (firmware (snd st')))"
proof -
  obtain p' where ex: "nv_exit H E (Some h) rc st2 =
      Some (if rc = TSS2_RC_SUCCESS H then EFI_SUCCESS H else EFI_ABORTED H, p', snd st2)"
    by (rule nv_exit_frees [OF assms(6,3)])
  have body: "nv_body H E N rb buf (Some h) st =
      Some (if rc = TSS2_RC_SUCCESS H then EFI_SUCCESS H else EFI_ABORTED H, p', snd st2)"
    using nv_body_script [OF assms(4,7,5), of E] assms(8) ex by simp
  have gone: "\<not> defined (firmware (snd st2))" if "rc = TSS2_RC_SUCCESS H"
    using assms(8) unfolding that by (rule nv_script_undefines [OF assms(2)])
  have left: "rc \<noteq> TSS2_RC_SUCCESS H \<and> defined (firmware (snd st2))"
    if "Tss2_Sys_NV_DefineSpace N (Some h) (TPM2_RH_OWNER N) (create_auths N) index_auth
             (index_public H N) (say ''Tss2_Sys_GetRandom returned TSS2_RC_SUCCESS\<newline>'' [] st1) =
             (TSS2_RC_SUCCESS H, st3)"
      "write_with_retry H N (Some h) (nv_data r buf)
             (say ''Tss2_Sys_NV_DefineSpace returned TSS2_RC_SUCCESS\<newline>'' [] st3) = (wrc, st4)"
      "wrc \<noteq> TSS2_RC_SUCCESS H" for st3 wrc st4
    using assms(8) that nv_device_define [OF assms(2) that(1)] nv_device_write_retry [OF assms(2) that(2)]
    by (auto simp: nv_script_def index_public_def)
  have ne: "EFI_SUCCESS H \<noteq> EFI_ABORTED H" using assms(1) by (auto simp: efi_codes_ok_def)
  show ?thesis
  proof (intro exI conjI allI impI)
    show "nv_body H E N rb buf (Some h) st =
      Some (if rc = TSS2_RC_SUCCESS H then EFI_SUCCESS H else EFI_ABORTED H, p', snd st2)" by (rule body)
  qed (use gone left ne in \<open>auto split: if_splits\<close>)
qed

theorem nv_failed_write_leaves_index_witness:
  "\<exists>st'. nv_body std_headers (demo_lib True 0) (demo_nv 0x14B) [] demo_buffer (Some 2)
       (demo_two_contexts, demo_world) = Some (0x8000000000000015, st') \<and> firmware (snd st') \<noteq> []"
proof -
  let ?N = "demo_nv 0x14B :: (UINT8 list list, nat option) nv_lib"
  let ?st1 = "say ''Tss2_Sys_GetRandom returned TSS2_RC_SUCCESS\<newline>'' [] (demo_two_contexts, demo_world)"
  have random: "Tss2_Sys_GetRandom ?N (Some 2) 32 \<lparr>digest_size = 32, digest_buffer = []\<rparr> (demo_two_contexts, demo_world)
     = (TSS2_RC_SUCCESS std_headers, demo_random, demo_two_contexts, demo_world)"
    by (simp add: demo_nv_def)
  have dev: "nv_device std_headers ?N (\<lambda>f. f \<noteq> [])"
    by (auto simp: nv_device_def demo_nv_def)
  obtain st3 where space: "Tss2_Sys_NV_DefineSpace ?N (Some 2) (TPM2_RH_OWNER ?N) (create_auths ?N) index_auth
      (index_public std_headers ?N) ?st1 = (TSS2_RC_SUCCESS std_headers, st3)" "fst st3 = demo_two_contexts"
    by (simp add: demo_nv_def)
  have refused: "write_with_retry std_headers ?N (Some 2) (nv_data demo_random demo_buffer)
      (say ''Tss2_Sys_NV_DefineSpace returned TSS2_RC_SUCCESS\<newline>'' [] st3) =
      (0x14B, say ''Tss2_Sys_NV_DefineSpace returned TSS2_RC_SUCCESS\<newline>'' [] st3)"
    by (simp add: write_with_retry_def demo_nv_def)
  have run: "run_script std_headers (nv_script std_headers ?N (Some 2) (nv_data demo_random demo_buffer) demo_random) ?st1
      = (0x14B, say ''Failed to Tss2_Sys_NV_Write: 0x%x\<newline>'' [A_num (unat (0x14B :: 32 word))]
           (say ''Tss2_Sys_NV_DefineSpace returned TSS2_RC_SUCCESS\<newline>'' [] st3))"
    using space refused by (simp add: nv_script_def)
  have wf: "10 \<le> length demo_buffer" by (simp add: demo_buffer_def)
  have u: "usable std_headers (demo_lib True 0) demo_pool 1 2
      (fst (say ''Failed to Tss2_Sys_NV_Write: 0x%x\<newline>'' [A_num (unat (0x14B :: 32 word))]
           (say ''Tss2_Sys_NV_DefineSpace returned TSS2_RC_SUCCESS\<newline>'' [] st3)))"
    using demo_two_usable space(2) by simp
  from nv_failed_write_leaves_index [OF std_headers_ok(1) dev demo_lib_ok(2) wf demo_nv_fits(2) u random run]
  obtain status st' where "nv_body std_headers (demo_lib True 0) ?N [] demo_buffer (Some 2)
       (demo_two_contexts, demo_world) = Some (status, st')"
    "status = EFI_ABORTED std_headers \<and> firmware (snd st') \<noteq> []"
    using space refused by fastforce
  then show ?thesis by auto
qed

end
