(* ===== verification/Caps_Fixed.thy ===== *)
theory Caps_Fixed
  imports Nv_App
begin

section \<open>The fixed properties of the TPM: example/tpm2-get-caps-fixed.c\<close>

text \<open>
  The tool asks the TPM for its fixed properties and prints one by one what it knows about
  them. The names of the properties are a datatype, their tags and the calls of tpm2-tss a
  parameter \<open>N\<close>.
\<close>

subsection \<open>The library\<close>

text \<open>The case labels of the \<open>switch\<close>, in its order.\<close>

datatype fixed_pt =
    PT_FAMILY_INDICATOR | PT_LEVEL | PT_REVISION | PT_DAY_OF_YEAR
  | PT_YEAR | PT_MANUFACTURER | PT_VENDOR_STRING_1 | PT_VENDOR_STRING_2
  | PT_VENDOR_STRING_3 | PT_VENDOR_STRING_4 | PT_VENDOR_TPM_TYPE | PT_FIRMWARE_VERSION_1
  | PT_FIRMWARE_VERSION_2 | PT_INPUT_BUFFER | PT_HR_TRANSIENT_MIN | PT_HR_PERSISTENT_MIN
  | PT_HR_LOADED_MIN | PT_ACTIVE_SESSIONS_MAX | PT_PCR_COUNT | PT_PCR_SELECT_MIN
  | PT_CONTEXT_GAP_MAX | PT_NV_COUNTERS_MAX | PT_NV_INDEX_MAX | PT_MEMORY
  | PT_CLOCK_UPDATE | PT_CONTEXT_HASH | PT_CONTEXT_SYM | PT_CONTEXT_SYM_SIZE
  | PT_ORDERLY_COUNT | PT_MAX_COMMAND_SIZE | PT_MAX_RESPONSE_SIZE | PT_MAX_DIGEST
  | PT_MAX_OBJECT_CONTEXT | PT_MAX_SESSION_CONTEXT | PT_PS_FAMILY_INDICATOR | PT_PS_LEVEL
  | PT_PS_REVISION | PT_PS_DAY_OF_YEAR | PT_PS_YEAR | PT_SPLIT_MAX
  | PT_TOTAL_COMMANDS | PT_LIBRARY_COMMANDS | PT_VENDOR_COMMANDS | PT_NV_BUFFER_MAX
  | PT_MODES

record TPMS_TAGGED_PROPERTY =
  tagged_property :: UINT32
  tagged_value :: UINT32

record TPML_TAGGED_TPM_PROPERTY =
  tagged_count :: UINT32
  tpmProperty :: "TPMS_TAGGED_PROPERTY list"

record TPMS_CAPABILITY_DATA =
  capability :: UINT32
  tpmProperties :: TPML_TAGGED_TPM_PROPERTY   \<comment> \<open>the member of the union the tool reads\<close>

record ('fw, 'sys) fixed_lib =
  TPM2_PT :: "fixed_pt \<Rightarrow> UINT32"
  TPM2_PT_FIXED :: UINT32
  TPM2_CAP_TPM_PROPERTIES :: UINT32
  TPM2_MAX_TPM_PROPERTIES :: nat
  TPM2_NO :: UINT8
  TPMA_MODES_FIPS_140_2 :: UINT32
  TPMA_MODES_RESERVED1_MASK :: UINT32
  Tss2_MU_UINT32_Unmarshal :: "UINT8 list \<Rightarrow> size_t \<Rightarrow> UINT32 \<Rightarrow> TSS2_RC \<times> UINT32"
  Tss2_Sys_GetCapability :: "nat option \<Rightarrow> UINT32 \<Rightarrow> UINT32 \<Rightarrow> UINT32 \<Rightarrow> UINT8 \<Rightarrow> TPMS_CAPABILITY_DATA \<Rightarrow>
    ('fw, 'sys) tss_state \<Rightarrow> TSS2_RC \<times> UINT8 \<times> TPMS_CAPABILITY_DATA \<times> ('fw, 'sys) tss_state"

subsection \<open>Printing a property\<close>

text \<open>
  The four bytes of the unmarshalled value, widened. A C char is signed, as on x86-64
  (compilers for aarch64 make it unsigned; the two differ above 0x7F only), and a UEFI
  wchar_t has 16 bits. The result is the static buffer of five.
\<close>

definition get_uint32_as_wchars :: "('fw, 'sys) fixed_lib \<Rightarrow> UINT32 \<Rightarrow> UINT16 list" where
  "get_uint32_as_wchars N value =
     (let bytes = le32 value;
          (value, uintchars) = Tss2_MU_UINT32_Unmarshal N bytes 4 0;
          chars = le32 uintchars in
      map scast chars @ [0])"

text \<open>A C string ends at its first 0.\<close>

definition wide_string :: "UINT16 list \<Rightarrow> print_arg" where
  "wide_string buf = A_wide (takeWhile (\<lambda>c. c \<noteq> 0) buf)"

definition print_tpma_modes :: "('fw, 'sys) fixed_lib \<Rightarrow> UINT32 \<Rightarrow> 'fw world \<Rightarrow> 'fw world" where
  "print_tpma_modes N modes w =
     (let w = Print ''TPM2_PT_MODES:\<newline>  raw: 0x%X\<newline>'' [A_num (unat modes)] w;
          w = (if modes AND TPMA_MODES_FIPS_140_2 N \<noteq> 0
               then Print ''  value: TPMA_MODES_FIPS_140_2\<newline>'' [] w else w) in
      if modes AND TPMA_MODES_RESERVED1_MASK N \<noteq> 0
      then Print ''  value: TPMA_MODES_RESERVED1 (these bits shouldn't be set)\<newline>'' [] w else w)"

text \<open>The format string of each case.\<close>

primrec fixed_format :: "fixed_pt \<Rightarrow> string" where
  "fixed_format PT_FAMILY_INDICATOR = ''TPM2_PT_FAMILY_INDICATOR:\<newline>  raw: 0x08%x\<newline>  value: \"%s\"\<newline>''"
| "fixed_format PT_LEVEL = ''TPM2_PT_LEVEL:\<newline>  value: %d\<newline>''"
| "fixed_format PT_REVISION = ''TPM2_PT_REVISION:\<newline>  value: %.2f\<newline>''"
| "fixed_format PT_DAY_OF_YEAR = ''TPM2_PT_DAY_OF_YEAR:\<newline>  value: 0x%X\<newline>''"
| "fixed_format PT_YEAR = ''TPM2_PT_YEAR:\<newline>  value: 0x%X\<newline>''"
| "fixed_format PT_MANUFACTURER = ''TPM2_PT_MANUFACTURER:\<newline>  raw: 0x%X\<newline>  value: \"%s\"\<newline>''"
| "fixed_format PT_VENDOR_STRING_1 = ''TPM2_PT_VENDOR_STRING_1:\<newline>  raw: 0x%X\<newline>  value: \"%s\"\<newline>''"
| "fixed_format PT_VENDOR_STRING_2 = ''TPM2_PT_VENDOR_STRING_2:\<newline>  raw: 0x%X\<newline>  value: \"%s\"\<newline>''"
| "fixed_format PT_VENDOR_STRING_3 = ''TPM2_PT_VENDOR_STRING_3:\<newline>  raw: 0x%X\<newline>  value: \"%s\"\<newline>''"
| "fixed_format PT_VENDOR_STRING_4 = ''TPM2_PT_VENDOR_STRING_4:\<newline>  raw: 0x%X\<newline>  value: \"%s\"\<newline>''"
| "fixed_format PT_VENDOR_TPM_TYPE = ''TPM2_PT_VENDOR_TPM_TYPE:\<newline>  value: 0x%X\<newline>''"
| "fixed_format PT_FIRMWARE_VERSION_1 = ''TPM2_PT_FIRMWARE_VERSION_1:\<newline>  value: 0x%X\<newline>''"
| "fixed_format PT_FIRMWARE_VERSION_2 = ''TPM2_PT_FIRMWARE_VERSION_2:\<newline>  value: 0x%X\<newline>''"
| "fixed_format PT_INPUT_BUFFER = ''TPM2_PT_INPUT_BUFFER:\<newline>  value: 0x%X\<newline>''"
| "fixed_format PT_HR_TRANSIENT_MIN = ''TPM2_PT_TPM2_HR_TRANSIENT_MIN:\<newline>  value: 0x%X\<newline>''"
| "fixed_format PT_HR_PERSISTENT_MIN = ''TPM2_PT_TPM2_HR_PERSISTENT_MIN:\<newline>  value: 0x%X\<newline>''"
| "fixed_format PT_HR_LOADED_MIN = ''TPM2_PT_HR_LOADED_MIN:\<newline>  value: 0x%X\<newline>''"
| "fixed_format PT_ACTIVE_SESSIONS_MAX = ''TPM2_PT_ACTIVE_SESSIONS_MAX:\<newline>  value: 0x%X\<newline>''"
| "fixed_format PT_PCR_COUNT = ''TPM2_PT_PCR_COUNT:\<newline>  value: 0x%X\<newline>''"
| "fixed_format PT_PCR_SELECT_MIN = ''TPM2_PT_PCR_SELECT_MIN:\<newline>  value: 0x%X\<newline>''"
| "fixed_format PT_CONTEXT_GAP_MAX = ''TPM2_PT_CONTEXT_GAP_MAX:\<newline>  value: 0x%X\<newline>''"
| "fixed_format PT_NV_COUNTERS_MAX = ''TPM2_PT_NV_COUNTERS_MAX:\<newline>  value: 0x%X\<newline>''"
| "fixed_format PT_NV_INDEX_MAX = ''TPM2_PT_NV_INDEX_MAX:\<newline>  value: 0x%X\<newline>''"
| "fixed_format PT_MEMORY = ''TPM2_PT_MEMORY:\<newline>  value: 0x%X\<newline>''"
| "fixed_format PT_CLOCK_UPDATE = ''TPM2_PT_CLOCK_UPDATE:\<newline>  value: 0x%X\<newline>''"
| "fixed_format PT_CONTEXT_HASH = ''TPM2_PT_CONTEXT_HASH:\<newline>  value: 0x%X\<newline>''"
| "fixed_format PT_CONTEXT_SYM = ''TPM2_PT_CONTEXT_SYM:\<newline>  value: 0x%X\<newline>''"
| "fixed_format PT_CONTEXT_SYM_SIZE = ''TPM2_PT_CONTEXT_SYM_SIZE:\<newline>  value: 0x%X\<newline>''"
| "fixed_format PT_ORDERLY_COUNT = ''TPM2_PT_ORDERLY_COUNT:\<newline>  value: 0x%X\<newline>''"
| "fixed_format PT_MAX_COMMAND_SIZE = ''TPM2_PT_MAX_COMMAND_SIZE:\<newline>  value: 0x%X\<newline>''"
| "fixed_format PT_MAX_RESPONSE_SIZE = ''TPM2_PT_MAX_RESPONSE_SIZE:\<newline>  value: 0x%X\<newline>''"
| "fixed_format PT_MAX_DIGEST = ''TPM2_PT_MAX_DIGEST:\<newline>  value: 0x%X\<newline>''"
| "fixed_format PT_MAX_OBJECT_CONTEXT = ''TPM2_PT_MAX_OBJECT_CONTEXT:\<newline>  value: 0x%X\<newline>''"
| "fixed_format PT_MAX_SESSION_CONTEXT = ''TPM2_PT_MAX_SESSION_CONTEXT:\<newline>  value: 0x%X\<newline>''"
| "fixed_format PT_PS_FAMILY_INDICATOR = ''TPM2_PT_PS_FAMILY_INDICATOR:\<newline>  value: 0x%X\<newline>''"
| "fixed_format PT_PS_LEVEL = ''TPM2_PT_PS_LEVEL:\<newline>  value: 0x%X\<newline>''"
| "fixed_format PT_PS_REVISION = ''TPM2_PT_PS_REVISION:\<newline>  value: 0x%X\<newline>''"
| "fixed_format PT_PS_DAY_OF_YEAR = ''TPM2_PT_PS_DAY_OF_YEAR:\<newline>  value: 0x%X\<newline>''"
| "fixed_format PT_PS_YEAR = ''TPM2_PT_PS_YEAR:\<newline>  value: 0x%X\<newline>''"
| "fixed_format PT_SPLIT_MAX = ''TPM2_PT_SPLIT_MAX:\<newline>  value: 0x%X\<newline>''"
| "fixed_format PT_TOTAL_COMMANDS = ''TPM2_PT_TOTAL_COMMANDS:\<newline>  value: 0x%X\<newline>''"
| "fixed_format PT_LIBRARY_COMMANDS = ''TPM2_PT_LIBRARY_COMMANDS:\<newline>  value: 0x%X\<newline>''"
| "fixed_format PT_VENDOR_COMMANDS = ''TPM2_PT_VENDOR_COMMANDS:\<newline>  value: 0x%X\<newline>''"
| "fixed_format PT_NV_BUFFER_MAX = ''TPM2_PT_NV_BUFFER_MAX:\<newline>  value: 0x%X\<newline>''"
| "fixed_format PT_MODES = ''TPM2_PT_MODES:\<newline>  raw: 0x%X\<newline>''"

text \<open>
  The cases that say what the TPM can hold and do, from TPM2_PT_INPUT_BUFFER on: a number,
  but for the last one.
\<close>

definition print_limit :: "('fw, 'sys) fixed_lib \<Rightarrow> fixed_pt \<Rightarrow> UINT32 \<Rightarrow> 'fw world \<Rightarrow> 'fw world" where
  "print_limit N pt value w =
     (case pt of
        PT_MODES \<Rightarrow> print_tpma_modes N value w
      | _ \<Rightarrow> Print (fixed_format pt) [A_num (unat value)] w)"

text \<open>The cases before them say which TPM it is.\<close>

definition print_known :: "('fw, 'sys) fixed_lib \<Rightarrow> fixed_pt \<Rightarrow> UINT32 \<Rightarrow> 'fw world \<Rightarrow> 'fw world" where
  "print_known N pt value w =
     (let chars = wide_string (get_uint32_as_wchars N value);
          text_args = [A_num (unat value), chars] in
      case pt of
        PT_FAMILY_INDICATOR \<Rightarrow> Print (fixed_format pt) text_args w
      | PT_LEVEL \<Rightarrow> Print (fixed_format pt) [A_num (unat value)] w
      | PT_REVISION \<Rightarrow> Print (fixed_format pt) [A_quot (unat value) 100] w
      | PT_DAY_OF_YEAR \<Rightarrow> Print (fixed_format pt) [A_num (unat value)] w
      | PT_YEAR \<Rightarrow> Print (fixed_format pt) [A_num (unat value)] w
      | PT_MANUFACTURER \<Rightarrow> Print (fixed_format pt) text_args w
      | PT_VENDOR_STRING_1 \<Rightarrow> Print (fixed_format pt) text_args w
      | PT_VENDOR_STRING_2 \<Rightarrow> Print (fixed_format pt) text_args w
      | PT_VENDOR_STRING_3 \<Rightarrow> Print (fixed_format pt) text_args w
      | PT_VENDOR_STRING_4 \<Rightarrow> Print (fixed_format pt) text_args w
      | PT_VENDOR_TPM_TYPE \<Rightarrow> Print (fixed_format pt) [A_num (unat value)] w
      | PT_FIRMWARE_VERSION_1 \<Rightarrow> Print (fixed_format pt) [A_num (unat value)] w
      | PT_FIRMWARE_VERSION_2 \<Rightarrow> Print (fixed_format pt) [A_num (unat value)] w
      | _ \<Rightarrow> print_limit N pt value w)"

text \<open>
  The \<open>switch\<close> goes to the case whose label has the property's tag; the labels of a
  \<open>switch\<close> are distinct.
\<close>

definition all_fixed :: "fixed_pt list" where
  "all_fixed = [
     PT_FAMILY_INDICATOR, PT_LEVEL, PT_REVISION, PT_DAY_OF_YEAR,
     PT_YEAR, PT_MANUFACTURER, PT_VENDOR_STRING_1, PT_VENDOR_STRING_2,
     PT_VENDOR_STRING_3, PT_VENDOR_STRING_4, PT_VENDOR_TPM_TYPE, PT_FIRMWARE_VERSION_1,
     PT_FIRMWARE_VERSION_2, PT_INPUT_BUFFER, PT_HR_TRANSIENT_MIN, PT_HR_PERSISTENT_MIN,
     PT_HR_LOADED_MIN, PT_ACTIVE_SESSIONS_MAX, PT_PCR_COUNT, PT_PCR_SELECT_MIN,
     PT_CONTEXT_GAP_MAX, PT_NV_COUNTERS_MAX, PT_NV_INDEX_MAX, PT_MEMORY,
     PT_CLOCK_UPDATE, PT_CONTEXT_HASH, PT_CONTEXT_SYM, PT_CONTEXT_SYM_SIZE,
     PT_ORDERLY_COUNT, PT_MAX_COMMAND_SIZE, PT_MAX_RESPONSE_SIZE, PT_MAX_DIGEST,
     PT_MAX_OBJECT_CONTEXT, PT_MAX_SESSION_CONTEXT, PT_PS_FAMILY_INDICATOR, PT_PS_LEVEL,
     PT_PS_REVISION, PT_PS_DAY_OF_YEAR, PT_PS_YEAR, PT_SPLIT_MAX,
     PT_TOTAL_COMMANDS, PT_LIBRARY_COMMANDS, PT_VENDOR_COMMANDS, PT_NV_BUFFER_MAX,
     PT_MODES]"

lemma all_fixed_complete: "set all_fixed = UNIV" "distinct all_fixed"
proof -
  have "pt \<in> set all_fixed" for pt by (cases pt) (simp_all add: all_fixed_def)
  then show "set all_fixed = UNIV" by blast
  show "distinct all_fixed" by (simp add: all_fixed_def)
qed

text \<open>The list makes the cases an enumeration of the library, so that \<open>\<forall>pt\<close> computes.\<close>

instantiation fixed_pt :: enum
begin

definition enum_fixed_pt :: "fixed_pt list" where
  "enum_fixed_pt = all_fixed"

definition enum_all_fixed_pt :: "(fixed_pt \<Rightarrow> bool) \<Rightarrow> bool" where
  "enum_all_fixed_pt P \<longleftrightarrow> list_all P all_fixed"

definition enum_ex_fixed_pt :: "(fixed_pt \<Rightarrow> bool) \<Rightarrow> bool" where
  "enum_ex_fixed_pt P \<longleftrightarrow> list_ex P all_fixed"

instance
  by standard (simp_all add: enum_fixed_pt_def enum_all_fixed_pt_def enum_ex_fixed_pt_def
      all_fixed_complete list_all_iff list_ex_iff)

end

definition print_property ::
  "('fw, 'sys) fixed_lib \<Rightarrow> UINT32 \<Rightarrow> UINT32 \<Rightarrow> 'fw world \<Rightarrow> 'fw world" where
  "print_property N property value w =
     (case List.find (\<lambda>pt. TPM2_PT N pt = property) all_fixed of
        Some pt \<Rightarrow> print_known N pt value w
      | None \<Rightarrow> Print ''Unknown property: 0x%x\<newline>'' [A_num (unat property)] w)"

primrec dump_from ::
  "('fw, 'sys) fixed_lib \<Rightarrow> TPMS_TAGGED_PROPERTY list \<Rightarrow> nat list \<Rightarrow> 'fw world \<Rightarrow> 'fw world option" where
  "dump_from N properties [] w = Some w"
| "dump_from N properties (i # is) w =
     (if i < length properties then
        dump_from N properties is
          (print_property N (tagged_property (properties ! i)) (tagged_value (properties ! i)) w)
      else None)"

definition dump_tpm_properties_fixed ::
  "('fw, 'sys) fixed_lib \<Rightarrow> TPMS_TAGGED_PROPERTY list \<Rightarrow> size_t \<Rightarrow> 'fw world \<Rightarrow> 'fw world option" where
  "dump_tpm_properties_fixed N properties count w = dump_from N properties [0..<unat count] w"

subsection \<open>The program\<close>

definition zero_capability :: "('fw, 'sys) fixed_lib \<Rightarrow> TPMS_CAPABILITY_DATA" where
  "zero_capability N = \<lparr>capability = 0, tpmProperties = \<lparr>tagged_count = 0,
     tpmProperty = replicate (TPM2_MAX_TPM_PROPERTIES N) \<lparr>tagged_property = 0, tagged_value = 0\<rparr>\<rparr>\<rparr>"

definition caps_fixed_body ::
  "headers \<Rightarrow> ('fw, 'sys) tss_lib \<Rightarrow> ('fw, 'sys) fixed_lib \<Rightarrow> nat option \<Rightarrow>
   ('fw, 'sys) tss_state \<Rightarrow> (EFI_STATUS \<times> ('fw, 'sys) tss_state) option" where
  "caps_fixed_body H E N sys_ctx st = do {
     let (rc, more_data, capability_data, st) = Tss2_Sys_GetCapability N sys_ctx
       (TPM2_CAP_TPM_PROPERTIES N) (TPM2_PT_FIXED N) (TPM2_PT N PT_MODES - TPM2_PT_FIXED N)
       (TPM2_NO N) (zero_capability N) st;
     let st = (if rc \<noteq> TSS2_RC_SUCCESS H
               then say ''Failed to Tss2_Sys_GetCapability: 0x%x\<newline>'' [A_num (unat rc)] st else st);
     let st = say ''Tss2_Sys_GetCapability returned TSS2_RC_SUCCESS\<newline>'' [] st;
     let st = say ''Tss2_Sys_Getcapability has more data: %s\<newline>''
       [A_str (if more_data \<noteq> 0 then ''true'' else ''false'')] st;
     let st = say ''dump_tpm_properties_fixed\<newline>'' [] st;
     w \<leftarrow> dump_tpm_properties_fixed N (tpmProperty (tpmProperties capability_data))
       (ucast (tagged_count (tpmProperties capability_data))) (snd st);
     st \<leftarrow> sys_uefi_teardown_full H E sys_ctx (fst st) w;
     Some (EFI_SUCCESS H, st) }"

definition caps_fixed_main ::
  "headers \<Rightarrow> 'fw locate \<Rightarrow> ('fw, 'sys) tss_lib \<Rightarrow> ('fw, 'sys) fixed_lib \<Rightarrow>
   ('fw, 'sys) tss_state \<Rightarrow> (EFI_STATUS \<times> ('fw, 'sys) tss_state) option" where
  "caps_fixed_main H LibLocateProtocol E N st = do {
     (rc, sys_ctx, p, w) \<leftarrow> sys_uefi_init H LibLocateProtocol E None (fst st) (snd st);
     if rc \<noteq> TSS2_RC_SUCCESS H then Some (EFI_ABORTED H, p, w)
     else caps_fixed_body H E N sys_ctx (p, w) }"

end
