(* ===== verification/Fixed_Contract.thy ===== *)
theory Fixed_Contract
  imports Caps_Fixed Tss2_Contract
begin

section \<open>What the tool for the fixed properties shows\<close>

text \<open>
  The characters packed in a property come out in order; every property is printed once,
  under its own text; and the tool's status says nothing about whether the TPM answered.
\<close>

subsection \<open>Characters\<close>

text \<open>
  The documented behaviour of the unmarshaller: the value of four bytes, the first one the
  most significant. \<open>pack\<close> is how the TPM packs four characters.
\<close>

definition unmarshal_ok :: "headers \<Rightarrow> ('fw, 'sys) fixed_lib \<Rightarrow> bool" where
  "unmarshal_ok H N \<longleftrightarrow> (\<forall>a b c d old. Tss2_MU_UINT32_Unmarshal N [a, b, c, d] 4 old =
     (TSS2_RC_SUCCESS H, word_cat a (word_cat b (word_cat c d :: 16 word) :: 24 word)))"

definition pack :: "UINT8 \<Rightarrow> UINT8 \<Rightarrow> UINT8 \<Rightarrow> UINT8 \<Rightarrow> UINT32" where
  "pack a b c d = word_cat a (word_cat b (word_cat c d :: 16 word) :: 24 word)"

lemma le32_pack: "le32 (pack a b c d) = [d, c, b, a]"
  by (simp add: le32_def pack_def)
    (intro conjI; rule bit_word_eqI; auto simp: bit_word_cat_iff bit_simps)

lemma scast_ascii:
  fixes c :: "8 word"
  assumes "c < 0x80"
  shows "(scast c :: 16 word) = ucast c"
proof (rule bit_word_eqI)
  fix n assume "n < LENGTH(16)"
  have "unat (drop_bit 7 c) = 0"
    using assms by (simp add: unat_drop_bit_eq drop_bit_eq_div word_less_nat_alt unat_div)
  then have "drop_bit 7 c = 0" by (simp add: unat_eq_0)
  then have "\<not> bit c 7" by (simp add: bit_iff_odd_drop_bit)
  then show "bit (scast c :: 16 word) n = bit (ucast c :: 16 word) n"
    by (auto simp: bit_simps min_def not_less le_eq_less_or_eq dest: bit_imp_le_length)
qed

lemma wchars_pack:
  assumes "unmarshal_ok H N"
  shows "get_uint32_as_wchars N (pack a b c d) = [scast a, scast b, scast c, scast d, 0]"
proof -
  have "Tss2_MU_UINT32_Unmarshal N [d, c, b, a] 4 0 = (TSS2_RC_SUCCESS H, pack d c b a)"
    using assms by (simp add: unmarshal_ok_def pack_def)
  then show ?thesis by (simp add: get_uint32_as_wchars_def le32_pack Let_def)
qed

definition demo_fixed :: "TSS2_RC \<Rightarrow> (UINT8 list list, 'sys) fixed_lib" where
  "demo_fixed rc = \<lparr>
     TPM2_PT = (\<lambda>pt. 0x100 + of_nat (length (takeWhile (\<lambda>x. x \<noteq> pt) all_fixed))),
     TPM2_PT_FIXED = 0x100, TPM2_CAP_TPM_PROPERTIES = 6, TPM2_MAX_TPM_PROPERTIES = 127, TPM2_NO = 0,
     TPMA_MODES_FIPS_140_2 = 1, TPMA_MODES_RESERVED1_MASK = 0xFFFFFFFE,
     Tss2_MU_UINT32_Unmarshal = (\<lambda>bytes n old. (0, case bytes of [a, b, c, d] \<Rightarrow> pack a b c d | _ \<Rightarrow> old)),
     Tss2_Sys_GetCapability = (\<lambda>sys cap prop n more d st. (rc, more,
       d\<lparr>tpmProperties := \<lparr>tagged_count = 1, tpmProperty = [\<lparr>tagged_property = 0x105, tagged_value = 0x49424D20\<rparr>]\<rparr>\<rparr>,
       st)) \<rparr>"

lemma demo_unmarshal: "unmarshal_ok std_headers (demo_fixed rc)"
  by (simp add: unmarshal_ok_def demo_fixed_def pack_def)

text \<open>
  C37. Four ASCII characters that the TPM packs into a property come out of
  get_uint32_as_wchars as the same four characters, the first one from the most significant
  byte, and end with a 0. Blanks at either end stay: nothing is trimmed.
\<close>

theorem fixed_chars_round_trip:
  assumes "unmarshal_ok H N" "\<forall>x \<in> {a, b, c, d}. 0 < x \<and> x < 0x80"
  shows "get_uint32_as_wchars N (pack a b c d) = map ucast [a, b, c, d] @ [0]
     \<and> wide_string (get_uint32_as_wchars N (pack a b c d)) = A_wide (map ucast [a, b, c, d])"
proof -
  have nz: "(ucast x :: 16 word) \<noteq> 0" if "0 < x" for x :: "8 word"
  proof
    assume "(ucast x :: 16 word) = 0"
    then have "unat (ucast x :: 16 word) = 0" by simp
    then have "unat x = 0"
      by (simp add: unsigned_ucast_eq take_bit_nat_eq_self order_less_trans [OF unsigned_less])
    with that show False by (simp add: unat_eq_0)
  qed
  from assms(2) show ?thesis
    by (simp add: wchars_pack [OF assms(1)] scast_ascii wide_string_def nz)
qed

theorem fixed_chars_round_trip_witness:
  "wide_string (get_uint32_as_wchars (demo_fixed 0 :: (UINT8 list list, nat option) fixed_lib) (pack 0x49 0x42 0x4D 0x20)) = A_wide [0x49, 0x42, 0x4D, 0x20]"
  using fixed_chars_round_trip [OF demo_unmarshal [where 'a = "nat option"], of "0x49" "0x42" "0x4D" "0x20" 0] by auto

subsection \<open>Properties\<close>

lemma find_fixed:
  assumes "inj (TPM2_PT N)"
  shows "List.find (\<lambda>x. TPM2_PT N x = TPM2_PT N pt) all_fixed = Some pt"
proof -
  have "List.find (\<lambda>x. TPM2_PT N x = TPM2_PT N pt) all_fixed \<noteq> None"
    using all_fixed_complete by (auto simp: find_None_iff)
  then obtain x where x: "List.find (\<lambda>x. TPM2_PT N x = TPM2_PT N pt) all_fixed = Some x" by blast
  then have "TPM2_PT N x = TPM2_PT N pt" by (auto simp: find_Some_iff)
  with assms x show ?thesis by (auto dest: injD)
qed

lemma print_known_property:
  "inj (TPM2_PT N) \<Longrightarrow> print_property N (TPM2_PT N pt) value w = print_known N pt value w"
  by (simp add: print_property_def find_fixed)

lemma print_unknown_property:
  assumes "property \<notin> range (TPM2_PT N)"
  shows "print_property N property value w = Print ''Unknown property: 0x%x\<newline>'' [A_num (unat property)] w"
proof -
  from assms have "List.find (\<lambda>pt. TPM2_PT N pt = property) all_fixed = None"
    by (auto simp: find_None_iff)
  then show ?thesis by (simp add: print_property_def)
qed

text \<open>The first thing a known property prints is its format, with the value as the argument.\<close>

lemma print_known_head:
  "\<exists>args rest. console (print_known N pt value w) = console w @ Printed (fixed_format pt) args # rest"
  by (cases pt) (simp_all add: print_known_def print_limit_def print_tpma_modes_def Let_def)

lemma fixed_formats_distinct: "distinct (map fixed_format all_fixed)"
  by (simp add: all_fixed_def)

lemma fixed_format_inj: "fixed_format a = fixed_format b \<Longrightarrow> a = b"
  using fixed_formats_distinct all_fixed_complete
  by (metis UNIV_I distinct_map inj_onD)

text \<open>
  A property's text tells which property it is: each of the 45 known tags prints its own
  format first, no two known properties print the same first text, and a tag that is none of
  the known ones is reported as unknown with its number and without its value.
\<close>

theorem fixed_property_identified:
  assumes "inj (TPM2_PT N)"
  shows "if property \<in> range (TPM2_PT N)
     then \<exists>pt args rest. property = TPM2_PT N pt
        \<and> console (print_property N property v w) = console w @ Printed (fixed_format pt) args # rest
        \<and> (\<forall>pt'. fixed_format pt' = fixed_format pt \<longrightarrow> pt' = pt)
     else console (print_property N property v w) =
        console w @ [Printed ''Unknown property: 0x%x\<newline>'' [A_num (unat property)]]"
proof (cases "property \<in> range (TPM2_PT N)")
  case True
  then obtain pt where pt: "property = TPM2_PT N pt" by blast
  from print_known_head obtain args rest where
    "console (print_known N pt v w) = console w @ Printed (fixed_format pt) args # rest" by blast
  with pt True fixed_format_inj print_known_property [OF assms] show ?thesis by auto
next
  case False
  with print_unknown_property [OF False, of v w] show ?thesis by simp
qed

lemma demo_tags_inj: "inj (TPM2_PT (demo_fixed rc))"
proof (rule injI)
  fix a b :: fixed_pt
  have below: "length (takeWhile (\<lambda>x. x \<noteq> pt) all_fixed) < 45" for pt
    by (cases pt) (simp_all add: all_fixed_def)
  have at: "all_fixed ! length (takeWhile (\<lambda>x. x \<noteq> pt) all_fixed) = pt" for pt
    by (cases pt) (simp_all add: all_fixed_def)
  assume "TPM2_PT (demo_fixed rc) a = TPM2_PT (demo_fixed rc) b"
  then have "(of_nat (length (takeWhile (\<lambda>x. x \<noteq> a) all_fixed)) :: UINT32) =
      of_nat (length (takeWhile (\<lambda>x. x \<noteq> b) all_fixed))" by (simp add: demo_fixed_def)
  then have "unat (of_nat (length (takeWhile (\<lambda>x. x \<noteq> a) all_fixed)) :: UINT32) =
      unat (of_nat (length (takeWhile (\<lambda>x. x \<noteq> b) all_fixed)) :: UINT32)" by simp
  then have "length (takeWhile (\<lambda>x. x \<noteq> a) all_fixed) = length (takeWhile (\<lambda>x. x \<noteq> b) all_fixed)"
    using below [of a] below [of b] by (simp add: unat_of_nat32)
  then show "a = b" using at by metis
qed

theorem fixed_property_identified_witness:
  "console (print_property (demo_fixed 0 :: (UINT8 list list, nat option) fixed_lib) 0x1FF 7 demo_world) =
     console demo_world @ [Printed ''Unknown property: 0x%x\<newline>'' [A_num 0x1FF]]"
proof -
  let ?N = "demo_fixed 0 :: (UINT8 list list, nat option) fixed_lib"
  have "TPM2_PT ?N pt \<noteq> 0x1FF" for pt
    by (cases pt) (simp_all add: demo_fixed_def all_fixed_def)
  then have "(0x1FF :: UINT32) \<notin> range (TPM2_PT ?N)" by fastforce
  with fixed_property_identified [where N = ?N and property = "0x1FF" and v = 7 and w = demo_world,
      OF demo_tags_inj]
  show ?thesis by simp
qed

subsection \<open>The dump\<close>

lemma dump_from_fold:
  assumes "\<forall>i \<in> set is. i < length properties"
  shows "dump_from N properties is w =
    Some (fold (\<lambda>e. print_property N (tagged_property e) (tagged_value e)) (map ((!) properties) is) w)"
  using assms by (induction "is" arbitrary: w) auto

lemma dump_fold:
  assumes "unat count \<le> length properties"
  shows "dump_tpm_properties_fixed N properties count w =
    Some (fold (\<lambda>e. print_property N (tagged_property e) (tagged_value e)) (take (unat count) properties) w)"
proof -
  have "map ((!) properties) [0..<unat count] = take (unat count) properties"
    using assms by (intro nth_equalityI) auto
  then show ?thesis
    using assms by (simp add: dump_tpm_properties_fixed_def dump_from_fold)
qed

lemma dump_beyond:
  assumes "length properties < unat count"
  shows "dump_tpm_properties_fixed N properties count w = None"
proof -
  have "length properties \<in> set is \<Longrightarrow> dump_from N properties is w = None" for "is" w
    by (induction "is" arbitrary: w) auto
  with assms show ?thesis by (simp add: dump_tpm_properties_fixed_def)
qed

subsection \<open>The tool\<close>

text \<open>What the tool prints between the query and the dump, and the dump.\<close>

definition fixed_report :: "headers \<Rightarrow> TSS2_RC \<Rightarrow> UINT8 \<Rightarrow> 'fw world \<Rightarrow> 'fw world" where
  "fixed_report H rc md w =
     Print ''dump_tpm_properties_fixed\<newline>'' []
      (Print ''Tss2_Sys_Getcapability has more data: %s\<newline>'' [A_str (if md \<noteq> 0 then ''true'' else ''false'')]
        (Print ''Tss2_Sys_GetCapability returned TSS2_RC_SUCCESS\<newline>'' []
          (if rc \<noteq> TSS2_RC_SUCCESS H
           then Print ''Failed to Tss2_Sys_GetCapability: 0x%x\<newline>'' [A_num (unat rc)] w else w)))"

definition dump_entries :: "('fw, 'sys) fixed_lib \<Rightarrow> TPMS_CAPABILITY_DATA \<Rightarrow> 'fw world \<Rightarrow> 'fw world" where
  "dump_entries N cap = fold (\<lambda>e. print_property N (tagged_property e) (tagged_value e))
     (take (unat (tagged_count (tpmProperties cap))) (tpmProperty (tpmProperties cap)))"

lemma caps_fixed_body_run:
  assumes "Tss2_Sys_GetCapability N sys (TPM2_CAP_TPM_PROPERTIES N) (TPM2_PT_FIXED N)
           (TPM2_PT N PT_MODES - TPM2_PT_FIXED N) (TPM2_NO N) (zero_capability N) st = (rc, md, cap, st2)"
    and "unat (tagged_count (tpmProperties cap)) \<le> length (tpmProperty (tpmProperties cap))"
  shows "caps_fixed_body H E N sys st = do {
     st \<leftarrow> sys_uefi_teardown_full H E sys (fst st2) (dump_entries N cap (fixed_report H rc md (snd st2)));
     Some (EFI_SUCCESS H, st) }"
  using assms
  by (cases "rc = TSS2_RC_SUCCESS H")
    (simp_all add: caps_fixed_body_def say_def dump_fold dump_entries_def fixed_report_def)

text \<open>
  C33. Once tpm2-get-caps-fixed has its contexts it always ends with EFI_SUCCESS and prints
  that Tss2_Sys_GetCapability returned TSS2_RC_SUCCESS, also when the line before says that
  it failed. Then it dumps, in order and each once, the properties the answer counts, and it
  frees both contexts.
\<close>

theorem fixed_tool_reports_success:
  assumes "tss_env H L E" "pool_wf p" "sapi_keeps_tcti H E" "dispatch_finalizes E"
    and "sys_uefi_init H L E None p w = Some (TSS2_RC_SUCCESS H, sys, p1, w1)"
    and "Tss2_Sys_GetCapability N sys (TPM2_CAP_TPM_PROPERTIES N) (TPM2_PT_FIXED N)
           (TPM2_PT N PT_MODES - TPM2_PT_FIXED N) (TPM2_NO N) (zero_capability N) (p1, w1) =
         (rc, md, cap, p2, w2)"
    and "\<And>t h. usable H E p t h p1 \<Longrightarrow> usable H E p t h p2"
    and "unat (tagged_count (tpmProperties cap)) \<le> length (tpmProperty (tpmProperties cap))"
  shows "\<exists>p' w' w3. caps_fixed_main H L E N (p, w) = Some (EFI_SUCCESS H, p', w') \<and> blocks p' = blocks p
     \<and> console w3 = console w2
         @ (if rc \<noteq> TSS2_RC_SUCCESS H
            then [Printed ''Failed to Tss2_Sys_GetCapability: 0x%x\<newline>'' [A_num (unat rc)]] else [])
         @ [Printed ''Tss2_Sys_GetCapability returned TSS2_RC_SUCCESS\<newline>'' [],
            Printed ''Tss2_Sys_Getcapability has more data: %s\<newline>''
              [A_str (if md \<noteq> 0 then ''true'' else ''false'')],
            Printed ''dump_tpm_properties_fixed\<newline>'' []]
     \<and> w' = dump_entries N cap w3"
proof -
  from init_usable [OF assms(1-3,5)] obtain t h where u: "sys = Some h" "usable H E p t h p1" by blast
  let ?w3 = "fixed_report H rc md w2"
  from assms(7) [OF u(2)] have u2: "usable H E p t h p2" .
  obtain p' where p': "sys_uefi_teardown_full H E (Some h) p2 (dump_entries N cap ?w3) =
      Some (p', dump_entries N cap ?w3)" "blocks p' = blocks p"
    by (rule usable_teardown [OF u2 assms(4)])
  have "caps_fixed_main H L E N (p, w) = Some (EFI_SUCCESS H, p', dump_entries N cap ?w3)"
    using caps_fixed_body_run [OF assms(6,8), of H E] assms(5) p'(1) u(1) by (simp add: caps_fixed_main_def)
  moreover note p'(2)
  moreover have "console ?w3 = console w2
         @ (if rc \<noteq> TSS2_RC_SUCCESS H
            then [Printed ''Failed to Tss2_Sys_GetCapability: 0x%x\<newline>'' [A_num (unat rc)]] else [])
         @ [Printed ''Tss2_Sys_GetCapability returned TSS2_RC_SUCCESS\<newline>'' [],
            Printed ''Tss2_Sys_Getcapability has more data: %s\<newline>''
              [A_str (if md \<noteq> 0 then ''true'' else ''false'')],
            Printed ''dump_tpm_properties_fixed\<newline>'' []]"
    by (simp add: fixed_report_def)
  ultimately show ?thesis by blast
qed

theorem fixed_tool_reports_success_witness:
  "\<exists>p' w'. caps_fixed_main std_headers (demo_locate 0 0) (demo_lib True 0) (demo_fixed 0x101)
     (demo_pool, demo_world) = Some (0, p', w') \<and> live p' = {}"
proof -
  let ?N = "demo_fixed 0x101 :: (UINT8 list list, nat option) fixed_lib"
  from demo_sys_init obtain sys p1 w1 where
    init: "sys_uefi_init std_headers (demo_locate 0 0) (demo_lib True 0) None demo_pool demo_world =
      Some (TSS2_RC_SUCCESS std_headers, sys, p1, w1)" by blast
  obtain cap where cap: "Tss2_Sys_GetCapability ?N sys (TPM2_CAP_TPM_PROPERTIES ?N) (TPM2_PT_FIXED ?N)
      (TPM2_PT ?N PT_MODES - TPM2_PT_FIXED ?N) (TPM2_NO ?N) (zero_capability ?N) (p1, w1) =
      (0x101, TPM2_NO ?N, cap, p1, w1)"
    "unat (tagged_count (tpmProperties cap)) \<le> length (tpmProperty (tpmProperties cap))"
    by (simp add: demo_fixed_def)
  from fixed_tool_reports_success [OF demo_env demo_pool_wf demo_lib_ok init cap(1) _ cap(2)]
  show ?thesis by (fastforce simp: live_def demo_pool_def)
qed

end
