(* ===== verification/Pcr_Select.thy ===== *)
theory Pcr_Select
  imports Tcg2_Protocol
begin

section \<open>PCR selections: example/util.c\<close>

text \<open>
  The bitmap of selected PCRs, the walk over a list of selections with a callback, and the
  selection of every PCR of the active banks. TPMS_PCR_SELECTION and TPML_PCR_SELECTION
  are structures of tpm2-tss; their arrays are lists, whose lengths are the sizes the
  library declares, and an index outside is undefined (None).
\<close>

record TPMS_PCR_SELECTION =
  hash :: UINT16
  sizeofSelect :: UINT8
  pcrSelect :: "UINT8 list"

record TPML_PCR_SELECTION =
  sel_count :: UINT32
  pcrSelections :: "TPMS_PCR_SELECTION list"

subsection \<open>The bitmap operations\<close>

definition is_pcr_selected :: "UINT8 list \<Rightarrow> UINT8 \<Rightarrow> bool option" where
  "is_pcr_selected pcr_selection pcr =
     (let i = unat (pcr div 8) in
      if i < length pcr_selection
      then Some (pcr_selection ! i AND push_bit (unat (pcr mod 8)) 1 \<noteq> 0) else None)"

definition select_pcr :: "UINT8 list \<Rightarrow> UINT8 \<Rightarrow> UINT8 list option" where
  "select_pcr pcr_selection pcr =
     (let i = unat (pcr div 8) in
      if i < length pcr_selection
      then Some (pcr_selection[i := pcr_selection ! i OR push_bit (unat (pcr mod 8)) 1])
      else None)"

definition deselect_pcr :: "UINT8 list \<Rightarrow> UINT8 \<Rightarrow> UINT8 list option" where
  "deselect_pcr pcr_selection pcr =
     (let i = unat (pcr div 8) in
      if i < length pcr_selection
      then Some (pcr_selection[i := pcr_selection ! i AND NOT (push_bit (unat (pcr mod 8)) 1)])
      else None)"

subsection \<open>The interface of a bitmap\<close>

text \<open>
  A bitmap with room for the numbers below \<open>room\<close>, its three operations partial outside.
  The client's view is the set of its members.
\<close>

locale pcr_set =
  fixes room :: "'a \<Rightarrow> nat"
    and test :: "'a \<Rightarrow> UINT8 \<Rightarrow> bool option"
    and mark :: "'a \<Rightarrow> UINT8 \<Rightarrow> 'a option"
    and unmark :: "'a \<Rightarrow> UINT8 \<Rightarrow> 'a option"
  assumes test_inside: "test a i \<noteq> None \<longleftrightarrow> unat i < room a"
    and mark_inside: "mark a i \<noteq> None \<longleftrightarrow> unat i < room a"
    and unmark_inside: "unmark a i \<noteq> None \<longleftrightarrow> unat i < room a"
    and mark_test: "mark a i = Some a' \<Longrightarrow>
      room a' = room a \<and> test a' j = (if j = i then Some True else test a j)"
    and unmark_test: "unmark a i = Some a' \<Longrightarrow>
      room a' = room a \<and> test a' j = (if j = i then Some False else test a j)"
begin

definition members :: "'a \<Rightarrow> UINT8 set" where
  "members a = {i. test a i = Some True}"

lemma finite_members: "finite (members a)"
  by (rule finite)

lemma members_inside: "i \<in> members a \<Longrightarrow> unat i < room a"
  using test_inside [of a i] by (simp add: members_def)

lemma test_members: "test a i = Some b \<Longrightarrow> b \<longleftrightarrow> i \<in> members a"
  by (auto simp: members_def)

lemma members_mark: "mark a i = Some a' \<Longrightarrow> members a' = insert i (members a)"
  using mark_test [of a i a'] by (auto simp: members_def)

lemma members_unmark: "unmark a i = Some a' \<Longrightarrow> members a' = members a - {i}"
  using unmark_test [of a i a'] by (auto simp: members_def)

lemma card_unmark:
  "unmark a i = Some a' \<Longrightarrow> i \<in> members a \<Longrightarrow> card (members a') < card (members a)"
  using psubset_card_mono [OF finite_members [of a], of "members a'"]
  by (auto simp: members_unmark)

end

lemma byte_index: "unat (i div 8) = unat i div 8" "unat (i mod 8) = unat i mod 8" for i :: UINT8
  by (simp_all add: unat_div unat_mod)

lemma byte_position: "i = j \<longleftrightarrow> unat i div 8 = unat j div 8 \<and> unat i mod 8 = unat j mod 8"
  for i j :: UINT8
  by (metis div_mult_mod_eq word_unat_eq_iff)

lemma test_bit: "(b AND 2 ^ n = 0) \<longleftrightarrow> \<not> bit b n" for b :: "'a::len word"
  by (simp add: and_exp_eq_0_iff_not_bit)

lemma bit_marked:
  fixes b :: UINT8
  assumes "n < 8" "k < 8"
  shows "bit (b OR 2 ^ n) k \<longleftrightarrow> k = n \<or> bit b k"
    and "bit (b AND NOT (2 ^ n)) k \<longleftrightarrow> k \<noteq> n \<and> bit b k"
  using assms by (auto simp: bit_simps)

lemma is_selected_bit:
  "is_pcr_selected s i = (if unat i div 8 < length s then Some (bit (s ! (unat i div 8)) (unat i mod 8))
     else None)"
  by (simp add: is_pcr_selected_def byte_index test_bit Let_def)

interpretation pcr_bitmap: pcr_set "\<lambda>s. 8 * length s" is_pcr_selected select_pcr deselect_pcr
proof unfold_locales
  fix a i
  show "(is_pcr_selected a i \<noteq> None) = (unat i < 8 * length a)"
    "(select_pcr a i \<noteq> None) = (unat i < 8 * length a)"
    "(deselect_pcr a i \<noteq> None) = (unat i < 8 * length a)"
    by (auto simp: is_pcr_selected_def select_pcr_def deselect_pcr_def byte_index Let_def)
next
  fix a i a' j
  assume "select_pcr a i = Some a'"
  then show "8 * length a' = 8 * length a \<and>
      is_pcr_selected a' j = (if j = i then Some True else is_pcr_selected a j)"
    by (auto simp: select_pcr_def is_selected_bit byte_index Let_def nth_list_update bit_marked
        byte_position [of j i] split: if_splits)
next
  fix a i a' j
  assume "deselect_pcr a i = Some a'"
  then show "8 * length a' = 8 * length a \<and>
      is_pcr_selected a' j = (if j = i then Some False else is_pcr_selected a j)"
    by (auto simp: deselect_pcr_def is_selected_bit byte_index Let_def nth_list_update bit_marked
        byte_position [of j i] split: if_splits)
qed

subsection \<open>The walk over a list of selections\<close>

text \<open>
  A callback gets the algorithm, the PCR and the data; it returns whether to go on and the
  data, None where its behaviour is undefined. The inner loop returns whether the whole
  walk goes on. The source counts PCRs in a uint8_t below TPM2_MAX_PCRS, which is 32.
\<close>

type_synonym 'd selection_callback = "UINT16 \<Rightarrow> UINT8 \<Rightarrow> 'd \<Rightarrow> (bool \<times> 'd) option"

primrec foreach_pcr ::
  "'d selection_callback \<Rightarrow> TPMS_PCR_SELECTION \<Rightarrow> nat list \<Rightarrow> 'd \<Rightarrow> (bool \<times> 'd) option" where
  "foreach_pcr callback s [] d = Some (True, d)"
| "foreach_pcr callback s (pcr # pcrs) d = do {
     sel \<leftarrow> is_pcr_selected (pcrSelect s) (of_nat pcr);
     if sel then do {
       (go, d) \<leftarrow> callback (hash s) (of_nat pcr) d;
       if go then foreach_pcr callback s pcrs d else Some (False, d) }
     else foreach_pcr callback s pcrs d }"

primrec foreach_entry ::
  "headers \<Rightarrow> 'd selection_callback \<Rightarrow> TPMS_PCR_SELECTION list \<Rightarrow> nat list \<Rightarrow> 'd \<Rightarrow> 'd option" where
  "foreach_entry H callback entries [] d = Some d"
| "foreach_entry H callback entries (i # is) d =
     (if i < length entries then do {
        (go, d) \<leftarrow> foreach_pcr callback (entries ! i) [0..<TPM2_MAX_PCRS H] d;
        if go then foreach_entry H callback entries is d else Some d }
      else None)"

definition foreach_selection ::
  "headers \<Rightarrow> TPML_PCR_SELECTION \<Rightarrow> 'd selection_callback \<Rightarrow> 'd \<Rightarrow> 'd option" where
  "foreach_selection H pcr_selection callback d =
     foreach_entry H callback (pcrSelections pcr_selection) [0..<unat (sel_count pcr_selection)] d"

subsection \<open>Selecting every PCR of the active banks\<close>

definition count_algs_in_bitmap :: "UINT32 \<Rightarrow> size_t" where
  "count_algs_in_bitmap bitmap =
     fold (\<lambda>i bitcount. bitcount + (ucast (drop_bit i bitmap AND 1))) [0..<4 * 8] 0"

text \<open>The chain of tests: the hash of the next bank, and the banks that are left.\<close>

definition next_bank :: "headers \<Rightarrow> UINT32 \<Rightarrow> UINT16 \<Rightarrow> UINT16 \<times> UINT32" where
  "next_bank H active_banks old =
     (if active_banks AND EFI_TCG2_BOOT_HASH_ALG_SHA1 \<noteq> 0 then
        (TPM2_ALG_SHA1 H, active_banks AND NOT EFI_TCG2_BOOT_HASH_ALG_SHA1)
      else if active_banks AND EFI_TCG2_BOOT_HASH_ALG_SHA256 \<noteq> 0 then
        (TPM2_ALG_SHA256 H, active_banks AND NOT EFI_TCG2_BOOT_HASH_ALG_SHA256)
      else if active_banks AND EFI_TCG2_BOOT_HASH_ALG_SHA384 \<noteq> 0 then
        (TPM2_ALG_SHA384 H, active_banks AND NOT EFI_TCG2_BOOT_HASH_ALG_SHA384)
      else if active_banks AND EFI_TCG2_BOOT_HASH_ALG_SHA512 \<noteq> 0 then
        (TPM2_ALG_SHA512 H, active_banks AND NOT EFI_TCG2_BOOT_HASH_ALG_SHA512)
      else if active_banks AND EFI_TCG2_BOOT_HASH_ALG_SM3_256 \<noteq> 0 then
        (TPM2_ALG_SM3_256 H, active_banks AND NOT EFI_TCG2_BOOT_HASH_ALG_SM3_256)
      else (old, active_banks))"

primrec select_entries ::
  "headers \<Rightarrow> nat list \<Rightarrow> UINT32 \<Rightarrow> TPMS_PCR_SELECTION list \<Rightarrow> TPMS_PCR_SELECTION list option" where
  "select_entries H [] active_banks entries = Some entries"
| "select_entries H (i # is) active_banks entries =
     (if i < length entries \<and> 3 \<le> length (pcrSelect (entries ! i)) then
        let s = entries ! i;
            (h, active_banks) = next_bank H active_banks (hash s);
            s = s\<lparr>sizeofSelect := 3, pcrSelect := replicate 3 0xff @ drop 3 (pcrSelect s), hash := h\<rparr>
        in select_entries H is active_banks (entries[i := s])
      else None)"

definition select_all_active_pcrs ::
  "headers \<Rightarrow> UINT32 \<Rightarrow> TPML_PCR_SELECTION \<Rightarrow> TPML_PCR_SELECTION option" where
  "select_all_active_pcrs H active_banks selections = do {
     let n = (ucast (count_algs_in_bitmap active_banks) :: UINT32);
     entries \<leftarrow> select_entries H [0..<unat n] active_banks (pcrSelections selections);
     Some \<lparr>sel_count = n, pcrSelections = entries\<rparr> }"

subsection \<open>The walk visits exactly the selected pairs\<close>

text \<open>A selection list the library declares: every index the walk uses is inside.\<close>

definition selection_wf :: "headers \<Rightarrow> TPML_PCR_SELECTION \<Rightarrow> bool" where
  "selection_wf H sel \<longleftrightarrow>
     unat (sel_count sel) \<le> length (pcrSelections sel)
   \<and> (\<forall>i < unat (sel_count sel).
        TPM2_MAX_PCRS H \<le> 8 * length (pcrSelect (pcrSelections sel ! i)))"

text \<open>The pairs a selection list stands for, in the order of its entries and then of the PCRs.\<close>

definition entry_pairs :: "headers \<Rightarrow> TPMS_PCR_SELECTION \<Rightarrow> (UINT16 \<times> UINT8) list" where
  "entry_pairs H s = map (\<lambda>pcr. (hash s, of_nat pcr))
     (filter (\<lambda>pcr. bit (pcrSelect s ! (pcr div 8)) (pcr mod 8)) [0..<TPM2_MAX_PCRS H])"

definition selected_pairs :: "headers \<Rightarrow> TPML_PCR_SELECTION \<Rightarrow> (UINT16 \<times> UINT8) list" where
  "selected_pairs H sel =
     concat (map (entry_pairs H) (take (unat (sel_count sel)) (pcrSelections sel)))"

lemma foreach_pcr_visit:
  assumes "\<forall>pcr \<in> set pcrs. pcr < 8 * length (pcrSelect s) \<and> pcr < 256"
  shows "foreach_pcr callback s pcrs d = visit (case_prod callback) (map (\<lambda>pcr. (hash s, of_nat pcr))
     (filter (\<lambda>pcr. bit (pcrSelect s ! (pcr div 8)) (pcr mod 8)) pcrs)) d"
  using assms
proof (induction pcrs arbitrary: d)
  case Nil
  then show ?case by simp
next
  case (Cons pcr pcrs)
  have u: "unat (of_nat pcr :: UINT8) = pcr"
    using Cons.prems by (simp add: unat_of_nat take_bit_nat_eq_self)
  have "pcr div 8 < length (pcrSelect s)" using Cons.prems by auto
  then show ?case
    using Cons by (auto simp: is_selected_bit u split: bind_splits)
qed

lemma foreach_entry_visit:
  assumes "\<forall>i \<in> set is. i < length entries \<and> TPM2_MAX_PCRS H \<le> 8 * length (pcrSelect (entries ! i))"
    and "TPM2_MAX_PCRS H \<le> 255"
  shows "foreach_entry H callback entries is d =
     map_option snd (visit (case_prod callback) (concat (map (\<lambda>i. entry_pairs H (entries ! i)) is)) d)"
  using assms
proof (induction "is" arbitrary: d)
  case Nil
  then show ?case by simp
next
  case (Cons i "is")
  have "foreach_pcr callback (entries ! i) [0..<TPM2_MAX_PCRS H] d =
      visit (case_prod callback) (entry_pairs H (entries ! i)) d" for d
    unfolding entry_pairs_def using Cons.prems by (intro foreach_pcr_visit) auto
  then show ?case
    using Cons by (auto simp: visit_append split: bind_splits)
qed

lemma map_nth_upt: "n \<le> length xs \<Longrightarrow> map (\<lambda>i. f (xs ! i)) [0..<n] = map f (take n xs)"
  by (rule nth_equalityI) auto

text \<open>
  Setting and clearing a PCR in a bitmap changes that PCR and no other, keeps the
  bitmap's length, and works for exactly the PCRs the bitmap has room for; an index
  outside is undefined for all three operations.
\<close>

theorem bitmap_operations:
  "(unat pcr < 8 * length s \<longrightarrow> (\<exists>s1 s2.
       select_pcr s pcr = Some s1 \<and> deselect_pcr s pcr = Some s2
     \<and> length s1 = length s \<and> length s2 = length s
     \<and> (\<forall>j. is_pcr_selected s1 j = (if j = pcr then Some True else is_pcr_selected s j))
     \<and> (\<forall>j. is_pcr_selected s2 j = (if j = pcr then Some False else is_pcr_selected s j))))
 \<and> (\<not> unat pcr < 8 * length s \<longrightarrow>
      is_pcr_selected s pcr = None \<and> select_pcr s pcr = None \<and> deselect_pcr s pcr = None)"
proof (cases "unat pcr < 8 * length s")
  case True
  then obtain s1 s2 where "select_pcr s pcr = Some s1" "deselect_pcr s pcr = Some s2"
    using pcr_bitmap.mark_inside [of s pcr] pcr_bitmap.unmark_inside [of s pcr] by auto
  with True pcr_bitmap.mark_test [of s pcr s1] pcr_bitmap.unmark_test [of s pcr s2] show ?thesis
    by simp
next
  case False
  then show ?thesis
    using pcr_bitmap.test_inside [of s pcr] pcr_bitmap.mark_inside [of s pcr]
      pcr_bitmap.unmark_inside [of s pcr] by auto
qed

theorem bitmap_operations_witness:
  "\<exists>s1. select_pcr [0, 0x80] 9 = Some s1 \<and> is_pcr_selected s1 15 = Some True"
proof -
  have inside: "unat (9 :: UINT8) < 8 * length [0 :: UINT8, 0x80]" by simp
  have "is_pcr_selected [0, 0x80] 15 = Some True"
    by (simp add: is_selected_bit)
  with bitmap_operations [THEN conjunct1, rule_format, OF inside] show ?thesis by fastforce
qed

lemma foreach_selection_visit:
  assumes "selection_wf H sel" "TPM2_MAX_PCRS H \<le> 255"
  shows "foreach_selection H sel callback d =
     map_option snd (visit (case_prod callback) (selected_pairs H sel) d)"
proof -
  have "foreach_entry H callback (pcrSelections sel) [0..<unat (sel_count sel)] d =
      map_option snd (visit (case_prod callback) (concat (map (\<lambda>i. entry_pairs H (pcrSelections sel ! i))
        [0..<unat (sel_count sel)])) d)"
    using assms by (intro foreach_entry_visit) (auto simp: selection_wf_def)
  then show ?thesis
    using assms by (simp add: foreach_selection_def selected_pairs_def selection_wf_def map_nth_upt)
qed

text \<open>
  C27. Walking a selection list calls back for exactly the selected (algorithm, PCR) pairs,
  entry by entry and with rising PCR numbers, once each, until the callback says stop.
\<close>

theorem foreach_selection_visits_selected:
  assumes "selection_wf H sel" "TPM2_MAX_PCRS H \<le> 255"
  shows "foreach_selection H sel callback d =
     map_option snd (visit (case_prod callback) (selected_pairs H sel) d)"
  using assms by (rule foreach_selection_visit)

definition collect :: "(UINT16 \<times> UINT8) list selection_callback" where
  "collect alg pcr seen = Some (True, seen @ [(alg, pcr)])"

lemma visit_collect: "visit (case_prod collect) ps seen = Some (True, seen @ ps)"
  by (induction ps arbitrary: seen) (auto simp: collect_def split: prod.splits)

definition demo_selection :: TPML_PCR_SELECTION where
  "demo_selection = \<lparr>sel_count = 2, pcrSelections =
     [\<lparr>hash = 4, sizeofSelect = 3, pcrSelect = [1, 0, 0x80, 0]\<rparr>,
      \<lparr>hash = 0xB, sizeofSelect = 3, pcrSelect = [0, 2, 0, 0]\<rparr>]\<rparr>"

lemma demo_selection_wf: "selection_wf std_headers demo_selection"
  by (auto simp: selection_wf_def demo_selection_def less_2_cases_iff)

lemma upt_32: "[0..<32] = [0, 1, 2, 3, 4, 5, 6, 7, 8, 9, 10, 11, 12, 13, 14, 15, 16, 17, 18, 19,
    20, 21, 22, 23, 24, 25, 26, 27, 28, 29, 30, 31 :: nat]"
  by (simp add: upt_rec)

lemma demo_selected_pairs:
  "selected_pairs std_headers demo_selection = [(4, 0), (4, 23), (0xB, 9)]"
  by (simp add: selected_pairs_def demo_selection_def entry_pairs_def upt_32 bit_iff_odd)

theorem foreach_selection_visits_selected_witness:
  "foreach_selection std_headers demo_selection collect [] = Some [(4, 0), (4, 23), (0xB, 9)]"
  using foreach_selection_visits_selected [OF demo_selection_wf, of collect "[]"]
  by (simp add: demo_selected_pairs visit_collect collect_def)

subsection \<open>Counting and selecting banks\<close>

lemma bit_as_word: "ucast (drop_bit i (b :: UINT32) AND 1) = (of_bool (bit b i) :: size_t)"
  unfolding and_one_eq mod_2_eq_odd bit_iff_odd_drop_bit by simp

lemma count_fold:
  "fold (\<lambda>i n. n + (ucast (drop_bit i (b :: UINT32) AND 1) :: size_t)) is c =
     c + of_nat (length (filter (bit b) is))"
  by (induction "is" arbitrary: c) (simp_all add: bit_as_word)

lemma count_filter: "count_algs_in_bitmap b = of_nat (length (filter (bit b) [0..<32]))"
  by (simp add: count_algs_in_bitmap_def count_fold)

lemma bits_card: "length (filter (bit b) [0..<32]) = card {i. bit b i}" for b :: UINT32
proof -
  have "card (set (filter (bit b) [0..<32])) = length (filter (bit b) [0..<32])"
    by (rule distinct_card) simp
  moreover have "set (filter (bit b) [0..<32]) = {i. bit b i}"
    using bit_imp_le_length [of b] by auto
  ultimately show ?thesis by simp
qed

lemma count_algs_card:
  "unat (count_algs_in_bitmap b) = card {i. bit b i} \<and> card {i. bit b i} \<le> 32"
proof -
  have "card {i. bit b i} \<le> 32"
    using length_filter_le [of "bit b" "[0..<32]"] by (simp add: bits_card)
  then show ?thesis
    by (simp add: count_filter bits_card unat_of_nat64)
qed

text \<open>The number of algorithms in a bitmap is the number of its set bits.\<close>

theorem count_algs_is_population_count:
  "unat (count_algs_in_bitmap b) = card {i. bit b i} \<and> card {i. bit b i} \<le> 32"
  by (rule count_algs_card)

text \<open>The algorithms of the set bits that the code knows, in the order of the chain.\<close>

definition known_algs :: "headers \<Rightarrow> UINT32 \<Rightarrow> UINT16 list" where
  "known_algs H b = map snd (filter (\<lambda>(k, alg). bit b k)
     [(0, TPM2_ALG_SHA1 H), (1, TPM2_ALG_SHA256 H), (2, TPM2_ALG_SHA384 H), (3, TPM2_ALG_SHA512 H),
      (4, TPM2_ALG_SM3_256 H)])"

lemma mask_bits:
  fixes b :: UINT32
  shows "b AND 1 = 0 \<longleftrightarrow> \<not> bit b 0" "b AND 2 = 0 \<longleftrightarrow> \<not> bit b 1" "b AND 4 = 0 \<longleftrightarrow> \<not> bit b 2"
    "b AND 8 = 0 \<longleftrightarrow> \<not> bit b 3" "b AND 16 = 0 \<longleftrightarrow> \<not> bit b 4"
  using test_bit [of b 0] test_bit [of b 1] test_bit [of b 2] test_bit [of b 3] test_bit [of b 4]
  by simp_all

lemma bank_bits:
  "EFI_TCG2_BOOT_HASH_ALG_SHA1 = 2 ^ 0" "EFI_TCG2_BOOT_HASH_ALG_SHA256 = 2 ^ 1"
  "EFI_TCG2_BOOT_HASH_ALG_SHA384 = 2 ^ 2" "EFI_TCG2_BOOT_HASH_ALG_SHA512 = 2 ^ 3"
  "EFI_TCG2_BOOT_HASH_ALG_SM3_256 = 2 ^ 4"
  by (simp_all add: unfolds)

lemma bit_cleared: "n < 32 \<Longrightarrow> bit (b AND NOT (2 ^ n)) k \<longleftrightarrow> k \<noteq> n \<and> bit b k" for b :: UINT32
  using bit_imp_le_length [of b k] by (auto simp: bit_simps)

lemma next_bank_known:
  "known_algs H (snd (next_bank H b old)) = tl (known_algs H b)
 \<and> fst (next_bank H b old) = (if known_algs H b = [] then old else hd (known_algs H b))"
  unfolding next_bank_def bank_bits test_bit known_algs_def
  by (cases "bit b 0"; cases "bit b 1"; cases "bit b 2"; cases "bit b 3"; cases "bit b 4")
    (simp_all only: filter.simps prod.case bit_cleared if_True if_False simp_thms list.map list.sel
      fst_conv snd_conv list.distinct rel_simps arith_simps one_neq_zero zero_neq_one
      zero_neq_numeral numeral_eq_one_iff one_eq_numeral_iff list.map(1) semiring_norm)

definition bank_entry :: "UINT16 list \<Rightarrow> nat \<Rightarrow> TPMS_PCR_SELECTION \<Rightarrow> TPMS_PCR_SELECTION" where
  "bank_entry algs k s = s\<lparr>sizeofSelect := 3, pcrSelect := replicate 3 0xff @ drop 3 (pcrSelect s),
     hash := (if k < length algs then algs ! k else hash s)\<rparr>"

lemma select_entries_fill:
  assumes "n \<le> length es" "\<forall>s \<in> set es. 3 \<le> length (pcrSelect s)"
  shows "select_entries H [j..<n] b es = Some (map (\<lambda>i. if j \<le> i \<and> i < n
      then bank_entry (known_algs H b) (i - j) (es ! i) else es ! i) [0..<length es])"
  using assms
proof (induction "n - j" arbitrary: j b es)
  case 0
  then have "\<not> (j \<le> i \<and> i < n)" for i by auto
  with 0 show ?case by (simp only: if_False map_nth) simp
next
  case (Suc k)
  then have j: "j < n" by simp
  define s where "s = es ! j"
  define s' where "s' = bank_entry (known_algs H b) 0 s"
  obtain h b' where nb: "next_bank H b (hash s) = (h, b')" by (cases "next_bank H b (hash s)")
  from next_bank_known [of H b "hash s"] nb have tl: "known_algs H b' = tl (known_algs H b)"
    and h: "s' = s\<lparr>sizeofSelect := 3, pcrSelect := replicate 3 0xff @ drop 3 (pcrSelect s), hash := h\<rparr>"
    by (auto simp: s'_def bank_entry_def hd_conv_nth)
  have "3 \<le> length (pcrSelect s)" using Suc.prems j by (simp add: s_def)
  then have "select_entries H [j..<n] b es = select_entries H [Suc j..<n] b' (es[j := s'])"
    using j Suc.prems nb h by (simp add: upt_conv_Cons s_def Let_def)
  also have "\<dots> = Some (map (\<lambda>i. if Suc j \<le> i \<and> i < n
      then bank_entry (known_algs H b') (i - Suc j) (es[j := s'] ! i) else es[j := s'] ! i)
      [0..<length (es[j := s'])])"
  proof (rule Suc.hyps(1))
    show "k = n - Suc j" using Suc.hyps(2) by simp
    show "n \<le> length (es[j := s'])" using Suc.prems by simp
    show "\<forall>s \<in> set (es[j := s']). 3 \<le> length (pcrSelect s)"
      using Suc.prems(2) set_update_subset_insert [of es j s'] h by auto
  qed
  also have "map (\<lambda>i. if Suc j \<le> i \<and> i < n
      then bank_entry (known_algs H b') (i - Suc j) (es[j := s'] ! i) else es[j := s'] ! i)
      [0..<length (es[j := s'])] = map (\<lambda>i. if j \<le> i \<and> i < n
      then bank_entry (known_algs H b) (i - j) (es ! i) else es ! i) [0..<length es]"
  proof (rule nth_equalityI)
    fix i assume "i < length (map (\<lambda>i. if Suc j \<le> i \<and> i < n
      then bank_entry (known_algs H b') (i - Suc j) (es[j := s'] ! i) else es[j := s'] ! i)
      [0..<length (es[j := s'])])"
    moreover have "bank_entry (tl ks) (i - Suc j) s = bank_entry ks (i - j) s" if "j < i" for ks s
      using that by (cases ks) (auto simp: bank_entry_def Suc_diff_Suc nth_Cons' less_diff_conv)
    ultimately show "map (\<lambda>i. if Suc j \<le> i \<and> i < n
      then bank_entry (known_algs H b') (i - Suc j) (es[j := s'] ! i) else es[j := s'] ! i)
      [0..<length (es[j := s'])] ! i = map (\<lambda>i. if j \<le> i \<and> i < n
      then bank_entry (known_algs H b) (i - j) (es ! i) else es ! i) [0..<length es] ! i"
      using j by (auto simp: tl s'_def s_def nth_list_update not_le less_Suc_eq)
  qed simp
  finally show ?case .
qed

lemma select_entries_outside:
  "i \<in> set is \<Longrightarrow> length es \<le> i \<Longrightarrow> select_entries H is b es = None"
  by (induction "is" arbitrary: b es) (auto split: prod.split)

lemma select_all_filled:
  assumes "\<forall>s \<in> set (pcrSelections sel). 3 \<le> length (pcrSelect s)"
    and "card {i. bit b i} \<le> length (pcrSelections sel)"
  shows "select_all_active_pcrs H b sel = Some \<lparr>sel_count = of_nat (card {i. bit b i}),
     pcrSelections = map (\<lambda>i. if i < card {i. bit b i}
       then bank_entry (known_algs H b) i (pcrSelections sel ! i) else pcrSelections sel ! i)
       [0..<length (pcrSelections sel)]\<rparr>"
proof -
  have c: "unat (count_algs_in_bitmap b) = card {i. bit b i}" and le: "card {i. bit b i} \<le> 32"
    using count_algs_card by auto
  then have "unat (ucast (count_algs_in_bitmap b) :: UINT32) = card {i. bit b i}"
    by (simp add: unsigned_ucast_eq take_bit_nat_eq_self)
  moreover from this have "ucast (count_algs_in_bitmap b) = (of_nat (card {i. bit b i}) :: UINT32)"
    by (metis of_nat_unat ucast_id)
  ultimately show ?thesis
    using select_entries_fill [OF assms(2,1), of H 0 b]
    by (simp add: select_all_active_pcrs_def Let_def)
qed

lemma select_all_outside:
  assumes "length (pcrSelections sel) < card {i. bit b i}"
  shows "select_all_active_pcrs H b sel = None"
proof -
  have c: "unat (count_algs_in_bitmap b) = card {i. bit b i}" and le: "card {i. bit b i} \<le> 32"
    using count_algs_card by auto
  then have "unat (ucast (count_algs_in_bitmap b) :: UINT32) = card {i. bit b i}"
    by (simp add: unsigned_ucast_eq take_bit_nat_eq_self)
  then have "select_entries H [0..<unat (ucast (count_algs_in_bitmap b) :: UINT32)] b
      (pcrSelections sel) = None"
    using assms by (intro select_entries_outside [of "length (pcrSelections sel)"]) auto
  then show ?thesis by (simp add: select_all_active_pcrs_def Let_def)
qed

text \<open>
  C28. Selecting all active banks makes one entry per set bit of the bitmap. The entries of
  the known algorithms come first, in the order of their bits; every entry selects PCRs 0
  to 23 and says its bitmap has 3 bytes; entries behind the last one keep what they held. A
  set bit that stands for no known algorithm gives an entry whose hash is whatever the
  array held. When the bitmap has more set bits than the array has entries, the function
  writes outside it (undefined).
\<close>

theorem select_all_active_banks:
  assumes "\<forall>s \<in> set (pcrSelections sel). 3 \<le> length (pcrSelect s)"
  shows "(if card {i. bit b i} \<le> length (pcrSelections sel)
    then \<exists>out. select_all_active_pcrs H b sel = Some out
       \<and> unat (sel_count out) = card {i. bit b i}
       \<and> length (pcrSelections out) = length (pcrSelections sel)
       \<and> (\<forall>i < card {i. bit b i}.
            hash (pcrSelections out ! i) =
              (if i < length (known_algs H b) then known_algs H b ! i else hash (pcrSelections sel ! i))
          \<and> sizeofSelect (pcrSelections out ! i) = 3
          \<and> take 3 (pcrSelect (pcrSelections out ! i)) = [0xff, 0xff, 0xff]
          \<and> drop 3 (pcrSelect (pcrSelections out ! i)) = drop 3 (pcrSelect (pcrSelections sel ! i)))
       \<and> (\<forall>i < length (pcrSelections sel). card {i. bit b i} \<le> i \<longrightarrow>
            pcrSelections out ! i = pcrSelections sel ! i)
    else select_all_active_pcrs H b sel = None)"
proof (cases "card {i. bit b i} \<le> length (pcrSelections sel)")
  case True
  have "unat (of_nat (card {i. bit b i}) :: UINT32) = card {i. bit b i}"
    using count_algs_card [of b] by (intro unat_of_nat32) simp
  with True select_all_filled [OF assms True, of H] show ?thesis
    by (simp add: bank_entry_def numeral_3_eq_3)
next
  case False
  then show ?thesis by (simp add: select_all_outside)
qed

definition demo_zero_selections :: TPML_PCR_SELECTION where
  "demo_zero_selections = \<lparr>sel_count = 0, pcrSelections =
     replicate 16 \<lparr>hash = 0, sizeofSelect = 0, pcrSelect = [0, 0, 0, 0]\<rparr>\<rparr>"

lemma bits_of_5: "card {i. bit (5 :: UINT32) i} = 2"
  unfolding bits_card [symmetric] upt_32 by (simp add: bit_iff_odd)

theorem select_all_active_banks_witness:
  "\<exists>out. select_all_active_pcrs std_headers 5 demo_zero_selections = Some out
     \<and> hash (pcrSelections out ! 1) = 0xC \<and> unat (sel_count out) = 2"
proof -
  have bytes: "\<forall>s \<in> set (pcrSelections demo_zero_selections). 3 \<le> length (pcrSelect s)"
    by (simp add: demo_zero_selections_def)
  have room: "2 \<le> length (pcrSelections demo_zero_selections)" by (simp add: demo_zero_selections_def)
  have algs: "known_algs std_headers 5 = [4, 0xC]" by (simp add: known_algs_def)
  note spec = select_all_active_banks [OF bytes, of 5 std_headers, unfolded bits_of_5 if_P [OF room]]
  then obtain out where
    out: "select_all_active_pcrs std_headers 5 demo_zero_selections = Some out" "unat (sel_count out) = 2"
      "\<forall>i < 2. hash (pcrSelections out ! i) =
         (if i < length (known_algs std_headers 5) then known_algs std_headers 5 ! i
          else hash (pcrSelections demo_zero_selections ! i))"
    by auto
  from out(3) have "hash (pcrSelections out ! 1) = 0xC" by (simp add: algs)
  with out(1,2) show ?thesis by blast
qed

end
