(* ===== verification/Pcrs_App.thy ===== *)
theory Pcrs_App
  imports Pcr_Select Alg_Tables Tss2_Util
begin

section \<open>The PCR tool: example/tpm2-get-pcrs.c\<close>

text \<open>
  The program reads all PCRs of the active banks, a few per TPM2_PCR_Read, until the TPM
  returns none. The digest lists are those of tpm2-tss; their array is a list, and an index
  outside is undefined. The read itself is a library call and a parameter: it gets the
  selection, the old values of the out parameters, the pool and the world.
\<close>

record TPML_DIGEST =
  digest_count :: UINT32
  digest_list :: "TPM2B_DIGEST list"

record callback_data_t =
  digest_i :: size_t
  last_alg :: UINT16
  tpml_digests :: TPML_DIGEST
  pcr_select :: TPML_PCR_SELECTION

type_synonym ('fw, 'sys) pcr_read =
  "nat option \<Rightarrow> TPML_PCR_SELECTION \<Rightarrow> UINT32 \<times> TPML_PCR_SELECTION \<times> TPML_DIGEST \<Rightarrow>
   'sys pool \<times> 'fw world \<Rightarrow>
   TSS2_RC \<times> (UINT32 \<times> TPML_PCR_SELECTION \<times> TPML_DIGEST) \<times> 'sys pool \<times> 'fw world"

subsection \<open>The callback\<close>

text \<open>The loop that clears a PCR in every selection of its bank.\<close>

primrec deselect_entries ::
  "UINT16 \<Rightarrow> UINT8 \<Rightarrow> nat list \<Rightarrow> TPMS_PCR_SELECTION list \<Rightarrow> TPMS_PCR_SELECTION list option" where
  "deselect_entries alg pcr [] entries = Some entries"
| "deselect_entries alg pcr (i # is) entries =
     (if i < length entries then
        let selection = entries ! i in
        if hash selection = alg then do {
          bytes \<leftarrow> deselect_pcr (pcrSelect selection) pcr;
          deselect_entries alg pcr is (entries[i := selection\<lparr>pcrSelect := bytes\<rparr>]) }
        else deselect_entries alg pcr is entries
      else None)"

definition selected_digest_callback ::
  "headers \<Rightarrow> (callback_data_t option \<times> 'fw world) selection_callback" where
  "selected_digest_callback H alg pcr data =
     (case data of
        (None, w) \<Rightarrow> Some (False, (None, Print ''ERROR: cbdata cannot be NULL.\<newline>'' [] w))
      | (Some cbdata, w) \<Rightarrow>
          let i = unat (digest_i cbdata);
              cbdata = cbdata\<lparr>digest_i := digest_i cbdata + 1\<rparr> in
          if i < length (digest_list (tpml_digests cbdata)) then
            let digest = digest_list (tpml_digests cbdata) ! i;
                w = (if get_alg_size H alg \<noteq> ucast (digest_size digest)
                     then Print ''ERROR: algorithm and digest size disagre?\<newline>'' [] w else w);
                (cbdata, w) = (if last_alg cbdata \<noteq> alg
                  then (cbdata\<lparr>last_alg := alg\<rparr>, Print ''PCR bank: %s\<newline>'' [A_str (get_alg_name H alg)] w)
                  else (cbdata, w));
                w = Print ''  PCR: %u\<newline>'' [A_num (unat pcr)] w in
            if unat (digest_size digest) \<le> length (digest_buffer digest) then
              let w = DumpHex 4 0 (take (unat (digest_size digest)) (digest_buffer digest)) w in
              do {
                entries \<leftarrow> deselect_entries alg pcr [0..<unat (sel_count (pcr_select cbdata))]
                  (pcrSelections (pcr_select cbdata));
                let cbdata = cbdata\<lparr>pcr_select := (pcr_select cbdata)\<lparr>pcrSelections := entries\<rparr>\<rparr>;
                Some (if \<not> digest_i cbdata < ucast (digest_count (tpml_digests cbdata)) then False else True,
                  (Some cbdata, w)) }
            else None
          else None)"

subsection \<open>The loop\<close>

text \<open>
  The arrays of a zeroed TPML_PCR_SELECTION and TPML_DIGEST: 16 selections with 4 bytes, 8
  digests with 64 bytes (TPM2_NUM_PCR_BANKS, TPM2_PCR_SELECT_MAX and the like).
\<close>

definition zero_selections :: TPML_PCR_SELECTION where
  "zero_selections = \<lparr>sel_count = 0, pcrSelections =
     replicate 16 \<lparr>hash = 0, sizeofSelect = 0, pcrSelect = replicate 4 0\<rparr>\<rparr>"

definition zero_digests :: TPML_DIGEST where
  "zero_digests = \<lparr>digest_count = 0, digest_list =
     replicate 8 \<lparr>digest_size = 0, digest_buffer = replicate 64 0\<rparr>\<rparr>"

type_synonym ('fw, 'sys) pcrs_state =
  "callback_data_t \<times> UINT32 \<times> TPML_PCR_SELECTION \<times> 'sys pool \<times> 'fw world"

definition pcrs_body ::
  "headers \<Rightarrow> ('fw, 'sys) pcr_read \<Rightarrow> nat option \<Rightarrow> ('fw, 'sys) pcrs_state \<Rightarrow>
   (('fw, 'sys) pcrs_state + nat \<times> 'sys pool \<times> 'fw world) option" where
  "pcrs_body H Tss2_Sys_PCR_Read sys_ctx s =
     (case s of (cbdata, update_count, pcr_select_out, p, w) \<Rightarrow>
        let cbdata = cbdata\<lparr>digest_i := 0, tpml_digests := zero_digests\<rparr>;
            (rc, (update_count, pcr_select_out, digests), p, w) =
              Tss2_Sys_PCR_Read sys_ctx (pcr_select cbdata)
                (update_count, pcr_select_out, tpml_digests cbdata) (p, w);
            cbdata = cbdata\<lparr>tpml_digests := digests\<rparr> in
        if rc \<noteq> TSS2_RC_SUCCESS H then
          Some (Inr (1, p, Print ''ERROR: Tss2_Sys_PCR_Read failed with RC: 0x%PRIx32\<newline>'' [A_num (unat rc)] w))
        else do {
          (cb, w) \<leftarrow> foreach_selection H pcr_select_out (selected_digest_callback H) (Some cbdata, w);
          cbdata \<leftarrow> cb;
          if digest_count (tpml_digests cbdata) > 0
          then Some (Inl (cbdata, update_count, pcr_select_out, p, w))
          else Some (Inr (0, p, w)) })"

definition prettyprint_pcrs_all ::
  "headers \<Rightarrow> ('fw, 'sys) pcr_read \<Rightarrow> nat \<Rightarrow> nat option \<Rightarrow> UINT32 \<Rightarrow> 'sys pool \<Rightarrow> 'fw world \<Rightarrow>
   (('fw, 'sys) pcrs_state, nat \<times> 'sys pool \<times> 'fw world) run" where
  "prettyprint_pcrs_all H Tss2_Sys_PCR_Read fuel sys_ctx active_banks p w =
     (case select_all_active_pcrs H active_banks zero_selections of
        None \<Rightarrow> Undefined
      | Some select \<Rightarrow>
          run_loop fuel (pcrs_body H Tss2_Sys_PCR_Read sys_ctx)
            (\<lparr>digest_i = 0, last_alg = 0, tpml_digests = zero_digests, pcr_select = select\<rparr>,
             0, zero_selections, p, w))"

definition pcrs_main ::
  "headers \<Rightarrow> 'fw locate \<Rightarrow> ('fw, 'sys) tss_lib \<Rightarrow> ('fw, 'sys) pcr_read \<Rightarrow> nat \<Rightarrow> 'sys pool \<Rightarrow> 'fw world \<Rightarrow>
   (('fw, 'sys) pcrs_state, EFI_STATUS \<times> 'sys pool \<times> 'fw world) run" where
  "pcrs_main H LibLocateProtocol E Tss2_Sys_PCR_Read fuel p w =
     (let active_banks = 0;
          (status, tcg2_protocol, w) = tcg2_get_protocol H LibLocateProtocol None w in
      if EFI_ERROR H status then Returned (status, p, w)
      else case tcg2_get_active_pcr_banks H tcg2_protocol active_banks w of
        None \<Rightarrow> Undefined
      | Some (status, active_banks, w) \<Rightarrow>
          if EFI_ERROR H status then Returned (status, p, w)
          else case sys_uefi_init H LibLocateProtocol E None p w of
            None \<Rightarrow> Undefined
          | Some (rc, sys_ctx, p, w) \<Rightarrow>
              if rc \<noteq> TSS2_RC_SUCCESS H then Returned (EFI_ABORTED H, p, w)
              else (case prettyprint_pcrs_all H Tss2_Sys_PCR_Read fuel sys_ctx active_banks p w of
                  Running s \<Rightarrow> Running s
                | Undefined \<Rightarrow> Undefined
                | Returned (n, p, w) \<Rightarrow> Returned (of_nat n, p, w)))"

end
