(* ===== verification/Pcrs_Contract.thy ===== *)
theory Pcrs_Contract
  imports Pcrs_App Log_Rendering Tss2_Contract
begin

section \<open>What the PCR tool promises\<close>

text \<open>
  One round of the loop shows the PCRs the TPM returned and takes exactly them out of the
  selection; with a TPM that answers as TPM2_PCR_Read is specified the loop ends.
\<close>

subsection \<open>Clearing a PCR in a selection list\<close>

definition clear_pcr :: "UINT16 \<Rightarrow> UINT8 \<Rightarrow> TPMS_PCR_SELECTION \<Rightarrow> TPMS_PCR_SELECTION" where
  "clear_pcr alg pcr s =
     (if hash s = alg then s\<lparr>pcrSelect := the (deselect_pcr (pcrSelect s) pcr)\<rparr> else s)"

lemma deselect_entries_map:
  assumes "\<forall>i \<in> set is. i < length es \<and> unat pcr < 8 * length (pcrSelect (es ! i))" "distinct is"
  shows "deselect_entries alg pcr is es =
     Some (map (\<lambda>i. if i \<in> set is then clear_pcr alg pcr (es ! i) else es ! i) [0..<length es])"
  using assms
proof (induction "is" arbitrary: es)
  case Nil
  then show ?case by (simp add: map_nth)
next
  case (Cons i "is")
  let ?es = "es[i := clear_pcr alg pcr (es ! i)]"
  from Cons.prems have i: "i < length es" "unat pcr < 8 * length (pcrSelect (es ! i))" "i \<notin> set is"
    by simp_all
  then obtain bytes where bytes: "deselect_pcr (pcrSelect (es ! i)) pcr = Some bytes"
    using pcr_bitmap.unmark_inside [of "pcrSelect (es ! i)" pcr] by auto
  have "deselect_entries alg pcr (i # is) es = deselect_entries alg pcr is ?es"
    using i bytes by (simp add: clear_pcr_def Let_def)
  also have "\<dots> = Some (map (\<lambda>k. if k \<in> set is then clear_pcr alg pcr (?es ! k) else ?es ! k) [0..<length ?es])"
    using Cons.prems i by (intro Cons.IH) (auto simp: nth_list_update)
  also have "map (\<lambda>k. if k \<in> set is then clear_pcr alg pcr (?es ! k) else ?es ! k) [0..<length ?es] =
      map (\<lambda>k. if k \<in> set (i # is) then clear_pcr alg pcr (es ! k) else es ! k) [0..<length es]"
    using i by (auto simp: nth_list_update intro!: map_cong)
  finally show ?case .
qed

lemma of_nat_pcr: "n < 256 \<Longrightarrow> unat (of_nat n :: UINT8) = n"
  by (simp add: unat_of_nat take_bit_nat_eq_self)

lemma cleared_pairs:
  assumes "TPM2_MAX_PCRS H \<le> 255" "TPM2_MAX_PCRS H \<le> 8 * length (pcrSelect s)"
    and "unat pcr < 8 * length (pcrSelect s)"
  shows "entry_pairs H (clear_pcr alg pcr s) = filter (\<lambda>x. x \<noteq> (alg, pcr)) (entry_pairs H s)"
    and "length (pcrSelect (clear_pcr alg pcr s)) = length (pcrSelect s)"
proof -
  obtain bytes where bytes: "deselect_pcr (pcrSelect s) pcr = Some bytes"
    using assms(3) pcr_bitmap.unmark_inside [of "pcrSelect s" pcr] by auto
  from pcr_bitmap.unmark_test [OF this] have len: "length bytes = length (pcrSelect s)"
    and test: "is_pcr_selected bytes j = (if j = pcr then Some False else is_pcr_selected (pcrSelect s) j)" for j
    by auto
  show "length (pcrSelect (clear_pcr alg pcr s)) = length (pcrSelect s)"
    by (simp add: clear_pcr_def bytes len)
  have bit: "bit (bytes ! (q div 8)) (q mod 8) \<longleftrightarrow>
      of_nat q \<noteq> pcr \<and> bit (pcrSelect s ! (q div 8)) (q mod 8)" if "q < TPM2_MAX_PCRS H" for q
  proof -
    have "unat (of_nat q :: UINT8) = q" using that assms(1) by (intro of_nat_pcr) simp
    moreover have "q div 8 < length (pcrSelect s)" using that assms(2) by auto
    ultimately show ?thesis
      using test [of "of_nat q"] len by (auto simp: is_selected_bit split: if_splits)
  qed
  show "entry_pairs H (clear_pcr alg pcr s) = filter (\<lambda>x. x \<noteq> (alg, pcr)) (entry_pairs H s)"
  proof (cases "hash s = alg")
    case True
    have "filter (\<lambda>q. bit (bytes ! (q div 8)) (q mod 8)) [0..<TPM2_MAX_PCRS H] =
        filter (\<lambda>q. of_nat q \<noteq> pcr \<and> bit (pcrSelect s ! (q div 8)) (q mod 8)) [0..<TPM2_MAX_PCRS H]"
      by (rule filter_cong) (simp_all add: bit)
    with True show ?thesis
      by (simp add: entry_pairs_def clear_pcr_def bytes filter_map comp_def conj_commute)
  next
    case False
    then show ?thesis
      by (simp add: entry_pairs_def clear_pcr_def filter_map comp_def)
  qed
qed

lemma deselect_selection:
  assumes "selection_wf H sel" "TPM2_MAX_PCRS H \<le> 255" "unat pcr < TPM2_MAX_PCRS H"
  obtains es where "deselect_entries alg pcr [0..<unat (sel_count sel)] (pcrSelections sel) = Some es"
    "selection_wf H (sel\<lparr>pcrSelections := es\<rparr>)"
    "selected_pairs H (sel\<lparr>pcrSelections := es\<rparr>) = filter (\<lambda>x. x \<noteq> (alg, pcr)) (selected_pairs H sel)"
proof -
  let ?n = "unat (sel_count sel)" and ?es = "pcrSelections sel"
  define es where "es = map (\<lambda>i. if i \<in> set [0..<?n] then clear_pcr alg pcr (?es ! i) else ?es ! i)
    [0..<length ?es]"
  have n: "?n \<le> length ?es" and room: "\<forall>i < ?n. TPM2_MAX_PCRS H \<le> 8 * length (pcrSelect (?es ! i))"
    using assms(1) by (simp_all add: selection_wf_def)
  have inside: "i < ?n \<Longrightarrow> unat pcr < 8 * length (pcrSelect (?es ! i))" for i
    using room assms(3) by (meson order_less_le_trans)
  have run: "deselect_entries alg pcr [0..<?n] ?es = Some es"
    unfolding es_def using n inside by (intro deselect_entries_map) auto
  have wf: "selection_wf H (sel\<lparr>pcrSelections := es\<rparr>)"
    unfolding es_def using n room inside cleared_pairs(2) [OF assms(2)] by (simp add: selection_wf_def)
  have take: "take ?n es = map (clear_pcr alg pcr) (take ?n ?es)"
    unfolding es_def using n by (intro nth_equalityI) auto
  have "\<forall>s \<in> set (take ?n ?es). entry_pairs H (clear_pcr alg pcr s) =
      filter (\<lambda>x. x \<noteq> (alg, pcr)) (entry_pairs H s)"
    using cleared_pairs(1) [OF assms(2)] room inside n by (auto simp: in_set_conv_nth)
  then have "selected_pairs H (sel\<lparr>pcrSelections := es\<rparr>) =
      filter (\<lambda>x. x \<noteq> (alg, pcr)) (selected_pairs H sel)"
    by (simp add: selected_pairs_def take filter_concat comp_def cong: map_cong)
  with run wf that show ?thesis by blast
qed

subsection \<open>One round\<close>

text \<open>The calls that show the PCRs of a round, with a line for a bank when it changes.\<close>

fun pcr_lines :: "headers \<Rightarrow> UINT16 \<Rightarrow> ((UINT16 \<times> UINT8) \<times> TPM2B_DIGEST) list \<Rightarrow> call list" where
  "pcr_lines H bank [] = []"
| "pcr_lines H bank (((alg, pcr), d) # rest) =
     (if get_alg_size H alg \<noteq> ucast (digest_size d)
      then [Printed ''ERROR: algorithm and digest size disagre?\<newline>'' []] else [])
     @ (if bank \<noteq> alg then [Printed ''PCR bank: %s\<newline>'' [A_str (get_alg_name H alg)]] else [])
     @ [Printed ''  PCR: %u\<newline>'' [A_num (unat pcr)],
        Dumped 4 0 (take (unat (digest_size d)) (digest_buffer d))]
     @ pcr_lines H alg rest"

text \<open>The bank of the last PCR shown.\<close>

definition bank_after :: "UINT16 \<Rightarrow> (UINT16 \<times> UINT8) list \<Rightarrow> UINT16" where
  "bank_after bank ps = (if ps = [] then bank else fst (List.last ps))"

lemma bank_after_simps [simp]:
  "bank_after bank [] = bank" "bank_after bank (x # ps) = bank_after (fst x) ps"
  "bank_after bank (ps @ qs) = bank_after (bank_after bank ps) qs"
  by (simp_all add: bank_after_def)

text \<open>A digest list the library returns: the count and the sizes are inside the arrays.\<close>

definition digests_wf :: "TPML_DIGEST \<Rightarrow> bool" where
  "digests_wf dg \<longleftrightarrow> unat (digest_count dg) \<le> length (digest_list dg)
     \<and> (\<forall>d \<in> set (digest_list dg). unat (digest_size d) \<le> length (digest_buffer d))"

lemma callback_step:
  assumes "TPM2_MAX_PCRS H \<le> 255" "selection_wf H (pcr_select cb)" "unat pcr < TPM2_MAX_PCRS H"
    and "digests_wf (tpml_digests cb)" "digest_i cb = of_nat k" "k < unat (digest_count (tpml_digests cb))"
  obtains cb' where
    "selected_digest_callback H alg pcr (Some cb, w) =
       Some (Suc k < unat (digest_count (tpml_digests cb)), (Some cb',
         emit (pcr_lines H (last_alg cb) [((alg, pcr), digest_list (tpml_digests cb) ! k)]) w))"
    "digest_i cb' = of_nat (Suc k)" "tpml_digests cb' = tpml_digests cb" "last_alg cb' = alg"
    "selection_wf H (pcr_select cb')"
    "selected_pairs H (pcr_select cb') = filter (\<lambda>x. x \<noteq> (alg, pcr)) (selected_pairs H (pcr_select cb))"
proof -
  let ?dg = "tpml_digests cb" and ?d = "digest_list (tpml_digests cb) ! k"
  from deselect_selection [OF assms(2,1,3), of alg] obtain es where
    es: "deselect_entries alg pcr [0..<unat (sel_count (pcr_select cb))] (pcrSelections (pcr_select cb)) = Some es"
    "selection_wf H (pcr_select cb\<lparr>pcrSelections := es\<rparr>)"
    "selected_pairs H (pcr_select cb\<lparr>pcrSelections := es\<rparr>) =
      filter (\<lambda>x. x \<noteq> (alg, pcr)) (selected_pairs H (pcr_select cb))" by blast
  have "unat (digest_count ?dg) < 4294967296" by (rule unat_lt32)
  with assms(5,6) have i: "unat (digest_i cb) = k" "unat (digest_i cb + 1) = Suc k"
    using unat_of_nat64 [of k] unat_of_nat64 [of "Suc k"] by (simp_all add: add.commute)
  have k: "k < length (digest_list ?dg)" and d: "unat (digest_size ?d) \<le> length (digest_buffer ?d)"
    using assms(4,6) by (auto simp: digests_wf_def)
  have go: "digest_i cb + 1 < ucast (digest_count ?dg) \<longleftrightarrow> Suc k < unat (digest_count ?dg)"
    by (simp add: word_less_nat_alt i)
  show ?thesis
    using that [of "cb\<lparr>digest_i := digest_i cb + 1, last_alg := alg,
        pcr_select := pcr_select cb\<lparr>pcrSelections := es\<rparr>\<rparr>"] es i k d go assms(5)
    by (simp add: selected_digest_callback_def emit_calls Let_def algebra_simps split: if_splits)
qed

lemma visit_round:
  assumes "TPM2_MAX_PCRS H \<le> 255"
    and "selection_wf H (pcr_select cb)" "\<forall>x \<in> set ps. unat (snd x) < TPM2_MAX_PCRS H"
    and "digests_wf (tpml_digests cb)" "digest_i cb = of_nat k"
    and "unat (digest_count (tpml_digests cb)) = k + length ps"
  shows "\<exists>go cb'. visit (case_prod (selected_digest_callback H)) ps (Some cb, w) =
       Some (go, (Some cb', emit (pcr_lines H (last_alg cb)
         (zip ps (drop k (digest_list (tpml_digests cb))))) w))
     \<and> tpml_digests cb' = tpml_digests cb \<and> selection_wf H (pcr_select cb')
     \<and> selected_pairs H (pcr_select cb') = filter (\<lambda>x. x \<notin> set ps) (selected_pairs H (pcr_select cb))
     \<and> last_alg cb' = bank_after (last_alg cb) ps"
  using assms(2-6)
proof (induction ps arbitrary: cb k w)
  case Nil
  then show ?case by auto
next
  case (Cons x ps)
  obtain alg pcr where x: "x = (alg, pcr)" by (cases x)
  let ?dg = "tpml_digests cb"
  from Cons.prems have k: "k < unat (digest_count ?dg)" "unat pcr < TPM2_MAX_PCRS H"
    by (simp_all add: x)
  then have kl: "k < length (digest_list ?dg)"
    using Cons.prems(3) by (simp add: digests_wf_def)
  from callback_step [OF assms(1) Cons.prems(1) k(2) Cons.prems(3,4) k(1), of alg w] obtain cb' where
    cb': "selected_digest_callback H alg pcr (Some cb, w) =
       Some (Suc k < unat (digest_count ?dg), (Some cb',
         emit (pcr_lines H (last_alg cb) [((alg, pcr), digest_list ?dg ! k)]) w))"
    "digest_i cb' = of_nat (Suc k)" "tpml_digests cb' = ?dg" "last_alg cb' = alg"
    "selection_wf H (pcr_select cb')"
    "selected_pairs H (pcr_select cb') = filter (\<lambda>x. x \<noteq> (alg, pcr)) (selected_pairs H (pcr_select cb))"
    by blast
  have drop: "drop k (digest_list ?dg) = digest_list ?dg ! k # drop (Suc k) (digest_list ?dg)"
    using kl by (rule Cons_nth_drop_Suc [symmetric])
  show ?case
  proof (cases ps)
    case Nil
    with Cons.prems cb' show ?thesis
      by (auto simp: x drop)
  next
    case (Cons y ys)
    with Cons.prems(5) have go: "Suc k < unat (digest_count ?dg)" by simp
    let ?w = "emit (pcr_lines H (last_alg cb) [((alg, pcr), digest_list ?dg ! k)]) w"
    have "\<exists>go cb''. visit (case_prod (selected_digest_callback H)) ps (Some cb', ?w) =
        Some (go, (Some cb'', emit (pcr_lines H (last_alg cb')
          (zip ps (drop (Suc k) (digest_list (tpml_digests cb'))))) ?w))
      \<and> tpml_digests cb'' = tpml_digests cb' \<and> selection_wf H (pcr_select cb'')
      \<and> selected_pairs H (pcr_select cb'') = filter (\<lambda>x. x \<notin> set ps) (selected_pairs H (pcr_select cb'))
      \<and> last_alg cb'' = bank_after (last_alg cb') ps"
      using Cons.prems cb' by (intro Cons.IH) auto
    then show ?thesis
      using cb' go by (auto simp: x drop intro: filter_cong)
  qed
qed

lemma pairs_below:
  assumes "TPM2_MAX_PCRS H \<le> 255" "x \<in> set (selected_pairs H sel)"
  shows "unat (snd x) < TPM2_MAX_PCRS H"
  using assms by (auto simp: selected_pairs_def entry_pairs_def of_nat_pcr)

lemma round_runs:
  assumes "TPM2_MAX_PCRS H \<le> 255" "selection_wf H (pcr_select cb)"
    and "pcr_read sys (pcr_select cb) (uc, pso, zero_digests) (p, w) =
      (TSS2_RC_SUCCESS H, (uc', pso', dg), p', w')"
    and "selection_wf H pso'" "digests_wf dg" "length (selected_pairs H pso') = unat (digest_count dg)"
  obtains cb' where
    "pcrs_body H pcr_read sys (cb, uc, pso, p, w) =
       (let w'' = emit (pcr_lines H (last_alg cb) (zip (selected_pairs H pso') (digest_list dg))) w' in
        if digest_count dg > 0 then Some (Inl (cb', uc', pso', p', w'')) else Some (Inr (0, p', w'')))"
    "selection_wf H (pcr_select cb')"
    "selected_pairs H (pcr_select cb') =
       filter (\<lambda>x. x \<notin> set (selected_pairs H pso')) (selected_pairs H (pcr_select cb))"
    "last_alg cb' = bank_after (last_alg cb) (selected_pairs H pso')"
proof -
  let ?cb = "cb\<lparr>digest_i := 0, tpml_digests := dg\<rparr>"
  have "\<exists>go cb'. visit (case_prod (selected_digest_callback H)) (selected_pairs H pso') (Some ?cb, w') =
       Some (go, (Some cb', emit (pcr_lines H (last_alg ?cb)
         (zip (selected_pairs H pso') (drop 0 (digest_list (tpml_digests ?cb))))) w'))
     \<and> tpml_digests cb' = tpml_digests ?cb \<and> selection_wf H (pcr_select cb')
     \<and> selected_pairs H (pcr_select cb') =
         filter (\<lambda>x. x \<notin> set (selected_pairs H pso')) (selected_pairs H (pcr_select ?cb))
     \<and> last_alg cb' = bank_after (last_alg ?cb) (selected_pairs H pso')"
    using assms pairs_below by (intro visit_round) auto
  then obtain go cb' where cb':
    "visit (case_prod (selected_digest_callback H)) (selected_pairs H pso') (Some ?cb, w') =
       Some (go, (Some cb', emit (pcr_lines H (last_alg cb) (zip (selected_pairs H pso') (digest_list dg))) w'))"
    "tpml_digests cb' = dg" "selection_wf H (pcr_select cb')"
    "selected_pairs H (pcr_select cb') =
       filter (\<lambda>x. x \<notin> set (selected_pairs H pso')) (selected_pairs H (pcr_select cb))"
    "last_alg cb' = bank_after (last_alg cb) (selected_pairs H pso')"
    by auto
  have "foreach_selection H pso' (selected_digest_callback H) (Some ?cb, w') =
      Some (Some cb', emit (pcr_lines H (last_alg cb) (zip (selected_pairs H pso') (digest_list dg))) w')"
    using foreach_selection_visit [OF assms(4,1), of "selected_digest_callback H" "(Some ?cb, w')"] cb'(1)
    by simp
  with that [of cb'] cb' assms(3) show ?thesis
    by (simp add: pcrs_body_def Let_def)
qed

text \<open>
  What TPM2_PCR_Read promises of a successful answer: a well-formed selection of PCRs that
  were asked for, and one digest for each of them.
\<close>

definition tpm_reads_ok :: "headers \<Rightarrow> ('fw, 'sys) pcr_read \<Rightarrow> bool" where
  "tpm_reads_ok H pcr_read \<longleftrightarrow> (\<forall>sys sel out st uc pso dg st'.
     pcr_read sys sel out st = (TSS2_RC_SUCCESS H, (uc, pso, dg), st') \<longrightarrow>
       selection_wf H pso \<and> digests_wf dg
     \<and> set (selected_pairs H pso) \<subseteq> set (selected_pairs H sel)
     \<and> length (selected_pairs H pso) = unat (digest_count dg))"

lemma tpm_reads_okD:
  assumes "tpm_reads_ok H pcr_read"
    and "pcr_read sys sel out st = (TSS2_RC_SUCCESS H, (uc, pso, dg), st')"
  shows "selection_wf H pso" "digests_wf dg" "length (selected_pairs H pso) = unat (digest_count dg)"
    "set (selected_pairs H pso) \<subseteq> set (selected_pairs H sel)"
  using assms(1) [unfolded tpm_reads_ok_def, rule_format, OF assms(2)] by simp_all

text \<open>
  C13. One round of the PCR loop with a successful read: every PCR of the answer is shown with
  its digest, in order, with a line whenever the bank changes and a complaint when a digest
  has the wrong size; exactly the PCRs shown leave the selection; and the loop goes on
  exactly when the answer was not empty.
\<close>

theorem pcr_round:
  assumes "TPM2_MAX_PCRS H \<le> 255" "selection_wf H (pcr_select cb)" "tpm_reads_ok H pcr_read"
    and "pcr_read sys (pcr_select cb) (uc, pso, zero_digests) (p, w) =
      (TSS2_RC_SUCCESS H, (uc', pso', dg), p', w')"
  shows "\<exists>cb' w''. w'' = emit (pcr_lines H (last_alg cb) (zip (selected_pairs H pso') (digest_list dg))) w'
     \<and> pcrs_body H pcr_read sys (cb, uc, pso, p, w) =
         (if digest_count dg > 0 then Some (Inl (cb', uc', pso', p', w'')) else Some (Inr (0, p', w'')))
     \<and> selected_pairs H (pcr_select cb') =
         filter (\<lambda>x. x \<notin> set (selected_pairs H pso')) (selected_pairs H (pcr_select cb))
     \<and> selection_wf H (pcr_select cb')"
proof -
  note ok = tpm_reads_okD [where pcr_read = pcr_read, OF assms(3,4)]
  show ?thesis
  proof (rule round_runs [where pcr_read = pcr_read, OF assms(1,2,4) ok(1-3)])
    fix cb'
    assume "pcrs_body H pcr_read sys (cb, uc, pso, p, w) =
       (let w'' = emit (pcr_lines H (last_alg cb) (zip (selected_pairs H pso') (digest_list dg))) w' in
        if digest_count dg > 0 then Some (Inl (cb', uc', pso', p', w'')) else Some (Inr (0, p', w'')))"
      "selection_wf H (pcr_select cb')"
      "selected_pairs H (pcr_select cb') =
       filter (\<lambda>x. x \<notin> set (selected_pairs H pso')) (selected_pairs H (pcr_select cb))"
    then show ?thesis
      unfolding Let_def by (intro exI [of _ cb'] exI conjI refl) simp_all
  qed
qed

subsection \<open>The loop ends\<close>

lemma selected_pairs_bound: "length (selected_pairs H sel) \<le> unat (sel_count sel) * TPM2_MAX_PCRS H"
proof -
  have one: "length (entry_pairs H s) \<le> TPM2_MAX_PCRS H" for s
    using length_filter_le [of _ "[0..<TPM2_MAX_PCRS H]"] by (simp add: entry_pairs_def)
  have "length (concat (map (entry_pairs H) xs)) \<le> length xs * TPM2_MAX_PCRS H" for xs
    by (induction xs) (use one in \<open>auto intro: add_mono\<close>)
  then have "length (selected_pairs H sel) \<le>
      length (take (unat (sel_count sel)) (pcrSelections sel)) * TPM2_MAX_PCRS H"
    unfolding selected_pairs_def .
  also have "\<dots> \<le> unat (sel_count sel) * TPM2_MAX_PCRS H" by (intro mult_right_mono) auto
  finally show ?thesis .
qed

lemma round_progress:
  assumes "TPM2_MAX_PCRS H \<le> 255" "tpm_reads_ok H pcr_read" "selection_wf H (pcr_select cb)"
  shows "(\<exists>r. pcrs_body H pcr_read sys (cb, uc, pso, p, w) = Some (Inr r) \<and> fst r \<le> 1)
     \<or> (\<exists>s'. pcrs_body H pcr_read sys (cb, uc, pso, p, w) = Some (Inl s')
          \<and> selection_wf H (pcr_select (fst s'))
          \<and> length (selected_pairs H (pcr_select (fst s'))) < length (selected_pairs H (pcr_select cb)))"
proof -
  obtain rc uc' pso' dg p' w' where
    read: "pcr_read sys (pcr_select cb) (uc, pso, zero_digests) (p, w) = (rc, (uc', pso', dg), p', w')"
    by (metis prod.exhaust)
  show ?thesis
  proof (cases "rc = TSS2_RC_SUCCESS H")
    case False
    with read show ?thesis by (simp add: pcrs_body_def Let_def)
  next
    case True
    with read have read': "pcr_read sys (pcr_select cb) (uc, pso, zero_digests) (p, w) =
        (TSS2_RC_SUCCESS H, (uc', pso', dg), p', w')" by simp
    note ok = tpm_reads_okD [where pcr_read = pcr_read, OF assms(2) read']
    from round_runs [where pcr_read = pcr_read, OF assms(1,3) read' ok(1-3)] obtain cb' where
      body: "pcrs_body H pcr_read sys (cb, uc, pso, p, w) =
         (let w'' = emit (pcr_lines H (last_alg cb) (zip (selected_pairs H pso') (digest_list dg))) w' in
          if digest_count dg > 0 then Some (Inl (cb', uc', pso', p', w'')) else Some (Inr (0, p', w'')))"
      and cb': "selection_wf H (pcr_select cb')"
        "selected_pairs H (pcr_select cb') =
           filter (\<lambda>x. x \<notin> set (selected_pairs H pso')) (selected_pairs H (pcr_select cb))"
      by blast
    show ?thesis
    proof (cases "digest_count dg > 0")
      case False
      with body show ?thesis by (simp add: Let_def)
    next
      case True
      then have "selected_pairs H pso' \<noteq> []"
        using ok(3) by (auto simp: word_less_nat_alt)
      then obtain x where x: "x \<in> set (selected_pairs H pso')" by (meson list.set_sel(1))
      with ok(4) have "x \<in> set (selected_pairs H (pcr_select cb))" by blast
      with x have "length (selected_pairs H (pcr_select cb')) < length (selected_pairs H (pcr_select cb))"
        unfolding cb'(2) by (intro length_filter_less [of x]) auto
      with True body cb'(1) show ?thesis by (simp add: Let_def)
    qed
  qed
qed

lemma pcr_loop_total:
  assumes "TPM2_MAX_PCRS H \<le> 32" "tpm_reads_ok H pcr_read" "card {i. bit banks i} \<le> 16"
    and "card {i. bit banks i} * TPM2_MAX_PCRS H < fuel"
  shows "\<exists>rc p' w'. prettyprint_pcrs_all H (pcr_read :: ('a, 'b) pcr_read) fuel sys banks p w = Returned (rc, p', w') \<and> rc \<le> 1"
proof -
  let ?n = "card {i. bit banks i}"
  have room: "\<forall>s \<in> set (pcrSelections zero_selections). 3 \<le> length (pcrSelect s)"
    "?n \<le> length (pcrSelections zero_selections)"
    using assms(3) by (simp_all add: zero_selections_def)
  define sel where "sel = \<lparr>sel_count = of_nat ?n,
     pcrSelections = map (\<lambda>i. if i < ?n then bank_entry (known_algs H banks) i (pcrSelections zero_selections ! i)
       else pcrSelections zero_selections ! i) [0..<length (pcrSelections zero_selections)]\<rparr>"
  have sel: "select_all_active_pcrs H banks zero_selections = Some sel"
    unfolding sel_def by (rule select_all_filled [OF room])
  have n: "unat (sel_count sel) = ?n"
    using assms(3) by (simp only: sel_def TPML_PCR_SELECTION.select_convs) (intro unat_of_nat32, simp)
  have wf: "selection_wf H sel"
    unfolding selection_wf_def n using assms(1) room(2)
    by (auto simp: sel_def bank_entry_def zero_selections_def)
  let ?s = "(\<lparr>digest_i = 0, last_alg = 0, tpml_digests = zero_digests, pcr_select = sel\<rparr>, 0, zero_selections, p, w)"
  have "\<exists>r. run_loop fuel (pcrs_body H pcr_read sys) ?s = Returned r \<and> fst r \<le> 1"
  proof (rule run_loop_returns [where I = "\<lambda>s. selection_wf H (pcr_select (fst s))"
        and \<mu> = "\<lambda>s. length (selected_pairs H (pcr_select (fst s)))"])
    show "length (selected_pairs H (pcr_select (fst ?s))) < fuel"
      using selected_pairs_bound [of H sel] assms(4) n by simp
  next
    fix s :: "('a, 'b) pcrs_state"
    assume I: "selection_wf H (pcr_select (fst s))"
    obtain cb uc pso q v where s: "s = (cb, uc, pso, q, v)" by (cases s)
    have max: "TPM2_MAX_PCRS H \<le> 255" using assms(1) by simp
    from I show "(\<exists>r. pcrs_body H pcr_read sys s = Some (Inr r) \<and> fst r \<le> 1) \<or>
      (\<exists>s'. pcrs_body H pcr_read sys s = Some (Inl s') \<and> selection_wf H (pcr_select (fst s'))
        \<and> length (selected_pairs H (pcr_select (fst s'))) < length (selected_pairs H (pcr_select (fst s))))"
      unfolding s fst_conv by (rule round_progress [OF max assms(2)])
  qed (simp add: wf)
  then show ?thesis
    by (auto simp: prettyprint_pcrs_all_def sel)
qed

text \<open>
  C14. With a TPM that answers as specified, the PCR loop has defined behaviour and returns,
  after at most as many rounds as there are PCRs in the active banks, plus one; the result
  is 0, or 1 after a failed read. The bitmap of active banks must not have more bits than
  the selection array has entries.
\<close>

theorem pcr_loop_returns:
  assumes "TPM2_MAX_PCRS H \<le> 32" "tpm_reads_ok H pcr_read" "card {i. bit banks i} \<le> 16"
    and "card {i. bit banks i} * TPM2_MAX_PCRS H < fuel"
  shows "\<exists>rc p' w'. prettyprint_pcrs_all H (pcr_read :: ('a, 'b) pcr_read) fuel sys banks p w = Returned (rc, p', w') \<and> rc \<le> 1"
  using assms by (rule pcr_loop_total)

subsection \<open>A TPM that reads one PCR at a time\<close>

definition one_pcr :: "UINT16 \<Rightarrow> UINT8 \<Rightarrow> TPML_PCR_SELECTION" where
  "one_pcr alg pcr = \<lparr>sel_count = 1, pcrSelections =
     [\<lparr>hash = alg, sizeofSelect = 3, pcrSelect = the (select_pcr [0, 0, 0, 0] pcr)\<rparr>]\<rparr>"

definition one_digest :: TPML_DIGEST where
  "one_digest = \<lparr>digest_count = 1, digest_list = [\<lparr>digest_size = 20, digest_buffer = replicate 20 0xAB\<rparr>]\<rparr>"

definition demo_read :: "(UINT8 list list, nat option) pcr_read" where
  "demo_read sys sel out st = (0, (case selected_pairs std_headers sel of
      [] \<Rightarrow> (0, zero_selections, zero_digests)
    | x # _ \<Rightarrow> (0, one_pcr (fst x) (snd x), one_digest)), st)"

lemma filter_single: "n < m \<Longrightarrow> filter (\<lambda>q. q = n) [0..<m] = [n]"
  by (induction m) (auto simp: less_Suc_eq filter_empty_conv)

lemma one_pcr_ok:
  assumes "unat pcr < 32"
  shows "selection_wf std_headers (one_pcr alg pcr)" "selected_pairs std_headers (one_pcr alg pcr) = [(alg, pcr)]"
proof -
  obtain bytes where bytes: "select_pcr [0, 0, 0, 0] pcr = Some bytes"
    using pcr_bitmap.mark_inside [of "[0, 0, 0, 0]" pcr] assms by auto
  from pcr_bitmap.mark_test [OF this] have len: "length bytes = 4"
    and test: "is_pcr_selected bytes j = (if j = pcr then Some True else is_pcr_selected [0, 0, 0, 0] j)" for j
    by auto
  show "selection_wf std_headers (one_pcr alg pcr)"
    by (simp add: selection_wf_def one_pcr_def bytes len)
  have bit: "bit (bytes ! (q div 8)) (q mod 8) \<longleftrightarrow> q = unat pcr" if "q < 32" for q
  proof -
    have u: "unat (of_nat q :: UINT8) = q" using that by (intro of_nat_pcr) simp
    from that have "q div 8 = 0 \<or> q div 8 = 1 \<or> q div 8 = 2 \<or> q div 8 = 3" by linarith
    then have "[0 :: UINT8, 0, 0, 0] ! (q div 8) = 0" by auto
    moreover have "of_nat q = pcr \<longleftrightarrow> q = unat pcr" using u by auto
    ultimately show ?thesis
      using test [of "of_nat q"] len that u by (auto simp: is_selected_bit split: if_splits)
  qed
  have "filter (\<lambda>q. bit (bytes ! (q div 8)) (q mod 8)) [0..<32] = filter (\<lambda>q. q = unat pcr) [0..<32]"
    by (rule filter_cong) (simp_all add: bit)
  then show "selected_pairs std_headers (one_pcr alg pcr) = [(alg, pcr)]"
    using filter_single [OF assms] by (simp add: selected_pairs_def one_pcr_def entry_pairs_def bytes)
qed

lemma demo_reads_ok: "tpm_reads_ok std_headers demo_read"
  unfolding tpm_reads_ok_def
proof (intro allI impI)
  fix sys sel out st uc pso dg st'
  assume read: "demo_read sys sel out st = (TSS2_RC_SUCCESS std_headers, (uc, pso, dg), st')"
  show "selection_wf std_headers pso \<and> digests_wf dg
     \<and> set (selected_pairs std_headers pso) \<subseteq> set (selected_pairs std_headers sel)
     \<and> length (selected_pairs std_headers pso) = unat (digest_count dg)"
  proof (cases "selected_pairs std_headers sel")
    case Nil
    with read have "pso = zero_selections" "dg = zero_digests" by (simp_all add: demo_read_def)
    then show ?thesis
      by (simp add: selection_wf_def zero_selections_def zero_digests_def digests_wf_def selected_pairs_def)
  next
    case (Cons x xs)
    then have "x \<in> set (selected_pairs std_headers sel)" by simp
    with pairs_below [of std_headers x sel] have "unat (snd x) < 32" by simp
    from one_pcr_ok [OF this, of "fst x"] read Cons show ?thesis
      by (auto simp: demo_read_def one_digest_def digests_wf_def)
  qed
qed

theorem pcr_round_witness:
  "\<exists>cb' w''. pcrs_body std_headers demo_read None
      (\<lparr>digest_i = 0, last_alg = 0, tpml_digests = zero_digests, pcr_select = demo_selection\<rparr>,
       0, zero_selections, demo_pool, demo_world) = Some (Inl (cb', 0, one_pcr 4 0, demo_pool, w''))
   \<and> selected_pairs std_headers (pcr_select cb') = [(4, 23), (0xB, 9)]
   \<and> Printed ''  PCR: %u\<newline>'' [A_num 0] \<in> set (console w'')"
proof -
  let ?cb = "\<lparr>digest_i = 0, last_alg = 0, tpml_digests = zero_digests, pcr_select = demo_selection\<rparr>"
  have max: "TPM2_MAX_PCRS std_headers \<le> 255" by simp
  have wf: "selection_wf std_headers (pcr_select ?cb)" by (simp add: demo_selection_wf)
  have read: "demo_read None (pcr_select ?cb) (0, zero_selections, zero_digests) (demo_pool, demo_world) =
      (TSS2_RC_SUCCESS std_headers, (0, one_pcr 4 0, one_digest), demo_pool, demo_world)"
    by (simp add: demo_read_def demo_selected_pairs)
  have count: "digest_count one_digest > 0" by (simp add: one_digest_def)
  have pairs: "selected_pairs std_headers (one_pcr 4 0) = [(4, 0)]" by (rule one_pcr_ok) simp
  from pcr_round [where pcr_read = demo_read, OF max wf demo_reads_ok read] obtain cb' w'' where
    w'': "w'' = emit (pcr_lines std_headers (last_alg ?cb)
      (zip (selected_pairs std_headers (one_pcr 4 0)) (digest_list one_digest))) demo_world"
    and body: "pcrs_body std_headers demo_read None (?cb, 0, zero_selections, demo_pool, demo_world) =
      (if digest_count one_digest > 0 then Some (Inl (cb', 0, one_pcr 4 0, demo_pool, w''))
       else Some (Inr (0, demo_pool, w'')))"
    and cb': "selected_pairs std_headers (pcr_select cb') =
      filter (\<lambda>x. x \<notin> set (selected_pairs std_headers (one_pcr 4 0))) (selected_pairs std_headers (pcr_select ?cb))"
    by blast
  from cb' have "selected_pairs std_headers (pcr_select cb') = [(4, 23), (0xB, 9)]"
    by (simp add: pairs demo_selected_pairs)
  moreover from w'' have "Printed ''  PCR: %u\<newline>'' [A_num 0] \<in> set (console w'')"
    by (simp add: pairs one_digest_def)
  moreover from body have "pcrs_body std_headers demo_read None (?cb, 0, zero_selections, demo_pool, demo_world) =
      Some (Inl (cb', 0, one_pcr 4 0, demo_pool, w''))"
    unfolding if_P [OF count] .
  ultimately show ?thesis by blast
qed

lemma bits_of_3: "card {i. bit (3 :: UINT32) i} = 2"
  unfolding bits_card [symmetric] upt_32 by (simp add: bit_iff_odd)

theorem pcr_loop_returns_witness:
  "\<exists>rc p' w'. prettyprint_pcrs_all std_headers demo_read 65 None 3 demo_pool demo_world = Returned (rc, p', w')
     \<and> rc \<le> 1"
proof -
  have max: "TPM2_MAX_PCRS std_headers \<le> 32" by simp
  have 1: "card {i. bit (3 :: UINT32) i} \<le> 16" unfolding bits_of_3 by simp
  have 2: "card {i. bit (3 :: UINT32) i} * TPM2_MAX_PCRS std_headers < 65" unfolding bits_of_3 by simp
  show ?thesis by (rule pcr_loop_returns [OF max demo_reads_ok 1 2])
qed

end
