(* ===== verification/Tool_Session.thy ===== *)
theory Tool_Session
  imports Nv_Contract Fixed_Contract Pcrs_Contract
begin

section \<open>A session of a tool\<close>

text \<open>
  The components together: a tool sets up its contexts, the SAPI library calls the TCTI
  context any number of times in any order, and the tool tears everything down.
\<close>

lemma usable_context:
  assumes "usable H E p t h q"
  obtains c where "tcti_at q t = Some c" "ctx_wf c"
  using assms by (auto simp: usable_def tcti_at_def)

lemma usable_store:
  assumes u: "usable H E p t h q" and wf: "ctx_wf c"
  shows "usable H E p t h (pool_store t (Tcti_block c) q)"
proof -
  from u obtain c0 s where q: "blocks q = (blocks p)(t := Some (Tcti_block c0), h := Some (Sys_block s))"
    and ne: "blocks p t = None" "blocks p h = None" "t \<noteq> h"
    and s: "Tss2_Sys_GetTctiContext E s = (TSS2_RC_SUCCESS H, Some t)"
    by (auto simp: usable_def)
  have "blocks (pool_store t (Tcti_block c) q) = (blocks p)(t := Some (Tcti_block c), h := Some (Sys_block s))"
    using pool.store_live [of q t "Tcti_block c"] q ne by (auto simp: fun_upd_twist)
  with ne wf s show ?thesis unfolding usable_def by blast
qed

text \<open>
  What sys_uefi_init leaves behind: two new blocks, one of which holds a TCTI context that is
  ready for a command.
\<close>

lemma init_session:
  assumes "tss_env H L E" "pool_wf p" "sapi_keeps_tcti H E"
    and "sys_uefi_init H L E None p w = Some (TSS2_RC_SUCCESS H, sys, p', w')"
  obtains t h c where "sys = Some h" "usable H E p t h p'" "tcti_at p' t = Some c"
    "tcti_sim (length (cmd_buf c)) (c, v) Idle"
proof (rule sys_init_cases [OF assms(1,2), of None w])
  fix rc p1 w1
  assume "sys_uefi_init H L E None p w = Some (rc, None, p1, w1)" "rc \<noteq> TSS2_RC_SUCCESS H"
  with assms(4) show ?thesis by simp
next
  fix t c h s q v'
  assume init: "sys_uefi_init H L E None p w = Some (TSS2_RC_SUCCESS H, Some h, q, v')"
    and new: "blocks p t = None" "blocks p h = None" "t \<noteq> h"
      "blocks q = (blocks p)(t := Some (Tcti_block c), h := Some (Sys_block s))"
    and c: "ctx_wf c" "ctx_state c = UEFI_STATE_TRANSMIT"
    and s: "\<exists>n s0. Tss2_Sys_Initialize E s0 n (Some t) (Some abi_version) = (TSS2_RC_SUCCESS H, s)"
  have eq: "sys = Some h" "p' = q" using assms(4) init by simp_all
  from assms(3) s have "Tss2_Sys_GetTctiContext E s = (TSS2_RC_SUCCESS H, Some t)"
    unfolding sapi_keeps_tcti_def by blast
  with new c have "usable H E p t h q" unfolding usable_def by blast
  moreover have "tcti_at q t = Some c" using new by (simp add: tcti_at_def)
  moreover have "tcti_sim (length (cmd_buf c)) (c, v) Idle" using c by (simp add: tcti_sim_def)
  ultimately show ?thesis using that [of h t c] eq by blast
qed

text \<open>
  C5. A whole session of a tool: when sys_uefi_init succeeds, its TCTI context accepts any
  sequence of transmit, receive and finalize calls with defined behaviour, the calls refine
  the TCTI protocol from its idle state, and a full teardown afterwards, from whatever state
  the calls left the context in, gives back exactly the two blocks of the initialisation.
\<close>

theorem session_refines_and_frees:
  assumes "tss_env H L E" "pool_wf p" "sapi_keeps_tcti H E" "dispatch_finalizes E"
    and "sys_uefi_init H L E None p w = Some (TSS2_RC_SUCCESS H, sys, p', w')"
    and "list_all buffer_ok calls"
  shows "\<exists>t c es c' w'' ph p''. blocks p t = None \<and> tcti_at p' t = Some c
     \<and> run_calls (tcti_step H L) calls (c, w') = Some (es, c', w'')
     \<and> spec_run (tcti_spec (length (cmd_buf c))) Idle es ph
     \<and> sys_uefi_teardown_full H E sys (pool_store t (Tcti_block c') p') w'' = Some (p'', w'')
     \<and> blocks p'' = blocks p"
proof -
  obtain t h c where s: "sys = Some h" "usable H E p t h p'" "tcti_at p' t = Some c"
    and sim: "tcti_sim (length (cmd_buf c)) (c, w') Idle"
    by (rule init_session [OF assms(1-3,5)])
  from assms(1) sim have "tcti_sim_env H L (length (cmd_buf c)) (c, w') Idle"
    by (simp add: tcti_sim_env_def tss_env_def)
  from tcti.run_simulates [OF this assms(6)] obtain es st' ph where
    run: "run_calls (tcti_step H L) calls (c, w') = Some (es, st')"
      "spec_run (tcti_spec (length (cmd_buf c))) Idle es ph"
      and sim': "tcti_sim_env H L (length (cmd_buf c)) st' ph" by blast
  obtain c' w'' where st': "st' = (c', w'')" by (cases st')
  from sim' st' have "ctx_wf c'" by (simp add: tcti_sim_env_def tcti_sim_def)
  from usable_store [OF s(2) this] have u: "usable H E p t h (pool_store t (Tcti_block c') p')" .
  obtain p'' where "sys_uefi_teardown_full H E (Some h) (pool_store t (Tcti_block c') p') w'' = Some (p'', w'')"
    "blocks p'' = blocks p"
    by (rule usable_teardown [OF u assms(4)])
  moreover have "blocks p t = None" using s(2) by (simp add: usable_def)
  ultimately show ?thesis using s(1,3) run unfolding st' by blast
qed

theorem session_refines_and_frees_witness:
  "\<exists>sys p' w' t c es c' w'' p''.
     sys_uefi_init std_headers (demo_locate 0 0) (demo_lib True 0) None demo_pool demo_world = Some (0, sys, p', w')
   \<and> run_calls (tcti_step std_headers (demo_locate 0 0)) demo_calls (c, w') = Some (es, c', w'')
   \<and> sys_uefi_teardown_full std_headers (demo_lib True 0) sys (pool_store t (Tcti_block c') p') w'' = Some (p'', w'')
   \<and> live p'' = {}"
proof -
  from demo_sys_init obtain sys p' w' where
    init: "sys_uefi_init std_headers (demo_locate 0 0) (demo_lib True 0) None demo_pool demo_world =
      Some (TSS2_RC_SUCCESS std_headers, sys, p', w')" by blast
  have calls: "list_all buffer_ok demo_calls" by (simp add: demo_calls_def)
  from session_refines_and_frees [OF demo_env demo_pool_wf demo_lib_ok init calls] init
  show ?thesis by (fastforce simp: live_def demo_pool_def)
qed

subsection \<open>The tool without a teardown\<close>

text \<open>
  tpm2-get-pcrs has no teardown: when it returns after its initialisation succeeded, its two
  contexts are still allocated, whatever the TPM answered.
\<close>

definition reads_keep :: "('fw, 'sys) pcr_read \<Rightarrow> ('sys pool \<Rightarrow> bool) \<Rightarrow> bool" where
  "reads_keep pcr_read P \<longleftrightarrow>
     (\<forall>sys sel old p w rc new p' w'. P p \<longrightarrow> pcr_read sys sel old (p, w) = (rc, new, p', w') \<longrightarrow> P p')"

lemma pcrs_body_keeps:
  assumes keep: "reads_keep pcr_read P" and P: "P p"
  shows "pcrs_body H pcr_read sys (cb, uc, pso, p, w) = Some (Inl s) \<Longrightarrow> P (fst (snd (snd (snd s))))"
    "pcrs_body H pcr_read sys (cb, uc, pso, p, w) = Some (Inr r) \<Longrightarrow> P (fst (snd r))"
proof -
  obtain rc uc' pso' dg p' w' where read: "pcr_read sys (pcr_select (cb\<lparr>digest_i := 0, tpml_digests := zero_digests\<rparr>))
      (uc, pso, tpml_digests (cb\<lparr>digest_i := 0, tpml_digests := zero_digests\<rparr>)) (p, w) =
      (rc, (uc', pso', dg), p', w')" by (metis surj_pair)
  have P': "P p'" using keep [unfolded reads_keep_def, rule_format, OF P read] .
  show "P (fst (snd (snd (snd s))))" if "pcrs_body H pcr_read sys (cb, uc, pso, p, w) = Some (Inl s)"
    using that P' read by (auto simp: pcrs_body_def Let_def split: if_splits bind_splits)
  show "P (fst (snd r))" if "pcrs_body H pcr_read sys (cb, uc, pso, p, w) = Some (Inr r)"
    using that P' read by (auto simp: pcrs_body_def Let_def split: if_splits bind_splits)
qed

lemma pcrs_all_keeps:
  assumes "reads_keep pcr_read P" "P p"
    and "prettyprint_pcrs_all H pcr_read fuel sys banks p w = Returned (rc, p', w')"
  shows "P p'"
proof -
  from assms(3) obtain select where run:
    "run_loop fuel (pcrs_body H pcr_read sys)
      (\<lparr>digest_i = 0, last_alg = 0, tpml_digests = zero_digests, pcr_select = select\<rparr>,
       0, zero_selections, p, w) = Returned (rc, p', w')"
    by (auto simp: prettyprint_pcrs_all_def split: option.splits)
  have "P (fst (snd (rc, p', w')))"
  proof (rule run_loop_invariant [where I = "\<lambda>s. P (fst (snd (snd (snd s))))", OF _ _ _ run])
    fix s s' assume "P (fst (snd (snd (snd s))))" "pcrs_body H pcr_read sys s = Some (Inl s')"
    then show "P (fst (snd (snd (snd s'))))"
      using pcrs_body_keeps(1) [OF assms(1), of "fst (snd (snd (snd s)))"] by (cases s) simp
  next
    fix s r assume "P (fst (snd (snd (snd s))))" "pcrs_body H pcr_read sys s = Some (Inr r)"
    then show "P (fst (snd r))"
      using pcrs_body_keeps(2) [OF assms(1), of "fst (snd (snd (snd s)))"] by (cases s) simp
  qed (use assms(2) in simp)
  then show ?thesis by simp
qed

text \<open>
  C40. Once tpm2-get-pcrs has its contexts, and with a TPM that answers as specified, it
  returns, but it never tears the contexts down: the blocks of the TCTI and of the SAPI
  context are still allocated when it ends, on every path.
\<close>

theorem pcrs_tool_leaks_contexts:
  fixes pcr_read :: "('fw, 'sys) pcr_read"
  assumes "tss_env H L E" "pool_wf p" "sapi_keeps_tcti H E"
    and "tcg2_get_protocol H L None w = (st, prot, w1)" "\<not> EFI_ERROR H st"
    and "tcg2_get_active_pcr_banks H prot 0 w1 = Some (st2, banks, w2)" "\<not> EFI_ERROR H st2"
    and "sys_uefi_init H L E None p w2 = Some (TSS2_RC_SUCCESS H, sys, p1, w3)"
    and "\<And>t h. reads_keep pcr_read (usable H E p t h)"
    and "TPM2_MAX_PCRS H \<le> 32" "tpm_reads_ok H pcr_read" "card {i. bit banks i} \<le> 16"
    and "card {i. bit banks i} * TPM2_MAX_PCRS H < fuel"
  shows "\<exists>status p' w'. pcrs_main H L E pcr_read fuel p w = Returned (status, p', w')
     \<and> status \<le> 1 \<and> live p \<subseteq> live p' \<and> card (live p' - live p) = 2"
proof -
  from init_usable [OF assms(1-3,8)] obtain t h where u: "usable H E p t h p1" by blast
  from pcr_loop_total [OF assms(10-13), of sys p1 w3] obtain rc p' w' where
    loop: "prettyprint_pcrs_all H pcr_read fuel sys banks p1 w3 = Returned (rc, p', w')" "rc \<le> 1" by blast
  from pcrs_all_keeps [OF assms(9) u loop(1)] usable_live
  have "live p \<subseteq> live p' \<and> card (live p' - live p) = 2" by blast
  moreover have "(of_nat rc :: EFI_STATUS) \<le> 1" using loop(2) by (cases rc) auto
  moreover have "pcrs_main H L E pcr_read fuel p w = Returned (of_nat rc, p', w')"
    using assms(4-8) loop(1) by (simp add: pcrs_main_def)
  ultimately show ?thesis by blast
qed

theorem pcrs_tool_leaks_contexts_witness:
  "\<exists>status p' w'. pcrs_main std_headers (demo_locate 0 0) (demo_lib True 0) demo_read 65 demo_pool demo_world =
     Returned (status, p', w') \<and> live p' \<noteq> {}"
proof -
  have prot: "tcg2_get_protocol std_headers (demo_locate 0 0) None demo_world =
      (0, Some (demo_protocol 0 demo_caps demo_log), demo_world)"
    by (simp add: tcg2_get_protocol_def demo_locate_def demo_world_def)
  have banks: "tcg2_get_active_pcr_banks std_headers (Some (demo_protocol 0 demo_caps demo_log)) 0 demo_world =
      Some (0, 3, demo_world)"
    by (simp add: tcg2_get_active_pcr_banks_def report_status_def demo_protocol_def demo_caps_def demo_world_def)
  from demo_sys_init obtain sys p1 w3 where
    init: "sys_uefi_init std_headers (demo_locate 0 0) (demo_lib True 0) None demo_pool demo_world =
      Some (TSS2_RC_SUCCESS std_headers, sys, p1, w3)" by blast
  have keep: "reads_keep demo_read P" for P by (simp add: reads_keep_def demo_read_def)
  have max: "TPM2_MAX_PCRS std_headers \<le> 32" by simp
  have ok: "\<not> EFI_ERROR std_headers 0" by simp
  have 1: "card {i. bit (3 :: UINT32) i} \<le> 16" unfolding bits_of_3 by simp
  have 2: "card {i. bit (3 :: UINT32) i} * TPM2_MAX_PCRS std_headers < 65" unfolding bits_of_3 by simp
  from pcrs_tool_leaks_contexts [OF demo_env demo_pool_wf demo_lib_ok(1) prot ok banks ok init keep max demo_reads_ok 1 2]
  show ?thesis by (fastforce simp: live_def demo_pool_def)
qed

end
