(* ===== verification/Pcrs_Run.thy ===== *)
theory Pcrs_Run
  imports Pcrs_Contract
begin

section \<open>The whole run of the PCR loop\<close>

text \<open>
  \<open>Pcrs_Contract\<close> treats one round and the end of the loop; here the rounds are put
  together, for every bitmap of active banks and reads that may fail at any time. When no read
  fails, the console shows each PCR that the TPM has in the active banks once, with its value.
\<close>

subsection \<open>A TPM with fixed PCR values\<close>

text \<open>
  What TPM2_PCR_Read promises as long as nobody extends a PCR, \<open>present\<close> being the PCRs the
  TPM has. A successful answer names PCRs that are present, at least one when one was asked
  for, and gives their values; it names none twice when none was asked for twice. A
  selection that names algorithm 0, which is no hash algorithm (TPM_ALG_ERROR), is refused.
  A read that succeeds prints nothing; in one that fails the TCTI may have reported the
  failure with lines of its own.
\<close>

definition tpm_answers ::
  "headers \<Rightarrow> (UINT16 \<times> UINT8) set \<Rightarrow> (UINT16 \<times> UINT8 \<Rightarrow> TPM2B_DIGEST) \<Rightarrow> ('fw, 'sys) pcr_read \<Rightarrow> bool" where
  "tpm_answers H present pcr_value pcr_read \<longleftrightarrow> tpm_reads_ok H pcr_read \<and> (\<forall>sys sel out st rc uc pso dg st'.
     pcr_read sys sel out st = (rc, (uc, pso, dg), st') \<longrightarrow>
       (if rc = TSS2_RC_SUCCESS H
        then console (snd st') = console (snd st)
           \<and> (\<forall>x \<in> set (selected_pairs H sel). fst x \<noteq> 0)
           \<and> set (selected_pairs H pso) \<subseteq> present
           \<and> (distinct (selected_pairs H sel) \<longrightarrow> distinct (selected_pairs H pso))
           \<and> (set (selected_pairs H sel) \<inter> present \<noteq> {} \<longrightarrow> selected_pairs H pso \<noteq> [])
           \<and> take (unat (digest_count dg)) (digest_list dg) = map pcr_value (selected_pairs H pso)
        else \<exists>lines. console (snd st') = console (snd st) @ lines))"

lemma tpm_answersD:
  assumes "tpm_answers H present pcr_value pcr_read"
    and "pcr_read sys sel out st = (TSS2_RC_SUCCESS H, (uc, pso, dg), st')"
  shows "console (snd st') = console (snd st)"
    and "\<And>x. x \<in> set (selected_pairs H sel) \<Longrightarrow> fst x \<noteq> 0"
    and "set (selected_pairs H pso) \<subseteq> present"
    and "distinct (selected_pairs H sel) \<Longrightarrow> distinct (selected_pairs H pso)"
    and "set (selected_pairs H sel) \<inter> present \<noteq> {} \<Longrightarrow> selected_pairs H pso \<noteq> []"
    and "take (unat (digest_count dg)) (digest_list dg) = map pcr_value (selected_pairs H pso)"
  using conjunct2 [OF assms(1) [unfolded tpm_answers_def], rule_format, OF assms(2)]
  by auto

lemma tpm_failsD:
  assumes "tpm_answers H present pcr_value pcr_read"
    and "pcr_read sys sel out st = (rc, (uc, pso, dg), st')" "rc \<noteq> TSS2_RC_SUCCESS H"
  obtains lines where "console (snd st') = console (snd st) @ lines"
  using conjunct2 [OF assms(1) [unfolded tpm_answers_def], rule_format, OF assms(2)] assms(3) by auto

subsection \<open>The lines of several rounds\<close>

definition shown_lines ::
  "headers \<Rightarrow> (UINT16 \<times> UINT8 \<Rightarrow> TPM2B_DIGEST) \<Rightarrow> UINT16 \<Rightarrow> (UINT16 \<times> UINT8) list \<Rightarrow> call list" where
  "shown_lines H pcr_value bank ps = pcr_lines H bank (map (\<lambda>x. (x, pcr_value x)) ps)"

lemma shown_lines_simps [simp]:
  "shown_lines H pcr_value bank [] = []"
  "shown_lines H pcr_value bank (ps @ qs) =
     shown_lines H pcr_value bank ps @ shown_lines H pcr_value (bank_after bank ps) qs"
proof -
  show "shown_lines H pcr_value bank (ps @ qs) =
      shown_lines H pcr_value bank ps @ shown_lines H pcr_value (bank_after bank ps) qs"
    by (induction ps arbitrary: bank) (auto simp: shown_lines_def)
qed (simp add: shown_lines_def)

lemma zip_answer:
  assumes "take n ds = map f xs" "length xs = n"
  shows "zip xs ds = map (\<lambda>x. (x, f x)) xs"
proof -
  have "zip xs ds = zip xs (take n ds)"
    using assms(2) take_zip [of n xs ds] by simp
  then show ?thesis by (simp add: assms(1) zip_map2 zip_same_conv_map)
qed

subsection \<open>The invariant of the loop\<close>

text \<open>What has been shown, and that it and what is still selected make up the PCRs asked for.\<close>

definition run_inv ::
  "headers \<Rightarrow> (UINT16 \<times> UINT8) set \<Rightarrow> (UINT16 \<times> UINT8 \<Rightarrow> TPM2B_DIGEST) \<Rightarrow> (UINT16 \<times> UINT8) set \<Rightarrow>
   call list \<Rightarrow> ('fw, 'sys) pcrs_state \<Rightarrow> bool" where
  "run_inv H present pcr_value asked before s \<longleftrightarrow> (case s of (cb, uc, pso, p, w) \<Rightarrow>
     selection_wf H (pcr_select cb) \<and> distinct (selected_pairs H (pcr_select cb)) \<and> (\<exists>shown.
       console w = before @ shown_lines H pcr_value 0 shown \<and> distinct shown \<and> set shown \<subseteq> present
     \<and> last_alg cb = bank_after 0 shown
     \<and> set shown \<union> set (selected_pairs H (pcr_select cb)) = asked
     \<and> set shown \<inter> set (selected_pairs H (pcr_select cb)) = {}))"

text \<open>
  A read has failed: after what was shown before come lines of the read and the program's
  error line.
\<close>

definition read_failed :: "headers \<Rightarrow> call list \<Rightarrow> 'fw world \<Rightarrow> bool" where
  "read_failed H before w \<longleftrightarrow> (\<exists>lines code. code \<noteq> TSS2_RC_SUCCESS H \<and> console w = before @ lines
     @ [Printed ''ERROR: Tss2_Sys_PCR_Read failed with RC: 0x%PRIx32\<newline>'' [A_num (unat code)]])"

lemma read_failedI:
  assumes "code \<noteq> TSS2_RC_SUCCESS H" "console w = before @ lines"
  shows "read_failed H before
    (Print ''ERROR: Tss2_Sys_PCR_Read failed with RC: 0x%PRIx32\<newline>'' [A_num (unat code)] w)"
  unfolding read_failed_def using assms by (intro exI [of _ lines] exI [of _ code]) (simp add: Print_def)

text \<open>
  How the loop ends: everything asked for that is present was shown, or a read has failed and
  its own lines and the program's error line come last.
\<close>

definition run_outcome ::
  "headers \<Rightarrow> (UINT16 \<times> UINT8) set \<Rightarrow> (UINT16 \<times> UINT8 \<Rightarrow> TPM2B_DIGEST) \<Rightarrow> (UINT16 \<times> UINT8) set \<Rightarrow>
   call list \<Rightarrow> nat \<Rightarrow> 'fw world \<Rightarrow> bool" where
  "run_outcome H present pcr_value asked before rc w \<longleftrightarrow> (\<exists>shown. distinct shown
     \<and> (rc = 0 \<and> set shown = asked \<inter> present \<and> console w = before @ shown_lines H pcr_value 0 shown
      \<or> rc = 1 \<and> set shown \<subseteq> asked \<inter> present
          \<and> read_failed H (before @ shown_lines H pcr_value 0 shown) w))"

text \<open>The three ways a round ends: a failed read, nothing left to show, and another round.\<close>

lemma run_stops:
  assumes "run_inv H present pcr_value asked before (cb, uc, pso, p, w)"
    and "console w' = console w @ lines" "rc \<noteq> TSS2_RC_SUCCESS H"
  shows "run_outcome H present pcr_value asked before 1
    (Print ''ERROR: Tss2_Sys_PCR_Read failed with RC: 0x%PRIx32\<newline>'' [A_num (unat rc)] w')"
proof -
  from assms(1) obtain shown where
    shown: "console w = before @ shown_lines H pcr_value 0 shown" "distinct shown" "set shown \<subseteq> present"
      "set shown \<union> set (selected_pairs H (pcr_select cb)) = asked"
    by (auto simp: run_inv_def)
  have "read_failed H (before @ shown_lines H pcr_value 0 shown)
      (Print ''ERROR: Tss2_Sys_PCR_Read failed with RC: 0x%PRIx32\<newline>'' [A_num (unat rc)] w')"
    by (rule read_failedI [OF assms(3), where lines = lines]) (simp add: assms(2) shown(1))
  with shown show ?thesis unfolding run_outcome_def by auto
qed

lemma run_ends:
  assumes "run_inv H present pcr_value asked before (cb, uc, pso, p, w)"
    and "console w' = console w" "set (selected_pairs H (pcr_select cb)) \<inter> present = {}"
  shows "run_outcome H present pcr_value asked before 0 w'"
proof -
  from assms(1) obtain shown where
    shown: "console w = before @ shown_lines H pcr_value 0 shown" "distinct shown" "set shown \<subseteq> present"
      "set shown \<union> set (selected_pairs H (pcr_select cb)) = asked"
    by (auto simp: run_inv_def)
  with assms(3) have "set shown = asked \<inter> present" by blast
  with shown assms(2) show ?thesis by (auto simp: run_outcome_def)
qed

lemma run_goes_on:
  assumes inv: "run_inv H present pcr_value asked before (cb, uc, pso, p, w)" and "console w' = console w"
    and new: "distinct new" "set new \<subseteq> set (selected_pairs H (pcr_select cb))" "set new \<subseteq> present"
    and cb': "selection_wf H (pcr_select cb')"
      "selected_pairs H (pcr_select cb') = filter (\<lambda>x. x \<notin> set new) (selected_pairs H (pcr_select cb))"
      "last_alg cb' = bank_after (last_alg cb) new"
  shows "run_inv H present pcr_value asked before
    (cb', uc', pso', p', emit (shown_lines H pcr_value (last_alg cb) new) w')"
proof -
  from inv obtain shown where
    shown: "console w = before @ shown_lines H pcr_value 0 shown" "distinct shown" "set shown \<subseteq> present"
      "last_alg cb = bank_after 0 shown" "set shown \<union> set (selected_pairs H (pcr_select cb)) = asked"
      "set shown \<inter> set (selected_pairs H (pcr_select cb)) = {}"
    and left: "distinct (selected_pairs H (pcr_select cb))"
    by (auto simp: run_inv_def)
  show ?thesis
    unfolding run_inv_def prod.case
  proof (intro conjI exI [of _ "shown @ new"])
    show "distinct (shown @ new)" using shown(2,6) new by auto
    show "set (shown @ new) \<union> set (selected_pairs H (pcr_select cb')) = asked"
      using shown(5) new(2) by (auto simp: cb'(2))
    show "set (shown @ new) \<inter> set (selected_pairs H (pcr_select cb')) = {}"
      using shown(6) by (auto simp: cb'(2))
  qed (use cb' shown left new(3) assms(2) in simp_all)
qed

lemma failed_round:
  assumes "pcr_read sys (pcr_select cb) (uc, pso, zero_digests) (p, w) = (rc, out, p', w')"
    and "rc \<noteq> TSS2_RC_SUCCESS H"
  shows "pcrs_body H pcr_read sys (cb, uc, pso, p, w) = Some (Inr (1, p',
     Print ''ERROR: Tss2_Sys_PCR_Read failed with RC: 0x%PRIx32\<newline>'' [A_num (unat rc)] w'))"
  using assms by (cases out) (simp add: pcrs_body_def Let_def)

lemma run_step:
  assumes max: "TPM2_MAX_PCRS H \<le> 255" and tpm: "tpm_answers H present pcr_value pcr_read"
    and inv: "run_inv H present pcr_value asked before (cb, uc, pso, p, w)"
  shows "(\<exists>rc p' w'. pcrs_body H pcr_read sys (cb, uc, pso, p, w) = Some (Inr (rc, p', w'))
       \<and> run_outcome H present pcr_value asked before rc w')
     \<or> (\<exists>s'. pcrs_body H pcr_read sys (cb, uc, pso, p, w) = Some (Inl s')
       \<and> run_inv H present pcr_value asked before s'
       \<and> length (selected_pairs H (pcr_select (fst s'))) < length (selected_pairs H (pcr_select cb)))"
proof -
  let ?left = "selected_pairs H (pcr_select cb)"
  from inv have wf: "selection_wf H (pcr_select cb)" and left: "distinct ?left" by (simp_all add: run_inv_def)
  obtain rc uc' pso' dg p' w' where
    read: "pcr_read sys (pcr_select cb) (uc, pso, zero_digests) (p, w) = (rc, (uc', pso', dg), p', w')"
    by (metis prod.exhaust)
  show ?thesis
  proof (cases "rc = TSS2_RC_SUCCESS H")
    case False
    obtain lines where "console (snd (p', w')) = console (snd (p, w)) @ lines"
      by (rule tpm_failsD [where pcr_read = pcr_read, OF tpm read False])
    then have "console w' = console w @ lines" by simp
    with run_stops [OF inv this False] failed_round [where pcr_read = pcr_read, OF read False] show ?thesis
      by blast
  next
    case True
    let ?new = "selected_pairs H pso'"
    have ok: "tpm_reads_ok H pcr_read" using tpm by (simp add: tpm_answers_def)
    note parts = tpm_reads_okD [where pcr_read = pcr_read, OF ok read [unfolded True]]
    note answer = tpm_answersD [where pcr_read = pcr_read, OF tpm read [unfolded True]]
    have w': "console w' = console w" using answer(1) by simp
    from round_runs [where pcr_read = pcr_read, OF max wf read [unfolded True] parts(1-3)]
      zip_answer [OF answer(6) parts(3)] obtain cb' where
      body: "pcrs_body H pcr_read sys (cb, uc, pso, p, w) =
         (let w'' = emit (shown_lines H pcr_value (last_alg cb) ?new) w' in
          if digest_count dg > 0 then Some (Inl (cb', uc', pso', p', w'')) else Some (Inr (0, p', w'')))"
      and cb': "selection_wf H (pcr_select cb')"
        "selected_pairs H (pcr_select cb') = filter (\<lambda>x. x \<notin> set ?new) ?left"
        "last_alg cb' = bank_after (last_alg cb) ?new"
      unfolding shown_lines_def by auto
    have none: "digest_count dg > 0 \<longleftrightarrow> ?new \<noteq> []"
      by (simp add: word_less_nat_alt flip: parts(3))
    show ?thesis
    proof (cases "?new = []")
      case True
      with answer(5) have "set ?left \<inter> present = {}" by blast
      from run_ends [OF inv w' this] body none True show ?thesis by auto
    next
      case False
      then obtain x where "x \<in> set ?new" "x \<in> set ?left" using parts(4) by (meson list.set_sel(1) subsetD)
      then have "length (selected_pairs H (pcr_select cb')) < length ?left"
        unfolding cb'(2) by (intro length_filter_less [of x]) auto
      with run_goes_on [OF inv w' answer(4) [OF left] parts(4) answer(3) cb'] body none False show ?thesis
        by (auto simp: Let_def)
    qed
  qed
qed

subsection \<open>What is asked for\<close>

text \<open>
  The PCRs 0 to 23 of the banks the code knows, the bits 0 to 4 of the bitmap. A higher bit
  makes the code ask for a bank with algorithm 0, the hash that a zeroed entry has.
\<close>

definition active_pcrs :: "headers \<Rightarrow> UINT32 \<Rightarrow> (UINT16 \<times> UINT8) set" where
  "active_pcrs H banks = set (known_algs H banks) \<times> {pcr. unat pcr < 24}"

definition banks_known :: "UINT32 \<Rightarrow> bool" where
  "banks_known banks \<longleftrightarrow> (\<forall>i. bit banks i \<longrightarrow> i < 5)"

lemma upt_5: "[0..<5] = [0, 1, 2, 3, 4 :: nat]"
  by (simp add: upt_rec)

lemma known_algs_length: "length (known_algs H banks) = length (filter (bit banks) [0..<5])"
  by (simp add: known_algs_def upt_5)

lemma active_banks_count:
  "card {i. bit banks i} = length (known_algs H banks) + length (filter (bit banks) [5..<32])"
proof -
  have "[0..<32] = [0..<5] @ [5..<32]"
    using upt_add_eq_append [of 0 5 27] by simp
  then show ?thesis by (simp add: bits_card [symmetric] known_algs_length)
qed

lemma banks_known_count: "banks_known banks \<longleftrightarrow> card {i. bit banks i} = length (known_algs H banks)"
proof -
  have "banks_known banks \<longleftrightarrow> (\<forall>i \<in> {5..<32}. \<not> bit banks i)"
  proof
    assume "banks_known banks"
    then show "\<forall>i \<in> {5..<32}. \<not> bit banks i" by (meson atLeastLessThan_iff banks_known_def not_le)
  next
    assume none: "\<forall>i \<in> {5..<32}. \<not> bit banks i"
    have "i < 5" if "bit banks i" for i
    proof (rule ccontr)
      assume "\<not> i < 5"
      with that bit_imp_le_length [OF that] have "i \<in> {5..<32}" by simp
      with none that show False by blast
    qed
    then show "banks_known banks" by (simp add: banks_known_def)
  qed
  then have "banks_known banks \<longleftrightarrow> filter (bit banks) [5..<32] = []"
    by (simp only: filter_empty_conv set_upt)
  then show ?thesis by (simp add: active_banks_count [of banks H])
qed

lemma known_algs_distinct: "alg_ids_ok H \<Longrightarrow> distinct (known_algs H banks)"
  by (auto simp: known_algs_def alg_ids_ok_def)

lemma all_pcrs_bits:
  assumes "q < 32"
  shows "bit (([0xff, 0xff, 0xff, 0] :: UINT8 list) ! (q div 8)) (q mod 8) \<longleftrightarrow> q < 24"
proof -
  have "bit (0xff :: UINT8) k" if "k < 8" for k
  proof -
    have mask: "(0xff :: UINT8) = mask 8" by (simp add: mask_eq_exp_minus_1)
    from that show ?thesis unfolding mask by (simp add: bit_mask_iff)
  qed
  moreover from assms have "q div 8 = 0 \<or> q div 8 = 1 \<or> q div 8 = 2 \<or> q div 8 = 3 \<and> 24 \<le> q"
    by linarith
  ultimately show ?thesis using assms by auto
qed

text \<open>An entry of the initial selection, and the list of its PCRs.\<close>

definition first_pcrs :: "UINT8 list" where
  "first_pcrs = map of_nat [0..<24]"

lemma first_pcrs_distinct: "distinct first_pcrs"
proof -
  have "inj_on (of_nat :: nat \<Rightarrow> UINT8) (set [0..<24])"
  proof (rule inj_on_inverseI)
    fix n assume "n \<in> set [0..<24 :: nat]"
    then show "unat (of_nat n :: UINT8) = n" by (intro of_nat_pcr) simp
  qed
  then show ?thesis by (simp add: first_pcrs_def distinct_map)
qed

lemma first_pcrs_set: "set first_pcrs = {pcr. unat pcr < 24}"
proof (rule set_eqI)
  fix pcr :: UINT8
  show "pcr \<in> set first_pcrs \<longleftrightarrow> pcr \<in> {pcr. unat pcr < 24}"
    using of_nat_pcr by (auto simp: first_pcrs_def intro: image_eqI [of _ _ "unat pcr"])
qed

lemma bank_entry_pairs:
  assumes "24 \<le> TPM2_MAX_PCRS H" "TPM2_MAX_PCRS H \<le> 32"
  shows "entry_pairs H (bank_entry algs i \<lparr>hash = 0, sizeofSelect = 0, pcrSelect = replicate 4 0\<rparr>) =
     map (Pair (if i < length algs then algs ! i else 0)) first_pcrs"
proof -
  have sel: "pcrSelect (bank_entry algs i \<lparr>hash = 0, sizeofSelect = 0, pcrSelect = replicate 4 0\<rparr>) =
      [0xff, 0xff, 0xff, 0]"
    by (simp add: bank_entry_def numeral_eq_Suc replicate_Suc [symmetric] del: replicate_Suc) simp
  have h: "hash (bank_entry algs i \<lparr>hash = 0, sizeofSelect = 0, pcrSelect = replicate 4 0\<rparr>) =
      (if i < length algs then algs ! i else 0)"
    by (simp add: bank_entry_def)
  have "filter (\<lambda>q. bit (([0xff, 0xff, 0xff, 0] :: UINT8 list) ! (q div 8)) (q mod 8)) [0..<TPM2_MAX_PCRS H] =
      filter (\<lambda>q. q < 24) [0..<TPM2_MAX_PCRS H]"
    using assms(2) all_pcrs_bits by (intro filter_cong) auto
  also have "\<dots> = [0..<24]"
  proof -
    have split: "[0..<TPM2_MAX_PCRS H] = [0..<24] @ [24..<TPM2_MAX_PCRS H]"
      using assms(1) upt_add_eq_append [of 0 24 "TPM2_MAX_PCRS H - 24"] by simp
    show ?thesis unfolding split by (simp add: filter_empty_conv)
  qed
  finally show ?thesis
    by (simp only: entry_pairs_def sel h first_pcrs_def map_map comp_def)
qed

lemma initial_selection:
  assumes "24 \<le> TPM2_MAX_PCRS H" "TPM2_MAX_PCRS H \<le> 32" "card {i. bit banks i} \<le> 16"
  obtains sel where "select_all_active_pcrs H banks zero_selections = Some sel" "selection_wf H sel"
    "unat (sel_count sel) = card {i. bit banks i}"
    "selected_pairs H sel = concat (map (\<lambda>i. map (Pair (if i < length (known_algs H banks)
       then known_algs H banks ! i else 0)) first_pcrs) [0..<card {i. bit banks i}])"
proof -
  let ?n = "card {i. bit banks i}" and ?algs = "known_algs H banks"
  let ?e = "\<lparr>hash = 0, sizeofSelect = 0, pcrSelect = replicate 4 0\<rparr>"
  have room: "\<forall>s \<in> set (pcrSelections zero_selections). 3 \<le> length (pcrSelect s)"
    "?n \<le> length (pcrSelections zero_selections)"
    using assms(3) by (simp_all add: zero_selections_def)
  define sel where "sel = \<lparr>sel_count = of_nat ?n,
     pcrSelections = map (\<lambda>i. if i < ?n then bank_entry ?algs i (pcrSelections zero_selections ! i)
       else pcrSelections zero_selections ! i) [0..<length (pcrSelections zero_selections)]\<rparr>"
  have sel: "select_all_active_pcrs H banks zero_selections = Some sel"
    unfolding sel_def by (rule select_all_filled [OF room])
  have n: "unat (sel_count sel) = ?n"
    using assms(3) by (simp only: sel_def TPML_PCR_SELECTION.select_convs) (intro unat_of_nat32, simp)
  have wf: "selection_wf H sel"
    unfolding selection_wf_def n using assms(2) room(2)
    by (auto simp: sel_def bank_entry_def zero_selections_def)
  have "take ?n (pcrSelections sel) = map (\<lambda>i. bank_entry ?algs i ?e) [0..<?n]"
    using room(2) by (intro nth_equalityI) (simp_all add: sel_def zero_selections_def)
  then have "selected_pairs H sel = concat (map (\<lambda>i. map (Pair (if i < length ?algs then ?algs ! i else 0))
      first_pcrs) [0..<?n])"
    by (simp add: selected_pairs_def n bank_entry_pairs [OF assms(1,2)] comp_def)
  with sel wf n that show ?thesis by blast
qed

text \<open>Only known banks: each of their PCRs is asked for once. An unknown bank: algorithm 0 is.\<close>

lemma known_selection:
  assumes "length algs = n" "distinct algs"
    and "pairs = concat (map (\<lambda>i. map (Pair (if i < length algs then algs ! i else 0)) first_pcrs) [0..<n])"
  shows "distinct pairs" "set pairs = set algs \<times> {pcr. unat pcr < 24}"
proof -
  have "map (\<lambda>i. map (Pair (if i < length algs then algs ! i else 0)) first_pcrs) [0..<n] =
      map (\<lambda>x. map (Pair x) first_pcrs) algs"
    using assms(1) by (intro nth_equalityI) simp_all
  then have pairs: "pairs = List.product algs first_pcrs"
    by (simp only: assms(3) product_concat_map)
  show "distinct pairs"
    unfolding pairs using assms(2) first_pcrs_distinct by (rule distinct_product)
  show "set pairs = set algs \<times> {pcr. unat pcr < 24}"
    by (simp add: pairs first_pcrs_set)
qed

lemma unknown_selection:
  assumes "length algs < n"
    and "pairs = concat (map (\<lambda>i. map (Pair (if i < length algs then algs ! i else 0)) first_pcrs) [0..<n])"
  shows "(0, 0) \<in> set pairs"
proof -
  have "0 \<in> set first_pcrs" by (simp add: first_pcrs_set)
  then show ?thesis
    using assms(1) by (auto simp: assms(2) intro!: bexI [of _ "length algs"])
qed

subsection \<open>The property\<close>

lemma known_banks_loop:
  assumes "24 \<le> TPM2_MAX_PCRS H" "TPM2_MAX_PCRS H \<le> 32" "alg_ids_ok H" "banks_known banks"
    and "tpm_answers H present pcr_value (pcr_read :: ('a, 'b) pcr_read)" "160 < fuel"
  shows "\<exists>rc p' w'. prettyprint_pcrs_all H pcr_read fuel sys banks p w = Returned (rc, p', w')
     \<and> run_outcome H present pcr_value (active_pcrs H banks) (console w) rc w'"
proof -
  let ?asked = "active_pcrs H banks"
  have n: "card {i. bit banks i} = length (known_algs H banks)"
    using assms(4) banks_known_count by blast
  have five: "length (known_algs H banks) \<le> 5"
    using length_filter_le [of "bit banks" "[0..<5]"] by (simp add: known_algs_length)
  with n have "card {i. bit banks i} \<le> 16" by simp
  from initial_selection [OF assms(1,2) this] obtain sel where
    sel: "select_all_active_pcrs H banks zero_selections = Some sel" "selection_wf H sel"
      "unat (sel_count sel) = card {i. bit banks i}"
    and pairs: "selected_pairs H sel = concat (map (\<lambda>i. map (Pair (if i < length (known_algs H banks)
       then known_algs H banks ! i else 0)) first_pcrs) [0..<card {i. bit banks i}])" .
  note asked = known_selection [OF n [symmetric] known_algs_distinct [OF assms(3)] pairs]
  let ?s = "(\<lparr>digest_i = 0, last_alg = 0, tpml_digests = zero_digests, pcr_select = sel\<rparr>, 0, zero_selections, p, w)"
  have "\<exists>r. run_loop fuel (pcrs_body H pcr_read sys) ?s = Returned r
      \<and> run_outcome H present pcr_value ?asked (console w) (fst r) (snd (snd r))"
  proof (rule run_loop_returns [where I = "run_inv H present pcr_value ?asked (console w)"
        and \<mu> = "\<lambda>s. length (selected_pairs H (pcr_select (fst s)))"])
    have "unat (sel_count sel) * TPM2_MAX_PCRS H \<le> 5 * 32"
      using sel(3) n five assms(2) by (intro mult_le_mono) simp_all
    with selected_pairs_bound [of H sel] assms(6)
    show "length (selected_pairs H (pcr_select (fst ?s))) < fuel" by simp
    show "run_inv H present pcr_value ?asked (console w) ?s"
      unfolding run_inv_def prod.case
      by (intro conjI exI [of _ "[]"]) (simp_all add: sel(2) asked active_pcrs_def)
  next
    fix s :: "('a, 'b) pcrs_state"
    assume I: "run_inv H present pcr_value ?asked (console w) s"
    obtain cb uc pso q v where s: "s = (cb, uc, pso, q, v)" by (cases s)
    have max: "TPM2_MAX_PCRS H \<le> 255" using assms(2) by simp
    from run_step [where pcr_read = pcr_read, OF max assms(5) I [unfolded s], of sys]
    show "(\<exists>r. pcrs_body H pcr_read sys s = Some (Inr r)
        \<and> run_outcome H present pcr_value ?asked (console w) (fst r) (snd (snd r))) \<or>
      (\<exists>s'. pcrs_body H pcr_read sys s = Some (Inl s') \<and> run_inv H present pcr_value ?asked (console w) s'
        \<and> length (selected_pairs H (pcr_select (fst s'))) < length (selected_pairs H (pcr_select (fst s))))"
      unfolding s by auto
  qed
  then obtain rc p' w' where "prettyprint_pcrs_all H pcr_read fuel sys banks p w = Returned (rc, p', w')"
    "run_outcome H present pcr_value ?asked (console w) rc w'"
    by (auto simp: prettyprint_pcrs_all_def sel(1))
  then show ?thesis by blast
qed

text \<open>With an unknown bank the first read already fails.\<close>

lemma unknown_banks_loop:
  assumes "24 \<le> TPM2_MAX_PCRS H" "TPM2_MAX_PCRS H \<le> 32" "\<not> banks_known banks" "card {i. bit banks i} \<le> 16"
    and tpm: "tpm_answers H present pcr_value (pcr_read :: ('a, 'b) pcr_read)" and "0 < fuel"
  obtains p' w' where "prettyprint_pcrs_all H pcr_read fuel sys banks p w = Returned (1, p', w')"
    "read_failed H (console w) w'"
proof -
  have n: "length (known_algs H banks) < card {i. bit banks i}"
    using assms(3) banks_known_count [of banks H] active_banks_count [of banks H] by linarith
  from initial_selection [OF assms(1,2,4)] obtain sel where
    sel: "select_all_active_pcrs H banks zero_selections = Some sel"
    and pairs: "selected_pairs H sel = concat (map (\<lambda>i. map (Pair (if i < length (known_algs H banks)
       then known_algs H banks ! i else 0)) first_pcrs) [0..<card {i. bit banks i}])" .
  have zero: "(0, 0) \<in> set (selected_pairs H sel)" by (rule unknown_selection [OF n pairs])
  let ?cb = "\<lparr>digest_i = 0, last_alg = 0, tpml_digests = zero_digests, pcr_select = sel\<rparr>"
  obtain rc uc pso dg p1 w1 where
    read: "pcr_read sys (pcr_select ?cb) (0, zero_selections, zero_digests) (p, w) = (rc, (uc, pso, dg), p1, w1)"
    by (metis prod.exhaust)
  have bad: "rc \<noteq> TSS2_RC_SUCCESS H"
  proof
    assume "rc = TSS2_RC_SUCCESS H"
    from tpm_answersD(2) [where pcr_read = pcr_read, OF tpm read [unfolded this], of "(0, 0)"] zero
    show False by simp
  qed
  obtain lines where "console (snd (p1, w1)) = console (snd (p, w)) @ lines"
    by (rule tpm_failsD [where pcr_read = pcr_read, OF tpm read bad])
  then have "console w1 = console w @ lines" by simp
  note failed = read_failedI [OF bad this]
  have "prettyprint_pcrs_all H pcr_read fuel sys banks p w = Returned (1, p1,
      Print ''ERROR: Tss2_Sys_PCR_Read failed with RC: 0x%PRIx32\<newline>'' [A_num (unat rc)] w1)"
    using assms(6) failed_round [where pcr_read = pcr_read, OF read bad]
    by (cases fuel) (simp_all add: prettyprint_pcrs_all_def sel)
  with failed show ?thesis by (rule that [rotated])
qed

text \<open>All bitmaps.\<close>

definition pcrs_outcome ::
  "headers \<Rightarrow> (UINT16 \<times> UINT8) set \<Rightarrow> (UINT16 \<times> UINT8 \<Rightarrow> TPM2B_DIGEST) \<Rightarrow> UINT32 \<Rightarrow> call list \<Rightarrow>
   nat \<Rightarrow> 'fw world \<Rightarrow> bool" where
  "pcrs_outcome H present pcr_value banks before rc w \<longleftrightarrow>
     run_outcome H present pcr_value (active_pcrs H banks) before rc w
   \<and> (\<not> banks_known banks \<longrightarrow> rc = 1 \<and> read_failed H before w)"

lemma pcr_loop_outcome:
  assumes "24 \<le> TPM2_MAX_PCRS H" "TPM2_MAX_PCRS H \<le> 32" "alg_ids_ok H"
    and "tpm_answers H present pcr_value (pcr_read :: ('a, 'b) pcr_read)" "160 < fuel"
  shows "if 16 < card {i. bit banks i} then prettyprint_pcrs_all H pcr_read fuel sys banks p w = Undefined
     else \<exists>rc p' w'. prettyprint_pcrs_all H pcr_read fuel sys banks p w = Returned (rc, p', w')
       \<and> pcrs_outcome H present pcr_value banks (console w) rc w'"
proof (cases "16 < card {i. bit banks i}")
  case True
  then have "select_all_active_pcrs H banks zero_selections = None"
    by (intro select_all_outside) (simp add: zero_selections_def)
  with True show ?thesis by (simp add: prettyprint_pcrs_all_def)
next
  case False
  then have n: "card {i. bit banks i} \<le> 16" by simp
  show ?thesis
  proof (cases "banks_known banks")
    case True
    with known_banks_loop [OF assms(1-3) _ assms(4,5), of banks sys p w] False show ?thesis
      by (simp add: pcrs_outcome_def)
  next
    case unknown: False
    have "0 < fuel" using assms(5) by simp
    from unknown_banks_loop [OF assms(1,2) unknown n assms(4) this, of sys p w] obtain p' w' where
      run: "prettyprint_pcrs_all H pcr_read fuel sys banks p w = Returned (1, p', w')"
      and out: "read_failed H (console w) w'" .
    from out have "pcrs_outcome H present pcr_value banks (console w) 1 w'"
      unfolding pcrs_outcome_def run_outcome_def by (intro conjI impI exI [of _ "[]"]) simp_all
    with run False show ?thesis by auto
  qed
qed

text \<open>
  C11. The PCR tool's loop as a whole, for every bitmap of active banks and every library call
  that keeps to what TPM2_PCR_Read promises, in whatever portions it answers and whenever it
  fails. With more than 16 active banks the selection array overflows and the behaviour is
  undefined. Otherwise the loop returns, and what it has printed are the lines that show PCRs
  with their values, each PCR at most once and only PCRs 0 to 23 of the known active banks
  that the TPM has. When it returns 0 these are all of them; when it returns 1 a read has
  failed, and its own lines and the error line come last. With an active bank the code does
  not know (a bit from 5 on) the first read fails and no PCR is shown.
\<close>

theorem pcr_loop_shows_every_pcr:
  assumes "24 \<le> TPM2_MAX_PCRS H" "TPM2_MAX_PCRS H \<le> 32" "alg_ids_ok H"
    and "tpm_answers H present pcr_value (pcr_read :: ('a, 'b) pcr_read)" "160 < fuel"
  shows "if 16 < card {i. bit banks i} then prettyprint_pcrs_all H pcr_read fuel sys banks p w = Undefined
     else \<exists>rc p' w' shown. prettyprint_pcrs_all H pcr_read fuel sys banks p w = Returned (rc, p', w')
       \<and> distinct shown
       \<and> ((\<exists>i \<ge> 5. bit banks i) \<longrightarrow> rc = 1 \<and> shown = [])
       \<and> (rc = 0 \<and> set shown = active_pcrs H banks \<inter> present
            \<and> console w' = console w @ shown_lines H pcr_value 0 shown
        \<or> rc = 1 \<and> set shown \<subseteq> active_pcrs H banks \<inter> present
            \<and> read_failed H (console w @ shown_lines H pcr_value 0 shown) w')"
proof (cases "16 < card {i. bit banks i}")
  case True
  with pcr_loop_outcome [OF assms, of banks sys p w] show ?thesis by simp
next
  case False
  with pcr_loop_outcome [OF assms, of banks sys p w] obtain rc p' w' where
    run: "prettyprint_pcrs_all H pcr_read fuel sys banks p w = Returned (rc, p', w')"
    and out: "pcrs_outcome H present pcr_value banks (console w) rc w'" by auto
  show ?thesis
  proof (cases "banks_known banks")
    case True
    then have "\<not> (\<exists>i \<ge> 5. bit banks i)" by (auto simp: banks_known_def)
    with False run out show ?thesis unfolding pcrs_outcome_def run_outcome_def by auto
  next
    case unknown: False
    with out have "rc = 1" "read_failed H (console w) w'" by (auto simp: pcrs_outcome_def)
    with False run show ?thesis
      unfolding if_not_P [OF False]
      by (intro exI [of _ rc] exI [of _ p'] exI [of _ w'] exI [of _ "[]"]) simp
  qed
qed

text \<open>
  A TPM that has the PCRs of bank 4 (SHA1) only, reads one at a time, and refuses algorithm 0.
\<close>

definition picky_read :: "(UINT8 list list, nat option) pcr_read" where
  "picky_read sys sel out st =
     (if \<exists>x \<in> set (selected_pairs std_headers sel). fst x = 0 then (0x1C3, out, st)
      else (0, (case filter (\<lambda>x. fst x = 4) (selected_pairs std_headers sel) of
          [] \<Rightarrow> (0, zero_selections, zero_digests)
        | x # _ \<Rightarrow> (0, one_pcr (fst x) (snd x), one_digest)), st))"

lemma picky_read_success:
  assumes read: "picky_read sys sel out st = (0, (uc, pso, dg), st')"
  shows "st' = st" "\<forall>x \<in> set (selected_pairs std_headers sel). fst x \<noteq> 0"
    and "pso = zero_selections \<and> dg = zero_digests \<and> filter (\<lambda>x. fst x = 4) (selected_pairs std_headers sel) = []
      \<or> (\<exists>x. x \<in> set (selected_pairs std_headers sel) \<and> fst x = 4 \<and> dg = one_digest
           \<and> selection_wf std_headers pso \<and> selected_pairs std_headers pso = [x])"
proof -
  from read show "st' = st" "\<forall>x \<in> set (selected_pairs std_headers sel). fst x \<noteq> 0"
    by (auto simp: picky_read_def split: if_splits)
  show "pso = zero_selections \<and> dg = zero_digests \<and> filter (\<lambda>x. fst x = 4) (selected_pairs std_headers sel) = []
      \<or> (\<exists>x. x \<in> set (selected_pairs std_headers sel) \<and> fst x = 4 \<and> dg = one_digest
           \<and> selection_wf std_headers pso \<and> selected_pairs std_headers pso = [x])"
  proof (cases "filter (\<lambda>x. fst x = 4) (selected_pairs std_headers sel)")
    case Nil
    with read show ?thesis by (simp add: picky_read_def split: if_splits)
  next
    case (Cons x xs)
    then have "x \<in> set (filter (\<lambda>x. fst x = 4) (selected_pairs std_headers sel))" by simp
    then have x: "x \<in> set (selected_pairs std_headers sel)" "fst x = 4" by simp_all
    with pairs_below [of std_headers x sel] have "unat (snd x) < 32" by simp
    from one_pcr_ok [OF this, of "fst x"] x(2) have one: "selection_wf std_headers (one_pcr 4 (snd x))"
      "selected_pairs std_headers (one_pcr 4 (snd x)) = [x]" by (simp_all add: prod_eq_iff)
    from x read Cons have "pso = one_pcr 4 (snd x)" "dg = one_digest"
      by (simp_all add: picky_read_def split: if_splits)
    with one x show ?thesis by blast
  qed
qed

lemma no_pairs: "selected_pairs std_headers zero_selections = []"
  by (simp add: selected_pairs_def zero_selections_def)

lemma zero_wf: "selection_wf std_headers zero_selections"
  by (simp add: selection_wf_def zero_selections_def)

lemma picky_answers:
  "tpm_answers std_headers ({4} \<times> UNIV) (\<lambda>_. hd (digest_list one_digest)) picky_read"
  unfolding tpm_answers_def tpm_reads_ok_def
proof (intro conjI allI impI)
  fix sys sel out st uc pso dg st'
  assume "picky_read sys sel out st = (TSS2_RC_SUCCESS std_headers, (uc, pso, dg), st')"
  then have "picky_read sys sel out st = (0, (uc, pso, dg), st')" by simp
  from picky_read_success(3) [OF this]
  show "selection_wf std_headers pso" "digests_wf dg"
    "set (selected_pairs std_headers pso) \<subseteq> set (selected_pairs std_headers sel)"
    "length (selected_pairs std_headers pso) = unat (digest_count dg)"
    by (auto simp: no_pairs zero_wf one_digest_def zero_digests_def digests_wf_def)
next
  fix sys sel out st rc uc pso dg st'
  assume read: "picky_read sys sel out st = (rc, (uc, pso, dg), st')"
  show "if rc = TSS2_RC_SUCCESS std_headers
        then console (snd st') = console (snd st)
           \<and> (\<forall>x \<in> set (selected_pairs std_headers sel). fst x \<noteq> 0)
           \<and> set (selected_pairs std_headers pso) \<subseteq> {4} \<times> UNIV
           \<and> (distinct (selected_pairs std_headers sel) \<longrightarrow> distinct (selected_pairs std_headers pso))
           \<and> (set (selected_pairs std_headers sel) \<inter> {4} \<times> UNIV \<noteq> {} \<longrightarrow> selected_pairs std_headers pso \<noteq> [])
           \<and> take (unat (digest_count dg)) (digest_list dg) =
               map (\<lambda>_. hd (digest_list one_digest)) (selected_pairs std_headers pso)
        else \<exists>lines. console (snd st') = console (snd st) @ lines"
  proof (cases "rc = 0")
    case True
    note ok = picky_read_success [OF read [unfolded True]]
    from ok(3) show ?thesis
      by (auto simp: True ok(1,2) no_pairs one_digest_def zero_digests_def filter_empty_conv)
  next
    case False
    with read show ?thesis by (auto simp: picky_read_def split: if_splits)
  qed
qed

theorem pcr_loop_shows_every_pcr_witness:
  "(\<exists>rc p' w' shown. prettyprint_pcrs_all std_headers picky_read 161 None 3 demo_pool demo_world =
       Returned (rc, p', w')
     \<and> distinct shown \<and> set shown \<subseteq> {4} \<times> {pcr. unat pcr < 24}
     \<and> (rc = 0 \<longrightarrow> console w' = shown_lines std_headers (\<lambda>_. hd (digest_list one_digest)) 0 shown))
   \<and> (\<exists>p' w'. prettyprint_pcrs_all std_headers picky_read 161 None 32 demo_pool demo_world = Returned (1, p', w'))"
proof -
  have pcrs: "24 \<le> TPM2_MAX_PCRS std_headers" "TPM2_MAX_PCRS std_headers \<le> 32" "alg_ids_ok std_headers"
    by simp_all
  have active: "active_pcrs std_headers 3 \<inter> {4} \<times> UNIV = {4} \<times> {pcr. unat pcr < 24}"
    by (auto simp: active_pcrs_def known_algs_def bit_iff_odd)
  have few: "\<not> 16 < card {i. bit (3 :: UINT32) i}" unfolding bits_of_3 by simp
  have bit5: "bit (32 :: UINT32) i \<longleftrightarrow> i = 5" for i
  proof -
    have "(32 :: UINT32) = 2 ^ 5" by simp
    then show ?thesis by (simp only: bit_exp_iff) auto
  qed
  then have one: "\<not> 16 < card {i. bit (32 :: UINT32) i}" by simp
  have "(160 :: nat) < 161" by simp
  note loop = pcr_loop_shows_every_pcr [where pcr_read = picky_read, OF pcrs picky_answers this]
  from loop [of 3 None demo_pool demo_world]
  have "\<exists>rc p' w' shown. prettyprint_pcrs_all std_headers picky_read 161 None 3 demo_pool demo_world =
       Returned (rc, p', w')
     \<and> distinct shown \<and> set shown \<subseteq> {4} \<times> {pcr. unat pcr < 24}
     \<and> (rc = 0 \<longrightarrow> console w' = shown_lines std_headers (\<lambda>_. hd (digest_list one_digest)) 0 shown)"
    unfolding if_not_P [OF few] active by (force simp: demo_world_def)
  moreover from loop [of 32 None demo_pool demo_world]
  have "\<exists>p' w'. prettyprint_pcrs_all std_headers picky_read 161 None 32 demo_pool demo_world = Returned (1, p', w')"
    unfolding if_not_P [OF one] bit5 by auto
  ultimately show ?thesis ..
qed

end
