(* ===== verification/Pcrs_Tool.thy ===== *)
theory Pcrs_Tool
  imports Tool_Session Pcrs_Run
begin

section \<open>The PCR program as a whole\<close>

text \<open>
  The parts of example/tpm2-get-pcrs.c put together: the firmware's two answers, the
  initialisation of the contexts and the reading loop.
\<close>

subsection \<open>A successful initialisation prints nothing\<close>

lemma tcti_init_silent:
  assumes "tcti_codes_ok H" "tcti_uefi_init H L E ctx p w = Some (TSS2_RC_SUCCESS H, ctx', p', w')"
  shows "console w' = console w"
proof -
  have ne: "TSS2_TCTI_RC_GENERAL_FAILURE H \<noteq> TSS2_RC_SUCCESS H"
    using assms(1) by (auto simp: tcti_codes_ok_def)
  with assms(2) obtain n w1 where "sizeof_tcti_uefi_context H L w = Some (n, w1)" "n \<noteq> 0"
    by (auto simp: tcti_uefi_init_def init_query split: bind_splits if_splits)
  from sizeof_silent [OF this] this assms(2) ne show ?thesis
    by (auto simp: tcti_uefi_init_def init_query tcti_at_def pool_alloc_def init_context Let_def
        split: bind_splits if_splits prod.splits)
qed

lemma sys_from_tcti_silent:
  assumes "tcti_codes_ok H"
    and "sys_uefi_init_from_tcti_ctx H E tcti sys p w = Some (TSS2_RC_SUCCESS H, sys', p', w')"
  shows "console w' = console w"
proof -
  have ne: "TSS2_TCTI_RC_GENERAL_FAILURE H \<noteq> TSS2_RC_SUCCESS H"
    using assms(1) by (auto simp: tcti_codes_ok_def)
  with assms(2) show ?thesis
    by (auto simp: sys_uefi_init_from_tcti_ctx_def Let_def split: bind_splits if_splits prod.splits)
qed

lemma sys_init_silent:
  assumes "tcti_codes_ok H" "sys_uefi_init H L E sys p w = Some (TSS2_RC_SUCCESS H, sys', p', w')"
  shows "console w' = console w"
proof -
  from assms(2) obtain tcti p1 w1 where
    "tcti_uefi_init H L E None p w = Some (TSS2_RC_SUCCESS H, tcti, p1, w1)"
    "sys_uefi_init_from_tcti_ctx H E tcti sys p1 w1 = Some (TSS2_RC_SUCCESS H, sys', p', w')"
    by (auto simp: sys_uefi_init_def split: bind_splits if_splits)
  with tcti_init_silent [OF assms(1)] sys_from_tcti_silent [OF assms(1)] show ?thesis
    by metis
qed

subsection \<open>The program behind the firmware's answers\<close>

lemma main_after_banks:
  assumes "L EFI_TCG2_PROTOCOL_GUID (firmware w) = (st, Some prot, f1)" "\<not> EFI_ERROR H st"
    and "GetActivePcrBanks prot 0 f1 = (st2, banks, f2)"
  shows "pcrs_main H L E pcr_read fuel p w =
    (if EFI_ERROR H st2 then Returned (st2, p,
       Print ''GetActivePcrBanks failed: 0x%x\<newline>'' [A_num (unat st2)] (w\<lparr>firmware := f2\<rparr>))
     else case sys_uefi_init H L E None p (w\<lparr>firmware := f2\<rparr>) of
        None \<Rightarrow> Undefined
      | Some (rc, sys, p1, w1) \<Rightarrow> if rc \<noteq> TSS2_RC_SUCCESS H then Returned (EFI_ABORTED H, p1, w1)
          else (case prettyprint_pcrs_all H pcr_read fuel sys banks p1 w1 of
              Running s \<Rightarrow> Running s | Undefined \<Rightarrow> Undefined
            | Returned (n, p, w) \<Rightarrow> Returned (of_nat n, p, w)))"
proof -
  have "tcg2_get_active_pcr_banks H (Some prot) 0 (w\<lparr>firmware := f1\<rparr>) = Some (st2, banks,
      report_status H ''GetActivePcrBanks failed: 0x%x\<newline>'' st2 (w\<lparr>firmware := f2\<rparr>))"
    using banks_wrapper.lifts [of prot 0 "w\<lparr>firmware := f1\<rparr>" st2 banks f2 H] assms(3) by simp
  then show ?thesis
    using assms(2)
    by (simp add: pcrs_main_def get_protocol_success [where LibLocateProtocol = L, OF assms(1,2)]
        report_status_def)
qed

subsection \<open>The property\<close>

text \<open>
  C12. The PCR program, for every answer of LocateProtocol and GetActivePcrBanks, every outcome
  of the context set-up and every library call that keeps to what TPM2_PCR_Read promises,
  failing reads included. It ends with the status of the first firmware call that fails and
  that call's line (LocateProtocol has none); with EFI_ABORTED when the contexts cannot be set
  up. Otherwise more than 16 active banks make it write past the selection array (undefined);
  else it returns 0, and has shown every PCR that the TPM has in the known active banks
  once with its value, or 1, and has shown some of them, with the lines of the failed read and
  the program's error line at the end; with an active bank it does not know it always returns
  1. It prints nothing else. LocateProtocol gives an interface when it succeeds.
\<close>

theorem pcrs_tool_outcome:
  assumes "tss_env H L E" "pool_wf p" "alg_ids_ok H"
    and "L EFI_TCG2_PROTOCOL_GUID (firmware w) = (st, q, f1)" "EFI_ERROR H st \<or> q = Some prot"
    and "GetActivePcrBanks prot 0 f1 = (st2, banks, f2)"
    and "24 \<le> TPM2_MAX_PCRS H" "TPM2_MAX_PCRS H \<le> 32"
    and "tpm_answers H present pcr_value (pcr_read :: ('a, 'b) pcr_read)" "160 < fuel"
  shows "if EFI_ERROR H st then
       \<exists>w'. pcrs_main H L E pcr_read fuel p w = Returned (st, p, w') \<and> console w' = console w
     else if EFI_ERROR H st2 then
       \<exists>w'. pcrs_main H L E pcr_read fuel p w = Returned (st2, p, w')
         \<and> console w' = console w @ [Printed ''GetActivePcrBanks failed: 0x%x\<newline>'' [A_num (unat st2)]]
     else \<exists>rc sys p1 w1. sys_uefi_init H L E None p (w\<lparr>firmware := f2\<rparr>) = Some (rc, sys, p1, w1)
       \<and> (if rc \<noteq> TSS2_RC_SUCCESS H then pcrs_main H L E pcr_read fuel p w = Returned (EFI_ABORTED H, p1, w1)
          else if 16 < card {i. bit banks i} then pcrs_main H L E pcr_read fuel p w = Undefined
          else \<exists>status p' w'. pcrs_main H L E pcr_read fuel p w = Returned (status, p', w')
            \<and> run_outcome H present pcr_value (active_pcrs H banks) (console w) (unat status) w'
            \<and> ((\<exists>i \<ge> 5. bit banks i) \<longrightarrow> status = 1 \<and> read_failed H (console w) w'))"
proof (cases "EFI_ERROR H st")
  case True
  then show ?thesis
    by (simp add: pcrs_main_def get_protocol_failure [where LibLocateProtocol = L, OF assms(4) True])
next
  case ok: False
  with assms(5) have q: "q = Some prot" by simp
  note main = main_after_banks [where L = L and pcr_read = pcr_read, OF assms(4) [unfolded q] ok assms(6)]
  show ?thesis
  proof (cases "EFI_ERROR H st2")
    case True
    with ok show ?thesis by (simp add: main)
  next
    case ok2: False
    let ?w = "w\<lparr>firmware := f2\<rparr>"
    obtain rc sys p1 w1 where init: "sys_uefi_init H L E None p ?w = Some (rc, sys, p1, w1)"
      by (rule sys_init_cases [OF assms(1,2), of None ?w]) auto
    show ?thesis
    proof (cases "rc = TSS2_RC_SUCCESS H")
      case False
      with ok ok2 init show ?thesis by (simp add: main)
    next
      case True
      have "tcti_codes_ok H" using assms(1) by (simp add: tss_env_def)
      from sys_init_silent [OF this init [unfolded True]] have same: "console w1 = console w" by simp
      note loop = pcr_loop_outcome [OF assms(7,8,3,9,10), of banks sys p1 w1]
      show ?thesis
      proof (cases "16 < card {i. bit banks i}")
        case many: True
        with ok ok2 init True loop show ?thesis by (simp add: main)
      next
        case few: False
        with loop obtain n p2 w2 where
          run: "prettyprint_pcrs_all H pcr_read fuel sys banks p1 w1 = Returned (n, p2, w2)"
          and out: "pcrs_outcome H present pcr_value banks (console w) n w2"
          by (auto simp: same)
        from out have n: "unat (of_nat n :: EFI_STATUS) = n"
          by (auto simp: pcrs_outcome_def run_outcome_def)
        have "pcrs_main H L E pcr_read fuel p w = Returned (of_nat n, p2, w2)"
          using ok2 init True run by (simp add: main)
        moreover from out have "(\<exists>i \<ge> 5. bit banks i) \<longrightarrow> n = 1 \<and> read_failed H (console w) w2"
          by (auto simp: pcrs_outcome_def banks_known_def)
        moreover from out n have
          "run_outcome H present pcr_value (active_pcrs H banks) (console w) (unat (of_nat n :: EFI_STATUS)) w2"
          by (simp add: pcrs_outcome_def)
        ultimately show ?thesis
          using ok ok2 init True few by auto
      qed
    qed
  qed
qed

theorem pcrs_tool_outcome_witness:
  "\<exists>status p' w' sys p1 w1. pcrs_main std_headers (demo_locate 0 0) (demo_lib True 0) picky_read 161
       demo_pool demo_world = Returned (status, p', w')
     \<and> sys_uefi_init std_headers (demo_locate 0 0) (demo_lib True 0) None demo_pool demo_world =
       Some (TSS2_RC_SUCCESS std_headers, sys, p1, w1)
     \<and> run_outcome std_headers ({4} \<times> UNIV) (\<lambda>_. hd (digest_list one_digest)) (active_pcrs std_headers 3) []
         (unat status) w'"
proof -
  have locate: "demo_locate 0 0 EFI_TCG2_PROTOCOL_GUID (firmware demo_world) =
      (0, Some (demo_protocol 0 demo_caps demo_log), [])"
    and banks: "GetActivePcrBanks (demo_protocol 0 demo_caps demo_log) 0 [] = (0, 3, [])"
    by (simp_all add: demo_simps)
  have ok: "EFI_ERROR std_headers 0 \<or> Some p = Some p" for p :: "UINT8 list list EFI_TCG2_PROTOCOL"
    by simp
  have no: "\<not> EFI_ERROR std_headers 0" by simp
  have few: "\<not> 16 < card {i. bit (3 :: UINT32) i}" unfolding bits_of_3 by simp
  have max: "24 \<le> TPM2_MAX_PCRS std_headers" "TPM2_MAX_PCRS std_headers \<le> 32" and fuel: "(160 :: nat) < 161"
    by simp_all
  have same: "demo_world\<lparr>firmware := []\<rparr> = demo_world" "console demo_world = []"
    by (simp_all add: demo_world_def)
  from demo_sys_init obtain sys p1 w1 where
    init: "sys_uefi_init std_headers (demo_locate 0 0) (demo_lib True 0) None demo_pool demo_world =
      Some (TSS2_RC_SUCCESS std_headers, sys, p1, w1)" by blast
  from pcrs_tool_outcome [where pcr_read = picky_read and E = "demo_lib True 0", OF demo_env demo_pool_wf
      std_headers_ok(3) locate ok banks max picky_answers fuel, unfolded if_not_P [OF no] if_not_P [OF few] same]
  obtain rc sys' p2 w2 where "sys_uefi_init std_headers (demo_locate 0 0) (demo_lib True 0) None demo_pool
      demo_world = Some (rc, sys', p2, w2)"
    and out: "if rc \<noteq> TSS2_RC_SUCCESS std_headers
       then pcrs_main std_headers (demo_locate 0 0) (demo_lib True 0) picky_read 161 demo_pool demo_world =
         Returned (EFI_ABORTED std_headers, p2, w2)
       else \<exists>status p' w'. pcrs_main std_headers (demo_locate 0 0) (demo_lib True 0) picky_read 161
           demo_pool demo_world = Returned (status, p', w')
         \<and> run_outcome std_headers ({4} \<times> UNIV) (\<lambda>_. hd (digest_list one_digest))
             (active_pcrs std_headers 3) [] (unat status) w'
         \<and> ((\<exists>i \<ge> 5. bit (3 :: UINT32) i) \<longrightarrow> status = 1 \<and> read_failed std_headers [] w')"
    by blast
  with init have "rc = TSS2_RC_SUCCESS std_headers" by simp
  with out init show ?thesis by auto
qed

end
