(* ===== verification/Unit_Tests.thy ===== *)
theory Unit_Tests
  imports Tcti_Contract Pcr_Select
begin

section \<open>The unit tests of the repository: test/*_unit.c\<close>

text \<open>
  The repository's own tests, carried out on the model: each assertion of the cmocka tests
  becomes a statement about the definitions, with the mocks of test/tcti-uefi-wraps.c as a
  firmware. They confirm that the definitions do what the authors of the code expect of it;
  each lemma is one test program, its conjuncts the tests in the order of its main function.
\<close>

subsection \<open>The mocks\<close>

text \<open>
  LibLocateProtocol gives the status and the interface it is told, and the protocol answers
  with the status and the two sizes it is told.
\<close>

definition mock_protocol :: "EFI_STATUS \<Rightarrow> UINT16 \<Rightarrow> UINT16 \<Rightarrow> UINT8 list list EFI_TCG2_PROTOCOL" where
  "mock_protocol status cmd_size resp_size = demo_protocol status
     ((caps_init 0)\<lparr>MaxCommandSize := cmd_size, MaxResponseSize := resp_size\<rparr>) demo_log"

definition mock_locate ::
  "EFI_STATUS \<Rightarrow> EFI_STATUS \<Rightarrow> UINT16 \<Rightarrow> UINT8 list list locate" where
  "mock_locate locate_status status max_buf =
     (\<lambda>guid f. (locate_status, Some (mock_protocol status max_buf 0), f))"

definition mock_context :: "UINT64 \<Rightarrow> UINT64 \<Rightarrow> tcti_uefi_state_t \<Rightarrow> size_t \<Rightarrow> UINT8 list \<Rightarrow> TSS2_TCTI_UEFI_CONTEXT" where
  "mock_context tag ver st n buf = \<lparr>common = \<lparr>magic = tag, version = ver, fn_transmit = FN_NULL,
     fn_receive = FN_NULL, fn_finalize = FN_NULL, fn_cancel = FN_NULL, fn_get_poll_handles = FN_NULL,
     fn_set_locality = FN_NULL, fn_make_sticky = FN_NULL\<rparr>,
     ctx_state = st, ctx_size = n, cmd_buf = buf\<rparr>"

abbreviation good_context :: "tcti_uefi_state_t \<Rightarrow> size_t \<Rightarrow> UINT8 list \<Rightarrow> TSS2_TCTI_UEFI_CONTEXT" where
  "good_context \<equiv> mock_context TCTI_UEFI_MAGIC TCTI_UEFI_VERSION"

abbreviation bad_context :: "tcti_uefi_state_t \<Rightarrow> TSS2_TCTI_UEFI_CONTEXT" where
  "bad_context st \<equiv> mock_context 0 0 st 0 []"

definition rc_of :: "('a \<times> 'b) option \<Rightarrow> 'a option" where
  "rc_of r = map_option fst r"

lemmas mock_simps = mock_protocol_def mock_locate_def mock_context_def rc_of_def demo_protocol_def
  tcti_uefi_context_cast_def TCTI_UEFI_MAGIC_def TCTI_UEFI_VERSION_def TPM2_HEADER_SIZE_def
  tcg2_get_protocol_def demo_world_def

subsection \<open>test/tcg2-util_unit.c\<close>

abbreviation EFI_LOAD_ERROR :: EFI_STATUS where
  "EFI_LOAD_ERROR \<equiv> 0x8000000000000001"

lemma tcg2_util_unit:
  "rc_of (tcg2_get_capability std_headers (Some (mock_protocol EFI_LOAD_ERROR 0 0)) (caps_init 0) demo_world) =
     Some EFI_LOAD_ERROR"
  "rc_of (tcg2_get_capability std_headers (Some (mock_protocol 0 0 0)) (caps_init 0) demo_world) = Some 0"
  "rc_of (tcg2_get_max_buf std_headers (Some (mock_protocol EFI_LOAD_ERROR 0 0)) demo_world) = Some 0"
  "rc_of (tcg2_get_max_buf std_headers (Some (mock_protocol 0 1 0)) demo_world) = Some 1"
  "rc_of (tcg2_get_max_buf std_headers (Some (mock_protocol 0 0 1)) demo_world) = Some 1"
  "rc_of (tcg2_submit_command std_headers (Some (mock_protocol EFI_LOAD_ERROR 0 0)) 0 [] 0 [] demo_world) =
     Some EFI_LOAD_ERROR"
  "rc_of (tcg2_submit_command std_headers (Some (mock_protocol 0 0 0)) 0 [] 0 [] demo_world) = Some 0"
  "fst (tcg2_get_protocol std_headers (\<lambda>guid f. (EFI_LOAD_ERROR, None, f)) None demo_world) = EFI_LOAD_ERROR"
  "fst (tcg2_get_protocol std_headers (mock_locate 0 0 0) None demo_world) = 0"
  by (simp_all add: mock_simps tcg2_get_capability_def tcg2_get_max_buf_def tcg2_submit_command_def
      caps_init_def Let_def)

subsection \<open>test/tcti-uefi-cast_unit.c and test/tcti-uefi-finalize_unit.c\<close>

lemma tcti_uefi_cast_unit:
  "tcti_uefi_context_cast None = None"
  "tcti_uefi_context_cast (Some (bad_context UEFI_STATE_FINAL)) = None"
  "tcti_uefi_context_cast (Some (mock_context TCTI_UEFI_MAGIC 1 UEFI_STATE_FINAL 0 [])) = None"
  "tcti_uefi_context_cast (Some (good_context UEFI_STATE_FINAL 0 [])) \<noteq> None"
  by (simp_all add: mock_simps)

lemma tcti_uefi_finalize_unit:
  "fst (tcti_uefi_finalize None demo_world) = None"
  "map_option ctx_state (fst (tcti_uefi_finalize (Some (bad_context UEFI_STATE_TRANSMIT)) demo_world)) =
     Some UEFI_STATE_TRANSMIT"
  "map_option ctx_state (fst (tcti_uefi_finalize (Some (good_context st 0 [])) demo_world)) =
     Some UEFI_STATE_FINAL"
  by (simp_all add: mock_simps tcti_uefi_finalize_def)

subsection \<open>test/tcti-uefi-init_unit.c\<close>

abbreviation MAXBUF_SIZE :: "'a :: len word" where
  "MAXBUF_SIZE \<equiv> 0x3f0"

lemma tcti_uefi_init_unit:
  "\<exists>w. Tss2_Tcti_Uefi_Init std_headers (mock_locate 0 0 MAXBUF_SIZE) None (Some n) None demo_world =
     Some (TSS2_RC_SUCCESS std_headers, None, Some (sizeof_ctx std_headers + MAXBUF_SIZE), w)"
  "rc_of (Tss2_Tcti_Uefi_Init std_headers L None None None demo_world) =
     Some (TSS2_TCTI_RC_BAD_VALUE std_headers)"
  "rc_of (Tss2_Tcti_Uefi_Init std_headers L (Some (mock_context 0 0 UEFI_STATE_FINAL 0 (replicate 1008 0)))
     (Some (MAXBUF_SIZE + sizeof_ctx std_headers)) None demo_world) = Some (TSS2_RC_SUCCESS std_headers)"
  by (simp_all add: mock_simps Tss2_Tcti_Uefi_Init_def sizeof_tcti_uefi_context_def sizeof_ctx_std
      tcg2_get_max_buf_def tcg2_get_capability_def report_status_def caps_init_def Let_def)

subsection \<open>test/tcti-uefi-transmit_unit.c\<close>

lemma tcti_uefi_transmit_unit:
  "rc_of (tcti_uefi_transmit std_headers None 1 (Some [b]) demo_world) =
     Some (TSS2_TCTI_RC_BAD_REFERENCE std_headers)"
  "rc_of (tcti_uefi_transmit std_headers (Some c) 0 None demo_world) =
     Some (TSS2_TCTI_RC_BAD_REFERENCE std_headers)"
  "rc_of (tcti_uefi_transmit std_headers (Some (bad_context UEFI_STATE_FINAL)) 1 (Some [b]) demo_world) =
     Some (TSS2_TCTI_RC_BAD_CONTEXT std_headers)"
  "rc_of (tcti_uefi_transmit std_headers (Some (good_context UEFI_STATE_RECEIVE 0 [])) 1 (Some [b]) demo_world) =
     Some (TSS2_TCTI_RC_BAD_SEQUENCE std_headers)"
  "rc_of (tcti_uefi_transmit std_headers (Some (good_context UEFI_STATE_TRANSMIT 1 [0])) 1 (Some [b]) demo_world) =
     Some (TSS2_TCTI_RC_BAD_VALUE std_headers)"
  "rc_of (tcti_uefi_transmit std_headers (Some (good_context UEFI_STATE_TRANSMIT 20 (replicate 20 0)))
     15 (Some (replicate 15 b)) demo_world) = Some (TSS2_RC_SUCCESS std_headers)"
  by (simp_all add: mock_simps tcti_uefi_transmit_def CopyMem_def)

subsection \<open>test/tcti-uefi-receive_unit.c\<close>

text \<open>The context of the tests' setup function, and the call each test makes.\<close>

abbreviation receive_with ::
  "UINT8 list list locate \<Rightarrow> TSS2_TCTI_UEFI_CONTEXT option \<Rightarrow> size_t option \<Rightarrow> UINT8 list option \<Rightarrow> 32 word \<Rightarrow>
   TSS2_RC option" where
  "receive_with L context sz response timeout \<equiv>
     rc_of (tcti_uefi_receive std_headers L context sz response timeout demo_world)"

abbreviation setup_context :: TSS2_TCTI_UEFI_CONTEXT where
  "setup_context \<equiv> good_context UEFI_STATE_RECEIVE 10 (replicate 10 0)"

abbreviation EFI_MEDIA_CHANGED :: EFI_STATUS where
  "EFI_MEDIA_CHANGED \<equiv> 0x800000000000000d"

lemma tcti_uefi_receive_unit:
  "receive_with L None (Some 0) (Some [0]) (- 1) = Some (TSS2_TCTI_RC_BAD_REFERENCE std_headers)"
  "receive_with L (Some setup_context) None (Some [0]) (- 1) = Some (TSS2_TCTI_RC_BAD_REFERENCE std_headers)"
  "receive_with L (Some setup_context) (Some 0) (Some [0]) 0 = Some (TSS2_TCTI_RC_NOT_IMPLEMENTED std_headers)"
  "receive_with L (Some (mock_context 0 TCTI_UEFI_VERSION UEFI_STATE_RECEIVE 10 (replicate 10 0)))
     (Some 0) (Some [0]) (- 1) = Some (TSS2_TCTI_RC_BAD_CONTEXT std_headers)"
  "receive_with L (Some (setup_context\<lparr>ctx_state := UEFI_STATE_TRANSMIT\<rparr>)) (Some 0) (Some [0]) (- 1) =
     Some (TSS2_TCTI_RC_BAD_SEQUENCE std_headers)"
  "\<exists>c w. tcti_uefi_receive std_headers L (Some setup_context) (Some 0) None (- 1) demo_world =
     Some (TSS2_RC_SUCCESS std_headers, c, Some 10, None, w)"
  "receive_with (mock_locate (EFI_INVALID_PARAMETER std_headers) 0 0) (Some setup_context) (Some 0) (Some [0]) (- 1) =
     Some (TSS2_TCTI_RC_GENERAL_FAILURE std_headers)"
  "receive_with (mock_locate 0 (EFI_INVALID_PARAMETER std_headers) 0) (Some setup_context) (Some 0) (Some [0]) (- 1) =
     Some (TSS2_TCTI_RC_BAD_VALUE std_headers)"
  "receive_with (mock_locate 0 (EFI_BUFFER_TOO_SMALL std_headers) 0) (Some setup_context) (Some 0) (Some [0]) (- 1) =
     Some (TSS2_TCTI_RC_INSUFFICIENT_BUFFER std_headers)"
  "receive_with (mock_locate 0 (EFI_DEVICE_ERROR std_headers) 0) (Some setup_context) (Some 0) (Some [0]) (- 1) =
     Some (TSS2_TCTI_RC_IO_ERROR std_headers)"
  "receive_with (mock_locate 0 (EFI_ACCESS_DENIED std_headers) 0) (Some setup_context) (Some 0) (Some [0]) (- 1) =
     Some (TSS2_TCTI_RC_GENERAL_FAILURE std_headers)"
  "receive_with (mock_locate 0 EFI_MEDIA_CHANGED 0) (Some setup_context) (Some 0) (Some [0]) (- 1) =
     Some (TSS2_TCTI_RC_GENERAL_FAILURE std_headers)"
  "receive_with (mock_locate 0 0 0) (Some setup_context) (Some 0) (Some [0]) (- 1) =
     Some (TSS2_RC_SUCCESS std_headers)"
  by (simp_all add: mock_simps tcti_uefi_receive_def receive_error_def tcg2_submit_command_def
      report_status_def Let_def)

subsection \<open>test/example-util_unit.c\<close>

lemma example_util_bitmap_unit:
  "is_pcr_selected [1, 0, 0] 0 = Some True"
  "is_pcr_selected [0, 0, 2] 17 = Some True"
  "is_pcr_selected [0xff, 0xaa, 0xff] 10 = Some False"
  "is_pcr_selected [0xff, 0xff, 0xdf] 21 = Some False"
  "select_pcr [0, 0, 0] 14 \<bind> (\<lambda>s. is_pcr_selected s 14) = Some True"
  "deselect_pcr [0xff, 0xff, 0xff] 7 \<bind> (\<lambda>s. is_pcr_selected s 7) = Some False"
  "deselect_pcr [0xff, 0xff, 0xff] 10 \<bind> (\<lambda>s. is_pcr_selected s 10) = Some False"
  "deselect_pcr [0xff, 0xff, 0xff] 20 \<bind> (\<lambda>s. is_pcr_selected s 20) = Some False"
  by (simp_all add: is_pcr_selected_def select_pcr_def deselect_pcr_def Let_def)

lemma example_util_count_unit:
  "count_algs_in_bitmap 0 = 0" "count_algs_in_bitmap 0xf0f0f4f0 = 17" "count_algs_in_bitmap 0xffffffff = 32"
  by (simp_all add: count_filter upt_32 bit_iff_odd)

text \<open>The entries of a zeroed selection that \<open>select_all_active_pcrs\<close> fills.\<close>

abbreviation selected_banks :: "UINT32 \<Rightarrow> (UINT32 \<times> (UINT16 \<times> UINT8 list) list) option" where
  "selected_banks b \<equiv> map_option (\<lambda>s. (sel_count s, map (\<lambda>e. (hash e, take 3 (pcrSelect e)))
       (take (unat (sel_count s)) (pcrSelections s))))
     (select_all_active_pcrs std_headers b demo_zero_selections)"

lemma count_of_2: "count_algs_in_bitmap 9 = 2" "count_algs_in_bitmap 1 = 1" "count_algs_in_bitmap 2 = 1"
  "count_algs_in_bitmap 4 = 1" "count_algs_in_bitmap 8 = 1"
  by (simp_all add: count_filter upt_32 bit_iff_odd)

lemma replicate_3: "replicate 3 x = [x, x, x]"
  and replicate_16: "replicate 16 x = [x, x, x, x, x, x, x, x, x, x, x, x, x, x, x, x]"
  by (simp_all add: numeral_eq_Suc)

lemma example_util_select_unit:
  "selected_banks EFI_TCG2_BOOT_HASH_ALG_SHA1 = Some (1, [(4, [0xff, 0xff, 0xff])])"
  "selected_banks EFI_TCG2_BOOT_HASH_ALG_SHA256 = Some (1, [(0xB, [0xff, 0xff, 0xff])])"
  "selected_banks EFI_TCG2_BOOT_HASH_ALG_SHA384 = Some (1, [(0xC, [0xff, 0xff, 0xff])])"
  "selected_banks EFI_TCG2_BOOT_HASH_ALG_SHA512 = Some (1, [(0xD, [0xff, 0xff, 0xff])])"
  "selected_banks (EFI_TCG2_BOOT_HASH_ALG_SHA1 OR EFI_TCG2_BOOT_HASH_ALG_SHA512) =
     Some (2, [(4, [0xff, 0xff, 0xff]), (0xD, [0xff, 0xff, 0xff])])"
  by (simp_all add: select_all_active_pcrs_def demo_zero_selections_def count_of_2 unfolds next_bank_def
      upt_rec replicate_3 replicate_16 Let_def)

end
