(* ===== verification/Tcti_Interleaving.thy ===== *)
theory Tcti_Interleaving
  imports Tss2_Contract Tcti_Firmware
begin

section \<open>Several TCTI contexts in one pool\<close>

text \<open>
  The TCTI keeps a pending command in the buffer of its context, so that several contexts
  can share the firmware. This theory takes the contexts where the program has them, in
  blocks of the pool, and lets their calls interleave in any order.
\<close>

subsection \<open>The machine\<close>

text \<open>A call goes to the context of a handle; a handle without a context is undefined.\<close>

definition store_tcti :: "nat \<Rightarrow> TSS2_TCTI_UEFI_CONTEXT \<Rightarrow> 'sys pool \<Rightarrow> 'sys pool" where
  "store_tcti h c = pool_store h (Tcti_block c)"

interpretation tcti_cells: cells tcti_at store_tcti
  by unfold_locales (auto simp: tcti_at_def store_tcti_def pool_store_def)

abbreviation pool_step ::
  "headers \<Rightarrow> 'fw locate \<Rightarrow> nat \<times> tcti_call \<Rightarrow> 'sys pool \<times> 'fw world \<Rightarrow>
   ((nat \<times> tcti_event) \<times> 'sys pool \<times> 'fw world) option" where
  "pool_step H L \<equiv> family_step tcti_at store_tcti (tcti_step H L)"

text \<open>The simulation of a single context, whatever the world is.\<close>

definition context_sim ::
  "headers \<Rightarrow> 'fw locate \<Rightarrow> (nat \<Rightarrow> nat) \<Rightarrow> nat \<Rightarrow> TSS2_TCTI_UEFI_CONTEXT \<Rightarrow> tcti_phase \<Rightarrow> bool" where
  "context_sim H L cap h c ph \<longleftrightarrow> (\<forall>w. tcti_sim_env H L (cap h) (c, w) ph)"

lemma context_sim_any: "tcti_sim_env H L (cap h) (c, w) ph \<Longrightarrow> context_sim H L cap h c ph"
  unfolding context_sim_def tcti_sim_env_def using tcti_sim_world by blast

interpretation contexts: machine_family
  tcti_at store_tcti "tcti_step H L" buffer_ok "\<lambda>h. tcti_spec (cap h)" "context_sim H L cap" S
  for H L cap S
proof unfold_locales
  fix h c ph call w
  assume "context_sim H L cap h c ph" "buffer_ok call"
  then have "tcti_sim_env H L (cap h) (c, w) ph" "buffer_ok call" by (auto simp: context_sim_def)
  from tcti.simulates [OF this] obtain e c' w' ph' where
    "tcti_step H L call (c, w) = Some (e, c', w')" "tcti_spec (cap h) ph e ph'"
    "tcti_sim_env H L (cap h) (c', w') ph'" by auto
  then show "\<exists>e c' w' ph'. tcti_step H L call (c, w) = Some (e, c', w') \<and> tcti_spec (cap h) ph e ph'
      \<and> context_sim H L cap h c' ph'"
    by (blast intro: context_sim_any)
qed

subsection \<open>What a run leaves alone\<close>

lemma pool_step_frame:
  assumes "pool_step H L ic (p, w) = Some (ie, p', w')" "h \<noteq> fst ic"
  shows "blocks p' h = blocks p h"
  using assms by (auto simp: family_step_def store_tcti_def pool_store_def split: bind_splits)

lemma pool_run_frame:
  "run_calls (pool_step H L) calls (p, w) = Some (es, p', w') \<Longrightarrow> h \<notin> fst ` set calls \<Longrightarrow>
     blocks p' h = blocks p h"
proof (induction calls arbitrary: p w es)
  case (Cons ic calls)
  then obtain ie p1 w1 fs where step: "pool_step H L ic (p, w) = Some (ie, p1, w1)"
    and run: "run_calls (pool_step H L) calls (p1, w1) = Some (fs, p', w')"
    by (auto split: bind_splits)
  from Cons.IH [OF run] pool_step_frame [OF step] Cons.prems(2) show ?case by auto
qed simp

subsection \<open>What the firmware sees\<close>

lemma pool_step_seen:
  assumes "firmware_remembers H L seen" "contexts.family_sim H L cap S (p, w) as" "fst ic \<in> S"
    and "cap (fst ic) < 2 ^ 32"
    and step: "pool_step H L ic (p, w) = Some (ie, p', w')"
  shows "seen (firmware w') = seen (firmware w) @ answered_blocks [snd ie]"
proof -
  from step obtain c c' where c: "tcti_at p (fst ic) = Some c"
    and call: "tcti_step H L (snd ic) (c, w) = Some (snd ie, c', w')"
    by (auto simp: family_step_def split: bind_splits)
  from assms(2,3) c have "context_sim H L cap (fst ic) c (as (fst ic))"
    unfolding contexts.family_sim_def by fastforce
  then have sim: "tcti_sim_env H L (cap (fst ic)) (c, w) (as (fst ic))" by (simp add: context_sim_def)
  then have "tcti_codes_ok H" "locate_ok H L" "ctx_wf c" "unat (ctx_size c) = cap (fst ic)"
    by (simp_all add: tcti_sim_env_def tcti_sim_def ctx_wf_def)
  with step_seen [OF this(1,2) assms(1) this(3) _ call] assms(4) show ?thesis by simp
qed

lemma pool_run_seen:
  assumes "firmware_remembers H L seen" "\<forall>h \<in> S. cap h < 2 ^ 32"
  shows "contexts.family_sim H L cap S (p, w) as \<Longrightarrow>
    list_all (\<lambda>ic. fst ic \<in> S \<and> buffer_ok (snd ic)) calls \<Longrightarrow>
    run_calls (pool_step H L) calls (p, w) = Some (es, p', w') \<Longrightarrow>
    seen (firmware w') = seen (firmware w) @ answered_blocks (map snd es)"
proof (induction calls arbitrary: p w as es)
  case (Cons ic calls)
  from Cons.prems(2) have ic: "fst ic \<in> S" "buffer_ok (snd ic)"
    and rest: "list_all (\<lambda>ic. fst ic \<in> S \<and> buffer_ok (snd ic)) calls" by simp_all
  from contexts.family_simulates [OF Cons.prems(1) ic] obtain ie p1 w1 as1 where
    step: "pool_step H L ic (p, w) = Some (ie, p1, w1)"
    and sim: "contexts.family_sim H L cap S (p1, w1) as1" by auto
  from Cons.prems(3) step obtain fs where
    es: "es = ie # fs" and run: "run_calls (pool_step H L) calls (p1, w1) = Some (fs, p', w')"
    by (auto split: bind_splits)
  from pool_step_seen [OF assms(1) Cons.prems(1) ic(1) _ step] assms(2) ic(1)
    Cons.IH [OF sim rest run] show ?case
    by (simp add: es answered_blocks_Cons [of "snd ie" "map snd fs"])
qed simp

subsection \<open>Properties\<close>

text \<open>A context a caller can start with.\<close>

definition ready_at :: "'sys pool \<Rightarrow> nat \<Rightarrow> bool" where
  "ready_at p h \<longleftrightarrow> (\<exists>c. tcti_at p h = Some c \<and> ctx_wf c \<and> ctx_state c = UEFI_STATE_TRANSMIT)"

definition small_at :: "'sys pool \<Rightarrow> nat \<Rightarrow> bool" where
  "small_at p h \<longleftrightarrow> (\<exists>c. tcti_at p h = Some c \<and> length (cmd_buf c) < 2 ^ 32)"

text \<open>What a run has done to one of its contexts.\<close>

definition served ::
  "'sys pool \<Rightarrow> (nat \<times> tcti_event) list \<Rightarrow> 'sys pool \<Rightarrow> nat \<Rightarrow> bool" where
  "served p es p' h \<longleftrightarrow> (\<exists>c c' ph. tcti_at p h = Some c \<and> tcti_at p' h = Some c' \<and> ctx_wf c'
     \<and> spec_run (tcti_spec (length (cmd_buf c))) Idle (project h es) ph
     \<and> length (sent_cmds (project h es)) \<le> length (answered_blocks (project h es)) + 1
     \<and> list_all2 answers (answered_blocks (project h es))
         (take (length (answered_blocks (project h es))) (sent_cmds (project h es))))"

definition room_at :: "'sys pool \<Rightarrow> nat \<Rightarrow> nat" where
  "room_at p h = length (cmd_buf (the (tcti_at p h)))"

lemma ready_family:
  assumes "tcti_codes_ok H" "locate_ok H L" "\<forall>h \<in> S. ready_at p h"
  shows "contexts.family_sim H L (room_at p) S (p, w) (\<lambda>_. Idle)"
  using assms
  by (fastforce simp: contexts.family_sim_def ready_at_def context_sim_def tcti_sim_env_def tcti_sim_def room_at_def)

lemma interleaved_run:
  assumes "tcti_codes_ok H" "locate_ok H L"
    and ready: "\<forall>h \<in> S. ready_at p h" and calls: "list_all (\<lambda>ic. fst ic \<in> S \<and> buffer_ok (snd ic)) calls"
  obtains es p' w' where "run_calls (pool_step H L) calls (p, w) = Some (es, p', w')"
    "\<And>h. h \<notin> S \<Longrightarrow> blocks p' h = blocks p h" "\<And>h. h \<in> S \<Longrightarrow> served p es p' h"
proof -
  from contexts.family.run_simulates [OF ready_family [OF assms(1-3), of w] calls] obtain es p' w' phs where
    run: "run_calls (pool_step H L) calls (p, w) = Some (es, p', w')"
      "spec_run (family_spec (\<lambda>h. tcti_spec (room_at p h))) (\<lambda>_. Idle) es phs"
    and sim': "contexts.family_sim H L (room_at p) S (p', w') phs" by auto
  from calls have "fst ` set calls \<subseteq> S" by (auto simp: list_all_iff)
  then have frame: "blocks p' h = blocks p h" if "h \<notin> S" for h
    using pool_run_frame [OF run(1)] that by blast
  have "served p es p' h" if h: "h \<in> S" for h
  proof -
    from ready h obtain c where c: "tcti_at p h = Some c" by (auto simp: ready_at_def)
    from sim' h obtain c' where "tcti_at p' h = Some c'" "context_sim H L (room_at p) h c' (phs h)"
      by (auto simp: contexts.family_sim_def)
    moreover from this(2) have "ctx_wf c'" by (simp add: context_sim_def tcti_sim_env_def tcti_sim_def)
    moreover note spec_run_project [OF run(2), of h]
    ultimately show ?thesis
      using c spec_run_pairs [of "room_at p h" Idle "project h es" "phs h"]
      by (auto simp: served_def room_at_def phase_cmds_def Let_def)
  qed
  with run(1) frame that show ?thesis by blast
qed

text \<open>
  C4. Contexts that share the firmware do not interfere: whatever calls on whatever contexts of
  the pool are interleaved, in any order and with any arguments, the run is defined, every
  context follows the TCTI protocol as if it were alone, and the blocks answered on it begin
  with the commands sent on it, in order. The firmware has accepted exactly the answered
  blocks, in the order of the interleaving, and no other block of the pool is touched. The
  contexts are smaller than 2^32 bytes.
\<close>

theorem contexts_do_not_interfere:
  assumes "tcti_codes_ok H" "locate_ok H L" "firmware_remembers H L seen"
    and "\<forall>h \<in> S. ready_at p h" "\<forall>h \<in> S. small_at p h"
    and "list_all (\<lambda>ic. fst ic \<in> S \<and> buffer_ok (snd ic)) calls"
  shows "\<exists>es p' w'. run_calls (pool_step H L) calls (p, w) = Some (es, p', w')
     \<and> seen (firmware w') = seen (firmware w) @ answered_blocks (map snd es)
     \<and> (\<forall>h. h \<notin> S \<longrightarrow> blocks p' h = blocks p h) \<and> (\<forall>h \<in> S. served p es p' h)"
proof (rule interleaved_run [OF assms(1,2,4,6), of w])
  fix es p' w'
  assume run: "run_calls (pool_step H L) calls (p, w) = Some (es, p', w')"
    and rest: "\<And>h. h \<notin> S \<Longrightarrow> blocks p' h = blocks p h" "\<And>h. h \<in> S \<Longrightarrow> served p es p' h"
  have "\<forall>h \<in> S. room_at p h < 2 ^ 32" using assms(5) by (auto simp: small_at_def room_at_def)
  from pool_run_seen [OF assms(3) this ready_family [OF assms(1,2,4)] assms(6) run] run rest
  show ?thesis by blast
qed

text \<open>Two contexts: the second transmits and is answered while the command of the first waits.\<close>

definition demo_two :: "nat option pool" where
  "demo_two = demo_pool\<lparr>next_handle := 3,
     blocks := (\<lambda>_. None)(1 := Some (Tcti_block demo_ctx), 2 := Some (Tcti_block demo_ctx))\<rparr>"

definition demo_interleaving :: "(nat \<times> tcti_call) list" where
  "demo_interleaving =
     [(1, Call_transmit 11 (Some [1, 2, 3, 4, 5, 6, 7, 8, 9, 10, 11])),
      (2, Call_transmit 12 (Some [21, 22, 23, 24, 25, 26, 27, 28, 29, 30, 31, 32])),
      (2, Call_receive (Some 4) (Some [0, 0, 0, 0]) (- 1)),
      (1, Call_receive (Some 4) (Some [0, 0, 0, 0]) (- 1))]"

lemma demo_interleaving_run:
  "\<exists>p' w'. run_calls (pool_step std_headers (demo_locate 0 0)) demo_interleaving (demo_two, demo_world) =
     Some ([(1, Sent [1, 2, 3, 4, 5, 6, 7, 8, 9, 10, 11]),
       (2, Sent [21, 22, 23, 24, 25, 26, 27, 28, 29, 30, 31, 32]),
       (2, Answered [21, 22, 23, 24, 25, 26, 27, 28, 29, 30, 31, 32]),
       (1, Answered [1, 2, 3, 4, 5, 6, 7, 8, 9, 10, 11, 0xFF])], p', w')"
  by (simp add: demo_interleaving_def demo_two_def family_step_def store_tcti_def pool_store_def tcti_at_def
      demo_ctx_def fresh_ctx_def demo_room_def demo_simps sizeof_ctx_std
      tcti_uefi_transmit_def tcti_uefi_receive_def tcti_uefi_context_cast_def CopyMem_def
      TPM2_HEADER_SIZE_def tcg2_get_protocol_def tcg2_submit_command_def report_status_def Let_def)

theorem contexts_do_not_interfere_witness:
  "\<exists>es p' w'. run_calls (pool_step std_headers (demo_locate 0 0)) demo_interleaving (demo_two, demo_world) =
       Some (es, p', w')
   \<and> firmware w' = [[21, 22, 23, 24, 25, 26, 27, 28, 29, 30, 31, 32],
       [1, 2, 3, 4, 5, 6, 7, 8, 9, 10, 11, 0xFF]]
   \<and> served demo_two es p' 1 \<and> served demo_two es p' 2"
proof -
  have wf: "ctx_wf demo_ctx" and len: "length (cmd_buf demo_ctx) = 12"
    using fresh_ctx_wf [OF demo_block_size] by (simp_all add: demo_ctx_def demo_block_def demo_room_def fresh_ctx_def)
  then have ready: "\<forall>h \<in> {1, 2}. ready_at demo_two h" and small: "\<forall>h \<in> {1, 2}. small_at demo_two h"
    by (simp_all add: ready_at_def small_at_def demo_two_def tcti_at_def) (simp add: demo_ctx_def)
  have calls: "list_all (\<lambda>ic. fst ic \<in> {1, 2} \<and> buffer_ok (snd ic)) demo_interleaving"
    by (simp add: demo_interleaving_def)
  from contexts_do_not_interfere [OF std_headers_ok(2) demo_locate_ok demo_remembers ready small calls,
      of demo_world] demo_interleaving_run show ?thesis
    by (fastforce simp: demo_world_def)
qed

text \<open>
  C16. Two contexts of their own: when tcti_uefi_init succeeds twice, any interleaving of calls on
  the two contexts is defined and serves each as if it were alone, and tearing them down
  afterwards, from whatever state the calls left them in, leaves the pool as it was.
\<close>

theorem two_contexts_session:
  assumes "tss_env H L E" "pool_wf p" "dispatch_finalizes E"
    and "tcti_uefi_init H L E ctx1 p w = Some (TSS2_RC_SUCCESS H, Some t1, p1, w1)"
    and "tcti_uefi_init H L E ctx2 p1 w1 = Some (TSS2_RC_SUCCESS H, Some t2, p2, w2)"
    and "list_all (\<lambda>ic. fst ic \<in> {t1, t2} \<and> buffer_ok (snd ic)) calls"
  shows "\<exists>es p3 w3 p4 p5. run_calls (pool_step H L) calls (p2, w2) = Some (es, p3, w3)
     \<and> t1 \<noteq> t2 \<and> served p2 es p3 t1 \<and> served p2 es p3 t2
     \<and> tcti_uefi_teardown E (Some t1) p3 w3 = Some (p4, w3)
     \<and> tcti_uefi_teardown E (Some t2) p4 w3 = Some (p5, w3) \<and> blocks p5 = blocks p"
proof -
  from tcti_init_success [OF assms(1,2,4)] obtain c1 where
    1: "blocks p t1 = None" "blocks p1 = (blocks p)(t1 := Some (Tcti_block c1))" "pool_wf p1"
      "ctx_wf c1" "ctx_state c1 = UEFI_STATE_TRANSMIT" .
  from tcti_init_success [OF assms(1) 1(3) assms(5)] obtain c2 where
    2: "blocks p1 t2 = None" "blocks p2 = (blocks p1)(t2 := Some (Tcti_block c2))" "pool_wf p2"
      "ctx_wf c2" "ctx_state c2 = UEFI_STATE_TRANSMIT" .
  from 1 2 have ne: "t1 \<noteq> t2" and p2: "blocks p t2 = None" by (auto split: if_splits)
  have ready: "\<forall>h \<in> {t1, t2}. ready_at p2 h"
    using 1 2 ne by (auto simp: ready_at_def tcti_at_def)
  have env: "tcti_codes_ok H" "locate_ok H L" using assms(1) by (simp_all add: tss_env_def)
  obtain es p3 w3 where run: "run_calls (pool_step H L) calls (p2, w2) = Some (es, p3, w3)"
    and frame: "\<And>h. h \<notin> {t1, t2} \<Longrightarrow> blocks p3 h = blocks p2 h"
    and served: "\<And>h. h \<in> {t1, t2} \<Longrightarrow> served p2 es p3 h"
    by (rule interleaved_run [OF env ready assms(6), of w2]) blast
  from served [of t1] served [of t2] obtain d1 d2 where
    d: "tcti_at p3 t1 = Some d1" "ctx_wf d1" "tcti_at p3 t2 = Some d2" "ctx_wf d2"
    by (auto simp: served_def)
  from tcti_teardown_live [OF d(1,2) assms(3)] obtain p4 where
    p4: "tcti_uefi_teardown E (Some t1) p3 w3 = Some (p4, w3)" "blocks p4 = (blocks p3)(t1 := None)" .
  then have "tcti_at p4 t2 = Some d2" using d(3) ne by (simp add: tcti_at_def)
  from tcti_teardown_live [OF this d(4) assms(3)] obtain p5 where
    p5: "tcti_uefi_teardown E (Some t2) p4 w3 = Some (p5, w3)" "blocks p5 = (blocks p4)(t2 := None)" .
  have "blocks p5 = blocks p"
    using frame 1(1,2) 2(2) p2 by (auto simp: p5(2) p4(2))
  with run ne served p4(1) p5(1) show ?thesis by blast
qed

text \<open>The pool after two initialisations, and the interleaving above on its two contexts.\<close>

lemma demo_two_inits:
  "\<exists>p1 w1 p2 w2. tcti_uefi_init std_headers (demo_locate 0 0) (demo_lib True 0) None demo_pool demo_world =
     Some (TSS2_RC_SUCCESS std_headers, Some 1, p1, w1)
   \<and> tcti_uefi_init std_headers (demo_locate 0 0) (demo_lib True 0) None p1 w1 =
     Some (TSS2_RC_SUCCESS std_headers, Some 2, p2, w2)"
  by (simp add: tcti_uefi_init_def init_query demo_size demo_lib_def demo_pool_def pool_alloc_def tcti_at_def
      init_context pool_store_def)

theorem two_contexts_session_witness:
  "\<exists>p2 w2 es p3 w3 p4 p5. run_calls (pool_step std_headers (demo_locate 0 0)) demo_interleaving (p2, w2) =
       Some (es, p3, w3)
   \<and> served p2 es p3 1 \<and> served p2 es p3 2
   \<and> tcti_uefi_teardown (demo_lib True 0) (Some 1) p3 w3 = Some (p4, w3)
   \<and> tcti_uefi_teardown (demo_lib True 0) (Some 2) p4 w3 = Some (p5, w3) \<and> live p5 = {}"
proof -
  from demo_two_inits obtain p1 w1 p2 w2 where
    1: "tcti_uefi_init std_headers (demo_locate 0 0) (demo_lib True 0) None demo_pool demo_world =
      Some (TSS2_RC_SUCCESS std_headers, Some 1, p1, w1)"
    and 2: "tcti_uefi_init std_headers (demo_locate 0 0) (demo_lib True 0) None p1 w1 =
      Some (TSS2_RC_SUCCESS std_headers, Some 2, p2, w2)" by blast
  have calls: "list_all (\<lambda>ic. fst ic \<in> {1, 2} \<and> buffer_ok (snd ic)) demo_interleaving"
    by (simp add: demo_interleaving_def)
  from two_contexts_session [OF demo_env demo_pool_wf demo_lib_ok(2) 1 2 calls] show ?thesis
    by (fastforce simp: live_def demo_pool_def)
qed

end
