(* ===== verification/Test_Programs.thy ===== *)
theory Test_Programs
  imports Nv_Contract Tcti_Interleaving
begin

section \<open>The EFI test programs: test/*.c\<close>

text \<open>
  Three programs that run under UEFI firmware: hello-world prints, tss2-mu-uint32 marshals a
  number, tss2-getrandom sets up the TCTI and the SAPI by hand and draws random bytes twice.
  The calls that only they make are a parameter \<open>Z\<close>.
\<close>

subsection \<open>The libraries\<close>

text \<open>
  The finalizers are called with NULL when an earlier step failed; whether that is defined is
  the library's affair, as is what it does to the world.
\<close>

record 'fw test_lib =
  EFI_LOAD_ERROR :: EFI_STATUS
  Sys_Finalize_NULL :: "'fw world \<Rightarrow> 'fw world option"
  Tcti_Finalize_NULL :: "'fw world \<Rightarrow> 'fw world option"
  ClearScreen :: "'fw world \<Rightarrow> EFI_STATUS \<times> 'fw world"
  OutputString :: "string \<Rightarrow> 'fw world \<Rightarrow> EFI_STATUS \<times> 'fw world"
  Tss2_MU_UINT32_Marshal :: "UINT32 \<Rightarrow> UINT8 list \<Rightarrow> size_t \<Rightarrow> size_t \<Rightarrow> TSS2_RC \<times> UINT8 list \<times> size_t"

subsection \<open>test/hello-world.c\<close>

definition hello_main :: "headers \<Rightarrow> 'fw test_lib \<Rightarrow> 'fw world \<Rightarrow> EFI_STATUS \<times> 'fw world" where
  "hello_main H Z w =
     (let (Status, w) = ClearScreen Z w in
      if EFI_ERROR H Status then (Status, w)
      else
        let (Status, w) = OutputString Z
          ([CHR 0x0D, CHR 0x0A] @ ''Hello World!'' @ [CHR 0x0D, CHR 0x0A]) w in
        if EFI_ERROR H Status then (Status, w)
        else (EFI_SUCCESS H, Print ''hello world!\<newline>'' [] w))"

subsection \<open>test/tss2-mu-uint32.c\<close>

text \<open>The number read back from the four bytes of \<open>tmp_marsh\<close>, which is little-endian.\<close>

definition word_of_le32 :: "UINT8 list \<Rightarrow> UINT32" where
  "word_of_le32 bs = word_cat (bs ! 3) (word_cat (bs ! 2) (word_cat (bs ! 1) (bs ! 0) :: 16 word) :: 24 word)"

definition mu_main ::
  "headers \<Rightarrow> 'fw test_lib \<Rightarrow> 'fw world \<Rightarrow> EFI_STATUS \<times> 'fw world" where
  "mu_main H Z w =
     (let tmp = 0xdeadbeef; tmp_marsh = 0;
          w = Print ''unmarshalled: 0x%PRIx32\<newline>'' [A_num (unat tmp)] w;
          (rc, bytes, offset) = Tss2_MU_UINT32_Marshal Z tmp (le32 tmp_marsh) 4 0 in
      if rc \<noteq> TSS2_RC_SUCCESS H then
        (EFI_LOAD_ERROR Z, Print ''failed to marshal UINT32: RC: 0x%PRIx32\<newline>'' [A_num (unat rc)] w)
      else (EFI_SUCCESS H, Print ''marshalled: 0x%PRIx32\<newline>'' [A_num (unat (word_of_le32 bytes))] w))"

text \<open>What the marshaller promises: the four bytes, most significant first, at the offset.\<close>

definition marshal_ok :: "headers \<Rightarrow> 'fw test_lib \<Rightarrow> bool" where
  "marshal_ok H Z \<longleftrightarrow> (\<forall>v buf n off. unat off + 4 \<le> unat n \<longrightarrow> unat n \<le> length buf \<longrightarrow>
     Tss2_MU_UINT32_Marshal Z v buf n off = (TSS2_RC_SUCCESS H,
       take (unat off) buf @ rev (le32 v) @ drop (unat off + 4) buf, off + 4))"

theorem mu_test_swaps_bytes:
  assumes "marshal_ok H Z"
  shows "mu_main H Z w = (EFI_SUCCESS H,
    Print ''marshalled: 0x%PRIx32\<newline>'' [A_num 0xefbeadde]
      (Print ''unmarshalled: 0x%PRIx32\<newline>'' [A_num 0xdeadbeef] w))"
proof -
  have "Tss2_MU_UINT32_Marshal Z 0xdeadbeef (le32 0) 4 0 = (TSS2_RC_SUCCESS H, rev (le32 0xdeadbeef), 4)"
    using assms [unfolded marshal_ok_def, rule_format, of 0 4 "le32 0" "0xdeadbeef"] by simp
  moreover have "word_of_le32 (rev (le32 0xdeadbeef)) = 0xefbeadde"
    by (simp add: word_of_le32_def le32_def word_cat_eq)
  ultimately show ?thesis by (simp add: mu_main_def)
qed

definition demo_tests :: "'fw test_lib" where
  "demo_tests = \<lparr>
     EFI_LOAD_ERROR = 0x8000000000000001,
     Sys_Finalize_NULL = Some, Tcti_Finalize_NULL = Some,
     ClearScreen = (\<lambda>w. (0, w)), OutputString = (\<lambda>s w. (0, w)),
     Tss2_MU_UINT32_Marshal = (\<lambda>v buf n off.
       (0, take (unat off) buf @ rev (le32 v) @ drop (unat off + 4) buf, off + 4)) \<rparr>"

theorem mu_test_swaps_bytes_witness:
  "fst (mu_main std_headers demo_tests demo_world) = 0"
proof -
  have "marshal_ok std_headers demo_tests" by (simp add: marshal_ok_def demo_tests_def)
  from mu_test_swaps_bytes [OF this, of demo_world] show ?thesis by simp
qed

subsection \<open>test/tss2-getrandom.c\<close>

text \<open>
  \<open>CHECK_RC (rc)\<close> and \<open>CHECK_NULL (x)\<close> go to \<open>out\<close> with a line that names the
  source line; the arguments of a step are the two pointers and the state of the tools.
\<close>

definition check_rc_line :: "nat \<Rightarrow> TSS2_RC \<Rightarrow> ('fw, 'sys) tss_state \<Rightarrow> ('fw, 'sys) tss_state" where
  "check_rc_line line rc st = say ''Error in Line %i: 0x08PRIx32\<newline>'' [A_num line, A_num (unat rc)] st"

definition check_null_line :: "nat \<Rightarrow> ('fw, 'sys) tss_state \<Rightarrow> ('fw, 'sys) tss_state" where
  "check_null_line line st = say ''Error in Line %i: OOM\<newline>'' [A_num line] st"

definition finalize_sys ::
  "('fw, 'sys) tss_lib \<Rightarrow> 'fw test_lib \<Rightarrow> nat option \<Rightarrow> ('fw, 'sys) tss_state \<Rightarrow> ('fw, 'sys) tss_state option" where
  "finalize_sys E Z sys st =
     (case sys of
        None \<Rightarrow> do { w \<leftarrow> Sys_Finalize_NULL Z (snd st); Some (fst st, w) }
      | Some h \<Rightarrow> do {
          s \<leftarrow> sys_at (fst st) h;
          Some (pool_store h (Sys_block (Tss2_Sys_Finalize E s)) (fst st), snd st) })"

definition finalize_tcti ::
  "('fw, 'sys) tss_lib \<Rightarrow> 'fw test_lib \<Rightarrow> nat option \<Rightarrow> ('fw, 'sys) tss_state \<Rightarrow> ('fw, 'sys) tss_state option" where
  "finalize_tcti E Z tcti st =
     (case tcti of
        None \<Rightarrow> do { w \<leftarrow> Tcti_Finalize_NULL Z (snd st); Some (fst st, w) }
      | Some t \<Rightarrow> do {
          c \<leftarrow> tcti_at (fst st) t;
          let (c, w) = Tss2_Tcti_Finalize E c (snd st);
          Some (pool_store t (Tcti_block c) (fst st), w) })"

text \<open>From the label \<open>out\<close> on.\<close>

definition getrandom_out ::
  "headers \<Rightarrow> ('fw, 'sys) tss_lib \<Rightarrow> 'fw test_lib \<Rightarrow> TSS2_RC \<Rightarrow> nat option \<Rightarrow> nat option \<Rightarrow>
   ('fw, 'sys) tss_state \<Rightarrow> (EFI_STATUS \<times> ('fw, 'sys) tss_state) option" where
  "getrandom_out H E Z rc sys tcti st = do {
     st \<leftarrow> finalize_sys E Z sys st;
     st \<leftarrow> finalize_tcti E Z tcti st;
     let st = say ''Done\<newline>'' [] st;
     Some (if rc = TSS2_RC_SUCCESS H then EFI_SUCCESS H else EFI_LOAD_ERROR Z, st) }"

definition getrandom_draws ::
  "headers \<Rightarrow> ('fw, 'sys) tss_lib \<Rightarrow> ('fw, 'sys) nv_lib \<Rightarrow> 'fw test_lib \<Rightarrow> nat option \<Rightarrow> nat option \<Rightarrow>
   ('fw, 'sys) tss_state \<Rightarrow> (EFI_STATUS \<times> ('fw, 'sys) tss_state) option" where
  "getrandom_draws H E N Z sys tcti st =
     (let randomBytes = \<lparr>digest_size = 0, digest_buffer = replicate 64 0\<rparr>;
          (rc, randomBytes, st) = Tss2_Sys_GetRandom N sys 32 randomBytes st in
      if rc \<noteq> TSS2_RC_SUCCESS H then getrandom_out H E Z rc sys tcti (check_rc_line 60 rc st)
      else
        let (rc, randomBytes, st) = Tss2_Sys_GetRandom N sys 32 randomBytes st in
        if rc \<noteq> TSS2_RC_SUCCESS H then getrandom_out H E Z rc sys tcti (check_rc_line 64 rc st)
        else getrandom_out H E Z rc sys tcti st)"

definition getrandom_sapi ::
  "headers \<Rightarrow> ('fw, 'sys) tss_lib \<Rightarrow> ('fw, 'sys) nv_lib \<Rightarrow> 'fw test_lib \<Rightarrow> nat option \<Rightarrow>
   ('fw, 'sys) tss_state \<Rightarrow> (EFI_STATUS \<times> ('fw, 'sys) tss_state) option" where
  "getrandom_sapi H E N Z tcti st =
     (let n = Tss2_Sys_GetContextSize E 0;
          (p, w) = st;
          (ok, f) = AllocatePool E n (firmware w);
          w = w\<lparr>firmware := f\<rparr> in
      if \<not> ok then getrandom_out H E Z 0xffffff None tcti (check_null_line 54 (p, w))
      else do {
        let (h, p) = pool_alloc (Sys_block (fresh_sys E n)) p;
        s \<leftarrow> sys_at p h;
        let (rc, s) = Tss2_Sys_Initialize E s n tcti None;
        let p = pool_store h (Sys_block s) p;
        if rc \<noteq> TSS2_RC_SUCCESS H then getrandom_out H E Z rc (Some h) tcti (check_rc_line 57 rc (p, w))
        else getrandom_draws H E N Z (Some h) tcti (p, w) })"

definition getrandom_main ::
  "headers \<Rightarrow> 'fw locate \<Rightarrow> ('fw, 'sys) tss_lib \<Rightarrow> ('fw, 'sys) nv_lib \<Rightarrow> 'fw test_lib \<Rightarrow>
   ('fw, 'sys) tss_state \<Rightarrow> (EFI_STATUS \<times> ('fw, 'sys) tss_state) option" where
  "getrandom_main H LibLocateProtocol E N Z st = do {
     let (p, w) = st;
     (rc, tcti, sz, w) \<leftarrow> Tss2_Tcti_Uefi_Init H LibLocateProtocol None (Some 0) None w;
     if rc \<noteq> TSS2_RC_SUCCESS H then getrandom_out H E Z rc None None (check_rc_line 44 rc (p, w))
     else do {
       n \<leftarrow> sz;
       let (ok, f) = AllocatePool E n (firmware w);
       let w = w\<lparr>firmware := f\<rparr>;
       if \<not> ok then getrandom_out H E Z 0xffffff None None (check_null_line 47 (p, w))
       else do {
         let (t, p) = pool_alloc (Tcti_block (fresh_memory E n)) p;
         (rc, c, sz, w) \<leftarrow> Tss2_Tcti_Uefi_Init H LibLocateProtocol (tcti_at p t) (Some n) None w;
         c \<leftarrow> c;
         let p = pool_store t (Tcti_block c) p;
         if rc \<noteq> TSS2_RC_SUCCESS H then getrandom_out H E Z rc None (Some t) (check_rc_line 50 rc (p, w))
         else getrandom_sapi H E N Z (Some t) (p, w) } } }"

subsection \<open>A draw is an exchange\<close>

text \<open>
  What the test is after: the second draw only succeeds when the first has left the TCTI
  ready for a command. The SAPI library implements a command by transmitting it through the
  TCTI context it was initialised with and receiving the response into a buffer of its own.
\<close>

definition exchange ::
  "headers \<Rightarrow> 'fw locate \<Rightarrow> UINT8 list \<Rightarrow> size_t \<Rightarrow> UINT8 list \<Rightarrow> TSS2_TCTI_UEFI_CONTEXT \<Rightarrow> 'fw world \<Rightarrow>
   (TSS2_RC \<times> UINT8 list \<times> TSS2_TCTI_UEFI_CONTEXT \<times> 'fw world) option" where
  "exchange H L cmd room buf c w = do {
     (rc, context, w) \<leftarrow> tcti_uefi_transmit H (Some c) (of_nat (length cmd)) (Some cmd) w;
     c \<leftarrow> context;
     if rc \<noteq> TSS2_RC_SUCCESS H then Some (rc, buf, c, w)
     else do {
       (rc, context, sz, response, w) \<leftarrow>
         tcti_uefi_receive H L (Some c) (Some room) (Some buf) (TSS2_TCTI_TIMEOUT_BLOCK H) w;
       c \<leftarrow> context;
       resp \<leftarrow> response;
       Some (rc, resp, c, w) } }"

text \<open>
  TPM2_GetRandom on the wire, as the TPM specification lays it out: the command is a tag
  (no sessions), its size, the command code 0x17B and the number of bytes wanted; a
  successful response is the tag, its size, the code 0 and a sized buffer with at most that
  many bytes. What follows in the response buffer does not matter.
\<close>

definition be16 :: "UINT16 \<Rightarrow> UINT8 list" where
  "be16 n = [ucast (drop_bit 8 n), ucast n]"

definition getrandom_cmd :: "UINT16 \<Rightarrow> UINT8 list" where
  "getrandom_cmd n = [0x80, 0x01] @ rev (le32 12) @ rev (le32 0x17B) @ be16 n"

definition getrandom_answer :: "UINT16 \<Rightarrow> UINT8 list \<Rightarrow> UINT8 list \<Rightarrow> bool" where
  "getrandom_answer n resp bytes \<longleftrightarrow> length bytes \<le> unat n \<and>
     take (12 + length bytes) resp = [0x80, 0x01] @ rev (le32 (of_nat (12 + length bytes))) @ rev (le32 0)
       @ be16 (of_nat (length bytes)) @ bytes"

lemma getrandom_cmd_length [simp]: "length (getrandom_cmd n) = 12"
  by (simp add: getrandom_cmd_def be16_def le32_def)

text \<open>
  Tss2_Sys_GetRandom: one exchange of that command on the context's TCTI. A TCTI error is
  passed on; a successful response gives success and its bytes; what it gives for any other
  response is left open. The SAPI context may change, but stays bound to its TCTI context.
\<close>

definition draw_result ::
  "headers \<Rightarrow> ('fw, 'sys) tss_lib \<Rightarrow> nat \<Rightarrow> nat \<Rightarrow> UINT16 \<Rightarrow> 'sys \<Rightarrow> 'sys pool \<Rightarrow>
   TSS2_RC \<times> UINT8 list \<times> TSS2_TCTI_UEFI_CONTEXT \<times> 'fw world \<Rightarrow>
   TSS2_RC \<times> TPM2B_DIGEST \<times> ('fw, 'sys) tss_state \<Rightarrow> bool" where
  "draw_result H E h t n s p exchanged drawn \<longleftrightarrow>
     (case (exchanged, drawn) of ((rc, resp, c', w'), (rc', d', p', v)) \<Rightarrow>
        v = w' \<and> (\<exists>s'. p' = pool_store h (Sys_block s') (store_tcti t c' p)
          \<and> Tss2_Sys_GetTctiContext E s' = Tss2_Sys_GetTctiContext E s)
      \<and> (rc \<noteq> TSS2_RC_SUCCESS H \<longrightarrow> rc' = rc)
      \<and> (\<forall>bytes. rc = TSS2_RC_SUCCESS H \<longrightarrow> getrandom_answer n resp bytes \<longrightarrow>
           rc' = TSS2_RC_SUCCESS H \<and> digest_size d' = of_nat (length bytes)
         \<and> take (length bytes) (digest_buffer d') = bytes))"

definition draws_by_exchange ::
  "headers \<Rightarrow> 'fw locate \<Rightarrow> ('fw, 'sys) tss_lib \<Rightarrow> ('fw, 'sys) nv_lib \<Rightarrow> size_t \<Rightarrow> bool" where
  "draws_by_exchange H L E N room \<longleftrightarrow> (\<forall>h n d p w s t c.
     sys_at p h = Some s \<longrightarrow> Tss2_Sys_GetTctiContext E s = (TSS2_RC_SUCCESS H, Some t) \<longrightarrow>
     tcti_at p t = Some c \<longrightarrow>
     (\<exists>buf. length buf = unat room \<and> (\<forall>exchanged.
        exchange H L (getrandom_cmd n) room buf c w = Some exchanged \<longrightarrow>
        draw_result H E h t n s p exchanged (Tss2_Sys_GetRandom N (Some h) n d (p, w)))))"

text \<open>
  A working TPM behind the firmware: in a \<open>good\<close> state of the firmware the protocol is found,
  and a block of the context's size that begins with the command, with the SAPI's response
  buffer, is accepted and answered; the state stays good.
\<close>

definition random_served ::
  "headers \<Rightarrow> 'fw locate \<Rightarrow> ('fw \<Rightarrow> bool) \<Rightarrow> nat \<Rightarrow> size_t \<Rightarrow> UINT16 \<Rightarrow> bool" where
  "random_served H L good k room n \<longleftrightarrow> (\<forall>f. good f \<longrightarrow> (\<exists>st p f1.
     L EFI_TCG2_PROTOCOL_GUID f = (st, Some p, f1) \<and> \<not> EFI_ERROR H st
   \<and> (\<forall>block buf. length block = k \<longrightarrow> answers block (getrandom_cmd n) \<longrightarrow> length buf = unat room \<longrightarrow>
        (\<exists>resp bytes f2. SubmitCommand p (of_nat k) block (ucast room) buf f1 = (EFI_SUCCESS H, resp, f2)
           \<and> getrandom_answer n resp bytes \<and> good f2))))"

lemma exchange_succeeds:
  assumes "efi_codes_ok H" "random_served H L good (length (cmd_buf c)) room n" "good (firmware w)"
    and "ctx_wf c" "ctx_state c = UEFI_STATE_TRANSMIT" "12 \<le> length (cmd_buf c)" "length buf = unat room"
  obtains resp bytes c' w' where
    "exchange H L (getrandom_cmd n) room buf c w = Some (TSS2_RC_SUCCESS H, resp, c', w')"
    "getrandom_answer n resp bytes" "ctx_wf c'" "ctx_state c' = UEFI_STATE_TRANSMIT"
    "length (cmd_buf c') = length (cmd_buf c)" "console w' = console w" "good (firmware w')"
proof -
  let ?cmd = "getrandom_cmd n"
  let ?c = "c\<lparr>cmd_buf := ?cmd @ drop 12 (cmd_buf c), ctx_state := UEFI_STATE_RECEIVE\<rparr>"
  have sent: "tcti_uefi_transmit H (Some c) (of_nat (length ?cmd)) (Some ?cmd) w =
      Some (TSS2_RC_SUCCESS H, Some ?c, w)"
    using transmit_accepts [OF assms(4,5), of 12 ?cmd H w] assms(6) by simp
  have wf: "ctx_wf ?c"
    using ctx_wf_copied [OF assms(4,6), of ?cmd UEFI_STATE_RECEIVE] by simp
  have len: "length (cmd_buf ?c) = length (cmd_buf c)" using assms(6) by simp
  have block: "answers (cmd_buf ?c) ?cmd" by (simp add: answers_def)
  have size: "ucast (ctx_size ?c) = (of_nat (length (cmd_buf c)) :: UINT32)"
    using ctx_wf_size32 [OF assms(4)] by simp
  from assms(2,3) obtain st p f1 where L: "L EFI_TCG2_PROTOCOL_GUID (firmware w) = (st, Some p, f1)" "\<not> EFI_ERROR H st"
    and p: "\<And>block buf. length block = length (cmd_buf c) \<Longrightarrow> answers block ?cmd \<Longrightarrow> length buf = unat room \<Longrightarrow>
      \<exists>resp bytes f2. SubmitCommand p (of_nat (length (cmd_buf c))) block (ucast room) buf f1 =
        (EFI_SUCCESS H, resp, f2) \<and> getrandom_answer n resp bytes \<and> good f2"
    unfolding random_served_def by metis
  from p [OF len block assms(7)] obtain resp bytes f2 where
    sub: "SubmitCommand p (ucast (ctx_size ?c)) (cmd_buf ?c) (ucast room) buf f1 = (EFI_SUCCESS H, resp, f2)"
    and good: "getrandom_answer n resp bytes" "good f2"
    unfolding size by blast
  have got: "tcti_uefi_receive H L (Some ?c) (Some room) (Some buf) (TSS2_TCTI_TIMEOUT_BLOCK H) w =
      Some (TSS2_RC_SUCCESS H, Some (?c\<lparr>ctx_state := UEFI_STATE_TRANSMIT\<rparr>), Some room, Some resp,
        w\<lparr>firmware := f2\<rparr>)"
    using receive_submits [where L = L, OF ctx_wf_tagged [OF wf] _ L sub] assms(1)
    by (simp add: report_status_def efi_codes_ok_def)
  show ?thesis
    by (rule that [of resp "?c\<lparr>ctx_state := UEFI_STATE_TRANSMIT\<rparr>" "w\<lparr>firmware := f2\<rparr>" bytes])
      (use sent got wf len good in \<open>simp_all add: exchange_def\<close>)
qed

text \<open>The state the test is in from its two initialisations on.\<close>

definition drawing ::
  "headers \<Rightarrow> ('fw, 'sys) tss_lib \<Rightarrow> nat \<Rightarrow> 'sys pool \<Rightarrow> nat \<Rightarrow> nat \<Rightarrow> 'sys pool \<Rightarrow> bool" where
  "drawing H E k p t h q \<longleftrightarrow> blocks p t = None \<and> blocks p h = None \<and> t \<noteq> h \<and>
     (\<exists>c s. blocks q = (blocks p)(t := Some (Tcti_block c), h := Some (Sys_block s)) \<and> ctx_wf c
        \<and> ctx_state c = UEFI_STATE_TRANSMIT \<and> length (cmd_buf c) = k
        \<and> Tss2_Sys_GetTctiContext E s = (TSS2_RC_SUCCESS H, Some t))"

lemma drawingI:
  "blocks p t = None \<Longrightarrow> blocks p h = None \<Longrightarrow> t \<noteq> h \<Longrightarrow>
   blocks q = (blocks p)(t := Some (Tcti_block c), h := Some (Sys_block s)) \<Longrightarrow>
   ctx_wf c \<Longrightarrow> ctx_state c = UEFI_STATE_TRANSMIT \<Longrightarrow>
   Tss2_Sys_GetTctiContext E s = (TSS2_RC_SUCCESS H, Some t) \<Longrightarrow> drawing H E (length (cmd_buf c)) p t h q"
  unfolding drawing_def by blast

lemma draw_succeeds:
  assumes "efi_codes_ok H" "random_served H L good k room n" "draws_by_exchange H L E N room"
    and "12 \<le> k" "good (firmware w)" and d: "drawing H E k p t h q"
  obtains r' q' w' where "Tss2_Sys_GetRandom N (Some h) n r (q, w) = (TSS2_RC_SUCCESS H, r', q', w')"
    "drawing H E k p t h q'" "console w' = console w" "good (firmware w')"
proof -
  from d obtain c s where q: "blocks q = (blocks p)(t := Some (Tcti_block c), h := Some (Sys_block s))"
    and ne: "blocks p t = None" "blocks p h = None" "t \<noteq> h"
    and c: "ctx_wf c" "ctx_state c = UEFI_STATE_TRANSMIT" "length (cmd_buf c) = k"
    and s: "Tss2_Sys_GetTctiContext E s = (TSS2_RC_SUCCESS H, Some t)"
    unfolding drawing_def by blast
  have at: "sys_at q h = Some s" "tcti_at q t = Some c"
    using q ne by (simp_all add: sys_at_def tcti_at_def)
  from assms(3) at s obtain buf where buf: "length buf = unat room"
    and draw: "\<forall>exchanged. exchange H L (getrandom_cmd n) room buf c w = Some exchanged \<longrightarrow>
      draw_result H E h t n s q exchanged (Tss2_Sys_GetRandom N (Some h) n r (q, w))"
    unfolding draws_by_exchange_def by blast
  obtain resp bytes c' w' where
    run: "exchange H L (getrandom_cmd n) room buf c w = Some (TSS2_RC_SUCCESS H, resp, c', w')"
    and answer: "getrandom_answer n resp bytes"
    and c': "ctx_wf c'" "ctx_state c' = UEFI_STATE_TRANSMIT" "length (cmd_buf c') = k"
      "console w' = console w" "good (firmware w')"
    by (rule exchange_succeeds [OF assms(1) assms(2) [folded c(3)] assms(5) c(1,2) _ buf])
      (use assms(4) c(3) in auto)
  obtain rc' r' q' v where got: "Tss2_Sys_GetRandom N (Some h) n r (q, w) = (rc', r', q', v)"
    by (metis surj_pair)
  with draw run have "draw_result H E h t n s q (TSS2_RC_SUCCESS H, resp, c', w') (rc', r', q', v)"
    by metis
  with answer s obtain s' where "v = w'" "rc' = TSS2_RC_SUCCESS H"
    "q' = pool_store h (Sys_block s') (store_tcti t c' q)"
    "Tss2_Sys_GetTctiContext E s' = (TSS2_RC_SUCCESS H, Some t)"
    by (auto simp: draw_result_def)
  with got have "Tss2_Sys_GetRandom N (Some h) n r (q, w) =
      (TSS2_RC_SUCCESS H, r', pool_store h (Sys_block s') (store_tcti t c' q), w')"
    and s': "Tss2_Sys_GetTctiContext E s' = (TSS2_RC_SUCCESS H, Some t)" by simp_all
  moreover have "blocks (pool_store h (Sys_block s') (store_tcti t c' q)) =
      (blocks p)(t := Some (Tcti_block c'), h := Some (Sys_block s'))"
    using q ne by (auto simp: store_tcti_def pool_store_def)
  then have "drawing H E k p t h (pool_store h (Sys_block s') (store_tcti t c' q))"
    using drawingI [OF ne _ c'(1,2) s'] c'(3) by blast
  ultimately show ?thesis using that c'(4,5) by blast
qed

text \<open>The end of the program: both contexts are finalized and neither is freed.\<close>

lemma out_of_drawing:
  assumes d: "drawing H E k p t h q" and "dispatch_finalizes E"
  obtains q' c where "getrandom_out H E Z rc (Some h) (Some t) (q, w) =
      Some (if rc = TSS2_RC_SUCCESS H then EFI_SUCCESS H else EFI_LOAD_ERROR Z, q', Print ''Done\<newline>'' [] w)"
    "tcti_at q' t = Some c" "ctx_state c = UEFI_STATE_FINAL" "live q' = live p \<union> {t, h}"
proof -
  from d obtain c s where q: "blocks q = (blocks p)(t := Some (Tcti_block c), h := Some (Sys_block s))"
    and ne: "blocks p t = None" "blocks p h = None" "t \<noteq> h" and c: "ctx_wf c"
    unfolding drawing_def by blast
  let ?q = "pool_store h (Sys_block (Tss2_Sys_Finalize E s)) q"
  let ?c = "c\<lparr>ctx_state := UEFI_STATE_FINAL\<rparr>"
  have "sys_at q h = Some s" "tcti_at ?q t = Some c"
    using q ne by (simp_all add: sys_at_def tcti_at_def pool_store_def)
  moreover have "Tss2_Tcti_Finalize E c w = (?c, w)"
    using assms(2) c ctx_wf_tagged [OF c] by (simp add: dispatch_finalizes_def finalize_Some)
  ultimately have "getrandom_out H E Z rc (Some h) (Some t) (q, w) =
      Some (if rc = TSS2_RC_SUCCESS H then EFI_SUCCESS H else EFI_LOAD_ERROR Z,
        pool_store t (Tcti_block ?c) ?q, Print ''Done\<newline>'' [] w)"
    by (simp add: getrandom_out_def finalize_sys_def finalize_tcti_def say_def)
  moreover have "live (pool_store t (Tcti_block ?c) ?q) = live p \<union> {t, h}"
    using q by (auto simp: live_def pool_store_def)
  ultimately show ?thesis
    using that by (simp add: tcti_at_def pool_store_def)
qed

lemma draws_pass:
  assumes "efi_codes_ok H" "random_served H L good k room 32" "draws_by_exchange H L E N room"
    and "dispatch_finalizes E" "12 \<le> k" "good (firmware w)" "drawing H E k p t h q"
  obtains q' w' c where "getrandom_draws H E N Z (Some h) (Some t) (q, w) = Some (EFI_SUCCESS H, q', w')"
    "console w' = console w @ [Printed ''Done\<newline>'' []]"
    "tcti_at q' t = Some c" "ctx_state c = UEFI_STATE_FINAL" "live q' = live p \<union> {t, h}"
proof -
  let ?r = "\<lparr>digest_size = 0, digest_buffer = replicate 64 0\<rparr>"
  obtain r1 q1 w1 where 1: "Tss2_Sys_GetRandom N (Some h) 32 ?r (q, w) = (TSS2_RC_SUCCESS H, r1, q1, w1)"
    "drawing H E k p t h q1" "console w1 = console w" "good (firmware w1)"
    by (rule draw_succeeds [OF assms(1-3,5-7)])
  obtain r2 q2 w2 where 2: "Tss2_Sys_GetRandom N (Some h) 32 r1 (q1, w1) = (TSS2_RC_SUCCESS H, r2, q2, w2)"
    "drawing H E k p t h q2" "console w2 = console w1"
    by (rule draw_succeeds [OF assms(1-3,5) 1(4,2)])
  obtain q3 c where "getrandom_out H E Z (TSS2_RC_SUCCESS H) (Some h) (Some t) (q2, w2) =
      Some (if TSS2_RC_SUCCESS H = TSS2_RC_SUCCESS H then EFI_SUCCESS H else EFI_LOAD_ERROR Z, q3,
        Print ''Done\<newline>'' [] w2)"
    "tcti_at q3 t = Some c" "ctx_state c = UEFI_STATE_FINAL" "live q3 = live p \<union> {t, h}"
    by (rule out_of_drawing [OF 2(2) assms(4)])
  then show ?thesis
    using 1 2 by (intro that [of q3 "Print ''Done\<newline>'' [] w2" c]) (simp_all add: getrandom_draws_def Print_def)
qed

lemma getrandom_sets_up:
  assumes "tss_env H L E" "pool_wf p" "sapi_keeps_tcti H E"
    and "sizeof_tcti_uefi_context H L w = Some (n, w1)" "n \<noteq> 0" "unat (sizeof_ctx H) \<le> unat n"
    and a: "AllocatePool E n (firmware w1) = (True, f2)" "AllocatePool E (Tss2_Sys_GetContextSize E 0) f2 = (True, f3)"
    and sapi: "\<And>t. fst (Tss2_Sys_Initialize E (fresh_sys E (Tss2_Sys_GetContextSize E 0))
      (Tss2_Sys_GetContextSize E 0) (Some t) None) = TSS2_RC_SUCCESS H"
  obtains k t h q w' where "unat n = unat (sizeof_ctx H) + k" "drawing H E k p t h q" "console w' = console w"
    "firmware w' = f3"
    "getrandom_main H L E N Z (p, w) = getrandom_draws H E N Z (Some h) (Some t) (q, w')"
proof -
  let ?m = "Tss2_Sys_GetContextSize E 0" and ?raw = "fresh_memory E n"
  let ?c = "fresh_ctx H n (cmd_buf ?raw)"
  obtain t p1 where t: "pool_alloc (Tcti_block ?raw) p = (t, p1)"
    by (cases "pool_alloc (Tcti_block ?raw) p")
  from pool.alloc_fresh [OF assms(2) t] have p1: "pool_wf p1" "blocks p t = None"
    "blocks p1 = (blocks p)(t := Some (Tcti_block ?raw))" by auto
  let ?p2 = "pool_store t (Tcti_block ?c) p1"
  from pool.store_live [of p1 t "Tcti_block ?c"] p1
  have p2: "blocks ?p2 = (blocks p)(t := Some (Tcti_block ?c))" "pool_wf ?p2" by auto
  obtain h p3 where h: "pool_alloc (Sys_block (fresh_sys E ?m)) ?p2 = (h, p3)"
    by (cases "pool_alloc (Sys_block (fresh_sys E ?m)) ?p2")
  from pool.alloc_fresh [OF p2(2) h] p2 have p3: "blocks p h = None" "t \<noteq> h"
    "blocks p3 = (blocks p)(t := Some (Tcti_block ?c), h := Some (Sys_block (fresh_sys E ?m)))"
    by (auto split: if_splits)
  obtain s where init: "Tss2_Sys_Initialize E (fresh_sys E ?m) ?m (Some t) None = (TSS2_RC_SUCCESS H, s)"
    using sapi by (metis prod.collapse)
  then have tcti: "Tss2_Sys_GetTctiContext E s = (TSS2_RC_SUCCESS H, Some t)"
    using assms(3) unfolding sapi_keeps_tcti_def by blast
  have room: "unat n = unat (sizeof_ctx H) + length (cmd_buf ?raw)"
    using assms(1,6) by (simp add: tss_env_def memory_ok_def)
  have "drawing H E (length (cmd_buf ?c)) p t h (pool_store h (Sys_block s) p3)"
    by (rule drawingI [OF p1(2) p3(1,2) _ fresh_ctx_wf [OF room] fresh_ctx_state(1) tcti])
      (simp add: pool_store_def p3)
  moreover have "tcti_at p1 t = Some ?raw" "sys_at p3 h = Some (fresh_sys E ?m)"
    using p1(3) p3(3) by (simp_all add: tcti_at_def sys_at_def)
  then have "getrandom_main H L E N Z (p, w) = getrandom_draws H E N Z (Some h) (Some t)
      (pool_store h (Sys_block s) p3, w1\<lparr>firmware := f3\<rparr>)"
    using assms(4,5) a t h init by (simp add: getrandom_main_def getrandom_sapi_def init_query init_context)
  moreover have "console w1 = console w" by (rule sizeof_silent [OF assms(4,5)])
  ultimately show ?thesis
    using room by (intro that [of "length (cmd_buf ?c)" t h "pool_store h (Sys_block s) p3" "w1\<lparr>firmware := f3\<rparr>"]) simp_all
qed

text \<open>
  C17. The getrandom test passes on a working TPM, and what it tests is the state machine of the
  TCTI. When the set-up gets its memory and its SAPI context, Tss2_Sys_GetRandom is one
  exchange of a TPM2_GetRandom command on the TCTI context, and the firmware answers such
  commands with valid responses, then both draws succeed, the program prints nothing but
  its last line and exits with EFI_SUCCESS. The TCTI context is finalized then, but neither
  of the two contexts that the program allocated is freed.
\<close>

theorem getrandom_test_passes:
  assumes "efi_codes_ok H" "tss_env H L E" "pool_wf p" "sapi_keeps_tcti H E" "dispatch_finalizes E"
    and "sizeof_tcti_uefi_context H L w = Some (n, w1)" "unat n = unat (sizeof_ctx H) + k" "12 \<le> k"
    and "AllocatePool E n (firmware w1) = (True, f2)"
    and "AllocatePool E (Tss2_Sys_GetContextSize E 0) f2 = (True, f3)"
    and "\<And>t. fst (Tss2_Sys_Initialize E (fresh_sys E (Tss2_Sys_GetContextSize E 0))
      (Tss2_Sys_GetContextSize E 0) (Some t) None) = TSS2_RC_SUCCESS H"
    and "draws_by_exchange H L E N room" "random_served H L good k room 32" "good f3"
  shows "\<exists>p' w' t h c. getrandom_main H L E N Z (p, w) = Some (EFI_SUCCESS H, p', w')
     \<and> console w' = console w @ [Printed ''Done\<newline>'' []]
     \<and> tcti_at p' t = Some c \<and> ctx_state c = UEFI_STATE_FINAL
     \<and> live p' = live p \<union> {t, h} \<and> card (live p' - live p) = 2"
proof -
  have "n \<noteq> 0" "unat (sizeof_ctx H) \<le> unat n" using assms(7,8) by auto
  then obtain k' t h q v where k': "unat n = unat (sizeof_ctx H) + k'" and d: "drawing H E k' p t h q"
    and v: "console v = console w" "firmware v = f3"
    and main: "getrandom_main H L E N Z (p, w) = getrandom_draws H E N Z (Some h) (Some t) (q, v)"
    by (rule getrandom_sets_up [OF assms(2-4,6) _ _ assms(9-11)])
  have "k' = k" using assms(7) k' by simp
  note d = d [unfolded this]
  from assms(14) v(2) have "good (firmware v)" by simp
  from draws_pass [OF assms(1,13,12,5,8) this d] obtain p' w' c where
    out: "getrandom_draws H E N Z (Some h) (Some t) (q, v) = Some (EFI_SUCCESS H, p', w')"
      "console w' = console v @ [Printed ''Done\<newline>'' []]"
      "tcti_at p' t = Some c" "ctx_state c = UEFI_STATE_FINAL" "live p' = live p \<union> {t, h}" .
  from d out(5) have "live p' - live p = {t, h}" "t \<noteq> h" by (auto simp: drawing_def live_def)
  then have "card (live p' - live p) = 2" by simp
  with main v out show ?thesis by auto
qed

text \<open>
  A library whose draw makes its exchange, with a buffer of 16 bytes, and reads the response;
  and firmware with a TPM behind it that refuses a buffer that is too small
  (EFI_BUFFER_TOO_SMALL) and anything but a TPM2_GetRandom command (EFI_INVALID_PARAMETER), and
  gives two random bytes.
\<close>

definition random_response :: "UINT8 list" where
  "random_response = [0x80, 0x01] @ rev (le32 14) @ rev (le32 0) @ be16 2 @ [0xC0, 0xDE]"

definition random_protocol :: "UINT8 list list EFI_TCG2_PROTOCOL" where
  "random_protocol = (demo_protocol 0 demo_caps demo_log)\<lparr>SubmitCommand := (\<lambda>n inb m outb f.
     if unat m < 14 \<or> length outb < unat m then (0x8000000000000005, outb, f)
     else if take 10 inb \<noteq> take 10 (getrandom_cmd 32) then (0x8000000000000002, outb, f)
     else (0, random_response @ drop 14 outb, f @ [inb]))\<rparr>"

definition random_locate :: "UINT8 list list locate" where
  "random_locate = (\<lambda>guid f. (0, Some random_protocol, f))"

definition exchange_draw :: "(UINT8 list list, nat option) nv_lib" where
  "exchange_draw = (demo_nv 0)\<lparr>Tss2_Sys_GetRandom := (\<lambda>sys n d st.
     case Option.bind sys (sys_at (fst st)) of
       Some (Some t) \<Rightarrow> (case tcti_at (fst st) t of
           Some c \<Rightarrow> (case exchange std_headers random_locate (getrandom_cmd n) 16 (replicate 16 0) c (snd st) of
               Some (rc, resp, c', w') \<Rightarrow>
                 (if rc \<noteq> 0 then rc
                    else if take 2 resp = [0x80, 0x01] \<and> take 4 (drop 6 resp) = [0, 0, 0, 0] then 0 else 1,
                  \<lparr>digest_size = word_cat (resp ! 10) (resp ! 11), digest_buffer = drop 12 resp\<rparr>,
                  pool_store (the sys) (Sys_block (Some t)) (store_tcti t c' (fst st)), w')
             | None \<Rightarrow> (1, d, st))
         | None \<Rightarrow> (1, d, st))
     | _ \<Rightarrow> (1, d, st))\<rparr>"

lemma be16_read: "word_cat (be16 n ! 0) (be16 n ! Suc 0) = n"
  by (rule bit_word_eqI) (auto simp: be16_def bit_word_cat_iff bit_simps)

lemma answer_parts:
  assumes "getrandom_answer n resp bytes"
  shows "take 2 resp = [0x80, 0x01]" "take 4 (drop 6 resp) = [0, 0, 0, 0]"
    "resp ! 10 = be16 (of_nat (length bytes)) ! 0" "resp ! 11 = be16 (of_nat (length bytes)) ! Suc 0"
    "take (length bytes) (drop 12 resp) = bytes"
proof -
  let ?head = "[0x80, 0x01] @ rev (le32 (of_nat (12 + length bytes))) @ rev (le32 0)
    @ be16 (of_nat (length bytes)) :: UINT8 list"
  have head: "length ?head = 12" by (simp add: be16_def le32_def)
  from assms have "take (12 + length bytes) resp = ?head @ bytes"
    by (simp add: getrandom_answer_def)
  then obtain rest where resp: "resp = (?head @ bytes) @ rest"
    by (metis append_take_drop_id)
  show "take (length bytes) (drop 12 resp) = bytes"
    unfolding resp using head by simp
  show "take 2 resp = [0x80, 0x01]" "take 4 (drop 6 resp) = [0, 0, 0, 0]"
    "resp ! 10 = be16 (of_nat (length bytes)) ! 0" "resp ! 11 = be16 (of_nat (length bytes)) ! Suc 0"
    unfolding resp by (simp_all add: le32_def be16_def)
qed

lemma exchange_draw_ok:
  "draws_by_exchange std_headers random_locate (demo_lib True 0) exchange_draw 16"
  unfolding draws_by_exchange_def
proof (intro allI impI exI [of _ "replicate 16 0"] conjI)
  fix h n d p w s t c exchanged
  assume s: "sys_at p h = Some s" "Tss2_Sys_GetTctiContext (demo_lib True 0) s = (TSS2_RC_SUCCESS std_headers, Some t)"
    and c: "tcti_at p t = Some c"
    and run: "exchange std_headers random_locate (getrandom_cmd n) 16 (replicate 16 0) c w = Some exchanged"
  obtain rc resp c' w' where ex: "exchanged = (rc, resp, c', w')" by (metis surj_pair)
  from s(2) have st: "s = Some t" by (simp add: demo_lib_def)
  have "Tss2_Sys_GetRandom exchange_draw (Some h) n d (p, w) =
      (if rc \<noteq> 0 then rc
         else if take 2 resp = [0x80, 0x01] \<and> take 4 (drop 6 resp) = [0, 0, 0, 0] then 0 else 1,
       \<lparr>digest_size = word_cat (resp ! 10) (resp ! 11), digest_buffer = drop 12 resp\<rparr>,
       pool_store h (Sys_block (Some t)) (store_tcti t c' p), w')"
    by (simp add: exchange_draw_def s(1) st c run ex)
  moreover have "word_cat (resp ! 10) (resp ! 11) = (of_nat (length bytes) :: UINT16)"
    if "getrandom_answer n resp bytes" for bytes
    unfolding answer_parts(3,4) [OF that] by (rule be16_read)
  ultimately show "draw_result std_headers (demo_lib True 0) h t n s p exchanged
      (Tss2_Sys_GetRandom exchange_draw (Some h) n d (p, w))"
    by (auto simp: draw_result_def ex st dest: answer_parts)
qed simp

lemma random_locate_served: "random_served std_headers random_locate (\<lambda>f. True) 12 16 32"
  unfolding random_served_def
proof (intro allI impI)
  fix f
  have "SubmitCommand random_protocol (of_nat 12) block (ucast (16 :: size_t)) buf f =
      (EFI_SUCCESS std_headers, random_response @ drop 14 buf, f @ [block])"
    if "length block = 12" "answers block (getrandom_cmd 32)" "length buf = unat (16 :: size_t)" for block buf
    using that by (simp add: answers_def random_protocol_def)
  moreover have "getrandom_answer 32 (random_response @ drop 14 buf) [0xC0, 0xDE]" for buf
    by (simp add: getrandom_answer_def random_response_def le32_def be16_def)
  ultimately show "\<exists>st p f1. random_locate EFI_TCG2_PROTOCOL_GUID f = (st, Some p, f1) \<and> \<not> EFI_ERROR std_headers st
      \<and> (\<forall>block buf. length block = 12 \<longrightarrow> answers block (getrandom_cmd 32) \<longrightarrow> length buf = unat (16 :: size_t) \<longrightarrow>
           (\<exists>resp bytes f2. SubmitCommand p (of_nat 12) block (ucast (16 :: size_t)) buf f1 =
              (EFI_SUCCESS std_headers, resp, f2) \<and> getrandom_answer 32 resp bytes \<and> True))"
    by (intro exI [of _ 0] exI [of _ random_protocol] exI [of _ f]) (fastforce simp: random_locate_def)
qed

theorem getrandom_test_passes_witness:
  "\<exists>p' w'. getrandom_main std_headers random_locate (demo_lib True 0) exchange_draw demo_tests (demo_pool, demo_world) =
     Some (0, p', w') \<and> console w' = [Printed ''Done\<newline>'' []] \<and> card (live p') = 2"
proof -
  have env: "tss_env std_headers random_locate (demo_lib True 0)"
    using demo_env [of True 0] by (simp add: tss_env_def locate_ok_def random_locate_def)
  have size: "sizeof_tcti_uefi_context std_headers random_locate demo_world = Some (100, demo_world)"
    using sizeof_query [where L = random_locate and H = std_headers and w = demo_world and st = 0
        and p = random_protocol and f = "[]" and status = 0 and caps = demo_caps and f' = "[]"]
    by (simp add: random_locate_def random_protocol_def demo_simps sizeof_ctx_std caps_init_def max_def)
  have 1: "unat (100 :: size_t) = unat (sizeof_ctx std_headers) + 12" "(12 :: nat) \<le> 12"
    by (simp_all add: sizeof_ctx_std)
  have 2: "AllocatePool (demo_lib True 0) 100 (firmware demo_world) = (True, [])"
    "AllocatePool (demo_lib True 0) (Tss2_Sys_GetContextSize (demo_lib True 0) 0) [] = (True, [])"
    by (simp_all add: demo_lib_def demo_world_def)
  have 3: "fst (Tss2_Sys_Initialize (demo_lib True 0) s m t None) = TSS2_RC_SUCCESS std_headers" for s m t
    by (simp add: demo_lib_def)
  have 4: "console demo_world = []" "live demo_pool = {}"
    by (simp_all add: demo_world_def demo_pool_def live_def)
  from getrandom_test_passes [OF std_headers_ok(1) env demo_pool_wf demo_lib_ok size 1 2 3 exchange_draw_ok
      random_locate_served, of demo_tests] show ?thesis
    unfolding 4 by fastforce
qed

end
