(* ===== verification/Spec2Isabelle.thy ===== *)
theory Spec2Isabelle
  imports Wrapper_Contract Tcti_Contract Tcti_Firmware Tcti_Liveness Eventlog_Run Caps_App
    Pcrs_Tool Unit_Tests Tcti_Interleaving Test_Programs
begin

text \<open>
  Verification of tpm2-tcti-uefi: the TCTI module that carries TPM2 commands over the
  TCG2 protocol of UEFI firmware, and the example programs that use it.

  \<^bold>\<open>The program and its parts.\<close> A caller of tpm2-tss (the SAPI) hands commands to a TCTI
  context; src/tcti-uefi.c keeps one command in the context's buffer and submits it through
  src/tcg2-util.c, thin wrappers of the firmware functions that src/tcg2-protocol.h declares.
  The programs under example/ either ask the firmware directly (event log, capabilities, PCR
  banks) or set up a SAPI context on top of a TCTI context with example/tss2-util.c (PCRs,
  fixed properties, NV index). example/util.c holds what they share: algorithm tables, PCR
  selections, and the walk over the event log in memory.

  \<^bold>\<open>Theories and code.\<close>
  \<^item> Prelude: integer types, struct sizes, byte memory, loops with fuel, callbacks, the
    console. Machines, Record_Walk: locales for machines driven by calls
    (simulated by a specification; answered in the end; a family that shares a world, whose
    contract is again a simulation) and for walks over encoded records. Uefi_Env: the constants of gnu-efi and tpm2-tss.
  \<^item> Tcg2_Protocol, Tcg2_Util, Wrapper_Contract: src/tcg2-protocol.h, src/tcg2-util.c and what
    the wrappers promise (locale tcg2_wrapper, one interpretation per wrapper).
  \<^item> Tcti_Uefi: src/tcti-uefi.c and .h, one definition per function over the context record.
    Tcti_Machine: the TCTI as a state machine that simulates the abstract protocol
    \<open>tcti_spec\<close>. Tcti_Contract: the properties of single calls. Tcti_Firmware: what the
    firmware's own record of submissions holds after a run. Tcti_Liveness: a pending command
    is answered in the end, whatever the firmware does with buffers that are too small. Tcti_Interleaving: any number of contexts in one pool, their calls
    interleaved.
  \<^item> Alg_Tables, Pcr_Select, Event_Log: example/util.c, by subject. Log_Contract: the walk on
    well-formed, damaged and unexpected logs.
  \<^item> Eventlog_App, Log_Rendering, Log_Decoding: example/tcg2-get-eventlog.c and the equivalence of
    its output with a rendering of the structured log, from encoded logs to the output and, on
    arbitrary memory, from the output back to the log that must be there. Eventlog_Run: the
    program for every answer of the firmware, for logs that end below the uppermost 2^39
    addresses.
  \<^item> Caps_App: example/tcg2-get-caps.c and example/tcg2-get-pcr-banks.c.
  \<^item> Pool, Tss2_Util, Tss2_Contract: allocated blocks with the allocator's laws as a locale,
    example/tss2-util.c, and what initialisation and teardown promise.
  \<^item> Pcrs_App, Pcrs_Contract, Pcrs_Run, Pcrs_Tool: example/tpm2-get-pcrs.c, its rounds, its loop
    as a whole for every bitmap of active banks, and the program, with firmware calls, the
    set-up or reads that fail.
  \<^item> Compat, Nv_App, Nv_Contract: example/compat.c and example/tpm2-nv-ops.c.
  \<^item> Caps_Fixed, Fixed_Contract: example/tpm2-get-caps-fixed.c.
  \<^item> Tool_Session: the components together, from initialisation over any TCTI calls to the
    teardown.
  \<^item> Unit_Tests: the assertions of test/*_unit.c, carried out on the definitions.
  \<^item> Test_Programs: the EFI programs of test/: hello-world.c, tss2-mu-uint32.c, and
    tss2-getrandom.c, which sets up both contexts by hand and draws random bytes twice.
  \<^item> Demo_Firmware: a small firmware at which the properties are applied.

  \<^bold>\<open>How state and operations correspond.\<close> A TCTI context is the record of the C struct, its
  flexible array a list whose length is the room the block really has; the firmware is an
  abstract state behind the functions of the protocol record; the console is the list of
  calls to Print and DumpHex. A definition with the name of a C function takes its
  parameters, the headers \<open>H\<close>, what stands for libraries, and the state it acts on, and
  returns its result, its out parameters and the new state. NULL is None, or address 0 in
  the event log. An option result that is None is undefined behaviour: a NULL or unmapped
  dereference or a write outside an object; that it does not happen is part of what the
  theorems show. A program's \<open>efi_main\<close> is \<open>eventlog_main\<close>, \<open>caps_main\<close>, \<open>pcr_banks_main\<close>,
  \<open>pcrs_main\<close>, \<open>nv_main\<close> and \<open>caps_fixed_main\<close>, that of a test program \<open>hello_main\<close>, \<open>mu_main\<close>
  and \<open>getrandom_main\<close>.

  \<^bold>\<open>What the theorems show.\<close>
  \<^item> TCTI: any sequence of calls on an initialised context has defined behaviour and refines
    the protocol; what the firmware accepts are the commands sent, each once and in order; a
    pending command is answered, given room for the response, by firmware that fails on it
    only finitely often; interleaved contexts do not interfere; sizes, error codes and the state after each outcome.
  \<^item> Event log: on encoded logs the walk visits every event and digest, and the printing is the
    rendering of the structured log; on every memory the walks end, and the printing returns
    exactly when an encoded log is there (\<open>log_chain\<close>, \<open>pcr_chain\<close>), which it then shows; what
    happens on digests of unknown algorithms and on the specification's first event.
  \<^item> PCRs: bitmaps and selection lists, the walk over a selection, and the reading loop, which
    removes what was shown and ends; over the whole run it shows each PCR that the TPM has in
    the known active banks once, with its value, or ends with the error of a failed read; an
    unknown bank makes the first read fail, more than 16 banks overflow the selection.
  \<^item> Contexts: initialisation is all or nothing for the TCTI and leaks on one path for the SAPI;
    a teardown undoes an initialisation, also after any session of TCTI calls.
  \<^item> Tools: output and status for every outcome, failing firmware calls included; the NV tool as
    a script of commands and its memory on every path; the properties tool's characters and
    texts. The getrandom test passes on a working TPM when a draw is one exchange on the TCTI.

  \<^bold>\<open>Bounds and fuel.\<close> The event walks and the PCR loop follow data from outside and run with
  fuel (\<open>run_loop\<close>). The walk of a well-formed log needs one unit more than there are
  events; on any memory the distance of the two addresses bounds it, as every step moves
  forward; the PCR loop needs one round more than there are PCRs in the active banks (5
  known banks of at most 32 PCRs, so 161). More fuel than enough does not change a result
  (\<open>run_loop_mono\<close>). A digest loop counts down DigestCount and is structural. PCR loops
  assume TPM2_MAX_PCRS to fit their 8-bit index.

  \<^bold>\<open>Assumptions.\<close> 64-bit addresses and size_t, little-endian memory, signed char. What headers
  and libraries outside the repository provide is a parameter with its documented facts as
  named predicates: \<open>efi_codes_ok\<close>, \<open>tcti_codes_ok\<close>, \<open>alg_ids_ok\<close>, \<open>digest_sizes_ok\<close> for
  constants, \<open>locate_ok\<close>, \<open>memory_ok\<close>, \<open>dispatch_finalizes\<close>, \<open>sapi_keeps_tcti\<close>, \<open>tpm_reads_ok\<close>,
  \<open>tpm_answers\<close>, \<open>firmware_recovers\<close>, \<open>firmware_remembers\<close>, \<open>nv_keeps\<close>, \<open>nv_random_fits\<close>,
  \<open>nv_device\<close>, \<open>unmarshal_ok\<close>, \<open>random_served\<close>, \<open>draws_by_exchange\<close>, \<open>marshal_ok\<close> for functions.

  \<^bold>\<open>Not modelled.\<close> InitializeLib, which only sets up the UEFI library; how Print and DumpHex
  render their arguments (they are recorded as calls); the EDK2 variants of the includes; the
  SAPI and the firmware themselves; prototypes in headers, which have no behaviour of their
  own, and the include guards and EDK2 switches of the headers; the cmocka driver of the unit
  tests (their assertions and mocks are there); the build files and the linker scripts.
\<close>

end
